(* ===== verification/Prelude.thy ===== *)
theory Prelude
  imports Main
begin

text \<open>
  Shared vocabulary of the development: the theorem collections the components feed, the
  result type of fallible Go functions and its combinators, Go's error values, and generic
  facts on lists and maps.

  A Go function that returns \<open>(T, error)\<close> is modelled by a value of type \<open>goerr + 'a\<close>:
  \<open>Inl e\<close> when the error is non-nil, \<open>Inr x\<close> otherwise.  Every caller in the repository
  discards the value when the error is non-nil, so nothing is lost.
\<close>

named_theorems go_defs \<open>definitions of the Go standard library model that proofs unfold\<close>
named_theorems string_laws \<open>laws of the string operations\<close>
named_theorems codec_laws \<open>decode after encode\<close>

subsection \<open>Error values\<close>

text \<open>
  \<open>ErrorString\<close> is \<open>errors.New\<close> and \<open>fmt.Errorf\<close> without \<open>%w\<close>; \<open>WrapError\<close> is
  \<open>fmt.Errorf\<close> with \<open>%w\<close>: the text around the wrapped error and the error itself.
  \<open>JoinError\<close> is \<open>errors.Join\<close>.  The other constructors are the sentinel errors and the
  error type that the program inspects with \<open>errors.Is\<close> and \<open>errors.As\<close>.
\<close>

datatype goerr =
    ErrorString string
  | WrapError string goerr
  | JoinError "goerr list"
  | NotFoundErr string
  | CacheMiss
  | ErrConfigNotFound
  | KeyringErrNotFound
  | ErrNotExist string
  | ErrDeadlineExceeded

type_synonym 'a result = "goerr + 'a"

abbreviation bind_result :: "'a result \<Rightarrow> ('a \<Rightarrow> 'b result) \<Rightarrow> 'b result" where
  "bind_result r f \<equiv> (case r of Inl e \<Rightarrow> Inl e | Inr x \<Rightarrow> f x)"

text \<open>\<open>NotFoundErr.Error\<close>.\<close>

definition NotFoundErr_Error :: "string \<Rightarrow> string" where
  [simp]: "NotFoundErr_Error reason = (if reason = [] then ''not found'' else reason)"

text \<open>\<open>Error()\<close>: the message of an error.\<close>

fun err_msg :: "goerr \<Rightarrow> string" where
  "err_msg (ErrorString s) = s"
| "err_msg (WrapError s e) = s @ '': '' @ err_msg e"
| "err_msg (JoinError []) = []"
| "err_msg (JoinError [e]) = err_msg e"
| "err_msg (JoinError (e # es)) = err_msg e @ CHR 0x0A # err_msg (JoinError es)"
| "err_msg (NotFoundErr r) = NotFoundErr_Error r"
| "err_msg CacheMiss = ''cache miss''"
| "err_msg ErrConfigNotFound = ''config file not found''"
| "err_msg KeyringErrNotFound = ''secret not found in keyring''"
| "err_msg (ErrNotExist p) = ''open '' @ p @ '': no such file or directory''"
| "err_msg ErrDeadlineExceeded = ''i/o timeout''"

text \<open>\<open>errors.Is(err, api.CacheMiss)\<close>: the sentinel anywhere in the chain of wrapped errors.\<close>

fun is_cache_miss :: "goerr \<Rightarrow> bool" where
  "is_cache_miss CacheMiss = True"
| "is_cache_miss (WrapError _ e) = is_cache_miss e"
| "is_cache_miss (JoinError es) = list_ex is_cache_miss es"
| "is_cache_miss _ = False"

fun is_keyring_not_found :: "goerr \<Rightarrow> bool" where
  "is_keyring_not_found KeyringErrNotFound = True"
| "is_keyring_not_found (WrapError _ e) = is_keyring_not_found e"
| "is_keyring_not_found (JoinError es) = list_ex is_keyring_not_found es"
| "is_keyring_not_found _ = False"

subsection \<open>Generic facts\<close>

lemma bind_result_Inr_iff [simp]:
  "bind_result r f = Inr y \<longleftrightarrow> (\<exists>x. r = Inr x \<and> f x = Inr y)"
  by (cases r) auto

lemma take_length_eq_iff: "take (length p) s = p \<longleftrightarrow> (\<exists>t. s = p @ t)"
  by (metis append_eq_conv_conj)

lemma drop_suffix_eq_iff:
  "length p \<le> length s \<and> drop (length s - length p) s = p \<longleftrightarrow> (\<exists>t. s = t @ p)"
proof
  assume "length p \<le> length s \<and> drop (length s - length p) s = p"
  then have "s = take (length s - length p) s @ p"
    by (metis append_take_drop_id)
  then show "\<exists>t. s = t @ p" ..
qed auto

lemma map_of_filter_value:
  assumes "distinct (map fst entries)"
  shows "map_of (filter keep entries) key =
    Option.bind (map_of entries key) (\<lambda>x. if keep (key, x) then Some x else None)"
  using assms
proof (induction entries)
  case (Cons e entries)
  obtain a b where e: "e = (a, b)" by (cases e)
  show ?case
  proof (cases "key = a")
    case True
    with Cons.prems e have "map_of entries key = None"
      by (simp add: map_of_eq_None_iff)
    with True Cons e show ?thesis by simp
  next
    case False
    with Cons e show ?thesis by simp
  qed
qed simp

lemma distinct_keys_filter: "distinct (map fst xs) \<Longrightarrow> distinct (map fst (filter P xs))"
  by (induction xs) auto

end
