(* ===== verification/Go_Map.thy ===== *)
theory Go_Map
  imports Prelude "HOL-Library.List_Lexorder" "HOL-Library.Char_ord"
begin

text \<open>
  Go maps with string keys.  A map is the list of its entries in increasing key order, which
  makes equality of maps equality of lists and is the order in which \<open>encoding/json\<close> prints
  them.  \<open>map_of\<close> is the lookup; the invariant \<open>gomap_wf\<close> says that the keys increase
  strictly.
\<close>

type_synonym 'v gomap = "(string \<times> 'v) list"

definition gomap_wf :: "'v gomap \<Rightarrow> bool" where
  "gomap_wf m \<longleftrightarrow> sorted_wrt (<) (map fst m)"

fun gomap_put :: "string \<Rightarrow> 'v \<Rightarrow> 'v gomap \<Rightarrow> 'v gomap" where
  "gomap_put k v [] = [(k, v)]"
| "gomap_put k v ((k', v') # m) =
     (if k < k' then (k, v) # (k', v') # m
      else if k = k' then (k, v) # m
      else (k', v') # gomap_put k v m)"

definition gomap_delete :: "string \<Rightarrow> 'v gomap \<Rightarrow> 'v gomap" where
  "gomap_delete k m = filter (\<lambda>(k', _). k' \<noteq> k) m"

lemma gomap_wf_Nil [simp]: "gomap_wf []"
  by (simp add: gomap_wf_def)

lemma gomap_wf_Cons [simp]:
  "gomap_wf ((k, v) # m) \<longleftrightarrow> gomap_wf m \<and> (\<forall>k'\<in>fst ` set m. k < k')"
  by (auto simp: gomap_wf_def)

lemma gomap_wf_distinct: "gomap_wf m \<Longrightarrow> distinct (map fst m)"
  by (induction m) (auto simp: gomap_wf_def)

lemma fst_set_gomap_put [simp]: "fst ` set (gomap_put k v m) = insert k (fst ` set m)"
  by (induction k v m rule: gomap_put.induct) (simp_all add: insert_commute)

lemma gomap_wf_put [simp]: "gomap_wf m \<Longrightarrow> gomap_wf (gomap_put k v m)"
proof (induction k v m rule: gomap_put.induct)
  case (2 k v k' v' m)
  then show ?case
    by (cases k k' rule: linorder_cases) (auto dest: less_trans)
qed simp

lemma map_of_gomap_put [simp]: "map_of (gomap_put k v m) = (map_of m)(k \<mapsto> v)"
  by (induction m) (auto simp: fun_eq_iff)

lemma gomap_wf_filter: "gomap_wf m \<Longrightarrow> gomap_wf (filter P m)"
  by (induction m) (auto simp: gomap_wf_def)

lemma gomap_wf_delete [simp]: "gomap_wf m \<Longrightarrow> gomap_wf (gomap_delete k m)"
  by (simp add: gomap_delete_def gomap_wf_filter)

lemma map_of_gomap_delete [simp]: "map_of (gomap_delete k m) = (map_of m)(k := None)"
  by (induction m) (auto simp: gomap_delete_def fun_eq_iff)

lemma map_of_gomap_filter:
  "gomap_wf m \<Longrightarrow> map_of (filter keep m) key =
     Option.bind (map_of m key) (\<lambda>x. if keep (key, x) then Some x else None)"
  by (rule map_of_filter_value) (rule gomap_wf_distinct)

lemma gomap_put_last:
  "\<forall>k'\<in>fst ` set m. k' < k \<Longrightarrow> gomap_put k v m = m @ [(k, v)]"
  by (induction m) auto

lemma fold_gomap_put:
  "gomap_wf (m @ kvs) \<Longrightarrow> fold (\<lambda>(k, v). gomap_put k v) kvs m = m @ kvs"
proof (induction kvs arbitrary: m)
  case (Cons kv kvs)
  obtain k v where kv: "kv = (k, v)" by (cases kv)
  from Cons.prems kv have "\<forall>k'\<in>fst ` set m. k' < k"
    by (auto simp: gomap_wf_def sorted_wrt_append)
  then have "gomap_put k v m = m @ [(k, v)]" by (rule gomap_put_last)
  with Cons.IH [of "m @ [(k, v)]"] Cons.prems kv show ?case by simp
qed simp

lemma gomap_ext:
  assumes "gomap_wf m" and "gomap_wf m'" and "map_of m = map_of m'"
  shows "m = m'"
proof (rule map_sorted_distinct_set_unique [where f = fst])
  have "set m = set m'"
    using assms set_map_of_compr [OF gomap_wf_distinct [OF assms(1)]]
      set_map_of_compr [OF gomap_wf_distinct [OF assms(2)]] by simp
  then show "set m = set m'" .
  then show "inj_on fst (set m \<union> set m')"
    using gomap_wf_distinct [OF assms(1)] by (simp add: distinct_map)
qed (use assms gomap_wf_distinct in \<open>auto simp: gomap_wf_def strict_sorted_iff\<close>)

end
