(* ===== verification/Go_Strings.thy ===== *)
theory Go_Strings
  imports Prelude
begin

text \<open>
  The string functions of Go's standard library that the program calls (packages
  \<open>strings\<close>, \<open>strconv\<close> and \<open>fmt\<close>).  A Go string is a sequence of bytes; \<open>string\<close>, a
  list of 8-bit characters, is the same thing.  The program only ever splits at
  one-character separators, so \<open>Split\<close> and \<open>Cut\<close> take the separator as a character.
\<close>

subsection \<open>Prefixes, suffixes, substrings\<close>

definition HasPrefix :: "string \<Rightarrow> string \<Rightarrow> bool" where
  "HasPrefix s p \<longleftrightarrow> take (length p) s = p"

definition HasSuffix :: "string \<Rightarrow> string \<Rightarrow> bool" where
  "HasSuffix s p \<longleftrightarrow> length p \<le> length s \<and> drop (length s - length p) s = p"

definition TrimPrefix :: "string \<Rightarrow> string \<Rightarrow> string" where
  "TrimPrefix s p = (if HasPrefix s p then drop (length p) s else s)"

definition TrimSuffix :: "string \<Rightarrow> string \<Rightarrow> string" where
  "TrimSuffix s p = (if HasSuffix s p then take (length s - length p) s else s)"

fun Contains :: "string \<Rightarrow> string \<Rightarrow> bool" where
  "Contains [] p \<longleftrightarrow> p = []"
| "Contains (x # xs) p \<longleftrightarrow> HasPrefix (x # xs) p \<or> Contains xs p"

subsection \<open>Cutting and splitting at a character\<close>

text \<open>\<open>Cut c s\<close> is \<open>strings.Cut\<close>: the text before and after the first \<open>c\<close>, if there is one.\<close>

fun Cut :: "char \<Rightarrow> string \<Rightarrow> string \<times> string \<times> bool" where
  "Cut c [] = ([], [], False)"
| "Cut c (x # xs) =
     (if x = c then ([], xs, True)
      else case Cut c xs of (b, a, ok) \<Rightarrow> (x # b, a, ok))"

text \<open>\<open>SplitN(s, c, 2)\<close>.\<close>

definition SplitN2 :: "char \<Rightarrow> string \<Rightarrow> string list" where
  "SplitN2 c s = (case Cut c s of (b, a, ok) \<Rightarrow> if ok then [b, a] else [s])"

fun Split :: "char \<Rightarrow> string \<Rightarrow> string list" where
  "Split c [] = [[]]"
| "Split c (x # xs) =
     (if x = c then [] # Split c xs
      else case Split c xs of [] \<Rightarrow> [[x]] | p # ps \<Rightarrow> (x # p) # ps)"

fun Join :: "string list \<Rightarrow> string \<Rightarrow> string" where
  "Join [] sep = []"
| "Join [x] sep = x"
| "Join (x # y # ys) sep = x @ sep @ Join (y # ys) sep"

text \<open>\<open>LastCut c s\<close>: the text before and after the last \<open>c\<close> (\<open>strings.LastIndex\<close>).\<close>

definition LastCut :: "char \<Rightarrow> string \<Rightarrow> (string \<times> string) option" where
  "LastCut c s =
     (case Cut c (rev s) of (b, a, ok) \<Rightarrow> if ok then Some (rev a, rev b) else None)"

subsection \<open>Characters, case, white space\<close>

definition ord :: "char \<Rightarrow> nat" where
  "ord c = of_char c"

definition is_lower :: "char \<Rightarrow> bool" where
  "is_lower c \<longleftrightarrow> ord CHR ''a'' \<le> ord c \<and> ord c \<le> ord CHR ''z''"

definition is_upper :: "char \<Rightarrow> bool" where
  "is_upper c \<longleftrightarrow> ord CHR ''A'' \<le> ord c \<and> ord c \<le> ord CHR ''Z''"

definition is_digit :: "char \<Rightarrow> bool" where
  "is_digit c \<longleftrightarrow> ord CHR ''0'' \<le> ord c \<and> ord c \<le> ord CHR ''9''"

definition lower :: "char \<Rightarrow> char" where
  "lower c = (if is_upper c then char_of (ord c + 32 :: nat) else c)"

text \<open>
  \<open>strings.ToLower\<close>.  Besides the ASCII letters two runes become ASCII letters when they are
  lowered: the Kelvin sign (U+212A, bytes E2 84 AA) and the capital I with dot (U+0130, bytes
  C4 B0).  Other non-ASCII bytes are left alone: the program only compares the result with ASCII
  text, which they can never equal.
\<close>

fun ToLower :: "string \<Rightarrow> string" where
  "ToLower [] = []"
| "ToLower (a # b # c # s) =
     (if a = CHR 0xE2 \<and> b = CHR 0x84 \<and> c = CHR 0xAA then CHR ''k'' # ToLower s
      else if a = CHR 0xC4 \<and> b = CHR 0xB0 then CHR ''i'' # ToLower (c # s)
      else lower a # ToLower (b # c # s))"
| "ToLower [a, b] = (if a = CHR 0xC4 \<and> b = CHR 0xB0 then ''i'' else [lower a, lower b])"
| "ToLower [a] = [lower a]"

text \<open>
  \<open>strings.EqualFold\<close> against an ASCII text.  Simple case folding identifies the Kelvin sign with
  \<open>k\<close> and the long s (U+017F, bytes C5 BF) with \<open>s\<close>; no other non-ASCII rune folds to an ASCII
  letter.
\<close>

fun fold_case :: "string \<Rightarrow> string" where
  "fold_case [] = []"
| "fold_case (a # b # c # s) =
     (if a = CHR 0xE2 \<and> b = CHR 0x84 \<and> c = CHR 0xAA then CHR ''k'' # fold_case s
      else if a = CHR 0xC5 \<and> b = CHR 0xBF then CHR ''s'' # fold_case (c # s)
      else lower a # fold_case (b # c # s))"
| "fold_case [a, b] = (if a = CHR 0xC5 \<and> b = CHR 0xBF then ''s'' else [lower a, lower b])"
| "fold_case [a] = [lower a]"

definition EqualFold :: "string \<Rightarrow> string \<Rightarrow> bool" where
  "EqualFold s t \<longleftrightarrow> fold_case s = fold_case t"

text \<open>\<open>strings.TrimSpace\<close> on ASCII white space.\<close>

definition is_space :: "char \<Rightarrow> bool" where
  "is_space c \<longleftrightarrow> c \<in> set [CHR '' '', CHR 0x09, CHR 0x0A, CHR 0x0B, CHR 0x0C, CHR 0x0D]"

definition TrimSpace :: "string \<Rightarrow> string" where
  "TrimSpace s = rev (dropWhile is_space (rev (dropWhile is_space s)))"

subsection \<open>Numbers and formatting\<close>

fun utoa :: "nat \<Rightarrow> string" where
  "utoa n = (if n < 10 then [char_of (48 + n)] else utoa (n div 10) @ [char_of (48 + n mod 10)])"

declare utoa.simps [simp del]

definition Itoa :: "int \<Rightarrow> string" where
  "Itoa i = (if i < 0 then CHR ''-'' # utoa (nat (- i)) else utoa (nat i))"

fun digits_value :: "nat \<Rightarrow> string \<Rightarrow> nat option" where
  "digits_value acc [] = Some acc"
| "digits_value acc (c # cs) =
     (if is_digit c then digits_value (10 * acc + (ord c - 48)) cs else None)"

text \<open>\<open>strconv.Atoi\<close>: an optional sign, at least one digit, and the result within 64 bits.\<close>

definition Atoi :: "string \<Rightarrow> int option" where
  "Atoi s =
     (let (neg, ds) = (case s of
          [] \<Rightarrow> (False, [])
        | c # cs \<Rightarrow> if c = CHR ''-'' then (True, cs) else if c = CHR ''+'' then (False, cs) else (False, s))
      in if ds = [] then None
         else case digits_value 0 ds of
             None \<Rightarrow> None
           | Some n \<Rightarrow>
               let i = (if neg then - int n else int n)
               in if - (2 ^ 63) \<le> i \<and> i < 2 ^ 63 then Some i else None)"

definition hex_digit :: "nat \<Rightarrow> char" where
  "hex_digit n = (if n < 10 then char_of (48 + n) else char_of (87 + n))"

text \<open>\<open>strconv.Quote\<close>; bytes above 127 (parts of printable runes) are kept as they are.\<close>

definition quote_char :: "char \<Rightarrow> string" where
  "quote_char c =
     (if c = CHR 0x22 then [CHR 0x5C, CHR 0x22]
      else if c = CHR 0x5C then [CHR 0x5C, CHR 0x5C]
      else if c = CHR 0x07 then [CHR 0x5C, CHR ''a'']
      else if c = CHR 0x08 then [CHR 0x5C, CHR ''b'']
      else if c = CHR 0x0C then [CHR 0x5C, CHR ''f'']
      else if c = CHR 0x0A then [CHR 0x5C, CHR ''n'']
      else if c = CHR 0x0D then [CHR 0x5C, CHR ''r'']
      else if c = CHR 0x09 then [CHR 0x5C, CHR ''t'']
      else if c = CHR 0x0B then [CHR 0x5C, CHR ''v'']
      else if ord c < 32 \<or> ord c = 127
        then [CHR 0x5C, CHR ''x'', hex_digit (ord c div 16), hex_digit (ord c mod 16)]
      else [c])"

definition Quote :: "string \<Rightarrow> string" where
  "Quote s = CHR 0x22 # concat (map quote_char s) @ [CHR 0x22]"

text \<open>
  \<open>fmt.Sprintf\<close> with the verbs the program uses: \<open>%q\<close> quotes its argument, every other verb
  inserts it, \<open>%%\<close> is a percent sign.  Arguments that are not strings are rendered by the caller.
\<close>

fun Sprintf :: "string \<Rightarrow> string list \<Rightarrow> string" where
  "Sprintf [] args = []"
| "Sprintf [c] args = [c]"
| "Sprintf (c # v # fs) args =
     (if c \<noteq> CHR ''%'' then c # Sprintf (v # fs) args
      else if v = CHR ''%'' then CHR ''%'' # Sprintf fs args
      else case args of
          [] \<Rightarrow> ''%!'' @ v # ''(MISSING)'' @ Sprintf fs []
        | a # as \<Rightarrow> (if v = CHR ''q'' then Quote a else a) @ Sprintf fs as)"

definition Errorf :: "string \<Rightarrow> string list \<Rightarrow> goerr" where
  "Errorf f args = ErrorString (Sprintf f args)"

text \<open>\<open>fmt.Errorf\<close> with a trailing \<open>: %w\<close>.\<close>

definition Wrapf :: "string \<Rightarrow> string list \<Rightarrow> goerr \<Rightarrow> goerr" where
  "Wrapf f args e = WrapError (Sprintf f args) e"

subsection \<open>Laws\<close>

lemma HasPrefix_iff [string_laws]: "HasPrefix s p \<longleftrightarrow> (\<exists>t. s = p @ t)"
  by (simp add: HasPrefix_def take_length_eq_iff)

lemma HasSuffix_iff [string_laws]: "HasSuffix s p \<longleftrightarrow> (\<exists>t. s = t @ p)"
  by (simp add: HasSuffix_def drop_suffix_eq_iff)

lemma HasPrefix_append [simp]: "HasPrefix (p @ t) p"
  by (simp add: HasPrefix_def)

lemma HasSuffix_append [simp]: "HasSuffix (t @ p) p"
  by (simp add: HasSuffix_def)

lemma HasSuffix_self [simp]: "HasSuffix p p"
  by (simp add: HasSuffix_def)

lemma HasPrefix_Nil [simp]: "HasPrefix s []"
  by (simp add: HasPrefix_def)

lemma TrimPrefix_append [simp]: "TrimPrefix (p @ t) p = t"
  by (simp add: TrimPrefix_def)

lemma TrimSuffix_append [simp]: "TrimSuffix (t @ p) p = t"
  by (simp add: TrimSuffix_def)

lemma HasSuffix_append_same: "HasSuffix s p \<Longrightarrow> HasSuffix (t @ s) p"
  by (auto simp: HasSuffix_iff)

lemma HasPrefix_Cons [simp]: "HasPrefix (a # s) (b # p) \<longleftrightarrow> a = b \<and> HasPrefix s p"
  by (auto simp: HasPrefix_def)

lemma HasPrefix_Nil_Cons [simp]: "\<not> HasPrefix [] (b # p)"
  by (simp add: HasPrefix_def)

lemma HasSuffix_rev: "HasSuffix s p \<longleftrightarrow> HasPrefix (rev s) (rev p)"
  unfolding HasSuffix_iff HasPrefix_iff by (metis rev_append rev_rev_ident)

lemma Cut_no_sep: "c \<notin> set s \<Longrightarrow> Cut c s = (s, [], False)"
  by (induction s) auto

lemma Cut_append [string_laws]: "c \<notin> set b \<Longrightarrow> Cut c (b @ c # a) = (b, a, True)"
  by (induction b) auto

lemma Cut_True: "Cut c s = (b, a, True) \<Longrightarrow> s = b @ c # a \<and> c \<notin> set b"
  by (induction s arbitrary: b) (auto split: if_splits prod.splits)

lemma Cut_False: "Cut c s = (b, a, False) \<Longrightarrow> b = s \<and> a = [] \<and> c \<notin> set s"
  by (induction s arbitrary: b) (auto split: if_splits prod.splits)

lemma SplitN2_append [string_laws]: "c \<notin> set b \<Longrightarrow> SplitN2 c (b @ c # a) = [b, a]"
  by (simp add: SplitN2_def Cut_append)

lemma SplitN2_no_sep: "c \<notin> set s \<Longrightarrow> SplitN2 c s = [s]"
  by (simp add: SplitN2_def Cut_no_sep)

lemma Split_nonempty [simp]: "Split c s \<noteq> []"
  by (induction s) (auto split: list.splits)

lemma Split_no_sep: "c \<notin> set s \<Longrightarrow> Split c s = [s]"
  by (induction s) auto

lemma Split_append [string_laws]: "c \<notin> set b \<Longrightarrow> Split c (b @ c # a) = b # Split c a"
  by (induction b) auto

lemma Split_append_general:
  "Split c (b @ c # a) = Split c b @ Split c a"
  by (induction b) (auto split: list.splits)

lemma Split_parts_no_sep: "p \<in> set (Split c s) \<Longrightarrow> c \<notin> set p"
  by (induction s arbitrary: p) (auto split: list.splits if_splits)

lemma Join_Cons: "ps \<noteq> [] \<Longrightarrow> Join (p # ps) sep = p @ sep @ Join ps sep"
  by (cases ps) auto

lemma Join_Split: "Join (Split c s) [c] = s"
proof (induction s)
  case (Cons x s)
  obtain p ps where sp: "Split c s = p # ps"
    by (cases "Split c s") auto
  show ?case
  proof (cases "x = c")
    case True
    with Cons.IH show ?thesis by (simp add: Join_Cons)
  next
    case False
    with Cons.IH sp show ?thesis by (cases ps) auto
  qed
qed simp

lemma Split_Join:
  "ps \<noteq> [] \<Longrightarrow> \<forall>p\<in>set ps. c \<notin> set p \<Longrightarrow> Split c (Join ps [c]) = ps"
proof (induction ps)
  case (Cons p ps)
  show ?case
  proof (cases "ps = []")
    case True
    with Cons.prems show ?thesis by (simp add: Split_no_sep)
  next
    case False
    with Cons show ?thesis by (simp add: Join_Cons Split_append)
  qed
qed simp

lemma LastCut_append: "c \<notin> set a \<Longrightarrow> LastCut c (b @ c # a) = Some (b, a)"
  by (simp add: LastCut_def Cut_append)

lemma LastCut_None: "c \<notin> set s \<Longrightarrow> LastCut c s = None"
  by (simp add: LastCut_def Cut_no_sep)

lemma dropWhile_none: "\<forall>c\<in>set s. \<not> P c \<Longrightarrow> dropWhile P s = s"
  by (cases s) auto

lemma TrimSpace_no_space: "\<forall>c\<in>set s. \<not> is_space c \<Longrightarrow> TrimSpace s = s"
  by (simp add: TrimSpace_def dropWhile_none)

lemma ord_inject [simp]: "ord a = ord b \<longleftrightarrow> a = b"
  by (simp add: ord_def)

lemma ord_less: "ord c < 256"
  by (simp add: ord_def)

lemma ord_char_of [simp]: "n < 256 \<Longrightarrow> ord (char_of n) = n"
  by (simp add: ord_def)

lemma is_digit_char_of: "n < 10 \<Longrightarrow> is_digit (char_of (48 + n :: nat))"
  by (simp add: is_digit_def) (simp add: ord_def)

lemma digits_value_append:
  "digits_value acc (xs @ ys) =
     (case digits_value acc xs of None \<Rightarrow> None | Some n \<Rightarrow> digits_value n ys)"
  by (induction xs arbitrary: acc) auto

lemma digits_value_utoa: "digits_value 0 (utoa n) = Some n"
proof (induction n rule: utoa.induct)
  case (1 n)
  show ?case
  proof (cases "n < 10")
    case True
    then show ?thesis
      by (subst utoa.simps) (simp add: is_digit_char_of)
  next
    case False
    with "1.IH" have "digits_value 0 (utoa (n div 10)) = Some (n div 10)" by simp
    with False show ?thesis
      by (subst utoa.simps) (simp add: digits_value_append is_digit_char_of)
  qed
qed

lemma utoa_nonempty [simp]: "utoa n \<noteq> []"
  by (subst utoa.simps) simp

lemma utoa_digits: "c \<in> set (utoa n) \<Longrightarrow> is_digit c"
proof (induction n rule: utoa.induct)
  case (1 n)
  from 1 show ?case
    by (subst (asm) utoa.simps) (auto simp: is_digit_char_of split: if_splits)
qed

end
