(* ===== verification/Go_Path.thy ===== *)
theory Go_Path
  imports Go_Strings
begin

text \<open>
  The parts of Go's package \<open>path/filepath\<close> that the program uses, for a Unix system:
  \<open>Clean\<close>, \<open>Join\<close>, \<open>Dir\<close>, \<open>Base\<close>, \<open>IsAbs\<close>, and the place a path denotes for a process with a
  working directory.  Cleaning and joining keep absolute paths absolute, and compute on paths of plain elements.
\<close>

definition IsAbs :: "string \<Rightarrow> bool" where
  "IsAbs p \<longleftrightarrow> HasPrefix p ''/''"

text \<open>The loop of \<open>Clean\<close> over the elements; the elements kept so far are in reverse order.\<close>

fun clean_loop :: "bool \<Rightarrow> string list \<Rightarrow> string list \<Rightarrow> string list" where
  "clean_loop rooted [] out = rev out"
| "clean_loop rooted (e # es) out =
     (if e = [] \<or> e = ''.'' then clean_loop rooted es out
      else if e = ''..'' then
        (case out of
           [] \<Rightarrow> if rooted then clean_loop rooted es [] else clean_loop rooted es [''..'']
         | d # ds \<Rightarrow> if d = ''..'' then clean_loop rooted es (''..'' # out) else clean_loop rooted es ds)
      else clean_loop rooted es (e # out))"

definition Clean :: "string \<Rightarrow> string" where
  "Clean p =
     (let rooted = IsAbs p;
          out = clean_loop rooted (Split (CHR ''/'') p) []
      in if rooted then CHR ''/'' # Join out ''/''
         else if out = [] then ''.'' else Join out ''/'')"

definition Path_Join :: "string list \<Rightarrow> string" where
  "Path_Join elems =
     (let es = dropWhile (\<lambda>e. e = []) elems
      in if es = [] then [] else Clean (Join es ''/''))"

definition Dir :: "string \<Rightarrow> string" where
  "Dir p = (case LastCut (CHR ''/'') p of None \<Rightarrow> ''.'' | Some (d, _) \<Rightarrow> Clean (d @ ''/''))"

definition Base :: "string \<Rightarrow> string" where
  "Base p =
     (if p = [] then ''.''
      else (let q = rev (dropWhile (\<lambda>c. c = CHR ''/'') (rev p))
            in if q = [] then ''/''
               else (case LastCut (CHR ''/'') q of None \<Rightarrow> q | Some (_, b) \<Rightarrow> b)))"

text \<open>The place a path denotes for a process that works in \<open>cwd\<close>.\<close>

definition resolve :: "string \<Rightarrow> string \<Rightarrow> string" where
  "resolve cwd p = (if IsAbs p then Clean p else Path_Join [cwd, p])"

subsection \<open>Laws\<close>

lemma IsAbs_Cons [simp]: "IsAbs (c # p) \<longleftrightarrow> c = CHR ''/''"
  by (simp add: IsAbs_def HasPrefix_def)

lemma IsAbs_Nil [simp]: "\<not> IsAbs []"
  by (simp add: IsAbs_def HasPrefix_def)

lemma IsAbs_Clean: "IsAbs p \<Longrightarrow> IsAbs (Clean p)"
  by (simp add: Clean_def)

lemma IsAbs_append: "IsAbs p \<Longrightarrow> IsAbs (p @ q)"
  by (cases p) auto

lemma IsAbs_Path_Join: "IsAbs p \<Longrightarrow> IsAbs (Path_Join (p # ps))"
  by (cases p; cases ps) (auto simp: Path_Join_def intro!: IsAbs_Clean)

lemma IsAbs_resolve: "IsAbs cwd \<Longrightarrow> IsAbs (resolve cwd p)"
  by (simp add: resolve_def IsAbs_Clean IsAbs_Path_Join)

subsection \<open>Paths of plain elements\<close>

definition plain_elem :: "string \<Rightarrow> bool" where
  "plain_elem e \<longleftrightarrow> e \<noteq> [] \<and> e \<noteq> ''.'' \<and> e \<noteq> ''..'' \<and> CHR ''/'' \<notin> set e"

text \<open>The absolute path with the given elements.\<close>

definition abs_path :: "string list \<Rightarrow> string" where
  "abs_path es = CHR ''/'' # Join es ''/''"

lemma clean_loop_no_parent:
  "''..'' \<notin> set es \<Longrightarrow> clean_loop rooted es out = rev out @ filter (\<lambda>e. e \<noteq> [] \<and> e \<noteq> ''.'') es"
  by (induction es arbitrary: out) auto

lemma Join_append: "es \<noteq> [] \<Longrightarrow> fs \<noteq> [] \<Longrightarrow> Join (es @ fs) sep = Join es sep @ sep @ Join fs sep"
proof (induction es)
  case (Cons e es)
  then show ?case by (cases "es = []") (simp_all add: Join_Cons)
qed simp

lemma Path_Join_below:
  assumes "es \<noteq> []" and "\<forall>e\<in>set es. plain_elem e" and "''..'' \<notin> set (Split (CHR ''/'') name)"
  shows "Path_Join [abs_path es, name] = abs_path (es @ filter (\<lambda>e. e \<noteq> [] \<and> e \<noteq> ''.'') (Split (CHR ''/'') name))"
proof -
  let ?s = "CHR ''/'' # Join es ''/'' @ CHR ''/'' # name"
  have "Split (CHR ''/'') (Join es ''/'') = es"
    using assms(1,2) by (intro Split_Join) (auto simp: plain_elem_def)
  then have "Split (CHR ''/'') ?s = [] # es @ Split (CHR ''/'') name"
    by (simp add: Split_append_general)
  moreover have "''..'' \<notin> set ([] # es @ Split (CHR ''/'') name)"
    using assms by (auto simp: plain_elem_def)
  moreover have "filter (\<lambda>e. e \<noteq> [] \<and> e \<noteq> ''.'') es = es"
    using assms(2) by (auto simp: plain_elem_def filter_id_conv)
  ultimately have "Clean ?s = abs_path (es @ filter (\<lambda>e. e \<noteq> [] \<and> e \<noteq> ''.'') (Split (CHR ''/'') name))"
    by (simp add: Clean_def Let_def clean_loop_no_parent abs_path_def)
  then show ?thesis by (simp add: Path_Join_def abs_path_def)
qed

lemma plain_elem_simps: "plain_elem e \<Longrightarrow> e \<noteq> [] \<and> e \<noteq> ''.'' \<and> e \<noteq> ''..''"
  by (auto simp: plain_elem_def)

lemma Split_abs_path: "es \<noteq> [] \<Longrightarrow> list_all plain_elem es \<Longrightarrow> Split (CHR ''/'') (abs_path es) = [] # es"
  using Split_Join [of es "CHR ''/''"] by (simp add: abs_path_def list_all_iff plain_elem_def)

lemma filter_plain: "list_all plain_elem es \<Longrightarrow> filter (\<lambda>e. e \<noteq> [] \<and> e \<noteq> ''.'') es = es"
  by (auto simp: list_all_iff plain_elem_def filter_id_conv)

lemma Clean_abs_path: "es \<noteq> [] \<Longrightarrow> list_all plain_elem es \<Longrightarrow> Clean (abs_path es) = abs_path es"
proof -
  assume es: "es \<noteq> []" "list_all plain_elem es"
  have "''..'' \<notin> set ([] # es)" using es(2) by (auto simp: list_all_iff plain_elem_def)
  from clean_loop_no_parent [OF this, of True "[]"] show ?thesis
    using Split_abs_path [OF es] filter_plain [OF es(2)] by (simp add: Clean_def abs_path_def)
qed

end
