(* ===== verification/Go_Os.thy ===== *)
theory Go_Os
  imports Go_Map Go_Path "HOL-Library.Word"
begin

text \<open>
  The file operations of package \<open>os\<close> that install and copy files, for a Unix system.  A disk maps absolute
  paths to inodes and inodes to contents and permissions, so that hard links to one file are seen; which
  operations the kernel refuses is part of the state.  A path is that of a file or a directory: symbolic
  links are not modelled here, and the paths of this theory go through none.
\<close>

unbundle bit_operations_syntax

text \<open>The permission bits of a file; the octal \<open>0666\<close>, \<open>0777\<close> and \<open>0111\<close>.\<close>

type_synonym perm = "9 word"

definition perm_rw :: perm where "perm_rw = 438"
definition ModePerm :: perm where "ModePerm = 511"
definition perm_x :: perm where "perm_x = 73"

record disk =
  inode_of :: "nat gomap"
  inode_text :: "nat \<Rightarrow> string"
  inode_mode :: "nat \<Rightarrow> perm"
  disk_umask :: perm
  directories :: "string list"
  link_ok :: "string \<Rightarrow> string \<Rightarrow> bool"
  open_ok :: "string \<Rightarrow> bool"
  create_ok :: "string \<Rightarrow> bool"
  remove_ok :: "string \<Rightarrow> bool"
  mkdir_ok_at :: "string \<Rightarrow> bool"
  read_fault :: "nat \<Rightarrow> goerr option"
  copy_fault :: "nat \<Rightarrow> nat \<Rightarrow> (nat \<times> goerr) option"

definition file_at :: "string \<Rightarrow> disk \<Rightarrow> string option" where
  "file_at path d = map_option (inode_text d) (map_of (inode_of d) path)"

definition mode_at :: "string \<Rightarrow> disk \<Rightarrow> perm option" where
  "mode_at path d = map_option (inode_mode d) (map_of (inode_of d) path)"

definition is_dir :: "string \<Rightarrow> disk \<Rightarrow> bool" where
  "is_dir path d \<longleftrightarrow> path \<in> set (directories d)"

definition os_Stat :: "string \<Rightarrow> disk \<Rightarrow> unit result" where
  "os_Stat path d = (if map_of (inode_of d) path \<noteq> None \<or> is_dir path d then Inr () else Inl (ErrNotExist path))"

definition os_Link :: "string \<Rightarrow> string \<Rightarrow> disk \<Rightarrow> disk result" where
  "os_Link src dst d =
     (case map_of (inode_of d) src of
        None \<Rightarrow> Inl (ErrNotExist src)
      | Some i \<Rightarrow>
          if map_of (inode_of d) dst \<noteq> None \<or> is_dir dst d then Inl (ErrorString (''link '' @ dst @ '': file exists''))
          else if is_dir (Dir dst) d \<and> link_ok d src dst then Inr (d\<lparr>inode_of := gomap_put dst i (inode_of d)\<rparr>)
          else Inl (ErrorString (''link '' @ dst)))"

definition os_Open :: "string \<Rightarrow> disk \<Rightarrow> nat result" where
  "os_Open path d =
     (case map_of (inode_of d) path of
        None \<Rightarrow> Inl (ErrNotExist path)
      | Some i \<Rightarrow> if open_ok d path then Inr i else Inl (ErrorString (''open '' @ path @ '': permission denied'')))"

text \<open>Opening a file and reading it to its end.\<close>

definition os_ReadFile :: "string \<Rightarrow> disk \<Rightarrow> string result" where
  "os_ReadFile path d =
     bind_result (os_Open path d) (\<lambda>i. case read_fault d i of Some e \<Rightarrow> Inl e | None \<Rightarrow> Inr (inode_text d i))"

definition fresh_inode :: "disk \<Rightarrow> nat" where
  "fresh_inode d = Suc (fold max (map snd (inode_of d)) 0)"

text \<open>\<open>os.OpenFile\<close> with \<open>O_CREATE|O_TRUNC\<close> truncates a file that is there, whose permissions stay, and makes
  a new one in an existing directory, with the given permissions less those of the mask.\<close>

definition open_trunc :: "perm \<Rightarrow> string \<Rightarrow> disk \<Rightarrow> (nat \<times> disk) result" where
  "open_trunc p path d =
     (if \<not> create_ok d path \<or> is_dir path d then Inl (ErrorString (''open '' @ path @ '': permission denied''))
      else case map_of (inode_of d) path of
             Some i \<Rightarrow> Inr (i, d\<lparr>inode_text := (inode_text d)(i := [])\<rparr>)
           | None \<Rightarrow>
               if is_dir (Dir path) d then
                 (let i = fresh_inode d
                  in Inr (i, d\<lparr>inode_of := gomap_put path i (inode_of d), inode_text := (inode_text d)(i := []),
                    inode_mode := (inode_mode d)(i := p AND NOT (disk_umask d))\<rparr>))
               else Inl (ErrNotExist path))"

definition os_Create :: "string \<Rightarrow> disk \<Rightarrow> (nat \<times> disk) result" where
  "os_Create = open_trunc perm_rw"

text \<open>\<open>io.Copy\<close> from the start of one open file to the end of another; on a fault a part is copied.\<close>

definition io_Copy :: "nat \<Rightarrow> nat \<Rightarrow> disk \<Rightarrow> unit result \<times> disk" where
  "io_Copy dst src d =
     (case copy_fault d dst src of
        None \<Rightarrow> (Inr (), d\<lparr>inode_text := (inode_text d)(dst := inode_text d dst @ inode_text d src)\<rparr>)
      | Some (n, e) \<Rightarrow> (Inl e, d\<lparr>inode_text := (inode_text d)(dst := inode_text d dst @ take n (inode_text d src))\<rparr>))"

definition os_Remove :: "string \<Rightarrow> disk \<Rightarrow> disk result" where
  "os_Remove path d =
     (case map_of (inode_of d) path of
        None \<Rightarrow> Inl (if is_dir path d then ErrorString (''remove '' @ path @ '': directory not empty'') else ErrNotExist path)
      | Some _ \<Rightarrow>
          if remove_ok d path then Inr (d\<lparr>inode_of := gomap_delete path (inode_of d)\<rparr>)
          else Inl (ErrorString (''remove '' @ path @ '': permission denied'')))"

text \<open>The directories on the way to a path, the path included.\<close>

definition path_prefixes :: "string \<Rightarrow> string list" where
  "path_prefixes path =
     (let es = filter (\<lambda>e. e \<noteq> []) (Split (CHR ''/'') path)
      in path # map (\<lambda>n. CHR ''/'' # Join (take n es) ''/'') [0..<length es])"

definition os_MkdirAll :: "string \<Rightarrow> disk \<Rightarrow> disk result" where
  "os_MkdirAll path d =
     (if is_dir path d then Inr d
      else if mkdir_ok_at d path \<and> (\<forall>q\<in>set (path_prefixes path). map_of (inode_of d) q = None)
        then Inr (d\<lparr>directories := path_prefixes path @ directories d\<rparr>)
      else Inl (ErrorString (''mkdir '' @ path)))"

definition os_Mkdir :: "string \<Rightarrow> disk \<Rightarrow> disk result" where
  "os_Mkdir path d =
     (if map_of (inode_of d) path \<noteq> None \<or> is_dir path d then Inl (ErrorString (''mkdir '' @ path @ '': file exists''))
      else if is_dir (Dir path) d \<and> mkdir_ok_at d path then Inr (d\<lparr>directories := path # directories d\<rparr>)
      else Inl (ErrorString (''mkdir '' @ path)))"

text \<open>\<open>os.WriteFile\<close>, which creates or truncates the file.\<close>

definition os_WriteFile :: "string \<Rightarrow> string \<Rightarrow> perm \<Rightarrow> disk \<Rightarrow> disk result" where
  "os_WriteFile path s p d =
     bind_result (open_trunc p path d) (\<lambda>(i, d'). Inr (d'\<lparr>inode_text := (inode_text d')(i := s)\<rparr>))"

subsection \<open>Linking or copying\<close>

text \<open>The procedure the installer and the build tools share; they differ in the errors they report.\<close>

definition link_or_copy :: "(goerr \<Rightarrow> goerr) \<Rightarrow> (goerr \<Rightarrow> goerr) \<Rightarrow> string \<Rightarrow> string \<Rightarrow> disk \<Rightarrow> unit result \<times> disk" where
  "link_or_copy open_err create_err src dst d =
     (case os_Link src dst d of
        Inr d' \<Rightarrow> (Inr (), d')
      | Inl _ \<Rightarrow>
          (case os_Open src d of
             Inl e \<Rightarrow> (Inl (open_err e), d)
           | Inr i \<Rightarrow>
               (case os_Create dst d of
                  Inl e \<Rightarrow> (Inl (create_err e), d)
                | Inr (j, d') \<Rightarrow> io_Copy j i d')))"

subsection \<open>Laws\<close>

lemma fold_max_upper: "x \<in> set xs \<or> x \<le> a \<Longrightarrow> x \<le> fold max xs (a :: nat)"
  by (induction xs arbitrary: a) fastforce+

lemma fresh_inode_unused: "map_of (inode_of d) path \<noteq> Some (fresh_inode d)"
proof
  assume "map_of (inode_of d) path = Some (fresh_inode d)"
  then have "fresh_inode d \<in> set (map snd (inode_of d))"
    using map_of_SomeD by force
  then have "fresh_inode d \<le> fold max (map snd (inode_of d)) 0"
    by (intro fold_max_upper) simp
  then show False by (simp add: fresh_inode_def)
qed

lemma gomap_delete_absent: "map_of m k = None \<Longrightarrow> gomap_delete k m = m"
  unfolding gomap_delete_def filter_id_conv by (auto simp: map_of_eq_None_iff rev_image_eqI)

lemmas os_create_defs = os_Create_def open_trunc_def

text \<open>A new file is a copy of the source, whether it is linked or copied, and no other file changes.  A link
  has the permissions of the source, and a copy those of a new file, which nobody can execute.\<close>

lemma link_or_copy_new:
  assumes "link_or_copy oe ce src dst d = (Inr (), d')" and "map_of (inode_of d) dst = None"
  shows "file_at dst d' = file_at src d" and "path \<noteq> dst \<Longrightarrow> file_at path d' = file_at path d"
    and "mode_at dst d' = (if link_ok d src dst then mode_at src d else Some (perm_rw AND NOT (disk_umask d)))"
    and "path \<noteq> dst \<Longrightarrow> mode_at path d' = mode_at path d"
proof -
  have effect: "\<exists>i. map_of (inode_of d) src = Some i \<and>
      (link_ok d src dst \<and> d' = d\<lparr>inode_of := gomap_put dst i (inode_of d)\<rparr> \<or>
       \<not> link_ok d src dst \<and> d' = d\<lparr>inode_of := gomap_put dst (fresh_inode d) (inode_of d),
              inode_text := (inode_text d)(fresh_inode d := inode_text d i),
              inode_mode := (inode_mode d)(fresh_inode d := perm_rw AND NOT (disk_umask d))\<rparr>)"
    using assms fresh_inode_unused [of d src]
    by (auto simp: link_or_copy_def os_Link_def os_Open_def os_create_defs io_Copy_def Let_def
        split: option.splits sum.splits if_splits)
  then show "file_at dst d' = file_at src d" "path \<noteq> dst \<Longrightarrow> file_at path d' = file_at path d"
    using assms(2) fresh_inode_unused [of d path] fresh_inode_unused [of d src]
    by (auto simp: file_at_def map_option_case split: option.splits)
  from effect show "mode_at dst d' = (if link_ok d src dst then mode_at src d else Some (perm_rw AND NOT (disk_umask d)))"
    "path \<noteq> dst \<Longrightarrow> mode_at path d' = mode_at path d"
    using assms(2) fresh_inode_unused [of d path] fresh_inode_unused [of d src]
    by (auto simp: mode_at_def map_option_case split: option.splits)
qed

lemma copy_not_executable: "(perm_rw AND NOT u) AND perm_x = 0"
proof -
  have "(perm_rw AND NOT u) AND perm_x = (perm_rw AND perm_x) AND NOT u" by (simp add: ac_simps)
  also have "perm_rw AND perm_x = 0" by (simp add: perm_rw_def perm_x_def)
  finally show ?thesis by simp
qed

lemma link_or_copy_succeeds:
  assumes "map_of (inode_of d) src = Some i" and "map_of (inode_of d) dst = None" and "\<not> is_dir dst d"
    and "is_dir (Dir dst) d" and "open_ok d src" and "create_ok d dst" and "\<And>j. copy_fault d j i = None"
  shows "fst (link_or_copy oe ce src dst d) = Inr ()"
  using assms by (simp add: link_or_copy_def os_Link_def os_Open_def os_create_defs io_Copy_def Let_def)

lemma link_or_copy_missing:
  "map_of (inode_of d) src = None \<Longrightarrow> link_or_copy oe ce src dst d = (Inl (oe (ErrNotExist src)), d)"
  by (simp add: link_or_copy_def os_Link_def os_Open_def)

lemma is_dir_MkdirAll: "os_MkdirAll path d = Inr d' \<Longrightarrow> is_dir path d'"
  by (auto simp: os_MkdirAll_def is_dir_def path_prefixes_def Let_def split: if_splits)

lemma MkdirAll_keeps:
  assumes "os_MkdirAll path d = Inr d'"
  shows "inode_of d' = inode_of d" and "inode_text d' = inode_text d" and "file_at q d' = file_at q d"
    and "open_ok d' = open_ok d" and "create_ok d' = create_ok d" and "remove_ok d' = remove_ok d"
    and "copy_fault d' = copy_fault d" and "is_dir q d \<Longrightarrow> is_dir q d'"
    and "mode_at q d' = mode_at q d" and "link_ok d' = link_ok d" and "disk_umask d' = disk_umask d"
    and "inode_mode d' = inode_mode d"
  using assms by (auto simp: os_MkdirAll_def file_at_def mode_at_def is_dir_def split: if_splits)

lemma file_at_None_iff: "file_at path d = None \<longleftrightarrow> map_of (inode_of d) path = None"
  by (simp add: file_at_def)

end
