(* ===== verification/Go_Flag.thy ===== *)
theory Go_Flag
  imports Go_Strings
begin

text \<open>
  Go's package \<open>flag\<close> as far as the commands use it: \<open>FlagSet.Parse\<close>.  A flag set gives for each name
  whether the flag is boolean and the method \<open>Set\<close> of its value, over a state of type \<open>'a\<close> that holds
  the variables of the flags.  An error stands for a parse that ends the process: all flag sets of the
  program have the policy \<open>ExitOnError\<close>.  \<open>failf\<close> prints the message of the error before the usage.
\<close>

type_synonym 'a flag = "bool \<times> (string \<Rightarrow> 'a \<Rightarrow> 'a result)"
type_synonym 'a flagset = "string \<Rightarrow> 'a flag option"

definition ParseBool :: "string \<Rightarrow> bool option" where
  "ParseBool s =
     (if s \<in> set [''1'', ''t'', ''T'', ''true'', ''TRUE'', ''True''] then Some True
      else if s \<in> set [''0'', ''f'', ''F'', ''false'', ''FALSE'', ''False''] then Some False
      else None)"

text \<open>\<open>StringVar\<close> and \<open>BoolVar\<close>, given the assignment to the variable.\<close>

definition StringVar :: "(string \<Rightarrow> 'a \<Rightarrow> 'a) \<Rightarrow> 'a flag" where
  "StringVar assign = (False, \<lambda>v a. Inr (assign v a))"

definition BoolVar :: "(bool \<Rightarrow> 'a \<Rightarrow> 'a) \<Rightarrow> 'a flag" where
  "BoolVar assign = (True, \<lambda>v a. case ParseBool v of None \<Rightarrow> Inl (ErrorString ''parse error'') | Some b \<Rightarrow> Inr (assign b a))"

definition Var :: "(string \<Rightarrow> 'a \<Rightarrow> 'a result) \<Rightarrow> 'a flag" where
  "Var assign = (False, assign)"

text \<open>The name and the value of an argument \<open>-name\<close>, \<open>--name\<close>, \<open>-name=value\<close> or \<open>--name=value\<close>; \<open>None\<close> for
  bad syntax.  A \<open>=\<close> is looked for from the second character of the name on.\<close>

definition flag_name :: "string \<Rightarrow> (string \<times> string option) option" where
  "flag_name s =
     (let name = (if HasPrefix s ''--'' then drop 2 s else drop 1 s)
      in if name = [] \<or> hd name = CHR ''-'' \<or> hd name = CHR ''='' then None
         else case Cut (CHR ''='') (tl name) of
                (n, v, True) \<Rightarrow> Some (hd name # n, Some v)
              | (_, _, False) \<Rightarrow> Some (name, None))"

definition ErrHelp :: goerr where "ErrHelp = ErrorString ''flag: help requested''"

definition invalid_value :: "string \<Rightarrow> string \<Rightarrow> string \<Rightarrow> 'a result \<Rightarrow> 'a result" where
  "invalid_value format name v r =
     (case r of Inl err \<Rightarrow> Inl (Errorf format [v, name, err_msg err]) | Inr a \<Rightarrow> Inr a)"

fun flag_parse :: "'a flagset \<Rightarrow> string list \<Rightarrow> 'a \<Rightarrow> ('a \<times> string list) result" where
  "flag_parse flags [] a = Inr (a, [])"
| "flag_parse flags (s # args) a =
     (if length s < 2 \<or> hd s \<noteq> CHR ''-'' then Inr (a, s # args)
      else if s = ''--'' then Inr (a, args)
      else case flag_name s of
             None \<Rightarrow> Inl (ErrorString (''bad flag syntax: '' @ s))
           | Some (name, given) \<Rightarrow>
               (case flags name of
                  None \<Rightarrow>
                    if name = ''help'' \<or> name = ''h'' then Inl ErrHelp
                    else Inl (ErrorString (''flag provided but not defined: -'' @ name))
                | Some (True, Set) \<Rightarrow>
                    (case given of
                       Some v \<Rightarrow> bind_result (invalid_value ''invalid boolean value %q for -%s: %v'' name v (Set v a)) (flag_parse flags args)
                     | None \<Rightarrow>
                         (case Set ''true'' a of
                            Inl err \<Rightarrow> Inl (Errorf ''invalid boolean flag %s: %v'' [name, err_msg err])
                          | Inr a' \<Rightarrow> flag_parse flags args a'))
                | Some (False, Set) \<Rightarrow>
                    (case given of
                       Some v \<Rightarrow> bind_result (invalid_value ''invalid value %q for flag -%s: %v'' name v (Set v a)) (flag_parse flags args)
                     | None \<Rightarrow>
                         (case args of
                            [] \<Rightarrow> Inl (ErrorString (''flag needs an argument: -'' @ name))
                          | v # args' \<Rightarrow>
                              bind_result (invalid_value ''invalid value %q for flag -%s: %v'' name v (Set v a)) (flag_parse flags args')))))"

declare flag_parse.simps(2) [simp del]

text \<open>What a failed parse prints before the usage, and \<open>PrintDefaults\<close> for flags whose defaults are zero values:
  the flags by name, each with the name of its type, empty for boolean ones, and its usage.  No usage of the
  program has a name in back quotes or a newline.\<close>

definition failf_text :: "goerr \<Rightarrow> string" where
  "failf_text err = (if err = ErrHelp then [] else err_msg err @ [CHR 0x0A])"

definition print_default :: "string \<times> string \<times> string \<Rightarrow> string" where
  "print_default f =
     (case f of (name, type, descr) \<Rightarrow>
        (let b = ''  -'' @ name @ (if type = [] then [] else CHR '' '' # type)
         in b @ (if length b \<le> 4 then [CHR 0x09] else CHR 0x0A # ''    '' @ [CHR 0x09]) @ descr @ [CHR 0x0A]))"

definition PrintDefaults :: "(string \<times> string \<times> string) list \<Rightarrow> string" where
  "PrintDefaults fs = concat (map print_default fs)"

text \<open>An argument that does not start with a dash ends the flags.\<close>

definition plain_arg :: "string \<Rightarrow> bool" where
  "plain_arg s \<longleftrightarrow> \<not> HasPrefix s ''-''"

lemma flag_parse_plain_arg [simp]: "plain_arg s \<Longrightarrow> flag_parse flags (s # args) a = Inr (a, s # args)"
  by (cases s) (auto simp: plain_arg_def flag_parse.simps)

text \<open>Long flags: one that the set does not know is refused, a switch, and a flag with its value.\<close>

definition flag_ident :: "string \<Rightarrow> bool" where
  "flag_ident name \<longleftrightarrow> name \<noteq> [] \<and> hd name \<noteq> CHR ''-'' \<and> CHR ''='' \<notin> set name"

lemma flag_name_ident: "flag_ident name \<Longrightarrow> flag_name (CHR ''-'' # CHR ''-'' # name) = Some (name, None)"
proof -
  assume "flag_ident name"
  moreover from this have "Cut (CHR ''='') (tl name) = (tl name, [], False)"
    by (intro Cut_no_sep) (cases name; auto simp: flag_ident_def)
  ultimately show ?thesis
    by (cases name) (auto simp: flag_ident_def flag_name_def HasPrefix_def)
qed

lemma flag_parse_switch:
  assumes "flags name = Some (True, Set)" and "flag_ident name"
  shows "flag_parse flags ((CHR ''-'' # CHR ''-'' # name) # args) a =
    (case Set ''true'' a of
       Inl err \<Rightarrow> Inl (Errorf ''invalid boolean flag %s: %v'' [name, err_msg err])
     | Inr a' \<Rightarrow> flag_parse flags args a')"
  using assms flag_name_ident [OF assms(2)] by (simp add: flag_parse.simps flag_ident_def)

lemma flag_parse_value:
  assumes "flags name = Some (False, Set)" and "flag_ident name"
  shows "flag_parse flags ((CHR ''-'' # CHR ''-'' # name) # v # args) a =
    bind_result (invalid_value ''invalid value %q for flag -%s: %v'' name v (Set v a)) (flag_parse flags args)"
  using assms flag_name_ident [OF assms(2)] by (simp add: flag_parse.simps flag_ident_def)

lemma flag_parse_unknown:
  assumes "flags [c] = None" and "c \<noteq> CHR ''-''" and "c \<noteq> CHR ''=''"
    and "c \<noteq> CHR ''h''"
  shows "flag_parse flags ([CHR ''-'', c] # args) a = Inl (ErrorString (''flag provided but not defined: -'' @ [c]))"
  using assms by (simp add: flag_name_def HasPrefix_def flag_parse.simps)

end
