(* ===== verification/Go_Json.thy ===== *)
theory Go_Json
  imports Go_Strings Go_Map
begin

text \<open>
  Go's package \<open>encoding/json\<close> at the level of JSON values.  A \<open>json.RawMessage\<close>, a file or a
  message on the socket is the JSON value its bytes denote; bytes that are not JSON are the
  item \<open>Malformed\<close>.  A number keeps its literal text, as the decoder does until it knows the
  type of its target.

  \<open>decode_struct\<close> is \<open>Unmarshal\<close> into a struct: the keys are processed in order, a key selects
  the field with exactly that name or else the field whose name is equal under case folding,
  \<open>null\<close> leaves its target alone, and an unknown key is skipped unless
  \<open>DisallowUnknownFields\<close> was called.  Decoding starts from the value the target already has.
  Strings are taken as they are; \<open>Go_Json_Text\<close> shows what the encoder and the decoder of texts make of them.
\<close>

datatype json =
    JNull
  | JBool bool
  | JNum string
  | JStr string
  | JArr "json list"
  | JObj "(string \<times> json) list"

datatype wire_item = Value json | Malformed

definition type_error :: "string \<Rightarrow> goerr" where
  "type_error t = ErrorString (''json: cannot unmarshal value into Go value of type '' @ t)"

definition syntax_error :: goerr where
  "syntax_error = ErrorString ''invalid character in JSON text''"

definition unexpected_end :: goerr where
  "unexpected_end = ErrorString ''unexpected end of JSON input''"

subsection \<open>Decoding into basic types\<close>

text \<open>A decoder takes the JSON value and the present value of the target.\<close>

type_synonym 'a decoder = "json \<Rightarrow> 'a \<Rightarrow> 'a result"

fun decode_string :: "string decoder" where
  "decode_string (JStr s) old = Inr s"
| "decode_string JNull old = Inr old"
| "decode_string _ old = Inl (type_error ''string'')"

fun decode_bool :: "bool decoder" where
  "decode_bool (JBool b) old = Inr b"
| "decode_bool JNull old = Inr old"
| "decode_bool _ old = Inl (type_error ''bool'')"

fun decode_int :: "int decoder" where
  "decode_int (JNum n) old =
     (case Atoi n of Some i \<Rightarrow> Inr i | None \<Rightarrow> Inl (type_error ''int''))"
| "decode_int JNull old = Inr old"
| "decode_int _ old = Inl (type_error ''int'')"

text \<open>A \<open>json.RawMessage\<close> takes any value, \<open>null\<close> included; \<open>None\<close> is the nil message.\<close>

definition decode_raw :: "json option decoder" where
  "decode_raw v old = Inr (Some v)"

fun decode_list :: "'a decoder \<Rightarrow> 'a \<Rightarrow> json list \<Rightarrow> 'a list result" where
  "decode_list d zero [] = Inr []"
| "decode_list d zero (v # vs) =
     bind_result (d v zero) (\<lambda>x. bind_result (decode_list d zero vs) (\<lambda>xs. Inr (x # xs)))"

text \<open>A slice; \<open>None\<close> is the nil slice.\<close>

fun decode_slice :: "'a decoder \<Rightarrow> 'a \<Rightarrow> 'a list option decoder" where
  "decode_slice d zero (JArr vs) old = map_sum id Some (decode_list d zero vs)"
| "decode_slice d zero JNull old = Inr None"
| "decode_slice d zero _ old = Inl (type_error ''slice'')"

fun decode_entries :: "'a decoder \<Rightarrow> 'a \<Rightarrow> (string \<times> json) list \<Rightarrow> 'a gomap \<Rightarrow> 'a gomap result" where
  "decode_entries d zero [] m = Inr m"
| "decode_entries d zero ((k, v) # kvs) m =
     bind_result (d v zero) (\<lambda>x. decode_entries d zero kvs (gomap_put k x m))"

text \<open>A map with string keys; the nil map and the empty map are not distinguished.\<close>

fun decode_map :: "'a decoder \<Rightarrow> 'a \<Rightarrow> 'a gomap decoder" where
  "decode_map d zero (JObj kvs) old = decode_entries d zero kvs old"
| "decode_map d zero JNull old = Inr []"
| "decode_map d zero _ old = Inl (type_error ''map'')"

subsection \<open>Decoding into structs\<close>

type_synonym 'r fields = "(string \<times> 'r decoder) list"

definition field :: "'a decoder \<Rightarrow> ('r \<Rightarrow> 'a) \<Rightarrow> ('a \<Rightarrow> 'r \<Rightarrow> 'r) \<Rightarrow> 'r decoder" where
  "field d get put v r = map_sum id (\<lambda>x. put x r) (d v (get r))"

definition find_field :: "'r fields \<Rightarrow> string \<Rightarrow> 'r decoder option" where
  "find_field fs k =
     (case map_of fs k of
        Some d \<Rightarrow> Some d
      | None \<Rightarrow> map_option snd (find (\<lambda>(n, _). EqualFold k n) fs))"

definition decode_field :: "bool \<Rightarrow> 'r fields \<Rightarrow> string \<Rightarrow> 'r decoder" where
  "decode_field strict fs k v r =
     (case find_field fs k of
        Some d \<Rightarrow> d v r
      | None \<Rightarrow> if strict then Inl (Errorf ''json: unknown field %q'' [k]) else Inr r)"

fun decode_fields :: "bool \<Rightarrow> 'r fields \<Rightarrow> (string \<times> json) list \<Rightarrow> 'r \<Rightarrow> 'r result" where
  "decode_fields strict fs [] r = Inr r"
| "decode_fields strict fs ((k, v) # kvs) r =
     bind_result (decode_field strict fs k v r) (\<lambda>r'. decode_fields strict fs kvs r')"

fun decode_struct :: "bool \<Rightarrow> 'r fields \<Rightarrow> 'r decoder" where
  "decode_struct strict fs (JObj kvs) r = decode_fields strict fs kvs r"
| "decode_struct strict fs JNull r = Inr r"
| "decode_struct strict fs _ r = Inl (type_error ''struct'')"

text \<open>\<open>json.Unmarshal\<close> of a raw message, which fails on the nil message.\<close>

definition unmarshal_raw :: "'a decoder \<Rightarrow> json option \<Rightarrow> 'a \<Rightarrow> 'a result" where
  "unmarshal_raw d raw zero = (case raw of None \<Rightarrow> Inl unexpected_end | Some v \<Rightarrow> d v zero)"

subsection \<open>Encoding\<close>

definition omit_empty_string :: "string \<Rightarrow> string \<Rightarrow> (string \<times> json) list" where
  "omit_empty_string k s = (if s = [] then [] else [(k, JStr s)])"

definition encode_slice :: "('a \<Rightarrow> json) \<Rightarrow> 'a list option \<Rightarrow> json" where
  "encode_slice e xs = (case xs of None \<Rightarrow> JNull | Some ys \<Rightarrow> JArr (map e ys))"

definition encode_map :: "('a \<Rightarrow> json) \<Rightarrow> 'a gomap \<Rightarrow> json" where
  "encode_map e m = JObj (map (\<lambda>(k, v). (k, e v)) m)"

subsection \<open>Decoding what was encoded\<close>

lemma decode_list_map:
  "(\<And>x. d (e x) zero = Inr x) \<Longrightarrow> decode_list d zero (map e xs) = Inr xs"
  by (induction xs) auto

lemma decode_encode_slice:
  "(\<And>x. d (e x) zero = Inr x) \<Longrightarrow> decode_slice d zero (encode_slice e xs) old = Inr xs"
  by (cases xs) (simp_all add: encode_slice_def decode_list_map)

lemma decode_entries_map:
  "(\<And>x. d (e x) zero = Inr x) \<Longrightarrow>
     decode_entries d zero (map (\<lambda>(k, v). (k, e v)) kvs) m = Inr (fold (\<lambda>(k, v). gomap_put k v) kvs m)"
  by (induction kvs arbitrary: m) auto

lemma decode_encode_map:
  assumes "\<And>x. d (e x) zero = Inr x" and "gomap_wf m"
  shows "decode_map d zero (encode_map e m) [] = Inr m"
  using decode_entries_map [of d e zero m "[]", OF assms(1)] fold_gomap_put [of "[]" m] assms(2)
  by (simp add: encode_map_def)

lemma decode_entries_wf:
  "decode_entries d zero kvs m = Inr m' \<Longrightarrow> gomap_wf m \<Longrightarrow> gomap_wf m'"
proof (induction kvs arbitrary: m)
  case (Cons kv kvs)
  obtain k v where "kv = (k, v)" by (cases kv)
  with Cons show ?case by auto
qed simp

lemma decode_map_wf: "decode_map d zero v m = Inr m' \<Longrightarrow> gomap_wf m \<Longrightarrow> gomap_wf m'"
  by (cases v) (auto dest: decode_entries_wf)

lemma decode_fields_append:
  "decode_fields strict fs (xs @ ys) r =
     bind_result (decode_fields strict fs xs r) (\<lambda>r'. decode_fields strict fs ys r')"
proof (induction xs arbitrary: r)
  case (Cons x xs)
  obtain k v where "x = (k, v)" by (cases x)
  with Cons show ?case by (cases "decode_field strict fs k v r") auto
qed simp

end
