(* ===== verification/Api.thy ===== *)
theory Api
  imports Go_Json
begin

text \<open>
  The data of package \<open>api\<close> (\<open>src/api/api.go\<close>): the credential-helper request and response,
  the messages between the client and the agent, and their JSON forms as the struct tags
  define them.  The lemmas say that each form decodes to the value it encodes.
\<close>

record GetCredentialsRequest =
  URI :: string

type_synonym headers = "string list option gomap"

record GetCredentialsResponse =
  Expires :: string
  Headers :: headers

definition empty_response :: GetCredentialsResponse where
  "empty_response = \<lparr>Expires = [], Headers = []\<rparr>"

record CachableGetCredentialsResponse =
  CacheKey :: string
  Response :: GetCredentialsResponse

definition empty_cachable :: CachableGetCredentialsResponse where
  "empty_cachable = \<lparr>CacheKey = [], Response = empty_response\<rparr>"

record AgentRequest =
  Method :: string
  ReqPayload :: "json option"

definition empty_agent_request :: AgentRequest where
  "empty_agent_request = \<lparr>Method = [], ReqPayload = None\<rparr>"

record AgentResponse =
  Status :: string
  RespPayload :: "json option"

definition empty_agent_response :: AgentResponse where
  "empty_agent_response = \<lparr>Status = [], RespPayload = None\<rparr>"

definition AgentRequestRetrieve :: string where "AgentRequestRetrieve = ''retrieve''"
definition AgentRequestStore :: string where "AgentRequestStore = ''store''"
definition AgentRequestPrune :: string where "AgentRequestPrune = ''prune''"
definition AgentRequestShutdown :: string where "AgentRequestShutdown = ''shutdown''"

definition AgentResponseOK :: string where "AgentResponseOK = ''ok''"
definition AgentResponseCacheMiss :: string where "AgentResponseCacheMiss = ''cache-miss''"
definition AgentResponseError :: string where "AgentResponseError = ''error''"

text \<open>Environment variable names and the placeholders of configured paths.\<close>

definition StandaloneEnv :: string where "StandaloneEnv = ''CREDENTIAL_HELPER_STANDALONE''"
definition CredentialHelperBin :: string where "CredentialHelperBin = ''CREDENTIAL_HELPER_BIN''"
definition AgentSocketPath :: string where "AgentSocketPath = ''CREDENTIAL_HELPER_AGENT_SOCKET''"
definition AgentPidPath :: string where "AgentPidPath = ''CREDENTIAL_HELPER_AGENT_PID''"
definition LogLevelEnv :: string where "LogLevelEnv = ''CREDENTIAL_HELPER_LOGGING''"
definition IdleTimeoutEnv :: string where "IdleTimeoutEnv = ''CREDENTIAL_HELPER_IDLE_TIMEOUT''"
definition PruneIntervalEnv :: string where "PruneIntervalEnv = ''CREDENTIAL_HELPER_PRUNE_INTERVAL''"
definition GuessOCIRegistryEnv :: string where "GuessOCIRegistryEnv = ''CREDENTIAL_HELPER_GUESS_OCI_REGISTRY''"
definition ConfigFileEnv :: string where "ConfigFileEnv = ''CREDENTIAL_HELPER_CONFIG_FILE''"
definition WorkdirEnv :: string where "WorkdirEnv = ''CREDENTIAL_HELPER_WORKDIR''"
definition WorkspaceEnv :: string where "WorkspaceEnv = ''CREDENTIAL_HELPER_WORKSPACE_DIRECTORY''"
definition OriginalWorkingDirectoryEnv :: string where
  "OriginalWorkingDirectoryEnv = ''CREDENTIAL_HELPER_ORIGINAL_WORKING_DIRECTORY''"

definition PlaceholderWorkdir :: string where "PlaceholderWorkdir = ''%workdir%''"
definition PlaceholderWorkspaceDir :: string where "PlaceholderWorkspaceDir = ''%workspace%''"
definition PlaceholderTmpdir :: string where "PlaceholderTmpdir = ''%tmp%''"
definition PlaceholderCachedir :: string where "PlaceholderCachedir = ''%cache%''"
definition PlaceholderHomedir :: string where "PlaceholderHomedir = ''~''"

lemmas api_consts =
  AgentRequestRetrieve_def AgentRequestStore_def AgentRequestPrune_def AgentRequestShutdown_def
  AgentResponseOK_def AgentResponseCacheMiss_def AgentResponseError_def

subsection \<open>JSON forms\<close>

definition GetCredentialsRequest_fields :: "GetCredentialsRequest fields" where
  "GetCredentialsRequest_fields = [(''uri'', field decode_string URI (\<lambda>x r. r\<lparr>URI := x\<rparr>))]"

definition GetCredentialsResponse_fields :: "GetCredentialsResponse fields" where
  "GetCredentialsResponse_fields =
     [(''expires'', field decode_string Expires (\<lambda>x r. r\<lparr>Expires := x\<rparr>)),
      (''headers'', field (decode_map (decode_slice decode_string []) None) Headers (\<lambda>x r. r\<lparr>Headers := x\<rparr>))]"

definition CachableGetCredentialsResponse_fields :: "CachableGetCredentialsResponse fields" where
  "CachableGetCredentialsResponse_fields =
     [(''cacheKey'', field decode_string CacheKey (\<lambda>x r. r\<lparr>CacheKey := x\<rparr>)),
      (''response'', field (decode_struct False GetCredentialsResponse_fields) Response
         (\<lambda>x r. r\<lparr>Response := x\<rparr>))]"

definition AgentRequest_fields :: "AgentRequest fields" where
  "AgentRequest_fields =
     [(''method'', field decode_string Method (\<lambda>x r. r\<lparr>Method := x\<rparr>)),
      (''payload'', field decode_raw ReqPayload (\<lambda>x r. r\<lparr>ReqPayload := x\<rparr>))]"

definition AgentResponse_fields :: "AgentResponse fields" where
  "AgentResponse_fields =
     [(''status'', field decode_string Status (\<lambda>x r. r\<lparr>Status := x\<rparr>)),
      (''payload'', field decode_raw RespPayload (\<lambda>x r. r\<lparr>RespPayload := x\<rparr>))]"

definition encode_GetCredentialsResponse :: "GetCredentialsResponse \<Rightarrow> json" where
  "encode_GetCredentialsResponse r =
     JObj (omit_empty_string ''expires'' (Expires r) @
       (if Headers r = [] then [] else [(''headers'', encode_map (encode_slice JStr) (Headers r))]))"

definition encode_Cachable :: "CachableGetCredentialsResponse \<Rightarrow> json" where
  "encode_Cachable c =
     JObj (omit_empty_string ''cacheKey'' (CacheKey c) @
       [(''response'', encode_GetCredentialsResponse (Response c))])"

definition encode_AgentRequest :: "AgentRequest \<Rightarrow> json" where
  "encode_AgentRequest r =
     JObj ((''method'', JStr (Method r)) #
       (case ReqPayload r of None \<Rightarrow> [] | Some p \<Rightarrow> [(''payload'', p)]))"

definition encode_AgentResponse :: "AgentResponse \<Rightarrow> json" where
  "encode_AgentResponse r =
     JObj ((''status'', JStr (Status r)) #
       (case RespPayload r of None \<Rightarrow> [] | Some p \<Rightarrow> [(''payload'', p)]))"

definition decode_GetCredentialsRequest :: "GetCredentialsRequest decoder" where
  "decode_GetCredentialsRequest = decode_struct False GetCredentialsRequest_fields"

definition decode_GetCredentialsResponse :: "GetCredentialsResponse decoder" where
  "decode_GetCredentialsResponse = decode_struct False GetCredentialsResponse_fields"

definition decode_Cachable :: "CachableGetCredentialsResponse decoder" where
  "decode_Cachable = decode_struct False CachableGetCredentialsResponse_fields"

definition decode_AgentRequest :: "AgentRequest decoder" where
  "decode_AgentRequest = decode_struct False AgentRequest_fields"

definition decode_AgentResponse :: "AgentResponse decoder" where
  "decode_AgentResponse = decode_struct False AgentResponse_fields"

lemmas api_fields =
  GetCredentialsRequest_fields_def GetCredentialsResponse_fields_def
  CachableGetCredentialsResponse_fields_def AgentRequest_fields_def AgentResponse_fields_def

subsection \<open>Decoding what was encoded\<close>

definition wf_response :: "GetCredentialsResponse \<Rightarrow> bool" where
  "wf_response r \<longleftrightarrow> gomap_wf (Headers r)"

lemma wf_empty_response [simp]: "wf_response empty_response"
  by (simp add: wf_response_def empty_response_def)

lemma decode_encode_response [codec_laws]:
  assumes "wf_response r"
  shows "decode_GetCredentialsResponse (encode_GetCredentialsResponse r) empty_response = Inr r"
proof -
  have hd: "decode_map (decode_slice decode_string []) None (encode_map (encode_slice JStr) (Headers r)) [] =
      Inr (Headers r)"
    using assms by (intro decode_encode_map decode_encode_slice) (simp_all add: wf_response_def)
  show ?thesis
    using hd
    by (cases r)
      (simp add: decode_GetCredentialsResponse_def encode_GetCredentialsResponse_def empty_response_def
        GetCredentialsResponse_fields_def decode_field_def find_field_def field_def omit_empty_string_def)
qed

lemma decode_encode_cachable [codec_laws]:
  assumes "wf_response (Response c)"
  shows "decode_Cachable (encode_Cachable c) empty_cachable = Inr c"
proof -
  have "decode_struct False GetCredentialsResponse_fields
      (encode_GetCredentialsResponse (Response c)) empty_response = Inr (Response c)"
    using decode_encode_response [OF assms] by (simp add: decode_GetCredentialsResponse_def)
  then show ?thesis
    by (cases c)
      (simp add: decode_Cachable_def encode_Cachable_def empty_cachable_def
        CachableGetCredentialsResponse_fields_def decode_field_def find_field_def field_def
        omit_empty_string_def)
qed

lemma decode_encode_agent_request [codec_laws]:
  "decode_AgentRequest (encode_AgentRequest q) old =
     Inr \<lparr>Method = Method q, ReqPayload = (case ReqPayload q of None \<Rightarrow> ReqPayload old | p \<Rightarrow> p)\<rparr>"
  by (cases old; cases q)
    (simp add: decode_AgentRequest_def encode_AgentRequest_def AgentRequest_fields_def
      decode_field_def find_field_def field_def decode_raw_def split: option.splits)

lemma decode_encode_agent_response [codec_laws]:
  "decode_AgentResponse (encode_AgentResponse p) empty_agent_response = Inr p"
  by (cases p)
    (simp add: decode_AgentResponse_def encode_AgentResponse_def empty_agent_response_def
      AgentResponse_fields_def decode_field_def find_field_def field_def decode_raw_def
      split: option.splits)

lemma decode_response_wf:
  "decode_fields False GetCredentialsResponse_fields kvs r = Inr r' \<Longrightarrow> wf_response r \<Longrightarrow> wf_response r'"
proof (induction kvs arbitrary: r)
  case (Cons kv kvs)
  obtain k v where kv: "kv = (k, v)" by (cases kv)
  with Cons.prems obtain r1 where
    r1: "decode_field False GetCredentialsResponse_fields k v r = Inr r1" and
    rest: "decode_fields False GetCredentialsResponse_fields kvs r1 = Inr r'"
    by auto
  have hd: "gomap_wf b"
    if "decode_map (decode_slice decode_string []) None v (Headers r) = Inr b" for b
    using decode_map_wf [OF that] Cons.prems(2) by (simp add: wf_response_def)
  have "wf_response r1"
    using r1 Cons.prems(2) hd
    by (cases "decode_map (decode_slice decode_string []) None v (Headers r)";
        cases "decode_string v (Expires r)")
      (auto simp: decode_field_def find_field_def field_def GetCredentialsResponse_fields_def
        wf_response_def split: option.splits if_splits)
  with rest show ?case by (rule Cons.IH)
qed simp

lemma decode_GetCredentialsResponse_wf:
  "decode_GetCredentialsResponse v r = Inr r' \<Longrightarrow> wf_response r \<Longrightarrow> wf_response r'"
  by (cases v) (auto simp: decode_GetCredentialsResponse_def dest: decode_response_wf)

lemma decode_cachable_fields_wf:
  "decode_fields False CachableGetCredentialsResponse_fields kvs c = Inr c' \<Longrightarrow>
     wf_response (Response c) \<Longrightarrow> wf_response (Response c')"
proof (induction kvs arbitrary: c)
  case (Cons kv kvs)
  obtain k v where kv: "kv = (k, v)" by (cases kv)
  with Cons.prems obtain c1 where
    c1: "decode_field False CachableGetCredentialsResponse_fields k v c = Inr c1" and
    rest: "decode_fields False CachableGetCredentialsResponse_fields kvs c1 = Inr c'"
    by auto
  have resp: "wf_response b"
    if "decode_struct False GetCredentialsResponse_fields v (Response c) = Inr b" for b
    using decode_GetCredentialsResponse_wf [of v "Response c" b] that Cons.prems(2)
    by (simp add: decode_GetCredentialsResponse_def)
  have "wf_response (Response c1)"
    using c1 Cons.prems(2) resp
    by (cases "decode_struct False GetCredentialsResponse_fields v (Response c)";
        cases "decode_string v (CacheKey c)")
      (auto simp: decode_field_def find_field_def field_def CachableGetCredentialsResponse_fields_def
        split: option.splits if_splits)
  with rest show ?case by (rule Cons.IH)
qed simp

lemma decode_Cachable_wf:
  "decode_Cachable v c = Inr c' \<Longrightarrow> wf_response (Response c) \<Longrightarrow> wf_response (Response c')"
  by (cases v) (auto simp: decode_Cachable_def dest: decode_cachable_fields_wf)

end
