(* ===== verification/Go_Md5.thy ===== *)
theory Go_Md5
  imports Go_Strings "HOL-Library.Word"
begin

text \<open>
  \<open>crypto/md5\<close> (RFC 1321), which \<open>workdirHash\<close> in \<open>src/agent/locate/locate.go\<close> applies to the
  path of the workspace, and the lower-case hexadecimal text of a digest.
\<close>

unbundle bit_operations_syntax

type_synonym w32 = "32 word"

definition md5_table :: "w32 list" where
  "md5_table = [
     0xd76aa478, 0xe8c7b756, 0x242070db, 0xc1bdceee, 0xf57c0faf, 0x4787c62a, 0xa8304613, 0xfd469501,
     0x698098d8, 0x8b44f7af, 0xffff5bb1, 0x895cd7be, 0x6b901122, 0xfd987193, 0xa679438e, 0x49b40821,
     0xf61e2562, 0xc040b340, 0x265e5a51, 0xe9b6c7aa, 0xd62f105d, 0x02441453, 0xd8a1e681, 0xe7d3fbc8,
     0x21e1cde6, 0xc33707d6, 0xf4d50d87, 0x455a14ed, 0xa9e3e905, 0xfcefa3f8, 0x676f02d9, 0x8d2a4c8a,
     0xfffa3942, 0x8771f681, 0x6d9d6122, 0xfde5380c, 0xa4beea44, 0x4bdecfa9, 0xf6bb4b60, 0xbebfbc70,
     0x289b7ec6, 0xeaa127fa, 0xd4ef3085, 0x04881d05, 0xd9d4d039, 0xe6db99e5, 0x1fa27cf8, 0xc4ac5665,
     0xf4292244, 0x432aff97, 0xab9423a7, 0xfc93a039, 0x655b59c3, 0x8f0ccc92, 0xffeff47d, 0x85845dd1,
     0x6fa87e4f, 0xfe2ce6e0, 0xa3014314, 0x4e0811a1, 0xf7537e82, 0xbd3af235, 0x2ad7d2bb, 0xeb86d391]"

definition md5_shifts :: "nat list" where
  "md5_shifts = [7, 12, 17, 22, 5, 9, 14, 20, 4, 11, 16, 23, 6, 10, 15, 21]"

definition rotl32 :: "nat \<Rightarrow> w32 \<Rightarrow> w32" where
  "rotl32 n x = (push_bit n x OR drop_bit (32 - n) x)"

definition le_word :: "string \<Rightarrow> w32" where
  "le_word bs = foldr (\<lambda>b acc. of_nat (ord b) + push_bit 8 acc) bs 0"

fun chunks :: "nat \<Rightarrow> nat \<Rightarrow> 'a list \<Rightarrow> 'a list list" where
  "chunks n 0 xs = []"
| "chunks n (Suc k) xs = take n xs # chunks n k (drop n xs)"

definition le_bytes :: "nat \<Rightarrow> nat \<Rightarrow> string" where
  "le_bytes n v = map (\<lambda>i. char_of (v div 256 ^ i)) [0..<n]"

definition md5_pad :: "string \<Rightarrow> string" where
  "md5_pad s =
     (let n = length s
      in s @ char_of (0x80 :: nat) # replicate ((119 - n mod 64) mod 64) (char_of (0 :: nat)) @ le_bytes 8 (8 * n))"

type_synonym md5_state = "w32 \<times> w32 \<times> w32 \<times> w32"

definition md5_round :: "w32 list \<Rightarrow> nat \<Rightarrow> md5_state \<Rightarrow> md5_state" where
  "md5_round m i = (\<lambda>(a, b, c, d).
     let (f, g) =
       (if i < 16 then ((b AND c) OR (NOT b AND d), i)
        else if i < 32 then ((d AND b) OR (NOT d AND c), (5 * i + 1) mod 16)
        else if i < 48 then ((b XOR c) XOR d, (3 * i + 5) mod 16)
        else (c XOR (b OR NOT d), (7 * i) mod 16));
         x = f + a + md5_table ! i + m ! g
     in (d, b + rotl32 (md5_shifts ! (4 * (i div 16) + i mod 4)) x, b, c))"

definition md5_block :: "string \<Rightarrow> md5_state \<Rightarrow> md5_state" where
  "md5_block block st =
     (let m = map le_word (chunks 4 16 block);
          (a, b, c, d) = st;
          (a', b', c', d') = fold (md5_round m) [0..<64] st
      in (a + a', b + b', c + c', d + d'))"

definition md5_sum :: "string \<Rightarrow> string" where
  "md5_sum s =
     (let p = md5_pad s;
          (a, b, c, d) = fold md5_block (chunks 64 (length p div 64) p)
            (0x67452301, 0xefcdab89, 0x98badcfe, 0x10325476)
      in concat (map (\<lambda>w. le_bytes 4 (unat w)) [a, b, c, d]))"

text \<open>\<open>fmt.Sprintf("%x", ...)\<close> of a byte array.\<close>

definition hex_string :: "string \<Rightarrow> string" where
  "hex_string s = concat (map (\<lambda>c. [hex_digit (ord c div 16), hex_digit (ord c mod 16)]) s)"

lemma length_md5_sum [simp]: "length (md5_sum s) = 16"
  by (simp add: md5_sum_def le_bytes_def Let_def split: prod.split)

lemma length_hex_string [simp]: "length (hex_string s) = 2 * length s"
  by (induction s) (simp_all add: hex_string_def)

end
