(* ===== verification/Locate.thy ===== *)
theory Locate
  imports Api Go_Path Go_Md5
begin

text \<open>
  \<open>src/agent/locate/locate.go\<close>: the process environment that client and agent set up, and
  the paths they derive from it, for a Unix system.  The state is the environment variables
  and the working directory; which directories can be created and entered is up to the
  operating system and is part of the state too.
\<close>

record process =
  env :: "string gomap"
  cwd :: string
  getwd_ok :: bool
  mkdir_ok :: "string \<Rightarrow> bool"
  chdir_ok :: "string \<Rightarrow> bool"

definition LookupEnv :: "string \<Rightarrow> process \<Rightarrow> string option" where
  "LookupEnv key p = map_of (env p) key"

definition Getenv :: "string \<Rightarrow> process \<Rightarrow> string" where
  "Getenv key p = (case LookupEnv key p of None \<Rightarrow> [] | Some v \<Rightarrow> v)"

definition Setenv :: "string \<Rightarrow> string \<Rightarrow> process \<Rightarrow> process result" where
  "Setenv key v p =
     (if CHR 0x00 \<in> set v then Inl (ErrorString ''setenv: invalid argument'')
      else Inr (p\<lparr>env := gomap_put key v (env p)\<rparr>))"

definition Getwd :: "process \<Rightarrow> string result" where
  "Getwd p = (if getwd_ok p then Inr (cwd p) else Inl (ErrorString ''getwd: no such file or directory''))"

definition MkdirAll :: "string \<Rightarrow> process \<Rightarrow> process result" where
  "MkdirAll d p = (if mkdir_ok p (resolve (cwd p) d) then Inr p else Inl (ErrorString (''mkdir '' @ d)))"

definition Chdir :: "string \<Rightarrow> process \<Rightarrow> process result" where
  "Chdir d p =
     (if chdir_ok p (resolve (cwd p) d) then Inr (p\<lparr>cwd := resolve (cwd p) d\<rparr>)
      else Inl (ErrorString (''chdir '' @ d)))"

text \<open>\<open>os.UserHomeDir\<close>, \<open>os.UserCacheDir\<close> and \<open>os.TempDir\<close>.\<close>

definition UserHomeDir :: "process \<Rightarrow> string result" where
  "UserHomeDir p = (if Getenv ''HOME'' p = [] then Inl (ErrorString ''$HOME is not defined'') else Inr (Getenv ''HOME'' p))"

definition UserCacheDir :: "process \<Rightarrow> string result" where
  "UserCacheDir p =
     (let xdg = Getenv ''XDG_CACHE_HOME'' p
      in if xdg = [] then
           (if Getenv ''HOME'' p = [] then Inl (ErrorString ''neither $XDG_CACHE_HOME nor $HOME are defined'')
            else Inr (Getenv ''HOME'' p @ ''/.cache''))
         else if \<not> IsAbs xdg then Inl (ErrorString ''path in $XDG_CACHE_HOME is relative'')
         else Inr xdg)"

definition TempDir :: "process \<Rightarrow> string" where
  "TempDir p = (if Getenv ''TMPDIR'' p = [] then ''/tmp'' else Getenv ''TMPDIR'' p)"

subsection \<open>Directories\<close>

definition tmpDir :: "process \<Rightarrow> string" where
  "tmpDir p = (case LookupEnv ''TEST_TMPDIR'' p of Some d \<Rightarrow> d | None \<Rightarrow> TempDir p)"

definition cacheDir :: "process \<Rightarrow> string" where
  "cacheDir p =
     (case LookupEnv ''TEST_TMPDIR'' p of
        Some d \<Rightarrow> d
      | None \<Rightarrow> (case UserCacheDir p of Inl _ \<Rightarrow> tmpDir p | Inr d \<Rightarrow> d))"

definition homeDir :: "process \<Rightarrow> string" where
  "homeDir p = (case UserHomeDir p of Inr home \<Rightarrow> home | Inl _ \<Rightarrow> tmpDir p)"

definition workdirHash :: "string \<Rightarrow> string" where
  "workdirHash workspaceDirectory = hex_string (md5_sum workspaceDirectory)"

definition Workdir :: "process \<Rightarrow> string" where
  "Workdir p = Getenv WorkdirEnv p"

definition Bin :: "process \<Rightarrow> string" where
  "Bin p = Path_Join [Workdir p, ''bin'']"

definition Run :: "process \<Rightarrow> string" where
  "Run p = Path_Join [Workdir p, ''run'']"

subsection \<open>Expansion of configured paths\<close>

definition expand_prefix :: "string \<Rightarrow> process \<Rightarrow> (string \<times> string \<times> bool) option" where
  "expand_prefix input p =
     (if HasPrefix input PlaceholderWorkdir then
        Some (Getenv WorkdirEnv p, TrimPrefix input PlaceholderWorkdir, True)
      else if HasPrefix input PlaceholderWorkspaceDir then
        Some (Getenv WorkspaceEnv p, TrimPrefix input PlaceholderWorkspaceDir, False)
      else if HasPrefix input PlaceholderTmpdir then
        Some (tmpDir p, TrimPrefix input PlaceholderTmpdir, False)
      else if HasPrefix input PlaceholderCachedir then
        Some (cacheDir p, TrimPrefix input PlaceholderCachedir, False)
      else if HasPrefix input PlaceholderHomedir then
        Some (homeDir p, TrimPrefix input PlaceholderHomedir, False)
      else None)"

definition expandPath :: "string \<Rightarrow> bool \<Rightarrow> process \<Rightarrow> string" where
  "expandPath input shortPath p =
     (case expand_prefix input p of
        None \<Rightarrow> input
      | Some (prefix, suffix, canShortPath) \<Rightarrow>
          if shortPath \<and> canShortPath then Path_Join [''.'', suffix] else Path_Join [prefix, suffix])"

definition LookupPathEnv :: "string \<Rightarrow> string \<Rightarrow> bool \<Rightarrow> process \<Rightarrow> string" where
  "LookupPathEnv key fallback shortPath p =
     expandPath (case LookupEnv key p of Some v \<Rightarrow> v | None \<Rightarrow> fallback) shortPath p"

definition CredentialHelper :: "process \<Rightarrow> string" where
  "CredentialHelper p =
     LookupPathEnv CredentialHelperBin (Path_Join [''%workdir%'', ''bin'', ''credential-helper'']) False p"

definition AgentPaths :: "process \<Rightarrow> string \<times> string" where
  "AgentPaths p =
     (LookupPathEnv AgentSocketPath (Path_Join [''%workdir%'', ''run'', ''agent.sock'']) True p,
      LookupPathEnv AgentPidPath (Path_Join [''%workdir%'', ''run'', ''agent.pid'']) False p)"

definition RemapToOriginalWorkingDirectory :: "string \<Rightarrow> process \<Rightarrow> string" where
  "RemapToOriginalWorkingDirectory path p =
     (if IsAbs path then path else Path_Join [Getenv OriginalWorkingDirectoryEnv p, path])"

subsection \<open>Setting up the environment\<close>

definition setupWorkspaceDirectory :: "process \<Rightarrow> (string \<times> process) result" where
  "setupWorkspaceDirectory p =
     (case LookupEnv WorkspaceEnv p of
        Some workspacePath \<Rightarrow> Inr (workspacePath, p)
      | None \<Rightarrow>
          bind_result
            (case LookupEnv ''BUILD_WORKSPACE_DIRECTORY'' p of Some w \<Rightarrow> Inr w | None \<Rightarrow> Getwd p)
            (\<lambda>workspacePath. bind_result (Setenv WorkspaceEnv workspacePath p) (\<lambda>p'. Inr (workspacePath, p'))))"

definition setupWorkdir :: "string \<Rightarrow> process \<Rightarrow> (string \<times> process) result" where
  "setupWorkdir workspacePath p =
     (case LookupEnv WorkdirEnv p of
        Some workdirPath \<Rightarrow> Inr (workdirPath, p)
      | None \<Rightarrow>
          (let workdirPath = Path_Join [cacheDir p, ''tweag-credential-helper'', workdirHash workspacePath]
           in bind_result (Setenv WorkdirEnv workdirPath p) (\<lambda>p'. Inr (workdirPath, p'))))"

definition SetupEnvironment :: "process \<Rightarrow> process result" where
  "SetupEnvironment p =
     bind_result (Getwd p) (\<lambda>originalWorkingDirectory.
     bind_result (Setenv OriginalWorkingDirectoryEnv originalWorkingDirectory p) (\<lambda>p1.
     bind_result (setupWorkspaceDirectory p1) (\<lambda>(workspacePath, p2).
     bind_result (setupWorkdir workspacePath p2) (\<lambda>(workdirPath, p3).
     bind_result (MkdirAll workdirPath p3) (\<lambda>p4. Chdir workdirPath p4)))))"

subsection \<open>What the setup establishes\<close>

lemmas env_consts = WorkdirEnv_def WorkspaceEnv_def OriginalWorkingDirectoryEnv_def
  AgentSocketPath_def AgentPidPath_def ConfigFileEnv_def

lemma env_keys_distinct [simp]:
  "WorkspaceEnv \<noteq> OriginalWorkingDirectoryEnv" "WorkdirEnv \<noteq> OriginalWorkingDirectoryEnv"
  "WorkdirEnv \<noteq> WorkspaceEnv" "WorkspaceEnv \<noteq> WorkdirEnv"
  "AgentSocketPath \<noteq> OriginalWorkingDirectoryEnv" "AgentPidPath \<noteq> OriginalWorkingDirectoryEnv"
  by (simp_all add: env_consts)

lemma LookupEnv_put [simp]:
  "LookupEnv k (p\<lparr>env := gomap_put k' v (env p)\<rparr>) = (if k = k' then Some v else LookupEnv k p)"
  by (simp add: LookupEnv_def)

lemma LookupEnv_cwd [simp]: "LookupEnv k (p\<lparr>cwd := d\<rparr>) = LookupEnv k p"
  by (simp add: LookupEnv_def)

text \<open>After the setup the workspace and the workdir are exported and the process is in the workdir.\<close>

lemma setupWorkspaceDirectory_env:
  assumes "setupWorkspaceDirectory p = Inr (w, p')"
  shows "LookupEnv WorkspaceEnv p' \<noteq> None" and "cwd p' = cwd p"
  using assms by (auto simp: setupWorkspaceDirectory_def Setenv_def split: option.splits if_splits)

lemma setupWorkdir_env:
  assumes "setupWorkdir w p = Inr (d, p')"
  shows "LookupEnv WorkdirEnv p' = Some d" and "cwd p' = cwd p"
    and "LookupEnv WorkspaceEnv p' = LookupEnv WorkspaceEnv p"
  using assms by (auto simp: setupWorkdir_def Setenv_def Let_def split: option.splits if_splits)

lemma SetupEnvironment_env:
  assumes "SetupEnvironment p = Inr p'"
  shows "LookupEnv WorkspaceEnv p' \<noteq> None" and "LookupEnv WorkdirEnv p' = Some (Workdir p')"
    and "cwd p' = resolve (cwd p) (Workdir p')"
proof -
  obtain o1 p1 w p2 d p3 where
    p1: "Setenv OriginalWorkingDirectoryEnv o1 p = Inr p1" and
    p2: "setupWorkspaceDirectory p1 = Inr (w, p2)" and
    p3: "setupWorkdir w p2 = Inr (d, p3)" and
    p': "p' = p3\<lparr>cwd := resolve (cwd p3) d\<rparr>"
    using assms by (auto simp: SetupEnvironment_def MkdirAll_def Chdir_def split: prod.splits if_splits)
  have "cwd p1 = cwd p" using p1 by (auto simp: Setenv_def split: if_splits)
  with setupWorkspaceDirectory_env [OF p2] setupWorkdir_env [OF p3]
  show "LookupEnv WorkspaceEnv p' \<noteq> None" "LookupEnv WorkdirEnv p' = Some (Workdir p')"
    "cwd p' = resolve (cwd p) (Workdir p')"
    by (simp_all add: p' Workdir_def Getenv_def)
qed

text \<open>A second setup changes nothing but the record of the original directory and the working directory.\<close>

lemma SetupEnvironment_again:
  assumes "SetupEnvironment p1 = Inr p2" and "LookupEnv WorkspaceEnv p1 \<noteq> None"
    and "LookupEnv WorkdirEnv p1 = Some (Workdir p1)"
  shows "p2 = p1\<lparr>env := gomap_put OriginalWorkingDirectoryEnv (cwd p1) (env p1),
      cwd := resolve (cwd p1) (Workdir p1)\<rparr>"
proof -
  let ?q = "p1\<lparr>env := gomap_put OriginalWorkingDirectoryEnv (cwd p1) (env p1)\<rparr>"
  obtain w where w: "LookupEnv WorkspaceEnv p1 = Some w" using assms(2) by auto
  have "setupWorkspaceDirectory ?q = Inr (w, ?q)" "setupWorkdir w ?q = Inr (Workdir p1, ?q)"
    using w assms(3) by (simp_all add: setupWorkspaceDirectory_def setupWorkdir_def)
  with assms(1) show ?thesis
    by (auto simp: SetupEnvironment_def Setenv_def Getwd_def MkdirAll_def Chdir_def split: if_splits)
qed

lemma AgentPaths_env:
  assumes "\<And>k. k \<noteq> OriginalWorkingDirectoryEnv \<Longrightarrow> LookupEnv k p = LookupEnv k q"
  shows "AgentPaths p = AgentPaths q" and "Workdir p = Workdir q"
proof -
  have get: "Getenv k p = Getenv k q" if "k \<noteq> OriginalWorkingDirectoryEnv" for k
    using assms [OF that] by (simp add: Getenv_def)
  have std: "TempDir p = TempDir q" "UserHomeDir p = UserHomeDir q" "UserCacheDir p = UserCacheDir q"
    by (simp_all add: TempDir_def UserHomeDir_def UserCacheDir_def get OriginalWorkingDirectoryEnv_def Let_def)
  have tmp: "tmpDir p = tmpDir q"
    by (simp add: tmpDir_def std assms OriginalWorkingDirectoryEnv_def split: option.split)
  then have dirs: "tmpDir p = tmpDir q" "homeDir p = homeDir q" "cacheDir p = cacheDir q"
    by (simp_all add: homeDir_def cacheDir_def std assms OriginalWorkingDirectoryEnv_def
        split: option.split sum.split)
  have "expand_prefix i p = expand_prefix i q" for i
    by (simp add: expand_prefix_def dirs get)
  then have "expandPath i b p = expandPath i b q" for i b
    by (simp add: expandPath_def)
  then show "AgentPaths p = AgentPaths q"
    by (simp add: AgentPaths_def LookupPathEnv_def assms)
  show "Workdir p = Workdir q" by (simp add: Workdir_def get)
qed

subsection \<open>Properties\<close>

text \<open>(C8) The client sets up its environment and launches the agent, which inherits it and sets up
  its own.  If the workdir of the client is an absolute path, both end in the same directory and derive the same socket
  and lock paths, so the client dials where the agent listens.\<close>

theorem client_and_agent_agree_on_paths:
  assumes "SetupEnvironment p = Inr client" and "SetupEnvironment client = Inr agent"
    and "IsAbs (Workdir client)"
  shows "AgentPaths agent = AgentPaths client \<and> Workdir agent = Workdir client \<and> cwd agent = cwd client"
proof -
  note client = SetupEnvironment_env [OF assms(1)]
  have agent: "agent = client\<lparr>env := gomap_put OriginalWorkingDirectoryEnv (cwd client) (env client),
      cwd := resolve (cwd client) (Workdir client)\<rparr>"
    by (rule SetupEnvironment_again [OF assms(2) client(1,2)])
  have "LookupEnv k agent = LookupEnv k client" if "k \<noteq> OriginalWorkingDirectoryEnv" for k
    using that by (simp add: agent LookupEnv_def)
  note same = AgentPaths_env [OF this]
  have "cwd agent = cwd client" using assms(3) client(3) by (simp add: agent resolve_def)
  with same show ?thesis by simp
qed

definition sample_process :: "string gomap \<Rightarrow> process" where
  "sample_process e = \<lparr>env = e, cwd = ''/ws'', getwd_ok = True, mkdir_ok = (\<lambda>_. True), chdir_ok = (\<lambda>_. True)\<rparr>"

definition sample_client :: "string \<Rightarrow> process" where
  "sample_client wd = (case SetupEnvironment (sample_process [(WorkdirEnv, wd)]) of Inr q \<Rightarrow> q | Inl _ \<Rightarrow> sample_process [])"

definition sample_launched :: "string \<Rightarrow> process" where
  "sample_launched wd = (case SetupEnvironment (sample_client wd) of Inr q \<Rightarrow> q | Inl _ \<Rightarrow> sample_process [])"

lemmas setup_eval = sample_launched_def sample_client_def sample_process_def SetupEnvironment_def
  setupWorkspaceDirectory_def setupWorkdir_def Setenv_def Getwd_def MkdirAll_def Chdir_def LookupEnv_def
  Getenv_def Workdir_def env_consts resolve_def Path_Join_def Clean_def IsAbs_def HasPrefix_def Let_def

lemma sample_setup:
  "SetupEnvironment (sample_process [(WorkdirEnv, ''/wd'')]) = Inr (sample_client ''/wd'')"
  "SetupEnvironment (sample_client ''/wd'') = Inr (sample_launched ''/wd'')"
  "Workdir (sample_client ''/wd'') = ''/wd''"
  by (simp_all add: setup_eval)

theorem client_and_agent_agree_on_paths_witness:
  "AgentPaths (sample_launched ''/wd'') = AgentPaths (sample_client ''/wd'')"
  using client_and_agent_agree_on_paths [OF sample_setup(1,2)] sample_setup(3) by simp

lemma sample_relative:
  "sample_client ''wd'' = (sample_process [(OriginalWorkingDirectoryEnv, ''/ws''), (WorkdirEnv, ''wd''),
     (WorkspaceEnv, ''/ws'')])\<lparr>cwd := ''/ws/wd''\<rparr>"
  "sample_launched ''wd'' = (sample_process [(OriginalWorkingDirectoryEnv, ''/ws/wd''), (WorkdirEnv, ''wd''),
     (WorkspaceEnv, ''/ws'')])\<lparr>cwd := ''/ws/wd/wd''\<rparr>"
proof -
  show client: "sample_client ''wd'' = (sample_process [(OriginalWorkingDirectoryEnv, ''/ws''), (WorkdirEnv, ''wd''),
     (WorkspaceEnv, ''/ws'')])\<lparr>cwd := ''/ws/wd''\<rparr>"
    by (simp add: setup_eval)
  show "sample_launched ''wd'' = (sample_process [(OriginalWorkingDirectoryEnv, ''/ws/wd''), (WorkdirEnv, ''wd''),
     (WorkspaceEnv, ''/ws'')])\<lparr>cwd := ''/ws/wd/wd''\<rparr>"
    unfolding sample_launched_def client
    by (simp add: sample_process_def SetupEnvironment_def setupWorkspaceDirectory_def setupWorkdir_def
        Setenv_def Getwd_def MkdirAll_def Chdir_def LookupEnv_def resolve_def Path_Join_def Clean_def
        IsAbs_def HasPrefix_def Let_def env_consts)
qed

lemma default_socket_path:
  assumes "LookupEnv AgentSocketPath p = None"
  shows "fst (AgentPaths p) = ''run/agent.sock''"
  using assms
  by (simp add: AgentPaths_def LookupPathEnv_def expandPath_def expand_prefix_def PlaceholderWorkdir_def
      TrimPrefix_def HasPrefix_def Path_Join_def Clean_def IsAbs_def Let_def)

text \<open>With a relative workdir they do not agree: the agent enters the workdir below the directory
  the client already entered, and listens at another place than the one the client dials.\<close>

theorem relative_workdir_splits_paths:
  "let client = sample_client ''wd''; agent = sample_launched ''wd''
   in resolve (cwd client) (fst (AgentPaths client)) = ''/ws/wd/run/agent.sock''
    \<and> resolve (cwd agent) (fst (AgentPaths agent)) = ''/ws/wd/wd/run/agent.sock''"
proof -
  have "LookupEnv AgentSocketPath (sample_client ''wd'') = None"
    "LookupEnv AgentSocketPath (sample_launched ''wd'') = None"
    unfolding sample_relative by (simp_all add: sample_process_def LookupEnv_def env_consts)
  then have "fst (AgentPaths (sample_client ''wd'')) = ''run/agent.sock''"
    "fst (AgentPaths (sample_launched ''wd'')) = ''run/agent.sock''" by (simp_all add: default_socket_path)
  moreover have "cwd (sample_client ''wd'') = ''/ws/wd''" "cwd (sample_launched ''wd'') = ''/ws/wd/wd''"
    unfolding sample_relative by simp_all
  ultimately show ?thesis
    by (simp add: resolve_def Path_Join_def Clean_def IsAbs_def HasPrefix_def Let_def)
qed

end
