(* ===== verification/Go_Time.thy ===== *)
theory Go_Time
  imports Go_Strings "HOL-Library.Monad_Syntax"
begin

text \<open>
  The part of Go's package \<open>time\<close> that the program uses.  An instant is its number of
  nanoseconds since 1970-01-01 00:00:00 UTC; the program converts every instant to UTC before
  it prints it, so no zone is kept.  \<open>time_Format\<close> and \<open>time_Parse\<close> are \<open>Format\<close> and \<open>Parse\<close>
  with the layout \<open>time.RFC3339\<close>; \<open>time_Parse_github\<close> is \<open>Parse\<close> with the layout the
  GitHub helper uses.  The main lemma is the round trip: parsing what was printed gives the
  instant truncated to seconds.
\<close>

type_synonym time = int
type_synonym duration = int

definition Second :: duration where "Second = 10 ^ 9"
definition Millisecond :: duration where "Millisecond = 10 ^ 6"
definition Minute :: duration where "Minute = 60 * Second"
definition Hour :: duration where "Hour = 60 * Minute"

text \<open>The zero \<open>time.Time\<close> is 0001-01-01 00:00:00 UTC.\<close>

definition zero_time :: time where
  "zero_time = - 62135596800 * Second"

definition IsZero :: "time \<Rightarrow> bool" where
  "IsZero t \<longleftrightarrow> t = zero_time"

subsection \<open>The calendar\<close>

definition is_leap :: "int \<Rightarrow> bool" where
  "is_leap y \<longleftrightarrow> 4 dvd y \<and> (\<not> 100 dvd y \<or> 400 dvd y)"

definition year_len :: "int \<Rightarrow> int" where
  "year_len y = (if is_leap y then 366 else 365)"

definition month_len :: "int \<Rightarrow> nat \<Rightarrow> int" where
  "month_len y m =
     (if m = 2 then (if is_leap y then 29 else 28)
      else if m \<in> {4, 6, 9, 11} then 30 else 31)"

text \<open>Days from 1970-01-01 to the first day of a year, and from there to the first of a month.\<close>

definition year_start :: "int \<Rightarrow> int" where
  "year_start y =
     365 * (y - 1970) + ((y - 1) div 4 - 492) - ((y - 1) div 100 - 19) + ((y - 1) div 400 - 4)"

definition month_start :: "int \<Rightarrow> nat \<Rightarrow> int" where
  "month_start y m = sum_list (map (month_len y) [1..<m])"

definition unix_days :: "int \<Rightarrow> nat \<Rightarrow> nat \<Rightarrow> int" where
  "unix_days y m d = year_start y + month_start y m + (int d - 1)"

text \<open>The year of a day number, with the day within the year.\<close>

function year_forward :: "int \<Rightarrow> int \<Rightarrow> int \<times> int" where
  "year_forward y d = (if d < year_len y then (y, d) else year_forward (y + 1) (d - year_len y))"
  by pat_completeness auto
termination
  by (relation "measure (\<lambda>(y, d). nat d)") (auto simp: year_len_def split: if_splits)

function year_backward :: "int \<Rightarrow> int \<Rightarrow> int \<times> int" where
  "year_backward y d = (if 0 \<le> d then (y, d) else year_backward (y - 1) (d + year_len (y - 1)))"
  by pat_completeness auto
termination
  by (relation "measure (\<lambda>(y, d). nat (- d))") (auto simp: year_len_def split: if_splits)

declare year_forward.simps [simp del] year_backward.simps [simp del]

definition year_of_day :: "int \<Rightarrow> int \<times> int" where
  "year_of_day d = (if 0 \<le> d then year_forward 1970 d else year_backward 1970 d)"

function month_of_day :: "int \<Rightarrow> nat \<Rightarrow> int \<Rightarrow> nat \<times> int" where
  "month_of_day y m d =
     (if 12 \<le> m \<or> d < month_len y m then (m, d) else month_of_day y (Suc m) (d - month_len y m))"
  by pat_completeness auto
termination
  by (relation "measure (\<lambda>(y, m, d). 12 - m)") auto

declare month_of_day.simps [simp del]

subsection \<open>Format\<close>

definition pad :: "nat \<Rightarrow> nat \<Rightarrow> string" where
  "pad w n = replicate (w - length (utoa n)) (CHR ''0'') @ utoa n"

definition year_text :: "int \<Rightarrow> string" where
  "year_text y = (if y < 0 then CHR ''-'' # pad 4 (nat (- y)) else pad 4 (nat y))"

definition time_Format :: "time \<Rightarrow> string" where
  "time_Format t =
     (let secs = t div Second;
          rem = nat (secs mod 86400);
          (y, yd) = year_of_day (secs div 86400);
          (m, md) = month_of_day y 1 yd
      in year_text y @ ''-'' @ pad 2 m @ ''-'' @ pad 2 (nat md + 1) @ ''T'' @
         pad 2 (rem div 3600) @ '':'' @ pad 2 (rem mod 3600 div 60) @ '':'' @ pad 2 (rem mod 60) @ ''Z'')"

subsection \<open>Parse\<close>

text \<open>\<open>getnum\<close>: one or two digits, or exactly two when \<open>fixed\<close>.\<close>

fun getnum :: "bool \<Rightarrow> string \<Rightarrow> (nat \<times> string) option" where
  "getnum fixed [] = None"
| "getnum fixed [c] = (if is_digit c \<and> \<not> fixed then Some (ord c - 48, []) else None)"
| "getnum fixed (c # d # s) =
     (if \<not> is_digit c then None
      else if \<not> is_digit d then (if fixed then None else Some (ord c - 48, d # s))
      else Some (10 * (ord c - 48) + (ord d - 48), s))"

definition getyear :: "string \<Rightarrow> (nat \<times> string) option" where
  "getyear s =
     (if length s < 4 then None
      else map_option (\<lambda>n. (n, drop 4 s)) (digits_value 0 (take 4 s)))"

definition expect :: "char \<Rightarrow> string \<Rightarrow> string option" where
  "expect c s = (case s of [] \<Rightarrow> None | d # r \<Rightarrow> if d = c then Some r else None)"

text \<open>A space in the layout matches one or more spaces, or the end of the text.\<close>

definition skip_space :: "string \<Rightarrow> string option" where
  "skip_space s =
     (case s of [] \<Rightarrow> Some []
      | d # r \<Rightarrow> if d = CHR '' '' then Some (dropWhile ((=) (CHR '' '')) r) else None)"

definition guard :: "bool \<Rightarrow> unit option" where
  "guard b = (if b then Some () else None)"

definition parse_date :: "string \<Rightarrow> ((int \<times> nat \<times> nat) \<times> string) option" where
  "parse_date s = do {
     (y, s) \<leftarrow> getyear s;
     s \<leftarrow> expect (CHR ''-'') s;
     (m, s) \<leftarrow> getnum True s;
     guard (1 \<le> m \<and> m \<le> 12);
     s \<leftarrow> expect (CHR ''-'') s;
     (d, s) \<leftarrow> getnum True s;
     Some ((int y, m, d), s)
   }"

definition parse_min_sec :: "string \<Rightarrow> ((nat \<times> nat) \<times> string) option" where
  "parse_min_sec s = do {
     s \<leftarrow> expect (CHR '':'') s;
     (mi, s) \<leftarrow> getnum True s;
     guard (mi < 60);
     s \<leftarrow> expect (CHR '':'') s;
     (sec, s) \<leftarrow> getnum True s;
     guard (sec < 60);
     Some ((mi, sec), s)
   }"

text \<open>A fraction of a second after the seconds, which the layouts do not mention.\<close>

definition parse_fraction :: "string \<Rightarrow> int \<times> string" where
  "parse_fraction s =
     (case s of
        c # d # r \<Rightarrow>
          (if (c = CHR ''.'' \<or> c = CHR '','') \<and> is_digit d then
             (let ds = take 9 (takeWhile is_digit (d # r))
              in (case digits_value 0 ds of
                    Some n \<Rightarrow> int n * 10 ^ (9 - length ds)
                  | None \<Rightarrow> 0, dropWhile is_digit (d # r)))
           else (0, s))
      | _ \<Rightarrow> (0, s))"

definition zone_offset :: "char \<Rightarrow> string \<Rightarrow> string \<Rightarrow> int option" where
  "zone_offset sg hh mm = do {
     (h, _) \<leftarrow> getnum True hh;
     (m, _) \<leftarrow> getnum True mm;
     guard (h \<le> 24 \<and> m \<le> 60);
     if sg = CHR ''+'' then Some (int ((h * 60 + m) * 60))
     else if sg = CHR ''-'' then Some (- int ((h * 60 + m) * 60))
     else None
   }"

text \<open>The zone \<open>Z07:00\<close>.\<close>

definition parse_zone_colon :: "string \<Rightarrow> (int \<times> string) option" where
  "parse_zone_colon s =
     (case s of
        [] \<Rightarrow> None
      | c # r \<Rightarrow>
          (if c = CHR ''Z'' then Some (0, r)
           else if length s < 6 \<or> s ! 3 \<noteq> CHR '':'' then None
           else map_option (\<lambda>off. (off, drop 6 s)) (zone_offset c (take 2 (drop 1 s)) (take 2 (drop 4 s)))))"

text \<open>The zone \<open>-0700\<close>.\<close>

definition parse_zone_num :: "string \<Rightarrow> (int \<times> string) option" where
  "parse_zone_num s =
     (case s of
        [] \<Rightarrow> None
      | c # r \<Rightarrow>
          (if length s < 5 then None
           else map_option (\<lambda>off. (off, drop 5 s)) (zone_offset c (take 2 (drop 1 s)) (take 2 (drop 3 s)))))"

definition instant :: "int \<times> nat \<times> nat \<Rightarrow> nat \<Rightarrow> nat \<Rightarrow> nat \<Rightarrow> int \<Rightarrow> int \<Rightarrow> time option" where
  "instant date h mi s nsec off =
     (case date of (y, m, d) \<Rightarrow>
        if 1 \<le> d \<and> int d \<le> month_len y m
        then Some ((unix_days y m d * 86400 + int (h * 3600 + mi * 60 + s) - off) * Second + nsec)
        else None)"

definition time_Parse :: "string \<Rightarrow> time option" where
  "time_Parse s = do {
     (date, s) \<leftarrow> parse_date s;
     s \<leftarrow> expect (CHR ''T'') s;
     (h, s) \<leftarrow> getnum False s;
     guard (h < 24);
     ((mi, sec), s) \<leftarrow> parse_min_sec s;
     let (nsec, s) = parse_fraction s;
     (off, s) \<leftarrow> parse_zone_colon s;
     guard (s = []);
     instant date h mi sec nsec off
   }"

text \<open>
  The layout \<open>2006-01-02 03:04:05 -0700\<close>: \<open>03\<close> is the hour of a twelve-hour clock, so only the
  hours up to 12 are accepted.
\<close>

definition time_Parse_github :: "string \<Rightarrow> time option" where
  "time_Parse_github s = do {
     (date, s) \<leftarrow> parse_date s;
     s \<leftarrow> skip_space s;
     (h, s) \<leftarrow> getnum True s;
     guard (h \<le> 12);
     ((mi, sec), s) \<leftarrow> parse_min_sec s;
     let (nsec, s) = parse_fraction s;
     s \<leftarrow> skip_space s;
     (off, s) \<leftarrow> parse_zone_num s;
     guard (s = []);
     instant date h mi sec nsec off
   }"

text \<open>The facts that evaluate the two functions on closed terms by simplification.\<close>

lemmas time_Parse_eval =
  time_Parse_def parse_date_def parse_min_sec_def parse_fraction_def parse_zone_colon_def
  getyear_def expect_def guard_def instant_def unix_days_def year_start_def month_start_def
  month_len_def is_leap_def is_digit_def ord_def Second_def zone_offset_def upt_conv_Cons

lemmas time_Format_eval =
  time_Format_def Second_def year_of_day_def year_forward.simps year_backward.simps year_len_def
  is_leap_def month_of_day.simps month_len_def year_text_def pad_def utoa.simps char_of_def

subsection \<open>The calendar functions are inverse\<close>

lemma div_pred:
  fixes y k :: int
  assumes k: "0 < k"
  shows "y div k = (y - 1) div k + (if k dvd y then 1 else 0)"
proof -
  define q r where "q = (y - 1) div k" and "r = (y - 1) mod k"
  have y: "y = k * q + (r + 1)" by (simp add: q_def r_def algebra_simps)
  have r: "0 \<le> r" "r < k" using k by (simp_all add: r_def)
  show ?thesis
  proof (cases "r + 1 = k")
    case True
    with y have "y = k * (q + 1)" by (simp add: algebra_simps)
    with k have "y div k = q + 1" and "k dvd y" by simp_all
    then show ?thesis by (simp add: q_def)
  next
    case False
    with r have "0 \<le> r + 1" "r + 1 < k" by simp_all
    with y have "y div k = q" "y mod k = r + 1"
      by (simp_all add: int_div_pos_eq int_mod_pos_eq)
    with r show ?thesis by (simp add: q_def [symmetric] dvd_eq_mod_eq_0)
  qed
qed

lemma year_start_next: "year_start (y + 1) = year_start y + year_len y"
proof -
  have "400 dvd y \<Longrightarrow> 100 dvd y"
    using dvd_trans [of 100 400 y] by simp
  moreover have "100 dvd y \<Longrightarrow> 4 dvd y"
    using dvd_trans [of 4 100 y] by simp
  moreover have "y + 1 - 1 = y" by simp
  moreover obtain a b c where "(y - 1) div 4 = a" "(y - 1) div 100 = b" "(y - 1) div 400 = c"
    by blast
  ultimately show ?thesis
    using div_pred [of 4 y] div_pred [of 100 y] div_pred [of 400 y]
    by (cases "4 dvd y"; cases "100 dvd y"; cases "400 dvd y")
      (simp_all only: year_start_def year_len_def is_leap_def simp_thms if_True if_False, simp_all)
qed

lemma year_len_bounds: "365 \<le> year_len y" "year_len y \<le> 366"
  by (simp_all add: year_len_def)

lemma year_start_mono: "y \<le> y' \<Longrightarrow> year_start y \<le> year_start y'"
proof (induction "nat (y' - y)" arbitrary: y')
  case (Suc n)
  then have "year_start y \<le> year_start (y' - 1)" by simp
  also have "\<dots> \<le> year_start y'"
    using year_start_next [of "y' - 1"] year_len_bounds [of "y' - 1"] by simp
  finally show ?case .
qed simp

lemma year_forward_spec:
  "0 \<le> d \<Longrightarrow> year_forward y d = (y', d') \<Longrightarrow>
     year_start y' + d' = year_start y + d \<and> 0 \<le> d' \<and> d' < year_len y'"
proof (induction y d rule: year_forward.induct)
  case (1 y d)
  show ?case
  proof (cases "d < year_len y")
    case True
    with "1.prems" show ?thesis by (simp add: year_forward.simps [of y d])
  next
    case False
    with "1.prems" have "year_forward (y + 1) (d - year_len y) = (y', d')"
      by (simp add: year_forward.simps [of y d])
    with "1.IH" [OF False] False show ?thesis by (simp add: year_start_next)
  qed
qed

lemma year_backward_spec:
  "d < year_len y \<Longrightarrow> year_backward y d = (y', d') \<Longrightarrow>
     year_start y' + d' = year_start y + d \<and> 0 \<le> d' \<and> d' < year_len y'"
proof (induction y d rule: year_backward.induct)
  case (1 y d)
  show ?case
  proof (cases "0 \<le> d")
    case True
    with "1.prems" show ?thesis by (simp add: year_backward.simps [of y d])
  next
    case False
    with "1.prems" have "year_backward (y - 1) (d + year_len (y - 1)) = (y', d')"
      by (simp add: year_backward.simps [of y d])
    with "1.IH" [OF False] False show ?thesis
      using year_start_next [of "y - 1"] by simp
  qed
qed

lemma year_of_day_spec:
  assumes "year_of_day d = (y, yd)"
  shows "year_start y + yd = d" and "0 \<le> yd" and "yd < year_len y"
proof -
  have "year_start y + yd = d \<and> 0 \<le> yd \<and> yd < year_len y"
  proof (cases "0 \<le> d")
    case True
    with assms year_forward_spec [of d 1970 y yd] show ?thesis
      by (simp add: year_of_day_def) (simp add: year_start_def)
  next
    case False
    with assms year_backward_spec [of d 1970 y yd] year_len_bounds [of 1970] show ?thesis
      by (simp add: year_of_day_def) (simp add: year_start_def)
  qed
  then show "year_start y + yd = d" and "0 \<le> yd" and "yd < year_len y" by simp_all
qed

lemma year_of_day_range:
  assumes "year_of_day d = (y, yd)" and "year_start a \<le> d" and "d < year_start b"
  shows "a \<le> y" and "y < b"
proof -
  note spec = year_of_day_spec [OF assms(1)]
  show "a \<le> y"
  proof (rule ccontr)
    assume "\<not> a \<le> y"
    then have "year_start (y + 1) \<le> year_start a" by (intro year_start_mono) simp
    with spec assms(2) show False by (simp add: year_start_next)
  qed
  show "y < b"
  proof (rule ccontr)
    assume "\<not> y < b"
    then have "year_start b \<le> year_start y" by (intro year_start_mono) simp
    with spec assms(3) show False by simp
  qed
qed

lemma month_start_Suc: "1 \<le> m \<Longrightarrow> month_start y (Suc m) = month_start y m + month_len y m"
  by (simp add: month_start_def)

lemma month_start_12: "month_start y 12 = year_len y - 31"
  by (simp add: month_start_def upt_conv_Cons month_len_def year_len_def)

lemma month_of_day_spec:
  "month_of_day y m d = (m', d') \<Longrightarrow> 0 \<le> d \<Longrightarrow> 1 \<le> m \<Longrightarrow> m \<le> 12 \<Longrightarrow> month_start y m + d < year_len y \<Longrightarrow>
     month_start y m' + d' = month_start y m + d \<and> 1 \<le> m' \<and> m' \<le> 12 \<and> 0 \<le> d' \<and> d' < month_len y m'"
proof (induction y m d rule: month_of_day.induct)
  case (1 y m d)
  show ?case
  proof (cases "12 \<le> m \<or> d < month_len y m")
    case True
    with "1.prems" have eq: "m' = m" "d' = d" by (simp_all add: month_of_day.simps [of y m d])
    have "d < month_len y m"
    proof (cases "m = 12")
      case m12: True
      with "1.prems" have "d < 31" by (simp add: month_start_12)
      then show ?thesis by (simp add: m12 month_len_def)
    next
      case False
      with True "1.prems" show ?thesis by simp
    qed
    with eq "1.prems" show ?thesis by simp
  next
    case False
    with "1.prems" have "month_of_day y (Suc m) (d - month_len y m) = (m', d')"
      by (simp add: month_of_day.simps [of y m d])
    with "1.IH" [OF False] False "1.prems" show ?thesis
      by (simp add: month_start_Suc)
  qed
qed

subsection \<open>Digits\<close>

lemma length_utoa: "n < 10 ^ k \<Longrightarrow> 0 < k \<Longrightarrow> length (utoa n) \<le> k"
proof (induction k arbitrary: n)
  case (Suc k)
  show ?case
  proof (cases "n < 10")
    case True
    then show ?thesis by (subst utoa.simps) simp
  next
    case False
    with Suc.prems have "0 < k" by (cases k) auto
    moreover from Suc.prems have "n div 10 < 10 ^ k" by (simp add: div_less_iff_less_mult mult.commute)
    ultimately have "length (utoa (n div 10)) \<le> k" by (rule Suc.IH [rotated])
    with False show ?thesis by (subst utoa.simps) simp
  qed
qed simp

lemma length_pad: "n < 10 ^ w \<Longrightarrow> 0 < w \<Longrightarrow> length (pad w n) = w"
  using length_utoa [of n w] by (simp add: pad_def)

lemma digits_value_zeros: "digits_value 0 (replicate k (CHR ''0'') @ s) = digits_value 0 s"
  by (induction k) (simp_all add: is_digit_def ord_def)

lemma digits_value_pad: "digits_value 0 (pad w n) = Some n"
  by (simp add: pad_def digits_value_zeros digits_value_utoa)

lemma digits_value_Some_digits: "digits_value a s = Some n \<Longrightarrow> c \<in> set s \<Longrightarrow> is_digit c"
  by (induction s arbitrary: a) (auto split: if_splits)

lemma getnum_pad:
  assumes "n < 100"
  shows "getnum fixed (pad 2 n @ s) = Some (n, s)"
proof -
  have "length (pad 2 n) = 2" using assms by (simp add: length_pad)
  then obtain a b where ab: "pad 2 n = [a, b]"
    by (auto simp: numeral_2_eq_2 length_Suc_conv)
  have v: "digits_value 0 [a, b] = Some n" using digits_value_pad [of 2 n] ab by simp
  then have "is_digit a" "is_digit b"
    using digits_value_Some_digits [OF v] by auto
  with v ab show ?thesis by simp
qed

lemma getyear_pad: "n < 10000 \<Longrightarrow> getyear (pad 4 n @ s) = Some (n, s)"
  using length_pad [of n 4] by (simp add: getyear_def digits_value_pad)

lemma parse_date_text:
  assumes "0 \<le> y" and "y < 10000" and "1 \<le> m" and "m \<le> 12" and "d < 100"
  shows "parse_date (year_text y @ ''-'' @ pad 2 m @ ''-'' @ pad 2 d @ s) = Some ((y, m, d), s)"
  using assms
  by (simp add: parse_date_def year_text_def getyear_pad getnum_pad expect_def guard_def)

subsection \<open>Parsing what was printed\<close>

text \<open>The years 0 to 9999, which \<open>RFC 3339\<close> can express.\<close>

definition rfc3339_range :: "time \<Rightarrow> bool" where
  "rfc3339_range t \<longleftrightarrow> - 62167219200 \<le> t div Second \<and> t div Second < 253402300800"

definition truncate_second :: "time \<Rightarrow> time" where
  "truncate_second t = t div Second * Second"

lemma truncate_second_le: "truncate_second t \<le> t"
  by (simp add: truncate_second_def Second_def flip: minus_mod_eq_div_mult)

lemma truncate_second_gt: "t < truncate_second t + Second"
  by (simp add: truncate_second_def Second_def flip: minus_mod_eq_div_mult)

lemma hms_split: "(r :: nat) div 3600 * 3600 + r mod 3600 div 60 * 60 + r mod 60 = r"
proof -
  have m: "r mod 60 = r mod 3600 mod 60" by (simp add: mod_mod_cancel)
  have a: "r mod 3600 div 60 * 60 + r mod 3600 mod 60 = r mod 3600" by (rule div_mult_mod_eq)
  have b: "r div 3600 * 3600 + r mod 3600 = r" by (rule div_mult_mod_eq)
  show ?thesis by (simp only: m add.assoc a b)
qed

theorem time_Parse_Format [codec_laws]:
  assumes "rfc3339_range t"
  shows "time_Parse (time_Format t) = Some (truncate_second t)"
proof -
  define secs where "secs = t div Second"
  define r where "r = nat (secs mod 86400)"
  obtain y yd where y: "year_of_day (secs div 86400) = (y, yd)" by fastforce
  obtain m md where m: "month_of_day y 1 yd = (m, md)" by fastforce
  note ys = year_of_day_spec [OF y]
  have "- 719528 \<le> secs div 86400" and "secs div 86400 < 2932897"
    using assms unfolding rfc3339_range_def secs_def by linarith+
  moreover have "year_start 0 = - 719528" and "year_start 10000 = 2932897"
    by (simp_all add: year_start_def)
  ultimately have yr: "0 \<le> y" "y < 10000"
    using year_of_day_range [OF y, of 0 10000] by simp_all
  have ms: "month_start y m + md = yd" "1 \<le> m" "m \<le> 12" "0 \<le> md" "md < month_len y m"
    using month_of_day_spec [OF m] ys by (simp_all add: month_start_def)
  have ml: "month_len y m \<le> 31" by (simp add: month_len_def)
  have r: "r < 86400" "int r = secs mod 86400" by (simp_all add: r_def nat_less_iff)
  note hms = hms_split [of r]
  have day: "unix_days y m (nat md + 1) = secs div 86400"
    using ys ms by (simp add: unix_days_def)
  have hl: "r div 3600 < 24" "r mod 3600 div 60 < 60" "r mod 60 < 60"
    using r(1) by (simp_all add: less_mult_imp_div_less)
  let ?rest = "pad 2 (r div 3600) @ '':'' @ pad 2 (r mod 3600 div 60) @ '':'' @ pad 2 (r mod 60) @ ''Z''"
  have date: "parse_date (year_text y @ ''-'' @ pad 2 m @ ''-'' @ pad 2 (nat md + 1) @ ''T'' @ ?rest)
      = Some ((y, m, nat md + 1), ''T'' @ ?rest)"
    by (rule parse_date_text) (use yr ms ml in auto)
  have inst: "instant (y, m, nat md + 1) (r div 3600) (r mod 3600 div 60) (r mod 60) 0 0
      = Some (secs * Second)"
    using ms day hms r(2) by (simp add: instant_def)
  have fmt: "time_Format t = year_text y @ ''-'' @ pad 2 m @ ''-'' @ pad 2 (nat md + 1) @ ''T'' @ ?rest"
    unfolding time_Format_def Let_def secs_def [symmetric] r_def [symmetric] y prod.case m ..
  have "time_Parse (time_Format t) =
      instant (y, m, nat md + 1) (r div 3600) (r mod 3600 div 60) (r mod 60) 0 0"
    unfolding fmt time_Parse_def date
    using hl by (simp add: expect_def getnum_pad guard_def parse_min_sec_def parse_fraction_def
        parse_zone_colon_def)
  also have "\<dots> = Some (truncate_second t)"
    using inst by (simp add: truncate_second_def secs_def)
  finally show ?thesis .
qed

lemma time_Format_nonempty [simp]: "time_Format t \<noteq> []"
  by (simp add: time_Format_def Let_def split: prod.splits)

end
