(* ===== verification/Go_Url.thy ===== *)
theory Go_Url
  imports Go_Strings "HOL-Library.List_Lexorder" "HOL-Library.Char_ord"
begin

text \<open>
  The part of Go's package \<open>net/url\<close> that the program uses: \<open>Parse\<close>, \<open>URL.String\<close>,
  \<open>URL.Hostname\<close>, \<open>URL.Port\<close>, \<open>URL.Query\<close> and \<open>Values\<close>.  The definitions follow the
  standard library's own structure (escaping modes, authority and host parsing).  The lemmas
  compute \<open>Parse\<close> and \<open>String\<close> on URLs of the plain form \<open>scheme://host/path\<close>, and show that
  query escaping can be undone.
\<close>

datatype encoding =
    encodePath | encodeHost | encodeZone | encodeUserPassword | encodeQueryComponent | encodeFragment

record url =
  Scheme :: string
  Opaque :: string
  User :: "(string \<times> string option) option"
  Host :: string
  Path :: string
  RawPath :: string
  OmitHost :: bool
  ForceQuery :: bool
  RawQuery :: string
  Fragment :: string
  RawFragment :: string

definition empty_url :: url where
  "empty_url = \<lparr>Scheme = [], Opaque = [], User = None, Host = [], Path = [], RawPath = [],
     OmitHost = False, ForceQuery = False, RawQuery = [], Fragment = [], RawFragment = []\<rparr>"

subsection \<open>Escaping\<close>

definition is_alnum :: "char \<Rightarrow> bool" where
  "is_alnum c \<longleftrightarrow> is_lower c \<or> is_upper c \<or> is_digit c"

definition is_hex :: "char \<Rightarrow> bool" where
  "is_hex c \<longleftrightarrow> is_digit c \<or> (97 \<le> ord c \<and> ord c \<le> 102) \<or> (65 \<le> ord c \<and> ord c \<le> 70)"

definition unhex :: "char \<Rightarrow> nat" where
  "unhex c = (if is_digit c then ord c - 48 else if 97 \<le> ord c then ord c - 87 else ord c - 55)"

definition upper_hex :: "nat \<Rightarrow> char" where
  "upper_hex n = (if n < 10 then char_of (48 + n) else char_of (55 + n))"

definition shouldEscape :: "encoding \<Rightarrow> char \<Rightarrow> bool" where
  "shouldEscape mode c =
     (if is_alnum c then False
      else if (mode = encodeHost \<or> mode = encodeZone) \<and>
          c \<in> set (CHR 0x27 # CHR 0x22 # ''!$&()*+,;=:[]<>'') then False
      else if c \<in> set ''-_.~'' then False
      else if c \<in> set ''$&+,/:;=?@'' then
        (case mode of
           encodePath \<Rightarrow> c = CHR ''?''
         | encodeUserPassword \<Rightarrow> c \<in> set ''@/?:''
         | encodeQueryComponent \<Rightarrow> True
         | encodeFragment \<Rightarrow> False
         | _ \<Rightarrow> True)
      else if mode = encodeFragment \<and> c \<in> set ''!()*'' then False
      else True)"

definition escape_char :: "encoding \<Rightarrow> char \<Rightarrow> string" where
  "escape_char mode c =
     (if shouldEscape mode c then
        (if c = CHR '' '' \<and> mode = encodeQueryComponent then ''+''
         else [CHR ''%'', upper_hex (ord c div 16), upper_hex (ord c mod 16)])
      else [c])"

definition escape :: "encoding \<Rightarrow> string \<Rightarrow> string" where
  "escape mode s = concat (map (escape_char mode) s)"

definition escape_error :: "string \<Rightarrow> goerr" where
  "escape_error s = ErrorString (''invalid URL escape '' @ Quote (take 3 s))"

definition bad_escape :: "encoding \<Rightarrow> char \<Rightarrow> char \<Rightarrow> bool" where
  "bad_escape mode a b \<longleftrightarrow>
     (mode = encodeHost \<and> unhex a < 8 \<and> \<not> (a = CHR ''2'' \<and> b = CHR ''5'')) \<or>
     (mode = encodeZone \<and> \<not> (a = CHR ''2'' \<and> b = CHR ''5'') \<and>
        char_of (16 * unhex a + unhex b) \<noteq> CHR '' '' \<and>
        shouldEscape encodeHost (char_of (16 * unhex a + unhex b)))"

fun unescape :: "encoding \<Rightarrow> string \<Rightarrow> string result" where
  "unescape mode [] = Inr []"
| "unescape mode (c # s) =
     (if c = CHR ''%'' then
        (case s of
           a # b # rest \<Rightarrow>
             (if is_hex a \<and> is_hex b \<and> \<not> bad_escape mode a b
              then map_sum id ((#) (char_of (16 * unhex a + unhex b))) (unescape mode rest)
              else Inl (escape_error (c # s)))
         | _ \<Rightarrow> Inl (escape_error (c # s)))
      else if c = CHR ''+'' \<and> mode = encodeQueryComponent
        then map_sum id ((#) (CHR '' '')) (unescape mode s)
      else if (mode = encodeHost \<or> mode = encodeZone) \<and> ord c < 128 \<and> shouldEscape mode c
        then Inl (ErrorString (''invalid character '' @ Quote [c] @ '' in host name''))
      else map_sum id ((#) c) (unescape mode s))"

subsection \<open>Authority\<close>

definition validOptionalPort :: "string \<Rightarrow> bool" where
  "validOptionalPort p \<longleftrightarrow> p = [] \<or> (hd p = CHR '':'' \<and> list_all is_digit (tl p))"

definition invalid_port :: "string \<Rightarrow> goerr" where
  "invalid_port p = Errorf ''invalid port %q after host'' [p]"

text \<open>\<open>strings.Index(s, "%25")\<close> as a cut: the text before the first \<open>%25\<close> and the rest.\<close>

fun cut_zone :: "string \<Rightarrow> (string \<times> string) option" where
  "cut_zone [] = None"
| "cut_zone (x # xs) =
     (if HasPrefix (x # xs) ''%25'' then Some ([], x # xs)
      else map_option (\<lambda>(b, a). (x # b, a)) (cut_zone xs))"

definition parseHost :: "string \<Rightarrow> string result" where
  "parseHost host =
     (if HasPrefix host ''['' then
        (case LastCut (CHR '']'') host of
           None \<Rightarrow> Inl (ErrorString ''missing ']' in host'')
         | Some (pre, colonPort) \<Rightarrow>
             (if \<not> validOptionalPort colonPort then Inl (invalid_port colonPort)
              else case cut_zone pre of
                  None \<Rightarrow> unescape encodeHost host
                | Some (h1, h2) \<Rightarrow>
                    bind_result (unescape encodeHost h1) (\<lambda>host1.
                    bind_result (unescape encodeZone h2) (\<lambda>host2.
                    bind_result (unescape encodeHost (CHR '']'' # colonPort)) (\<lambda>host3.
                      Inr (host1 @ host2 @ host3))))))
      else
        (case LastCut (CHR '':'') host of
           None \<Rightarrow> unescape encodeHost host
         | Some (_, port) \<Rightarrow>
             (if \<not> validOptionalPort (CHR '':'' # port) then Inl (invalid_port (CHR '':'' # port))
              else unescape encodeHost host)))"

definition validUserinfo :: "string \<Rightarrow> bool" where
  "validUserinfo s \<longleftrightarrow>
     list_all (\<lambda>c. is_alnum c \<or> c \<in> set (CHR 0x27 # ''-._:~!$&()*+,;=%@'')) s"

definition parseUserinfo :: "string \<Rightarrow> (string \<times> string option) result" where
  "parseUserinfo ui =
     (if \<not> validUserinfo ui then Inl (ErrorString ''net/url: invalid userinfo'')
      else case Cut (CHR '':'') ui of (name, pw, ok) \<Rightarrow>
        (if \<not> ok
         then bind_result (unescape encodeUserPassword ui) (\<lambda>n. Inr (n, None))
         else
           bind_result (unescape encodeUserPassword name) (\<lambda>n.
           bind_result (unescape encodeUserPassword pw) (\<lambda>p. Inr (n, Some p)))))"

definition parseAuthority :: "string \<Rightarrow> ((string \<times> string option) option \<times> string) result" where
  "parseAuthority authority =
     (case LastCut (CHR ''@'') authority of
        None \<Rightarrow> bind_result (parseHost authority) (\<lambda>h. Inr (None, h))
      | Some (ui, hostpart) \<Rightarrow>
          bind_result (parseHost hostpart) (\<lambda>h.
          bind_result (parseUserinfo ui) (\<lambda>u. Inr (Some u, h))))"

subsection \<open>Parse\<close>

text \<open>\<open>getScheme\<close>: \<open>i\<close> is the number of characters already read.\<close>

fun getScheme_loop :: "string \<Rightarrow> string \<Rightarrow> string \<Rightarrow> (string \<times> string) result" where
  "getScheme_loop raw acc [] = Inr ([], raw)"
| "getScheme_loop raw acc (c # cs) =
     (if is_lower c \<or> is_upper c then getScheme_loop raw (acc @ [c]) cs
      else if is_digit c \<or> c \<in> set ''+-.'' then
        (if acc = [] then Inr ([], raw) else getScheme_loop raw (acc @ [c]) cs)
      else if c = CHR '':'' then
        (if acc = [] then Inl (ErrorString ''missing protocol scheme'') else Inr (acc, cs))
      else Inr ([], raw))"

definition getScheme :: "string \<Rightarrow> (string \<times> string) result" where
  "getScheme raw = getScheme_loop raw [] raw"

definition is_ctl :: "char \<Rightarrow> bool" where
  "is_ctl c \<longleftrightarrow> ord c < 32 \<or> ord c = 127"

definition setPath :: "string \<Rightarrow> url \<Rightarrow> url result" where
  "setPath p u =
     bind_result (unescape encodePath p) (\<lambda>path.
       Inr (u\<lparr>Path := path, RawPath := (if p = escape encodePath path then [] else p)\<rparr>))"

definition setFragment :: "string \<Rightarrow> url \<Rightarrow> url result" where
  "setFragment f u =
     bind_result (unescape encodeFragment f) (\<lambda>frag.
       Inr (u\<lparr>Fragment := frag, RawFragment := (if f = escape encodeFragment frag then [] else f)\<rparr>))"

definition cut_query :: "string \<Rightarrow> string \<times> string \<times> bool" where
  "cut_query rest =
     (if HasSuffix rest ''?'' \<and> length (filter ((=) (CHR ''?'')) rest) = 1
      then (butlast rest, [], True)
      else case Cut (CHR ''?'') rest of (r, q, _) \<Rightarrow> (r, q, False))"

definition cut_authority :: "string \<Rightarrow> string \<times> string" where
  "cut_authority s =
     (case Cut (CHR ''/'') s of (a, r, ok) \<Rightarrow> if ok then (a, CHR ''/'' # r) else (s, []))"

definition parse_rest :: "url \<Rightarrow> string \<Rightarrow> url result" where
  "parse_rest u rest =
     (if \<not> HasPrefix rest ''/'' \<and> Scheme u \<noteq> [] then Inr (u\<lparr>Opaque := rest\<rparr>)
      else if \<not> HasPrefix rest ''/'' \<and> CHR '':'' \<in> set (fst (Cut (CHR ''/'') rest))
        then Inl (ErrorString ''first path segment in URL cannot contain colon'')
      else if (Scheme u \<noteq> [] \<or> \<not> HasPrefix rest ''///'') \<and> HasPrefix rest ''//'' then
        (case cut_authority (drop 2 rest) of (authority, path) \<Rightarrow>
           bind_result (parseAuthority authority) (\<lambda>(user, host).
             setPath path (u\<lparr>User := user, Host := host\<rparr>)))
      else setPath rest (u\<lparr>OmitHost := (Scheme u \<noteq> [] \<and> HasPrefix rest ''/'')\<rparr>))"

definition parse :: "string \<Rightarrow> url result" where
  "parse raw =
     (if list_ex is_ctl raw then Inl (ErrorString ''net/url: invalid control character in URL'')
      else if raw = ''*'' then Inr (empty_url\<lparr>Path := ''*''\<rparr>)
      else bind_result (getScheme raw) (\<lambda>(scheme, rest).
        case cut_query rest of (r, q, force) \<Rightarrow>
          parse_rest (empty_url\<lparr>Scheme := ToLower scheme, ForceQuery := force, RawQuery := q\<rparr>) r))"

definition Parse :: "string \<Rightarrow> url result" where
  "Parse raw =
     (case Cut (CHR ''#'') raw of (s, frag, _) \<Rightarrow>
        case parse s of
          Inl e \<Rightarrow> Inl (WrapError (''parse '' @ Quote s) e)
        | Inr u \<Rightarrow>
            (if frag = [] then Inr u
             else case setFragment frag u of
                 Inl e \<Rightarrow> Inl (WrapError (''parse '' @ Quote raw) e)
               | Inr u' \<Rightarrow> Inr u'))"

subsection \<open>Accessors and printing\<close>

definition splitHostPort :: "string \<Rightarrow> string \<times> string" where
  "splitHostPort hp =
     (let (h, p) = (case LastCut (CHR '':'') hp of
            None \<Rightarrow> (hp, [])
          | Some (b, a) \<Rightarrow> if validOptionalPort (CHR '':'' # a) then (b, a) else (hp, []))
      in if HasPrefix h ''['' \<and> HasSuffix h '']'' then (butlast (tl h), p) else (h, p))"

definition Hostname :: "url \<Rightarrow> string" where
  "Hostname u = fst (splitHostPort (Host u))"

definition Port :: "url \<Rightarrow> string" where
  "Port u = snd (splitHostPort (Host u))"

definition validEncoded :: "encoding \<Rightarrow> string \<Rightarrow> bool" where
  "validEncoded mode s \<longleftrightarrow>
     list_all (\<lambda>c. c \<in> set (CHR 0x27 # ''!$&()*+,;=:@[]%'') \<or> \<not> shouldEscape mode c) s"

definition EscapedPath :: "url \<Rightarrow> string" where
  "EscapedPath u =
     (if RawPath u \<noteq> [] \<and> validEncoded encodePath (RawPath u)
         \<and> unescape encodePath (RawPath u) = Inr (Path u) then RawPath u
      else if Path u = ''*'' then ''*''
      else escape encodePath (Path u))"

definition EscapedFragment :: "url \<Rightarrow> string" where
  "EscapedFragment u =
     (if RawFragment u \<noteq> [] \<and> validEncoded encodeFragment (RawFragment u)
         \<and> unescape encodeFragment (RawFragment u) = Inr (Fragment u) then RawFragment u
      else escape encodeFragment (Fragment u))"

definition userinfo_string :: "(string \<times> string option) \<Rightarrow> string" where
  "userinfo_string ui =
     (case ui of (n, p) \<Rightarrow>
        escape encodeUserPassword n @
        (case p of None \<Rightarrow> [] | Some pw \<Rightarrow> CHR '':'' # escape encodeUserPassword pw))"

definition authority_string :: "url \<Rightarrow> string" where
  "authority_string u =
     (if Scheme u \<noteq> [] \<or> Host u \<noteq> [] \<or> User u \<noteq> None then
        (if OmitHost u \<and> Host u = [] \<and> User u = None then []
         else
           (if Host u \<noteq> [] \<or> Path u \<noteq> [] \<or> User u \<noteq> None then ''//'' else []) @
           (case User u of None \<Rightarrow> [] | Some ui \<Rightarrow> userinfo_string ui @ ''@'') @
           escape encodeHost (Host u))
      else [])"

definition path_string :: "url \<Rightarrow> string" where
  "path_string u =
     (let path = EscapedPath u;
          pre = (if Scheme u \<noteq> [] then Scheme u @ '':'' else []) @ authority_string u
      in (if path \<noteq> [] \<and> hd path \<noteq> CHR ''/'' \<and> Host u \<noteq> [] then ''/'' else []) @
         (if pre = [] \<and> (path = [] \<or> hd path = CHR ''/'' \<or> Host u = [])
             \<and> CHR '':'' \<in> set (fst (Cut (CHR ''/'') path)) then ''./'' else []) @
         path)"

definition URLString :: "url \<Rightarrow> string" where
  "URLString u =
     (if Scheme u \<noteq> [] then Scheme u @ '':'' else []) @
     (if Opaque u \<noteq> [] then Opaque u else authority_string u @ path_string u) @
     (if ForceQuery u \<or> RawQuery u \<noteq> [] then CHR ''?'' # RawQuery u else []) @
     (if Fragment u \<noteq> [] then CHR ''#'' # EscapedFragment u else [])"

subsection \<open>Query values\<close>

type_synonym url_values = "(string \<times> string list) list"

definition values_add :: "string \<Rightarrow> string \<Rightarrow> url_values \<Rightarrow> url_values" where
  "values_add k v m =
     (case map_of m k of
        None \<Rightarrow> m @ [(k, [v])]
      | Some _ \<Rightarrow> map (\<lambda>(k', vs). if k' = k then (k', vs @ [v]) else (k', vs)) m)"

definition values_set :: "string \<Rightarrow> string \<Rightarrow> url_values \<Rightarrow> url_values" where
  "values_set k v m = filter (\<lambda>(k', _). k' \<noteq> k) m @ [(k, [v])]"

definition parse_pair :: "string \<Rightarrow> url_values \<Rightarrow> url_values" where
  "parse_pair kv m =
     (if CHR '';'' \<in> set kv \<or> kv = [] then m
      else case Cut (CHR ''='') kv of (k, v, _) \<Rightarrow>
        (case unescape encodeQueryComponent k of
           Inl _ \<Rightarrow> m
         | Inr k' \<Rightarrow>
             (case unescape encodeQueryComponent v of
                Inl _ \<Rightarrow> m
              | Inr v' \<Rightarrow> values_add k' v' m)))"

definition Query :: "url \<Rightarrow> url_values" where
  "Query u = fold parse_pair (Split (CHR ''&'') (RawQuery u)) []"

definition values_has :: "string \<Rightarrow> url_values \<Rightarrow> bool" where
  "values_has k m \<longleftrightarrow> map_of m k \<noteq> None"

definition QueryEscape :: "string \<Rightarrow> string" where
  "QueryEscape s = escape encodeQueryComponent s"

definition values_encode :: "url_values \<Rightarrow> string" where
  "values_encode m =
     Join (concat (map (\<lambda>(k, vs). map (\<lambda>v. QueryEscape k @ CHR ''='' # QueryEscape v) vs)
             (sort_key fst m))) ''&''"

subsection \<open>URLs in plain form\<close>

text \<open>
  Hosts made of letters, digits and \<open>-._~\<close>, and paths that may also hold \<open>/\<close>, \<open>:\<close>, \<open>=\<close> and
  \<open>@\<close>, are parsed without any unescaping.
\<close>

definition plain_char :: "char \<Rightarrow> bool" where
  "plain_char c \<longleftrightarrow> is_alnum c \<or> c \<in> set ''-._~''"

definition path_char :: "char \<Rightarrow> bool" where
  "path_char c \<longleftrightarrow> plain_char c \<or> c \<in> set ''/:=@''"

definition plain_host :: "string \<Rightarrow> bool" where
  "plain_host h \<longleftrightarrow> h \<noteq> [] \<and> list_all plain_char h"

definition plain_path :: "string \<Rightarrow> bool" where
  "plain_path p \<longleftrightarrow> list_all path_char p"

definition plain_scheme :: "string \<Rightarrow> bool" where
  "plain_scheme s \<longleftrightarrow> s \<noteq> [] \<and> list_all is_lower s"

lemmas char_class_defs =
  plain_char_def path_char_def is_alnum_def is_lower_def is_upper_def is_digit_def is_ctl_def ord_def

lemma plain_char_not_special:
  assumes "plain_char c"
  shows "c \<noteq> CHR ''%'' \<and> c \<noteq> CHR ''+'' \<and> c \<noteq> CHR ''#'' \<and> c \<noteq> CHR ''?'' \<and> c \<noteq> CHR ''/''
    \<and> c \<noteq> CHR '':'' \<and> c \<noteq> CHR ''@'' \<and> c \<noteq> CHR ''['' \<and> \<not> is_ctl c"
  using assms by (auto simp: char_class_defs)

lemma path_char_not_special:
  assumes "path_char c"
  shows "c \<noteq> CHR ''%'' \<and> c \<noteq> CHR ''+'' \<and> c \<noteq> CHR ''#'' \<and> c \<noteq> CHR ''?'' \<and> \<not> is_ctl c"
  using assms by (auto simp: char_class_defs)

lemma plain_char_path_char: "plain_char c \<Longrightarrow> path_char c"
  by (simp add: path_char_def)

lemma shouldEscape_plain_char:
  assumes "plain_char c"
  shows "\<not> shouldEscape mode c"
proof (cases "is_alnum c")
  case True
  then show ?thesis by (simp add: shouldEscape_def)
next
  case False
  with assms have mem: "(c \<in> set ''-_.~'') = True" by (auto simp: plain_char_def)
  show ?thesis by (simp only: shouldEscape_def mem if_True if_cancel simp_thms)
qed

lemma shouldEscape_path_char: "path_char c \<Longrightarrow> \<not> shouldEscape encodePath c"
  by (auto simp: shouldEscape_plain_char path_char_def)
    (simp_all add: shouldEscape_def char_class_defs)

lemma unescape_clean:
  "\<forall>c\<in>set s. c \<noteq> CHR ''%'' \<and> c \<noteq> CHR ''+'' \<and> \<not> shouldEscape mode c \<Longrightarrow> unescape mode s = Inr s"
  by (induction s) auto

lemma escape_clean: "\<forall>c\<in>set s. \<not> shouldEscape mode c \<Longrightarrow> escape mode s = s"
  by (induction s) (auto simp: escape_def escape_char_def)

lemma unescape_plain_host: "plain_host h \<Longrightarrow> unescape encodeHost h = Inr h"
  by (rule unescape_clean)
    (auto simp: plain_host_def list_all_iff shouldEscape_plain_char dest: plain_char_not_special)

lemma unescape_plain_path: "plain_path p \<Longrightarrow> unescape encodePath p = Inr p"
  by (rule unescape_clean)
    (auto simp: plain_path_def list_all_iff shouldEscape_path_char dest: path_char_not_special)

lemma escape_plain_path: "plain_path p \<Longrightarrow> escape encodePath p = p"
  by (rule escape_clean) (auto simp: plain_path_def list_all_iff shouldEscape_path_char)

lemma plain_host_no_special:
  "plain_host h \<Longrightarrow> CHR '':'' \<notin> set h \<and> CHR ''@'' \<notin> set h \<and> CHR ''/'' \<notin> set h
     \<and> CHR ''#'' \<notin> set h \<and> CHR ''?'' \<notin> set h \<and> \<not> HasPrefix h ''[''"
  by (cases h) (auto simp: plain_host_def list_all_iff HasPrefix_def dest: plain_char_not_special)

lemma parseHost_plain: "plain_host h \<Longrightarrow> parseHost h = Inr h"
  using plain_host_no_special [of h]
  by (simp add: parseHost_def LastCut_None unescape_plain_host)

lemma getScheme_loop_lower:
  "list_all is_lower s \<Longrightarrow> getScheme_loop raw acc (s @ t) = getScheme_loop raw (acc @ s) t"
  by (induction s arbitrary: acc) auto

lemma getScheme_plain: "plain_scheme s \<Longrightarrow> getScheme (s @ CHR '':'' # t) = Inr (s, t)"
  by (simp add: getScheme_def plain_scheme_def getScheme_loop_lower)
    (simp add: is_lower_def is_upper_def is_digit_def ord_def)

lemma lower_is_lower: "is_lower c \<Longrightarrow> lower c = c"
  by (auto simp: lower_def char_class_defs)

lemma ToLower_lower: "list_all is_lower s \<Longrightarrow> ToLower s = s"
  by (induction s rule: ToLower.induct) (auto simp: lower_is_lower, auto simp: is_lower_def ord_def)

lemma cut_query_none: "CHR ''?'' \<notin> set r \<Longrightarrow> cut_query r = (r, [], False)"
proof -
  assume r: "CHR ''?'' \<notin> set r"
  then have "\<not> HasSuffix r ''?''" by (auto simp: HasSuffix_iff)
  with r show ?thesis by (simp add: cut_query_def Cut_no_sep)
qed

lemma parse_rest_plain:
  assumes "plain_host h" and "plain_path p" and "Scheme u \<noteq> []"
  shows "parse_rest u (''//'' @ h @ CHR ''/'' # p) =
    Inr (u\<lparr>User := None, Host := h, Path := CHR ''/'' # p, RawPath := []\<rparr>)"
proof -
  have p: "plain_path (CHR ''/'' # p)"
    using assms(2) by (simp add: plain_path_def path_char_def)
  show ?thesis
    using assms plain_host_no_special [OF assms(1)] unescape_plain_path [OF p] escape_plain_path [OF p]
    by (simp add: parse_rest_def HasPrefix_def cut_authority_def Cut_append parseAuthority_def
        LastCut_None parseHost_plain setPath_def)
qed

definition plain_url :: "string \<Rightarrow> string \<Rightarrow> string \<Rightarrow> url" where
  "plain_url s h p = empty_url\<lparr>Scheme := s, Host := h, Path := p\<rparr>"

lemma plain_url_sel [simp]:
  "Scheme (plain_url s h p) = s" "Host (plain_url s h p) = h" "Path (plain_url s h p) = p"
  "RawQuery (plain_url s h p) = []"
  by (simp_all add: plain_url_def empty_url_def)

lemma Parse_plain:
  assumes s: "plain_scheme s" and h: "plain_host h" and p: "plain_path p"
  shows "Parse (s @ ''://'' @ h @ CHR ''/'' # p) = Inr (plain_url s h (CHR ''/'' # p))"
proof -
  let ?raw = "s @ ''://'' @ h @ CHR ''/'' # p"
  have sc: "c \<in> set s \<Longrightarrow> c \<noteq> CHR ''#'' \<and> \<not> is_ctl c" for c
    using s by (auto simp: plain_scheme_def list_all_iff is_lower_def is_ctl_def ord_def)
  have hc: "c \<in> set h \<Longrightarrow> c \<noteq> CHR ''#'' \<and> c \<noteq> CHR ''?'' \<and> \<not> is_ctl c" for c
    using h by (auto simp: plain_host_def list_all_iff dest: plain_char_not_special)
  have pc: "c \<in> set p \<Longrightarrow> c \<noteq> CHR ''#'' \<and> c \<noteq> CHR ''?'' \<and> \<not> is_ctl c" for c
    using p by (auto simp: plain_path_def list_all_iff dest: path_char_not_special)
  have hash: "CHR ''#'' \<notin> set ?raw" using sc hc pc by auto
  have query: "CHR ''?'' \<notin> set (''//'' @ h @ CHR ''/'' # p)" using hc pc by auto
  have ctl: "\<not> list_ex is_ctl ?raw"
    using sc hc pc by (auto simp: list_ex_iff) (simp_all add: is_ctl_def ord_def)
  have star: "?raw \<noteq> ''*''" by (cases s) auto
  have gs: "getScheme ?raw = Inr (s, ''//'' @ h @ CHR ''/'' # p)"
    using getScheme_plain [OF s, of "''//'' @ h @ CHR ''/'' # p"] by simp
  have low: "ToLower s = s" and ne: "s \<noteq> []"
    using s by (simp_all add: plain_scheme_def ToLower_lower)
  have "parse ?raw =
      parse_rest (empty_url\<lparr>Scheme := s, ForceQuery := False, RawQuery := []\<rparr>)
        (''//'' @ h @ CHR ''/'' # p)"
    by (simp only: parse_def ctl star gs low cut_query_none [OF query] if_False sum.case prod.case)
  also have "\<dots> = Inr (plain_url s h (CHR ''/'' # p))"
    using ne by (subst parse_rest_plain [OF h p]) (simp_all add: plain_url_def empty_url_def)
  finally have "parse ?raw = Inr (plain_url s h (CHR ''/'' # p))" .
  then show ?thesis
    unfolding Parse_def Cut_no_sep [OF hash] by simp
qed

lemma splitHostPort_plain: "plain_host h \<Longrightarrow> splitHostPort h = (h, [])"
  using plain_host_no_special [of h] by (simp add: splitHostPort_def LastCut_None)

lemma Hostname_plain: "plain_host (Host u) \<Longrightarrow> Hostname u = Host u"
  by (simp add: Hostname_def splitHostPort_plain)

lemma Port_plain: "plain_host (Host u) \<Longrightarrow> Port u = []"
  by (simp add: Port_def splitHostPort_plain)

lemma Query_empty: "RawQuery u = [] \<Longrightarrow> Query u = []"
  by (simp add: Query_def parse_pair_def)

subsection \<open>Printing\<close>

lemma URLString_plain:
  assumes "plain_scheme s" and "plain_host h" and "plain_path p"
  shows "URLString (plain_url s h (CHR ''/'' # p)) = s @ ''://'' @ h @ CHR ''/'' # p"
proof -
  have "escape encodeHost h = h"
    using assms(2) by (intro escape_clean) (auto simp: plain_host_def list_all_iff shouldEscape_plain_char)
  moreover have "plain_path (CHR ''/'' # p)" using assms(3) by (simp add: plain_path_def path_char_def)
  then have "escape encodePath (CHR ''/'' # p) = CHR ''/'' # p" by (rule escape_plain_path)
  moreover have "s \<noteq> []" "h \<noteq> []" using assms by (simp_all add: plain_scheme_def plain_host_def)
  ultimately show ?thesis
    by (simp add: URLString_def authority_string_def path_string_def EscapedPath_def plain_url_def
        empty_url_def Let_def)
qed

lemma plain_text_inject:
  assumes "plain_scheme s" "plain_scheme s'" "plain_host h" "plain_host h'"
    and "s @ ''://'' @ h @ CHR ''/'' # p = s' @ ''://'' @ h' @ CHR ''/'' # p'"
  shows "s = s' \<and> h = h' \<and> p = p'"
proof -
  have colon: "CHR '':'' \<notin> set s" "CHR '':'' \<notin> set s'"
    using assms(1,2) by (auto simp: plain_scheme_def list_all_iff is_lower_def ord_def)
  have slash: "CHR ''/'' \<notin> set h" "CHR ''/'' \<notin> set h'"
    using assms(3,4) by (auto simp: plain_host_def list_all_iff dest: plain_char_not_special)
  have "Cut (CHR '':'') (s @ CHR '':'' # ''//'' @ h @ CHR ''/'' # p) =
      Cut (CHR '':'') (s' @ CHR '':'' # ''//'' @ h' @ CHR ''/'' # p')" using assms(5) by simp
  then have eq: "s = s'" "h @ CHR ''/'' # p = h' @ CHR ''/'' # p'"
    using colon by (simp_all add: Cut_append)
  have "h = h' \<and> p = p'"
    using arg_cong [OF eq(2), of "Cut (CHR ''/'')"] slash by (simp add: Cut_append)
  with eq(1) show ?thesis by simp
qed

lemma upper_hex_digit: "n < 16 \<Longrightarrow> is_hex (upper_hex n) \<and> unhex (upper_hex n) = n"
proof -
  assume "n < 16"
  moreover have "ord (CHR ''0'') = 48" "ord (CHR ''9'') = 57" by (simp_all add: ord_def)
  ultimately show ?thesis by (auto simp: upper_hex_def is_hex_def unhex_def is_digit_def)
qed

lemma unescape_escape_query [codec_laws]: "unescape encodeQueryComponent (escape encodeQueryComponent s) = Inr s"
proof (induction s)
  case (Cons c s)
  have hex: "is_hex (upper_hex (ord c div 16))" "is_hex (upper_hex (ord c mod 16))"
    "unhex (upper_hex (ord c div 16)) = ord c div 16" "unhex (upper_hex (ord c mod 16)) = ord c mod 16"
    using upper_hex_digit [of "ord c div 16"] upper_hex_digit [of "ord c mod 16"] ord_less [of c] by auto
  have whole: "16 * (ord c div 16) + ord c mod 16 = ord c" by simp
  have "shouldEscape encodeQueryComponent (CHR ''%'')" "shouldEscape encodeQueryComponent (CHR ''+'')"
    by (simp_all add: shouldEscape_def char_class_defs)
  then have plain: "c \<noteq> CHR ''%'' \<and> c \<noteq> CHR ''+''" if "\<not> shouldEscape encodeQueryComponent c" using that by auto
  show ?case
    using Cons hex plain whole
    by (auto simp: escape_def escape_char_def bad_escape_def ord_def)
qed (simp add: escape_def)

lemma QueryEscape_inject: "QueryEscape s = QueryEscape t \<Longrightarrow> s = t"
  unfolding QueryEscape_def by (metis sum.inject(2) unescape_escape_query)

text \<open>Escaping is a prefix code, so it is injective in every mode.\<close>

lemma shouldEscape_percent: "shouldEscape mode (CHR ''%'')"
  by (simp add: shouldEscape_def char_class_defs)

lemma upper_hex_inject: "m < 16 \<Longrightarrow> n < 16 \<Longrightarrow> upper_hex m = upper_hex n \<Longrightarrow> m = n"
  by (metis upper_hex_digit)

lemma escape_char_prefix_code:
  assumes "escape_char mode a @ x = escape_char mode b @ y"
  shows "a = b \<and> x = y"
proof -
  have ab: "ord a div 16 < 16" "ord b div 16 < 16" using ord_less [of a] ord_less [of b] by simp_all
  show ?thesis
  proof (cases "shouldEscape mode a \<and> shouldEscape mode b
      \<and> \<not> (mode = encodeQueryComponent \<and> (a = CHR '' '' \<or> b = CHR '' ''))")
    case True
    with assms have "upper_hex (ord a div 16) = upper_hex (ord b div 16)"
      "upper_hex (ord a mod 16) = upper_hex (ord b mod 16)" "x = y"
      by (auto simp: escape_char_def)
    with ab have "ord a div 16 = ord b div 16" "ord a mod 16 = ord b mod 16" "x = y"
      by (auto intro: upper_hex_inject)
    then show ?thesis by (metis div_mult_mod_eq ord_inject)
  next
    case False
    with assms shouldEscape_percent [of mode] show ?thesis
      by (auto simp: escape_char_def split: if_splits) (auto simp: shouldEscape_def char_class_defs)
  qed
qed

lemma escape_inject: "escape mode s = escape mode t \<Longrightarrow> s = t"
proof (induction s arbitrary: t)
  case Nil
  then show ?case by (cases t) (auto simp: escape_def escape_char_def split: if_splits)
next
  case (Cons a s)
  then obtain b t' where t: "t = b # t'" by (cases t) (auto simp: escape_def escape_char_def split: if_splits)
  with Cons.prems have "escape_char mode a @ escape mode s = escape_char mode b @ escape mode t'"
    by (simp add: escape_def)
  with escape_char_prefix_code [OF this] Cons.IH t show ?case by simp
qed

lemma escape_host_no_question: "CHR ''?'' \<notin> set (escape encodeHost h)"
proof
  assume "CHR ''?'' \<in> set (escape encodeHost h)"
  then obtain c where c: "CHR ''?'' \<in> set (escape_char encodeHost c)" by (auto simp: escape_def)
  have "upper_hex n \<noteq> CHR ''?''" if "n < 16" for n
    using upper_hex_digit [OF that] by (auto simp: is_hex_def char_class_defs)
  from this [of "ord c div 16"] this [of "ord c mod 16"] ord_less [of c]
  have hex: "upper_hex (ord c div 16) \<noteq> CHR ''?''" "upper_hex (ord c mod 16) \<noteq> CHR ''?''" by simp_all
  have "shouldEscape encodeHost (CHR ''?'')" by (simp add: shouldEscape_def char_class_defs)
  with c hex show False by (cases "shouldEscape encodeHost c") (auto simp: escape_char_def)
qed

lemma Parse_https:
  "plain_host h \<Longrightarrow> plain_path p \<Longrightarrow> Parse (''https://'' @ h @ CHR ''/'' # p) = Inr (plain_url ''https'' h (CHR ''/'' # p))"
  using Parse_plain [of "''https''" h p] by (simp add: plain_scheme_def is_lower_def ord_def)

subsection \<open>Hosts and schemes of parsed URLs\<close>

text \<open>The host of a parsed URL has no slash.\<close>

lemma unescape_host_slash:
  "unescape m s = Inr t \<Longrightarrow> m = encodeHost \<or> m = encodeZone \<Longrightarrow> CHR ''/'' \<notin> set t"
proof (induction m s arbitrary: t rule: unescape.induct)
  case (2 mode c s)
  show ?case
  proof (cases "c = CHR ''%''")
    case True
    with 2(4) obtain a b rest t' where s: "s = a # b # rest" "is_hex a \<and> is_hex b \<and> \<not> bad_escape mode a b"
      "unescape mode rest = Inr t'" "t = char_of (16 * unhex a + unhex b) # t'"
      by (auto simp: map_sum_def split: list.splits if_splits sum.splits)
    have "CHR ''/'' \<notin> set t'" using 2(1) [OF True s(1) _ _ s(3) 2(5)] s(2) by blast
    moreover have "char_of (16 * unhex a + unhex b) \<noteq> CHR ''/''"
    proof
      assume slash: "char_of (16 * unhex a + unhex b) = CHR ''/''"
      then have "(of_char (char_of (16 * unhex a + unhex b) :: char) :: nat) = of_char (CHR ''/'')" by (simp only:)
      then have "(16 * unhex a + unhex b) mod 256 = 47" by (simp only: of_char_of) simp
      moreover have hex: "unhex a < 16" "unhex b < 16"
        using s(2) by (auto simp: is_hex_def unhex_def is_digit_def ord_def)
      ultimately have "16 * unhex a + unhex b = 47" by simp
      with hex have "unhex a = 2" "unhex b = 15" by presburger+
      moreover from this have "b \<noteq> CHR ''5''" by (auto simp: unhex_def char_class_defs)
      moreover have "shouldEscape encodeHost (CHR ''/'')" by (simp add: shouldEscape_def is_alnum_def char_class_defs)
      ultimately have "bad_escape mode a b" using 2(5) slash by (auto simp: bad_escape_def)
      with s(2) show False by simp
    qed
    ultimately show ?thesis using s(4) by simp
  next
    case False
    with 2(4,5) obtain t' where t': "unescape mode s = Inr t'" "t = c # t'" "\<not> (ord c < 128 \<and> shouldEscape mode c)"
      by (auto simp: map_sum_def split: if_splits sum.splits)
    then have "c \<noteq> CHR ''/''" using 2(5) by (auto simp: shouldEscape_def is_alnum_def char_class_defs)
    with t' 2(3) [OF False _ _ t'(1)] 2(5) show ?thesis by auto
  qed
qed simp


lemma parseHost_slash: "parseHost s = Inr t \<Longrightarrow> CHR ''/'' \<notin> set t"
  by (auto simp del: unescape.simps simp: parseHost_def dest: unescape_host_slash split: if_splits option.splits prod.splits)

lemma parseAuthority_slash: "parseAuthority s = Inr (u, h) \<Longrightarrow> CHR ''/'' \<notin> set h"
  by (auto simp: parseAuthority_def dest: parseHost_slash split: option.splits prod.splits)

lemma parse_rest_slash: "parse_rest v s = Inr u \<Longrightarrow> Host v = [] \<Longrightarrow> CHR ''/'' \<notin> set (Host u)"
  by (auto simp: parse_rest_def setPath_def dest: parseAuthority_slash split: if_splits prod.splits)

lemma parse_stages:
  assumes "parse s = Inr v" and "s \<noteq> ''*''"
  obtains scheme rest r q force where "getScheme s = Inr (scheme, rest)"
    and "parse_rest (empty_url\<lparr>Scheme := ToLower scheme, ForceQuery := force, RawQuery := q\<rparr>) r = Inr v"
proof -
  obtain scheme rest where g: "getScheme s = Inr (scheme, rest)"
    using assms by (cases "getScheme s") (auto simp: parse_def split: if_splits)
  obtain r q force where "cut_query rest = (r, q, force)" by (rule prod_cases3)
  with assms g that show thesis by (auto simp: parse_def split: if_splits)
qed

lemma Host_slash: "Parse s = Inr u \<Longrightarrow> CHR ''/'' \<notin> set (Host u)"
proof -
  assume "Parse s = Inr u"
  then obtain s' v where v: "parse s' = Inr v" "Host u = Host v"
    by (auto simp: Parse_def setFragment_def split: prod.splits sum.splits if_splits)
  show ?thesis
  proof (cases "s' = ''*''")
    case False
    then show ?thesis
      using v(2) by (elim parse_stages [OF v(1)]) (auto simp: empty_url_def dest: parse_rest_slash)
  qed (use v in \<open>auto simp: parse_def empty_url_def split: if_splits\<close>)
qed

text \<open>A URL that parses with a scheme begins with it.\<close>

lemma getScheme_loop_prefix:
  "getScheme_loop raw acc s = Inr (scheme, rest) \<Longrightarrow> scheme \<noteq> [] \<Longrightarrow> acc @ s = scheme @ CHR '':'' # rest"
  by (induction raw acc s rule: getScheme_loop.induct) (auto split: if_splits)

lemma parse_rest_Scheme: "parse_rest v s = Inr u \<Longrightarrow> Scheme u = Scheme v"
  by (auto simp: parse_rest_def setPath_def split: if_splits prod.splits)

lemma Parse_scheme_prefix:
  assumes "Parse s = Inr u" and "Scheme u \<noteq> []"
  shows "\<exists>scheme t. s = scheme @ CHR '':'' # t \<and> ToLower scheme = Scheme u"
proof -
  obtain s' frag found v where cut: "Cut (CHR ''#'') s = (s', frag, found)" "parse s' = Inr v" "Scheme u = Scheme v"
    using assms(1) by (auto simp: Parse_def setFragment_def split: prod.splits sum.splits if_splits)
  have "s' \<noteq> ''*''" using cut(2,3) assms(2) by (auto simp: parse_def empty_url_def split: if_splits)
  then obtain scheme rest v' r where sch: "getScheme s' = Inr (scheme, rest)" "parse_rest v' r = Inr v" "Scheme v' = ToLower scheme"
    by (elim parse_stages [OF cut(2)]) (simp add: empty_url_def)
  have "Scheme u = ToLower scheme" using parse_rest_Scheme [OF sch(2)] sch(3) cut(3) by simp
  moreover from this assms(2) have "scheme \<noteq> []" by auto
  ultimately have "s' = scheme @ CHR '':'' # rest"
    using getScheme_loop_prefix [of s' "[]" s' scheme rest] sch(1) by (simp add: getScheme_def)
  moreover have "\<exists>t. s = s' @ t"
    using cut(1) Cut_True Cut_False by (cases found) fastforce+
  ultimately show ?thesis using \<open>Scheme u = ToLower scheme\<close> by auto
qed


end
