(* ===== verification/World.thy ===== *)
theory World
  imports Locate Go_Time Go_Url
begin

text \<open>
  What the helpers use of the outside: the process environment, the clock, files, HTTP, and
  the packages the repository does not contain (the keyring, the Google, Azure and AWS client
  libraries, YAML, the docker credential helpers).  Everything foreign is a component of this
  record, so each definition that uses it takes it as an argument.  Files and HTTP bodies are
  seen as the JSON value they hold.
\<close>

subsection \<open>Tokens and messages\<close>

text \<open>\<open>oauth2.Token\<close>, as far as it is used.\<close>

record oauth2_token =
  AccessToken :: string
  TokenType :: string
  RefreshToken :: string
  Expiry :: time
  ExpiresIn64 :: int

definition access_token :: "string \<Rightarrow> time \<Rightarrow> oauth2_token" where
  "access_token tok e =
     \<lparr>AccessToken = tok, TokenType = [], RefreshToken = [], Expiry = e, ExpiresIn64 = 0\<rparr>"

datatype http_body = NoBody | FormBody string | JsonBody json

record http_request =
  http_method :: string
  http_url :: string
  http_header :: "string list gomap"
  http_body :: http_body

record http_response =
  StatusCode :: int
  resp_header :: "string list gomap"
  resp_text :: string
  resp_body :: wire_item

text \<open>\<open>Header.Get\<close>; the keys of a response are in canonical form.\<close>

definition Header_Get :: "string \<Rightarrow> http_response \<Rightarrow> string" where
  "Header_Get k r = (case map_of (resp_header r) k of Some (v # _) \<Rightarrow> v | _ \<Rightarrow> [])"

text \<open>\<open>json.NewDecoder(body).Decode\<close>.\<close>

definition decode_item :: "'a decoder \<Rightarrow> wire_item \<Rightarrow> 'a \<Rightarrow> 'a result" where
  "decode_item d x zero = (case x of Malformed \<Rightarrow> Inl syntax_error | Value v \<Rightarrow> d v zero)"

record google_credentials =
  creds_JSON :: "wire_item option"
  creds_Token :: "oauth2_token result"

record aws_options =
  opt_credentials :: "(string \<times> string \<times> string) option"
  opt_region :: "string option"

record exec_output =
  exec_text :: string
  exec_json :: wire_item
  exec_error :: "goerr option"

subsection \<open>The record\<close>

record world =
  proc :: process
  argv0 :: string
  w_now :: time
  open_json :: "string \<Rightarrow> wire_item result"
  open_yaml :: "string \<Rightarrow> wire_item result"
  http_Do :: "http_request \<Rightarrow> http_response result"
  keyring_Get :: "string \<Rightarrow> string \<Rightarrow> string result"
  FindDefaultCredentials :: "string list \<Rightarrow> google_credentials result"
  idtoken_NewTokenSource :: "string \<Rightarrow> google_credentials \<Rightarrow> oauth2_token result result"
  NewDefaultAzureCredential :: "(string list \<Rightarrow> (string \<times> time) result) result"
  aws_LoadDefaultConfig :: "aws_options \<Rightarrow> string result result"
  aws_SignHTTP :: "string \<Rightarrow> url \<Rightarrow> headers \<Rightarrow> string \<Rightarrow> string \<Rightarrow> string \<Rightarrow> time \<Rightarrow> headers result"
  exec_Output :: "string \<Rightarrow> string \<Rightarrow> exec_output"
  on_linux :: bool
  syslog_New :: "unit result"

definition is_not_exist :: "goerr \<Rightarrow> bool" where
  "is_not_exist e = (case e of ErrNotExist _ \<Rightarrow> True | _ \<Rightarrow> False)"

text \<open>\<open>helperconfig.FromContext\<close> (\<open>src/authenticate/internal/helperconfig/helperconfig.go\<close>): the raw
  configuration of the helper, when the context has one, decoded over the defaults.\<close>

definition FromContext :: "'a fields \<Rightarrow> json option \<Rightarrow> 'a \<Rightarrow> 'a result" where
  "FromContext fs ctx config =
     (case ctx of None \<Rightarrow> Inr config | Some rawConfig \<Rightarrow> decode_struct True fs rawConfig config)"

text \<open>A world in which nothing is available, to instantiate.\<close>

definition unavailable :: goerr where "unavailable = ErrorString ''unavailable''"

definition empty_world :: world where
  "empty_world = \<lparr>
     proc = \<lparr>env = [], cwd = ''/'', getwd_ok = True, mkdir_ok = (\<lambda>_. True), chdir_ok = (\<lambda>_. True)\<rparr>,
     argv0 = ''credential-helper'', w_now = 1704067200 * Second,
     open_json = (\<lambda>p. Inl (ErrNotExist p)), open_yaml = (\<lambda>p. Inl (ErrNotExist p)),
     http_Do = (\<lambda>_. Inl unavailable), keyring_Get = (\<lambda>_ _. Inl KeyringErrNotFound),
     FindDefaultCredentials = (\<lambda>_. Inl unavailable), idtoken_NewTokenSource = (\<lambda>_ _. Inl unavailable),
     NewDefaultAzureCredential = Inl unavailable,
     aws_LoadDefaultConfig = (\<lambda>_. Inl unavailable), aws_SignHTTP = (\<lambda>_ _ _ _ _ _ _. Inl unavailable),
     exec_Output = (\<lambda>_ _. \<lparr>exec_text = [], exec_json = Malformed, exec_error = Some unavailable\<rparr>),
     on_linux = True, syslog_New = Inl unavailable\<rparr>"

end
