(* ===== verification/LookupChain.thy ===== *)
theory LookupChain
  imports World
begin

text \<open>
  \<open>src/authenticate/internal/lookupchain/lookupchain.go\<close>: a chain of sources for the secrets of
  a helper, its configuration form and the search through it.
\<close>

subsection \<open>Sources\<close>

record Env =
  env_Source :: string
  env_Name :: string
  env_Binding :: string

record Keyring =
  kr_Source :: string
  kr_Service :: string
  kr_Binding :: string

record Static =
  st_Source :: string
  st_Value :: string
  st_Binding :: string

record Google =
  g_Source :: string
  g_TokenType :: string
  g_Scopes :: "string list option"
  g_Audience :: string
  g_Binding :: string

datatype Source = EnvS Env | KeyringS Keyring | StaticS Static | GoogleS Google

definition SourceEnv :: string where "SourceEnv = ''env''"
definition SourceKeyring :: string where "SourceKeyring = ''keyring''"
definition SourceStatic :: string where "SourceStatic = ''static''"
definition SourceGoogle :: string where "SourceGoogle = ''google''"

lemmas source_names = SourceEnv_def SourceKeyring_def SourceStatic_def SourceGoogle_def

definition default_binding :: "string \<Rightarrow> string" where
  "default_binding b = (if b = [] then ''default'' else b)"

definition Env_Canonicalize :: "Env \<Rightarrow> Env" where
  [simp]: "Env_Canonicalize e = e\<lparr>env_Source := ''env'', env_Binding := default_binding (env_Binding e)\<rparr>"

definition Keyring_Canonicalize :: "Keyring \<Rightarrow> Keyring" where
  [simp]: "Keyring_Canonicalize k = k\<lparr>kr_Source := ''keyring'', kr_Binding := default_binding (kr_Binding k)\<rparr>"

definition Static_Canonicalize :: "Static \<Rightarrow> Static" where
  [simp]: "Static_Canonicalize s = s\<lparr>st_Source := ''static'', st_Binding := default_binding (st_Binding s)\<rparr>"

definition Google_Canonicalize :: "Google \<Rightarrow> Google" where
  [simp]: "Google_Canonicalize g = g\<lparr>g_Source := ''google'', g_Binding := default_binding (g_Binding g)\<rparr>"

fun Canonicalize :: "Source \<Rightarrow> Source" where
  "Canonicalize (EnvS e) = EnvS (Env_Canonicalize e)"
| "Canonicalize (KeyringS k) = KeyringS (Keyring_Canonicalize k)"
| "Canonicalize (StaticS s) = StaticS (Static_Canonicalize s)"
| "Canonicalize (GoogleS g) = GoogleS (Google_Canonicalize g)"

fun source_Binding :: "Source \<Rightarrow> string" where
  "source_Binding (EnvS e) = env_Binding e"
| "source_Binding (KeyringS k) = kr_Binding k"
| "source_Binding (StaticS s) = st_Binding s"
| "source_Binding (GoogleS g) = g_Binding g"

subsection \<open>Looking up a binding in one source\<close>

definition Env_Lookup :: "world \<Rightarrow> Env \<Rightarrow> string \<Rightarrow> string result" where
  "Env_Lookup w e binding =
     (if env_Binding e \<noteq> binding then Inl (NotFoundErr [])
      else case LookupEnv (env_Name e) (proc w) of None \<Rightarrow> Inl (NotFoundErr []) | Some val \<Rightarrow> Inr val)"

definition Keyring_Lookup :: "world \<Rightarrow> Keyring \<Rightarrow> string \<Rightarrow> string result" where
  "Keyring_Lookup w k binding =
     (if kr_Binding k \<noteq> binding then Inl (NotFoundErr [])
      else case keyring_Get w (kr_Service k) [] of
             Inl e \<Rightarrow> if is_keyring_not_found e then Inl (NotFoundErr (err_msg e)) else Inl e
           | Inr val \<Rightarrow> Inr val)"

definition Static_Lookup :: "Static \<Rightarrow> string \<Rightarrow> string result" where
  "Static_Lookup s binding =
     (if st_Binding s \<noteq> binding then Inl (NotFoundErr []) else Inr (st_Value s))"

text \<open>The identity token minted from the application default credentials.\<close>

definition token_endpoint_request :: "json gomap \<Rightarrow> http_request" where
  "token_endpoint_request requestBody =
     \<lparr>http_method = ''POST'', http_url = ''https://oauth2.googleapis.com/token'',
      http_header = [(''Content-Type'', [''application/json''])],
      http_body = JsonBody (encode_map id (gomap_put ''grant_type'' (JStr ''refresh_token'') requestBody))\<rparr>"

text \<open>\<open>GoogleTokenResponse\<close>: the fields of the embedded \<open>oauth2.Token\<close> are checked and dropped.\<close>

fun decode_time :: "time decoder" where
  "decode_time (JStr t) old = (case time_Parse t of None \<Rightarrow> Inl (type_error ''time.Time'') | Some i \<Rightarrow> Inr i)"
| "decode_time JNull old = Inr old"
| "decode_time _ old = Inl (type_error ''time.Time'')"

definition check_field :: "'a decoder \<Rightarrow> 'a \<Rightarrow> 'r decoder" where
  "check_field d zero = field d (\<lambda>_. zero) (\<lambda>_ r. r)"

definition id_token_fields :: "string fields" where
  "id_token_fields =
     [(''id_token'', field decode_string id (\<lambda>x _. x)),
      (''access_token'', check_field decode_string []),
      (''token_type'', check_field decode_string []),
      (''refresh_token'', check_field decode_string []),
      (''expiry'', check_field decode_time 0),
      (''expires_in'', check_field decode_int 0)]"

text \<open>Credentials that are the JSON text \<open>null\<close> leave the map nil, and the assignment to it panics; the model
  ends the lookup with an error.  \<open>google.FindDefaultCredentials\<close> returns no such credentials: it refuses JSON
  without a \<open>type\<close>.\<close>

definition google_adc_id_token :: "world \<Rightarrow> google_credentials \<Rightarrow> string result" where
  "google_adc_id_token w creds =
     (case creds_JSON creds of
        None \<Rightarrow> Inl (ErrorString ''no JSON credentials available for JWT config'')
      | Some x \<Rightarrow>
          if x = Value JNull then Inl (ErrorString ''assignment to entry in nil map'')
          else
          (case decode_item (decode_map (\<lambda>v _. Inr v) JNull) x [] of
             Inl e \<Rightarrow> Inl (Wrapf ''failed to unmarshal JSON credentials'' [] e)
           | Inr requestBody \<Rightarrow>
               (case http_Do w (token_endpoint_request requestBody) of
                  Inl e \<Rightarrow> Inl (Wrapf ''failed to send request to token endpoint'' [] e)
                | Inr resp \<Rightarrow>
                    if StatusCode resp \<noteq> 200 then
                      Inl (Errorf ''token endpoint returned status %d: %s'' [Itoa (StatusCode resp), resp_text resp])
                    else
                      (case decode_item (decode_struct False id_token_fields) (resp_body resp) [] of
                         Inl e \<Rightarrow> Inl (Wrapf ''failed to decode token response'' [] e)
                       | Inr tok \<Rightarrow>
                           if tok = [] then Inl (ErrorString ''token response does not contain an identity token'')
                           else Inr (''Bearer '' @ tok)))))"

definition Google_Lookup :: "world \<Rightarrow> Google \<Rightarrow> string \<Rightarrow> string result" where
  "Google_Lookup w g binding =
     (if g_Binding g \<noteq> binding then Inl (NotFoundErr [])
      else
        (let kind = ToLower (TrimSpace (g_TokenType g))
         in if kind \<in> {[], ''access''} then
              (case FindDefaultCredentials w (case g_Scopes g of None \<Rightarrow> [] | Some s \<Rightarrow> s) of
                 Inl e \<Rightarrow> Inl (Wrapf ''failed to find default credentials'' [] e)
               | Inr creds \<Rightarrow>
                   (case creds_Token creds of
                      Inl e \<Rightarrow> Inl (Wrapf ''failed to get access token'' [] e)
                    | Inr token \<Rightarrow> Inr (''Bearer '' @ AccessToken token)))
            else if kind \<in> {''id'', ''jwt''} then
              (case FindDefaultCredentials w [] of
                 Inl e \<Rightarrow> Inl (Wrapf ''failed to find default credentials for id token'' [] e)
               | Inr creds \<Rightarrow>
                   if g_Audience g \<noteq> [] then
                     (case idtoken_NewTokenSource w (g_Audience g) creds of
                        Inl e \<Rightarrow> Inl (Wrapf ''failed to create id token source'' [] e)
                      | Inr ts \<Rightarrow>
                          (case ts of
                             Inl e \<Rightarrow> Inl (Wrapf ''failed to mint id token'' [] e)
                           | Inr tok \<Rightarrow> Inr (''Bearer '' @ AccessToken tok)))
                   else google_adc_id_token w creds)
            else Inl (Errorf ''google: unknown token_type %q (want \"access\" or \"id\")'' [g_TokenType g])))"

fun source_Lookup :: "world \<Rightarrow> Source \<Rightarrow> string \<Rightarrow> string result" where
  "source_Lookup w (EnvS e) binding = Env_Lookup w e binding"
| "source_Lookup w (KeyringS k) binding = Keyring_Lookup w k binding"
| "source_Lookup w (StaticS s) binding = Static_Lookup s binding"
| "source_Lookup w (GoogleS g) binding = Google_Lookup w g binding"

subsection \<open>Configuration\<close>

record ConfigEntry =
  ce_Source :: string
  ce_RawMessage :: json

type_synonym Config = "ConfigEntry list"

definition source_field :: "string fields" where
  "source_field = [(''source'', field decode_string id (\<lambda>x _. x))]"

text \<open>\<open>ConfigEntry.UnmarshalJSON\<close>\<close>

definition decode_ConfigEntry :: "ConfigEntry decoder" where
  "decode_ConfigEntry data c =
     (case decode_struct False source_field data [] of
        Inl e \<Rightarrow> Inl e
      | Inr src \<Rightarrow> if src = [] then Inl (ErrorString ''source must be set'')
          else Inr \<lparr>ce_Source = src, ce_RawMessage = data\<rparr>)"

definition empty_entry :: ConfigEntry where
  "empty_entry = \<lparr>ce_Source = [], ce_RawMessage = JNull\<rparr>"

definition decode_Config :: "Config decoder" where
  "decode_Config v old =
     map_sum id (\<lambda>xs. case xs of None \<Rightarrow> [] | Some es \<Rightarrow> es)
       (decode_slice decode_ConfigEntry empty_entry v None)"

definition Env_fields :: "Env fields" where
  "Env_fields =
     [(''source'', field decode_string env_Source (\<lambda>x r. r\<lparr>env_Source := x\<rparr>)),
      (''name'', field decode_string env_Name (\<lambda>x r. r\<lparr>env_Name := x\<rparr>)),
      (''binding'', field decode_string env_Binding (\<lambda>x r. r\<lparr>env_Binding := x\<rparr>))]"

definition Keyring_fields :: "Keyring fields" where
  "Keyring_fields =
     [(''source'', field decode_string kr_Source (\<lambda>x r. r\<lparr>kr_Source := x\<rparr>)),
      (''service'', field decode_string kr_Service (\<lambda>x r. r\<lparr>kr_Service := x\<rparr>)),
      (''binding'', field decode_string kr_Binding (\<lambda>x r. r\<lparr>kr_Binding := x\<rparr>))]"

definition Static_fields :: "Static fields" where
  "Static_fields =
     [(''source'', field decode_string st_Source (\<lambda>x r. r\<lparr>st_Source := x\<rparr>)),
      (''name'', field decode_string st_Value (\<lambda>x r. r\<lparr>st_Value := x\<rparr>)),
      (''binding'', field decode_string st_Binding (\<lambda>x r. r\<lparr>st_Binding := x\<rparr>))]"

definition Google_fields :: "Google fields" where
  "Google_fields =
     [(''source'', field decode_string g_Source (\<lambda>x r. r\<lparr>g_Source := x\<rparr>)),
      (''token_type'', field decode_string g_TokenType (\<lambda>x r. r\<lparr>g_TokenType := x\<rparr>)),
      (''scopes'', field (decode_slice decode_string []) g_Scopes (\<lambda>x r. r\<lparr>g_Scopes := x\<rparr>)),
      (''audience'', field decode_string g_Audience (\<lambda>x r. r\<lparr>g_Audience := x\<rparr>)),
      (''binding'', field decode_string g_Binding (\<lambda>x r. r\<lparr>g_Binding := x\<rparr>))]"

definition decode_source :: "string \<Rightarrow> 'r fields \<Rightarrow> 'r \<Rightarrow> ('r \<Rightarrow> Source) \<Rightarrow> json \<Rightarrow> Source result" where
  "decode_source name fs zero wrap raw =
     (case decode_struct True fs raw zero of
        Inl e \<Rightarrow> Inl (Wrapf (''unmarshalling '' @ name @ '' source'') [] e)
      | Inr x \<Rightarrow> Inr (Canonicalize (wrap x)))"

definition sourceFor :: "ConfigEntry \<Rightarrow> Source result" where
  "sourceFor entry =
     (if ce_Source entry = SourceEnv then
        decode_source ''env'' Env_fields \<lparr>env_Source = [], env_Name = [], env_Binding = []\<rparr> EnvS (ce_RawMessage entry)
      else if ce_Source entry = SourceKeyring then
        decode_source ''keyring'' Keyring_fields \<lparr>kr_Source = [], kr_Service = [], kr_Binding = []\<rparr> KeyringS (ce_RawMessage entry)
      else if ce_Source entry = SourceStatic then
        decode_source ''static'' Static_fields \<lparr>st_Source = [], st_Value = [], st_Binding = []\<rparr> StaticS (ce_RawMessage entry)
      else if ce_Source entry = SourceGoogle then
        decode_source ''google'' Google_fields
          \<lparr>g_Source = [], g_TokenType = [], g_Scopes = None, g_Audience = [], g_Binding = []\<rparr> GoogleS (ce_RawMessage entry)
      else Inl (Errorf ''unknown source %q'' [ce_Source entry]))"

fun encode_source :: "Source \<Rightarrow> json" where
  "encode_source (EnvS e) =
     JObj ([(''source'', JStr (env_Source e)), (''name'', JStr (env_Name e))] @ omit_empty_string ''binding'' (env_Binding e))"
| "encode_source (KeyringS k) =
     JObj ([(''source'', JStr (kr_Source k)), (''service'', JStr (kr_Service k))] @ omit_empty_string ''binding'' (kr_Binding k))"
| "encode_source (StaticS s) =
     JObj ([(''source'', JStr (st_Source s)), (''name'', JStr (st_Value s))] @ omit_empty_string ''binding'' (st_Binding s))"
| "encode_source (GoogleS g) =
     JObj ([(''source'', JStr (g_Source g))] @ omit_empty_string ''token_type'' (g_TokenType g) @
       (if g_Scopes g \<in> {None, Some []} then [] else [(''scopes'', encode_slice JStr (g_Scopes g))]) @
       omit_empty_string ''audience'' (g_Audience g) @ omit_empty_string ''binding'' (g_Binding g))"

fun source_Source :: "Source \<Rightarrow> string" where
  "source_Source (EnvS e) = env_Source e"
| "source_Source (KeyringS k) = kr_Source k"
| "source_Source (StaticS s) = st_Source s"
| "source_Source (GoogleS g) = g_Source g"

definition default_entry :: "Source \<Rightarrow> ConfigEntry" where
  "default_entry s =
     (let c = Canonicalize s in \<lparr>ce_Source = source_Source c, ce_RawMessage = encode_source c\<rparr>)"

definition Default :: "Source list \<Rightarrow> Config" where
  "Default xs = map default_entry xs"

subsection \<open>The search\<close>

text \<open>\<open>IsNotFoundErr\<close>: \<open>errors.As\<close> with the type \<open>*NotFoundErr\<close>.\<close>

fun IsNotFoundErr :: "goerr \<Rightarrow> bool" where
  "IsNotFoundErr (NotFoundErr _) = True"
| "IsNotFoundErr (WrapError _ e) = IsNotFoundErr e"
| "IsNotFoundErr (JoinError es) = list_ex IsNotFoundErr es"
| "IsNotFoundErr _ = False"

text \<open>The loop of \<open>Lookup\<close>: a result ends it, as does an entry that is no source; other errors are
  collected.\<close>

fun lookup_loop :: "world \<Rightarrow> string \<Rightarrow> Config \<Rightarrow> goerr list \<Rightarrow> (string result, goerr list) sum" where
  "lookup_loop w binding [] errs = Inr errs"
| "lookup_loop w binding (entry # rest) errs =
     (case sourceFor entry of
        Inl e \<Rightarrow> Inl (Inl (Wrapf ''looking up binding %q'' [binding] e))
      | Inr source \<Rightarrow>
          (case source_Lookup w source binding of
             Inr v \<Rightarrow> Inl (Inr v)
           | Inl e \<Rightarrow>
               if IsNotFoundErr e then lookup_loop w binding rest errs
               else lookup_loop w binding rest (errs @ [Wrapf ''source %q'' [ce_Source entry] e])))"

definition Lookup :: "world \<Rightarrow> Config \<Rightarrow> string \<Rightarrow> string result" where
  "Lookup w config binding =
     (if length config = 0 then Inl (Errorf ''no sources configured to look up binding %q'' [binding])
      else case lookup_loop w binding config [] of
             Inl r \<Rightarrow> r
           | Inr errs \<Rightarrow>
               if errs \<noteq> [] then
                 Inl (Wrapf ''no value found for binding %q after querying'' [binding] (JoinError errs))
               else Inl (NotFoundErr (Sprintf ''no value found for binding %q after querying %v''
                      [binding, Join (map ce_Source config) '', ''])))"

subsection \<open>Setup instructions\<close>

definition Env_SetupInstructions :: "world \<Rightarrow> Env \<Rightarrow> string \<Rightarrow> string option" where
  "Env_SetupInstructions w e binding =
     (if env_Binding e \<noteq> binding then None
      else Some (Sprintf '' - Export the environment variable %s (status: %s)''
        [env_Name e, if LookupEnv (env_Name e) (proc w) \<noteq> None then ''SET'' else ''NOT SET'']))"

definition Keyring_SetupInstructions :: "world \<Rightarrow> Keyring \<Rightarrow> string \<Rightarrow> string option" where
  "Keyring_SetupInstructions w k binding =
     (if kr_Binding k \<noteq> binding then None
      else
        (let status = (case keyring_Get w (kr_Service k) [] of
               Inl e \<Rightarrow> if is_keyring_not_found e then ''NOT SET'' else ''ERROR ACCESSING KEYCHAIN''
             | Inr _ \<Rightarrow> ''SET'')
         in Some (Sprintf ('' - Add the secret to the system keyring under the %s service name (status: %s):'' @
              CHR 0x0A # ''    $ %s setup-keyring -f secret.txt %s'')
              [kr_Service k, status, argv0 w, kr_Service k])))"

definition Static_SetupInstructions :: "Static \<Rightarrow> string \<Rightarrow> string option" where
  "Static_SetupInstructions s binding =
     (if st_Binding s \<noteq> binding then None
      else Some (Sprintf '' - If none of previous sources work, fall back to the static value %q (status: SET)''
        [st_Value s]))"

definition google_instructions :: string where
  "google_instructions = Join
     [[],
      '' - Option 1: Using gcloud CLI as a regular user (Recommended)'',
      ''   1. Install the Google Cloud SDK: https://cloud.google.com/sdk/docs/install'',
      ''   2. Run:'',
      ''      $ gcloud auth application-default login'',
      ''   3. Follow the browser prompts to authenticate'',
      [],
      '' - Option 2: Using a Service Account Key, OpenID Connect or other authentication mechanisms'',
      ''   1. Follow Google'' @ CHR 0x27 # ''s documentation: https://cloud.google.com/docs/authentication'',
      ''   2. Ensure your method sets the Application Default Credentials (ADC)'',
      CHR 0x09 # CHR 0x09 # CHR 0x09 # ''environment variable (GOOGLE_APPLICATION_CREDENTIALS) or the credentials file'',
      CHR 0x09 # CHR 0x09 # CHR 0x09 # ''is in a well-known location.'']
     [CHR 0x0A]"

definition Google_SetupInstructions :: "Google \<Rightarrow> string \<Rightarrow> string option" where
  "Google_SetupInstructions g binding = (if g_Binding g \<noteq> binding then None else Some google_instructions)"

fun source_SetupInstructions :: "world \<Rightarrow> Source \<Rightarrow> string \<Rightarrow> string option" where
  "source_SetupInstructions w (EnvS e) b = Env_SetupInstructions w e b"
| "source_SetupInstructions w (KeyringS k) b = Keyring_SetupInstructions w k b"
| "source_SetupInstructions w (StaticS s) b = Static_SetupInstructions s b"
| "source_SetupInstructions w (GoogleS g) b = Google_SetupInstructions g b"

fun instruction_loop :: "world \<Rightarrow> string \<Rightarrow> nat \<Rightarrow> Config \<Rightarrow> string list" where
  "instruction_loop w binding i [] = []"
| "instruction_loop w binding i (entry # rest) =
     (case sourceFor entry of
        Inl e \<Rightarrow> [Sprintf ''failed to lookup instuctions for entry %d: %v'' [utoa i, err_msg e]]
      | Inr source \<Rightarrow>
          (case source_SetupInstructions w source binding of None \<Rightarrow> [] | Some t \<Rightarrow> [t])) @
     instruction_loop w binding (Suc i) rest"

definition SetupInstructions :: "world \<Rightarrow> Config \<Rightarrow> string \<Rightarrow> string \<Rightarrow> string" where
  "SetupInstructions w config binding meaning =
     (let instructions = Sprintf ''Instructions for setting up the secret with binding name %q (%s):'' [binding, meaning]
            # instruction_loop w binding 0 config
      in if length instructions = 1 then
           Sprintf ''No sources are available for setting up the secret with binding name %q (%s). Refer to the documentation related to configuration files for more information.'' [binding, meaning]
         else Join instructions [CHR 0x0A])"

subsection \<open>The contract of a source\<close>

text \<open>A source answers only for the binding it was configured with.\<close>

locale bound_source =
  fixes lookup :: "string \<Rightarrow> string result"
    and instructions :: "string \<Rightarrow> string option"
    and binding :: string
  assumes lookup_other: "b \<noteq> binding \<Longrightarrow> lookup b = Inl (NotFoundErr [])"
    and instructions_iff: "instructions b \<noteq> None \<longleftrightarrow> b = binding"
begin

lemma lookup_value: "lookup b = Inr v \<Longrightarrow> b = binding"
  using lookup_other [of b] by auto

lemma lookup_error: "lookup b = Inl e \<Longrightarrow> \<not> IsNotFoundErr e \<Longrightarrow> b = binding"
  using lookup_other [of b] by (cases "b = binding") auto

text \<open>Whatever a lookup can yield a value for, the setup instructions mention.\<close>

lemma value_has_instructions: "lookup b = Inr v \<Longrightarrow> instructions b \<noteq> None"
  using lookup_value instructions_iff by blast

end

interpretation env_source: bound_source "Env_Lookup w e" "Env_SetupInstructions w e" "env_Binding e" for w e
  by unfold_locales (auto simp: Env_Lookup_def Env_SetupInstructions_def)

interpretation keyring_source: bound_source "Keyring_Lookup w k" "Keyring_SetupInstructions w k" "kr_Binding k" for w k
  by unfold_locales (auto simp: Keyring_Lookup_def Keyring_SetupInstructions_def Let_def)

interpretation static_source: bound_source "Static_Lookup s" "Static_SetupInstructions s" "st_Binding s" for s
  by unfold_locales (auto simp: Static_Lookup_def Static_SetupInstructions_def)

interpretation google_source: bound_source "Google_Lookup w g" "Google_SetupInstructions g" "g_Binding g" for w g
  by unfold_locales (auto simp: Google_Lookup_def Google_SetupInstructions_def)

interpretation any_source: bound_source "source_Lookup w s" "source_SetupInstructions w s" "source_Binding s" for w s
  by unfold_locales
    (cases s; simp add: env_source.lookup_other keyring_source.lookup_other static_source.lookup_other
      google_source.lookup_other env_source.instructions_iff keyring_source.instructions_iff
      static_source.instructions_iff google_source.instructions_iff del: not_None_eq)+

subsection \<open>Laws of the search\<close>

definition hit :: "world \<Rightarrow> string \<Rightarrow> ConfigEntry \<Rightarrow> string \<Rightarrow> bool" where
  "hit w b entry v \<longleftrightarrow> (\<exists>s. sourceFor entry = Inr s \<and> source_Lookup w s b = Inr v)"

definition miss :: "world \<Rightarrow> string \<Rightarrow> ConfigEntry \<Rightarrow> bool" where
  "miss w b entry \<longleftrightarrow> (\<exists>s e. sourceFor entry = Inr s \<and> source_Lookup w s b = Inl e)"

definition absent :: "world \<Rightarrow> string \<Rightarrow> ConfigEntry \<Rightarrow> bool" where
  "absent w b entry \<longleftrightarrow> (\<exists>s e. sourceFor entry = Inr s \<and> source_Lookup w s b = Inl e \<and> IsNotFoundErr e)"

lemma IsNotFoundErr_Wrapf [simp]: "IsNotFoundErr (Wrapf f args e) = IsNotFoundErr e"
  by (simp add: Wrapf_def)

lemma first_match_Cons:
  "(\<exists>pre y post. x # xs = pre @ y # post \<and> list_all M pre \<and> H y) \<longleftrightarrow>
     H x \<or> (M x \<and> (\<exists>pre y post. xs = pre @ y # post \<and> list_all M pre \<and> H y))" (is "?l \<longleftrightarrow> ?r")
proof
  assume ?l
  then obtain pre y post where "x # xs = pre @ y # post" "list_all M pre" "H y" by blast
  then show ?r by (cases pre) auto
next
  assume ?r
  then show ?l
  proof
    assume "H x"
    then show ?l by (intro exI [of _ "[]"]) auto
  next
    assume "M x \<and> (\<exists>pre y post. xs = pre @ y # post \<and> list_all M pre \<and> H y)"
    then obtain pre y post where "xs = pre @ y # post" "list_all M (x # pre)" "H y" by auto
    then show ?l by (intro exI [of _ "x # pre"]) auto
  qed
qed

lemma lookup_loop_value:
  "lookup_loop w b config errs = Inl (Inr v) \<longleftrightarrow>
     (\<exists>pre entry post. config = pre @ entry # post \<and> list_all (miss w b) pre \<and> hit w b entry v)"
proof (induction config arbitrary: errs)
  case (Cons entry rest)
  show ?case
  proof (cases "sourceFor entry")
    case (Inl e)
    then show ?thesis unfolding first_match_Cons by (simp add: hit_def miss_def)
  next
    case (Inr s)
    show ?thesis
    proof (cases "source_Lookup w s b")
      case (Inl e)
      with Inr have "miss w b entry" "\<not> hit w b entry v" by (auto simp: hit_def miss_def)
      with Inl Inr Cons show ?thesis unfolding first_match_Cons by simp
    next
      case (Inr u)
      with \<open>sourceFor entry = Inr s\<close> have "\<not> miss w b entry" "hit w b entry v \<longleftrightarrow> u = v"
        by (auto simp: hit_def miss_def)
      with Inr \<open>sourceFor entry = Inr s\<close> show ?thesis unfolding first_match_Cons by simp
    qed
  qed
qed simp

lemma lookup_loop_errors:
  "lookup_loop w b config errs = Inr errs' \<Longrightarrow>
     list_all (miss w b) config \<and> (\<exists>es. errs' = errs @ es \<and> list_all (\<lambda>e. \<not> IsNotFoundErr e) es \<and>
       (es = [] \<longleftrightarrow> list_all (absent w b) config))"
proof (induction config arbitrary: errs)
  case (Cons entry rest)
  then obtain s e where s: "sourceFor entry = Inr s" "source_Lookup w s b = Inl e"
    by (auto split: sum.splits)
  show ?case
  proof (cases "IsNotFoundErr e")
    case True
    with Cons s show ?thesis by (force simp: miss_def absent_def)
  next
    case False
    with Cons.prems s have "lookup_loop w b rest (errs @ [Wrapf ''source %q'' [ce_Source entry] e]) = Inr errs'"
      by simp
    from Cons.IH [OF this] obtain es where
      "list_all (miss w b) rest" "errs' = errs @ [Wrapf ''source %q'' [ce_Source entry] e] @ es"
      "list_all (\<lambda>e. \<not> IsNotFoundErr e) es" by auto
    moreover have "miss w b entry" "\<not> absent w b entry" using False s by (auto simp: miss_def absent_def)
    ultimately show ?thesis
      using False by (intro conjI exI [of _ "Wrapf ''source %q'' [ce_Source entry] e # es"]) simp_all
  qed
qed simp

lemma lookup_loop_bad:
  "lookup_loop w b config errs = Inl (Inl e) \<Longrightarrow> \<exists>entry\<in>set config. \<exists>e'. sourceFor entry = Inl e'"
  by (induction config arbitrary: errs) (auto split: sum.splits if_splits)

subsection \<open>Errors of the decoders\<close>

definition json_errors :: "'a decoder \<Rightarrow> bool" where
  "json_errors d \<longleftrightarrow> (\<forall>v old e. d v old = Inl e \<longrightarrow> \<not> IsNotFoundErr e)"

lemma json_errors_string: "json_errors decode_string"
  unfolding json_errors_def by (auto simp: type_error_def elim!: decode_string.elims)

lemma json_errors_slice:
  assumes "json_errors d"
  shows "json_errors (decode_slice d zero)"
proof -
  have "decode_list d zero vs = Inl e \<Longrightarrow> \<not> IsNotFoundErr e" for vs e
    using assms by (induction vs) (auto simp: json_errors_def split: sum.splits)
  then show ?thesis
    unfolding json_errors_def
    by (auto simp: type_error_def elim!: decode_slice.elims split: sum.splits)
      (metis map_sum.simps(2) old.sum.exhaust map_sum.simps(1) id_apply sum.inject(1) sum.distinct(1))
qed

lemma json_errors_field: "json_errors d \<Longrightarrow> json_errors (field d get put)"
  unfolding json_errors_def field_def by (metis id_apply map_sum.simps obj_sumE sum.inject(1) sum.distinct(1))

lemma json_errors_struct:
  assumes "list_all (\<lambda>(n, d). json_errors d) fs"
  shows "json_errors (decode_struct strict fs)"
proof -
  have "json_errors d" if "find_field fs k = Some d" for k d
    using assms that
    by (auto simp: find_field_def list_all_iff find_Some_iff split: option.splits dest!: map_of_SomeD)
      (metis nth_mem case_prodD prod.collapse)
  then have fld: "decode_field strict fs k v r = Inl e \<Longrightarrow> \<not> IsNotFoundErr e" for k v r e
    by (auto simp: decode_field_def json_errors_def Errorf_def split: option.splits if_splits)
  have "decode_fields strict fs kvs r = Inl e \<Longrightarrow> \<not> IsNotFoundErr e" for kvs r e
  proof (induction kvs arbitrary: r)
    case (Cons kv kvs)
    obtain k v where "kv = (k, v)" by (cases kv)
    with Cons fld [of k v r] show ?case by (auto split: sum.splits)
  qed simp
  then show ?thesis
    unfolding json_errors_def by (auto simp: type_error_def elim!: decode_struct.elims)
qed

lemma sourceFor_error: "sourceFor entry = Inl e \<Longrightarrow> \<not> IsNotFoundErr e"
proof -
  have "json_errors (decode_struct True Env_fields)" "json_errors (decode_struct True Keyring_fields)"
    "json_errors (decode_struct True Static_fields)" "json_errors (decode_struct True Google_fields)"
    by (auto intro!: json_errors_struct json_errors_field json_errors_string json_errors_slice
        simp: Env_fields_def Keyring_fields_def Static_fields_def Google_fields_def)
  then show "sourceFor entry = Inl e \<Longrightarrow> \<not> IsNotFoundErr e"
    by (auto simp: sourceFor_def decode_source_def json_errors_def Errorf_def split: if_splits sum.splits)
qed

lemma lookup_loop_bad_error:
  "lookup_loop w b config errs = Inl (Inl e) \<Longrightarrow> \<not> IsNotFoundErr e"
  by (induction config arbitrary: errs) (auto dest: sourceFor_error split: sum.splits if_splits)

lemma lookup_loop_absent: "list_all (absent w b) config \<Longrightarrow> lookup_loop w b config errs = Inr errs"
  by (induction config arbitrary: errs) (auto simp: absent_def)

subsection \<open>Properties\<close>

text \<open>(C5) \<open>Lookup\<close> returns a value exactly when some entry yields it and every entry before it is a
  source that failed: the first value in the order of the chain wins.\<close>

theorem Lookup_first_value:
  "Lookup w config b = Inr v \<longleftrightarrow>
     (\<exists>pre entry post s. config = pre @ entry # post \<and> list_all (miss w b) pre
        \<and> sourceFor entry = Inr s \<and> source_Lookup w s b = Inr v)"
proof -
  have "Lookup w config b = Inr v \<longleftrightarrow> lookup_loop w b config [] = Inl (Inr v)"
    by (auto simp: Lookup_def split: sum.split)
  then show ?thesis by (auto simp: lookup_loop_value hit_def)
qed

text \<open>(C22) \<open>Lookup\<close> fails with a not-found error exactly when the chain has entries and each of them is a
  source that reports not found.  A misconfigured entry, an empty chain or any other failure
  of a source gives an error of another kind, on which the helpers do not fall back.\<close>

theorem Lookup_not_found:
  "(\<exists>e. Lookup w config b = Inl e \<and> IsNotFoundErr e) \<longleftrightarrow> config \<noteq> [] \<and> list_all (absent w b) config"
proof
  assume "\<exists>e. Lookup w config b = Inl e \<and> IsNotFoundErr e"
  then obtain e where e: "Lookup w config b = Inl e" "IsNotFoundErr e" by blast
  then have ne: "config \<noteq> []" by (auto simp: Lookup_def Errorf_def)
  show "config \<noteq> [] \<and> list_all (absent w b) config"
  proof (cases "lookup_loop w b config []")
    case (Inl r)
    with e ne lookup_loop_bad_error [of w b config "[]"] show ?thesis by (auto simp: Lookup_def)
  next
    case (Inr errs)
    with lookup_loop_errors [OF Inr] have "list_ex IsNotFoundErr errs = False"
      by (auto simp: list_all_iff list_ex_iff)
    with e ne Inr have "errs = []" by (auto simp: Lookup_def split: if_splits)
    with lookup_loop_errors [OF Inr] ne show ?thesis by auto
  qed
next
  assume "config \<noteq> [] \<and> list_all (absent w b) config"
  then show "\<exists>e. Lookup w config b = Inl e \<and> IsNotFoundErr e"
    by (auto simp: Lookup_def lookup_loop_absent)
qed

text \<open>(C23) A secret never reaches a binding it was not configured for.\<close>

theorem Lookup_respects_binding:
  assumes "Lookup w config b = Inr v"
  shows "\<exists>entry\<in>set config. \<exists>s. sourceFor entry = Inr s \<and> source_Binding s = b \<and> source_Lookup w s b = Inr v"
proof -
  have "lookup_loop w b config [] = Inl (Inr v)"
    using assms by (auto simp: Lookup_def split: if_splits sum.splits)
  then obtain pre entry post where "config = pre @ entry # post" "hit w b entry v"
    unfolding lookup_loop_value by blast
  then obtain s where "entry \<in> set config" "sourceFor entry = Inr s" "source_Lookup w s b = Inr v"
    unfolding hit_def by auto
  moreover from this any_source.lookup_value have "source_Binding s = b" by metis
  ultimately show ?thesis by blast
qed

definition sample_chain :: Config where
  "sample_chain = Default
     [EnvS \<lparr>env_Source = ''env'', env_Name = ''GH_TOKEN'', env_Binding = ''default''\<rparr>,
      StaticS \<lparr>st_Source = ''env'', st_Value = ''unset'', st_Binding = ''username''\<rparr>]"

definition sample_world :: world where
  "sample_world = empty_world\<lparr>proc := (proc empty_world)\<lparr>env := [(''GH_TOKEN'', ''tok'')]\<rparr>\<rparr>"

lemmas chain_eval = sample_chain_def Default_def default_entry_def sourceFor_def decode_source_def
  Env_fields_def Keyring_fields_def Static_fields_def decode_field_def find_field_def field_def omit_empty_string_def
  default_binding_def source_names Env_Lookup_def Keyring_Lookup_def Static_Lookup_def LookupEnv_def Let_def

lemma sample_lookup: "Lookup sample_world sample_chain ''default'' = Inr ''tok''"
  by (simp add: chain_eval Lookup_def sample_world_def empty_world_def)

theorem Lookup_respects_binding_witness:
  "\<exists>entry\<in>set sample_chain. \<exists>s. sourceFor entry = Inr s \<and> source_Binding s = ''default''
     \<and> source_Lookup sample_world s ''default'' = Inr ''tok''"
  by (rule Lookup_respects_binding [OF sample_lookup])

text \<open>An empty list of scopes is omitted when it is printed, so it is read back as the nil slice.\<close>

fun plain_scopes :: "Source \<Rightarrow> bool" where
  "plain_scopes (GoogleS g) = (g_Scopes g \<noteq> Some [])"
| "plain_scopes _ = True"

lemma decode_scopes: "decode_slice decode_string [] (encode_slice JStr xs) old = Inr xs"
  by (rule decode_encode_slice) simp

lemma sourceFor_default_google:
  assumes "g_Scopes g \<noteq> Some []"
  shows "sourceFor (default_entry (GoogleS g)) = Inr (Canonicalize (GoogleS g))"
  using assms
  by (cases g; cases "g_Scopes g")
    (auto simp: default_entry_def sourceFor_def decode_source_def Google_fields_def decode_field_def
      find_field_def field_def omit_empty_string_def source_names default_binding_def decode_scopes Let_def)

lemma sourceFor_default:
  "plain_scopes s \<Longrightarrow> sourceFor (default_entry s) = Inr (Canonicalize s)"
proof (cases s)
  case (GoogleS g)
  then show "plain_scopes s \<Longrightarrow> ?thesis" using sourceFor_default_google by simp
qed (simp_all add: chain_eval)

lemma ce_Source_default: "ce_Source (default_entry s) = source_Source (Canonicalize s)"
  by (simp add: default_entry_def Let_def)

text \<open>The facts that run a search through a default chain.\<close>

lemmas chain_run = Lookup_def Default_def sourceFor_default ce_Source_default default_binding_def
  Env_Lookup_def Keyring_Lookup_def Static_Lookup_def

text \<open>(C24) \<open>Default\<close> and \<open>sourceFor\<close> are inverse: the configuration built from a list of sources is read
  back as these sources, in canonical form, under the source name of their own kind.\<close>

theorem Default_sourceFor_roundtrip:
  assumes "list_all plain_scopes xs"
  shows "map sourceFor (Default xs) = map (\<lambda>s. Inr (Canonicalize s)) xs"
  using assms by (induction xs) (simp_all add: Default_def sourceFor_default)

theorem Default_sourceFor_roundtrip_witness:
  "map sourceFor (Default [StaticS \<lparr>st_Source = ''env'', st_Value = ''unset'', st_Binding = []\<rparr>]) =
     [Inr (StaticS \<lparr>st_Source = ''static'', st_Value = ''unset'', st_Binding = ''default''\<rparr>)]"
  using Default_sourceFor_roundtrip [of "[StaticS \<lparr>st_Source = ''env'', st_Value = ''unset'', st_Binding = []\<rparr>]"]
  by (simp add: default_binding_def)

end
