(* ===== verification/Providers.thy ===== *)
theory Providers
  imports World
begin

text \<open>
  The helpers that send a token of a cloud account: Google Cloud Storage
  (\<open>src/authenticate/gcs/gcs.go\<close>), Google Artifact Registry (\<open>src/authenticate/gar/gar.go\<close>), Azure
  Storage (\<open>src/authenticate/azstorage/azstorage.go\<close>), and the helper that sends nothing
  (\<open>src/authenticate/null/null.go\<close>).  A token source is the outcome of its \<open>Token\<close> method.

  The first section has the contracts of a helper as locales: a guarded helper answers only
  for https URLs of its hosts, and the responses of a keyed helper depend on the request only
  through the cache key.
\<close>

subsection \<open>Contracts of a helper\<close>

type_synonym getter = "GetCredentialsRequest \<Rightarrow> GetCredentialsResponse result"

locale guarded_helper =
  fixes get :: getter and host_ok :: "url \<Rightarrow> bool"
  assumes get_guard: "get q = Inr r \<Longrightarrow>
    \<exists>u. Parse (URI q) = Inr u \<and> Scheme u = ''https'' \<and> host_ok u"
begin

lemma refuses_scheme: "Parse (URI q) = Inr u \<Longrightarrow> Scheme u \<noteq> ''https'' \<Longrightarrow> \<exists>e. get q = Inl e"
  using get_guard [of q] by (cases "get q") auto

lemma refuses_host: "Parse (URI q) = Inr u \<Longrightarrow> \<not> host_ok u \<Longrightarrow> \<exists>e. get q = Inl e"
  using get_guard [of q] by (cases "get q") auto

end

locale keyed_helper =
  fixes key :: "GetCredentialsRequest \<Rightarrow> string" and get :: getter
  assumes coherent: "key q = key q' \<Longrightarrow> key q \<noteq> [] \<Longrightarrow> get q = Inr r \<Longrightarrow> get q' = Inr r' \<Longrightarrow> r = r'"

text \<open>With a safe key, a request that shares the key of an answered one is answered too.\<close>

locale safe_keyed_helper = keyed_helper +
  assumes safe: "key q = key q' \<Longrightarrow> key q \<noteq> [] \<Longrightarrow> get q = Inr r \<Longrightarrow> \<exists>r'. get q' = Inr r'"
begin

lemma cached_answer: "key q = key q' \<Longrightarrow> key q \<noteq> [] \<Longrightarrow> get q = Inr r \<Longrightarrow> get q' = Inr r"
  using safe coherent by metis

end

text \<open>A key that determines the answer is safe; the URI itself does.\<close>

lemma safe_keyedI:
  "(\<And>q q'. key q = key q' \<Longrightarrow> key q \<noteq> [] \<Longrightarrow> get q = get q') \<Longrightarrow> safe_keyed_helper key get"
  by unfold_locales (metis sum.inject(2))+

lemma request_eqI: "URI (q :: GetCredentialsRequest) = URI q' \<Longrightarrow> q = q'"
  by (cases q; cases q') simp

lemma safe_keyed_by_URI: "safe_keyed_helper URI get"
  by unfold_locales (auto dest!: request_eqI)

subsection \<open>Null\<close>

definition Null_CacheKey :: "GetCredentialsRequest \<Rightarrow> string" where
  "Null_CacheKey req = []"

definition Null_Get :: getter where
  "Null_Get req = Inr empty_response"

subsection \<open>Tokens as responses\<close>

type_synonym token_source = "oauth2_token result"

text \<open>The expiry of a response: empty for a token without one.\<close>

definition token_expires :: "oauth2_token \<Rightarrow> string" where
  "token_expires token = (if IsZero (Expiry token) then [] else time_Format (Expiry token))"

definition bearer_response :: "oauth2_token \<Rightarrow> GetCredentialsResponse" where
  "bearer_response token =
     \<lparr>Expires = token_expires token, Headers = [(''Authorization'', Some [''Bearer '' @ AccessToken token])]\<rparr>"

definition port_ok :: "url \<Rightarrow> bool" where
  "port_ok u \<longleftrightarrow> Port u = [] \<or> Port u = ''443''"

subsection \<open>Google Cloud Storage\<close>

definition GCS_CacheKey :: "GetCredentialsRequest \<Rightarrow> string" where
  "GCS_CacheKey req = ''https://storage.googleapis.com/''"

definition GCS_Resolver :: "world \<Rightarrow> token_source result" where
  "GCS_Resolver w =
     (case FindDefaultCredentials w [''https://www.googleapis.com/auth/devstorage.read_only''] of
        Inl e \<Rightarrow> Inl e | Inr credentials \<Rightarrow> Inr (creds_Token credentials))"

definition GCSResolver_Get :: "token_source \<Rightarrow> getter" where
  "GCSResolver_Get tokenSource req =
     bind_result (Parse (URI req)) (\<lambda>parsedURL.
       if Scheme parsedURL \<noteq> ''https'' then Inl (ErrorString ''only https is supported'')
       else if Hostname parsedURL \<noteq> ''storage.googleapis.com'' then
         Inl (ErrorString ''only storage.googleapis.com is supported'')
       else if Port parsedURL \<noteq> [] \<and> Port parsedURL \<noteq> ''443'' then
         Inl (ErrorString ''only port 443 is supported'')
       else bind_result tokenSource (\<lambda>token. Inr (bearer_response token)))"

definition GCS_Get :: "world \<Rightarrow> getter" where
  "GCS_Get w req = bind_result (GCS_Resolver w) (\<lambda>ts. GCSResolver_Get ts req)"

subsection \<open>Google Artifact Registry\<close>

text \<open>The first two elements of the path, which name project and repository.\<close>

definition repo_prefix :: "string \<Rightarrow> string" where
  "repo_prefix path =
     (let paths = Split (CHR ''/'') (TrimPrefix path ''/'')
      in CHR ''/'' # Join (if 2 < length paths then take 2 paths else paths) ''/'')"

definition GAR_CacheKey :: "GetCredentialsRequest \<Rightarrow> string" where
  "GAR_CacheKey req =
     (case Parse (URI req) of
        Inl e \<Rightarrow> URI req
      | Inr parsed \<Rightarrow> URLString (parsed\<lparr>Path := repo_prefix (Path parsed)\<rparr>))"

definition GAR_Resolver :: "world \<Rightarrow> token_source result" where
  "GAR_Resolver w =
     (case FindDefaultCredentials w [''https://www.googleapis.com/auth/cloud-platform.read-only''] of
        Inl e \<Rightarrow> Inl e | Inr credentials \<Rightarrow> Inr (creds_Token credentials))"

definition GARResolver_Get :: "token_source \<Rightarrow> getter" where
  "GARResolver_Get tokenSource req =
     bind_result (Parse (URI req)) (\<lambda>parsedURL.
       if Scheme parsedURL \<noteq> ''https'' then Inl (ErrorString ''only https is supported'')
       else if \<not> HasSuffix (Hostname parsedURL) ''pkg.dev'' then
         Inl (Errorf ''only pkg.dev URLs are supported but provided: %v'' [URLString parsedURL])
       else if Port parsedURL \<noteq> [] \<and> Port parsedURL \<noteq> ''443'' then
         Inl (ErrorString ''only port 443 is supported'')
       else bind_result tokenSource (\<lambda>token. Inr (bearer_response token)))"

definition GAR_Get :: "world \<Rightarrow> getter" where
  "GAR_Get w req = bind_result (GAR_Resolver w) (\<lambda>ts. GARResolver_Get ts req)"

subsection \<open>Azure Storage\<close>

definition AzStorage_CacheKey :: "GetCredentialsRequest \<Rightarrow> string" where
  "AzStorage_CacheKey req =
     (case Parse (URI req) of
        Inl e \<Rightarrow> URI req
      | Inr parsed \<Rightarrow> URLString (parsed\<lparr>Path := repo_prefix (Path parsed)\<rparr>))"

text \<open>\<open>AzureTokenSource.Token\<close>\<close>

definition AzureTokenSource_Token :: "(string list \<Rightarrow> (string \<times> time) result) \<Rightarrow> string list \<Rightarrow> oauth2_token result" where
  "AzureTokenSource_Token cred scopes =
     (case cred scopes of
        Inl e \<Rightarrow> Inl e
      | Inr (tok, expiresOn) \<Rightarrow> Inr ((access_token tok expiresOn)\<lparr>TokenType := ''Bearer''\<rparr>))"

definition AzStorage_Resolver :: "world \<Rightarrow> token_source result" where
  "AzStorage_Resolver w =
     (case NewDefaultAzureCredential w of
        Inl e \<Rightarrow> Inl e
      | Inr cred \<Rightarrow> Inr (AzureTokenSource_Token cred [''https://storage.azure.com/.default'']))"

definition getenv :: "world \<Rightarrow> string \<Rightarrow> string \<Rightarrow> string" where
  "getenv w key fallback = (let v = Getenv key (proc w) in if length v = 0 then fallback else v)"

definition AzStorageResolver_Get :: "world \<Rightarrow> token_source \<Rightarrow> getter" where
  "AzStorageResolver_Get w tokenSource req =
     bind_result (Parse (URI req)) (\<lambda>parsedURL.
       if Scheme parsedURL \<noteq> ''https'' then Inl (ErrorString ''only https is supported'')
       else if \<not> HasSuffix (Hostname parsedURL) ''blob.core.windows.net'' then
         Inl (Errorf ''only blob.core.windows.net URLs are supported but provided: %v'' [URLString parsedURL])
       else if Port parsedURL \<noteq> [] \<and> Port parsedURL \<noteq> ''443'' then
         Inl (ErrorString ''only port 443 is supported'')
       else bind_result tokenSource (\<lambda>token.
         Inr \<lparr>Expires = token_expires token,
              Headers = [(''Authorization'', Some [''Bearer '' @ AccessToken token]),
                (''x-ms-version'', Some [getenv w ''AZURE_HEADER_X_MS_VERSION'' ''2025-07-05''])]\<rparr>))"

definition AzStorage_Get :: "world \<Rightarrow> getter" where
  "AzStorage_Get w req = bind_result (AzStorage_Resolver w) (\<lambda>ts. AzStorageResolver_Get w ts req)"

subsection \<open>The contracts hold\<close>

interpretation gcs_guard: guarded_helper "GCS_Get w"
  "\<lambda>u. Hostname u = ''storage.googleapis.com'' \<and> port_ok u" for w
  by unfold_locales (auto simp: GCS_Get_def GCSResolver_Get_def port_ok_def split: if_splits)

interpretation gar_guard: guarded_helper "GAR_Get w" "\<lambda>u. HasSuffix (Hostname u) ''pkg.dev'' \<and> port_ok u" for w
  by unfold_locales (auto simp: GAR_Get_def GARResolver_Get_def port_ok_def split: if_splits)

interpretation az_guard: guarded_helper "AzStorage_Get w"
  "\<lambda>u. HasSuffix (Hostname u) ''blob.core.windows.net'' \<and> port_ok u" for w
  by unfold_locales (auto simp: AzStorage_Get_def AzStorageResolver_Get_def port_ok_def split: if_splits)

interpretation null_keyed: safe_keyed_helper Null_CacheKey Null_Get
  by unfold_locales (simp_all add: Null_CacheKey_def)

interpretation gcs_keyed: keyed_helper GCS_CacheKey "GCS_Get w" for w
  by unfold_locales (auto simp: GCS_Get_def GCSResolver_Get_def split: if_splits)

interpretation gar_keyed: keyed_helper GAR_CacheKey "GAR_Get w" for w
  by unfold_locales (auto simp: GAR_Get_def GARResolver_Get_def split: if_splits)

interpretation az_keyed: keyed_helper AzStorage_CacheKey "AzStorage_Get w" for w
  by unfold_locales (auto simp: AzStorage_Get_def AzStorageResolver_Get_def split: if_splits)

subsection \<open>Cache keys of plain URLs\<close>

lemma TrimPrefix_slash [simp]: "TrimPrefix (CHR ''/'' # p) ''/'' = p"
  by (simp add: TrimPrefix_def HasPrefix_def)

lemma plain_path_Join:
  "list_all plain_path ps \<Longrightarrow> plain_path (Join ps ''/'')"
  by (induction ps rule: induct_list012) (auto simp: plain_path_def path_char_def)

lemma plain_path_Split: "plain_path p \<Longrightarrow> list_all plain_path (Split c p)"
  by (induction p) (auto simp: plain_path_def split: list.splits)

lemma repo_prefix_plain:
  assumes "plain_path p"
  shows "\<exists>p'. repo_prefix (CHR ''/'' # p) = CHR ''/'' # p' \<and> plain_path p'"
proof -
  have parts: "list_all plain_path (Split (CHR ''/'') p)" using assms by (rule plain_path_Split)
  then have "list_all plain_path (take 2 (Split (CHR ''/'') p))"
    by (metis append_take_drop_id list_all_append)
  with parts show ?thesis
    unfolding repo_prefix_def TrimPrefix_slash Let_def by (auto intro: plain_path_Join)
qed

lemma plain_url_Path: "(plain_url s h p)\<lparr>Path := p'\<rparr> = plain_url s h p'"
  by (simp add: plain_url_def)

lemma GAR_CacheKey_plain:
  assumes "plain_scheme s" "plain_host h" "plain_path p"
  shows "GAR_CacheKey \<lparr>URI = s @ ''://'' @ h @ CHR ''/'' # p\<rparr> = s @ ''://'' @ h @ repo_prefix (CHR ''/'' # p)"
proof -
  obtain p' where p': "repo_prefix (CHR ''/'' # p) = CHR ''/'' # p'" "plain_path p'"
    using repo_prefix_plain [OF assms(3)] by blast
  show ?thesis
    unfolding GAR_CacheKey_def GetCredentialsRequest.simps Parse_plain [OF assms] sum.case
      plain_url_Path plain_url_sel p'(1)
    by (rule URLString_plain [OF assms(1,2) p'(2)])
qed

lemma AzStorage_CacheKey_eq: "AzStorage_CacheKey q = GAR_CacheKey q"
  by (simp add: AzStorage_CacheKey_def GAR_CacheKey_def)

subsection \<open>Properties\<close>

text \<open>The resolvers of the cloud helpers hand out a token only for an https URL on the default port whose host
  passes their test, a suffix test for two of them; every other request is an error.\<close>

theorem cloud_tokens_only_for_https:
  "(GCS_Get w q = Inr r \<longrightarrow> (\<exists>u. Parse (URI q) = Inr u \<and> Scheme u = ''https''
      \<and> Hostname u = ''storage.googleapis.com'' \<and> port_ok u))
   \<and> (GAR_Get w q = Inr r \<longrightarrow> (\<exists>u. Parse (URI q) = Inr u \<and> Scheme u = ''https''
      \<and> HasSuffix (Hostname u) ''pkg.dev'' \<and> port_ok u))
   \<and> (AzStorage_Get w q = Inr r \<longrightarrow> (\<exists>u. Parse (URI q) = Inr u \<and> Scheme u = ''https''
      \<and> HasSuffix (Hostname u) ''blob.core.windows.net'' \<and> port_ok u))"
  by (meson gcs_guard.get_guard gar_guard.get_guard az_guard.get_guard)

definition google_world :: world where
  "google_world = empty_world\<lparr>FindDefaultCredentials :=
     (\<lambda>_. Inr \<lparr>creds_JSON = None, creds_Token = Inr (access_token ''tok'' (1704070800 * Second))\<rparr>)\<rparr>"

lemma GAR_answers:
  assumes "plain_host h" and "plain_path p" and "HasSuffix h ''pkg.dev''"
    and "FindDefaultCredentials w [''https://www.googleapis.com/auth/cloud-platform.read-only''] = Inr c"
    and "creds_Token c = Inr t"
  shows "GAR_Get w \<lparr>URI = ''https://'' @ h @ CHR ''/'' # p\<rparr> = Inr (bearer_response t)"
proof -
  have "plain_scheme ''https''" by (simp add: plain_scheme_def is_lower_def ord_def)
  from Parse_plain [OF this assms(1,2)] assms show ?thesis
    by (simp add: GAR_Get_def GAR_Resolver_def GARResolver_Get_def Hostname_plain Port_plain)
qed

theorem cloud_tokens_only_for_https_witness:
  "GAR_Get google_world \<lparr>URI = ''https://europe-npm.pkg.dev/p/r/f''\<rparr> =
      Inr (bearer_response (access_token ''tok'' (1704070800 * Second)))
   \<and> (\<exists>u. Parse ''https://europe-npm.pkg.dev/p/r/f'' = Inr u \<and> Scheme u = ''https'')"
proof -
  have got: "GAR_Get google_world \<lparr>URI = ''https://europe-npm.pkg.dev/p/r/f''\<rparr> =
      Inr (bearer_response (access_token ''tok'' (1704070800 * Second)))"
    using GAR_answers [of "''europe-npm.pkg.dev''" "''p/r/f''" google_world]
    by (simp add: google_world_def plain_host_def plain_path_def char_class_defs HasSuffix_def)
  with cloud_tokens_only_for_https [of google_world "\<lparr>URI = ''https://europe-npm.pkg.dev/p/r/f''\<rparr>"]
  show ?thesis by auto
qed

text \<open>The host test of Artifact Registry is a test for the suffix \<open>pkg.dev\<close> without a dot: a host
  such as \<open>evilpkg.dev\<close>, which anyone can register, is sent the token too.\<close>

theorem gar_token_sent_to_lookalike_host:
  assumes "FindDefaultCredentials w [''https://www.googleapis.com/auth/cloud-platform.read-only''] = Inr c"
    and "creds_Token c = Inr t" and "plain_host h"
  shows "GAR_Get w \<lparr>URI = ''https://'' @ (h @ ''pkg.dev'') @ ''/a/b''\<rparr> = Inr (bearer_response t)"
proof -
  have "plain_host (h @ ''pkg.dev'')" using assms(3) by (simp add: plain_host_def char_class_defs)
  moreover have "plain_path ''a/b''" by (simp add: plain_path_def char_class_defs)
  ultimately show ?thesis using GAR_answers [of "h @ ''pkg.dev''" "''a/b''" w c t] assms by simp
qed

theorem gar_token_sent_to_lookalike_host_witness:
  "GAR_Get google_world \<lparr>URI = ''https://evilpkg.dev/a/b''\<rparr> =
     Inr (bearer_response (access_token ''tok'' (1704070800 * Second)))"
  using gar_token_sent_to_lookalike_host [of google_world
      "\<lparr>creds_JSON = None, creds_Token = Inr (access_token ''tok'' (1704070800 * Second))\<rparr>" _ "''evil''"]
  by (simp add: google_world_def plain_host_def char_class_defs)

text \<open>The cache keys of Artifact Registry and Azure Storage keep scheme, host and repository apart:
  requests for plain URLs that share a key agree in all three.\<close>

theorem repository_keys_separate:
  assumes "plain_scheme s" "plain_scheme s'" "plain_host h" "plain_host h'" "plain_path p" "plain_path p'"
    and "GAR_CacheKey \<lparr>URI = s @ ''://'' @ h @ CHR ''/'' # p\<rparr> = GAR_CacheKey \<lparr>URI = s' @ ''://'' @ h' @ CHR ''/'' # p'\<rparr>"
  shows "s = s' \<and> h = h' \<and> repo_prefix (CHR ''/'' # p) = repo_prefix (CHR ''/'' # p')"
proof -
  obtain q q' where q: "repo_prefix (CHR ''/'' # p) = CHR ''/'' # q" "repo_prefix (CHR ''/'' # p') = CHR ''/'' # q'"
    using repo_prefix_plain assms(5,6) by blast
  have "s @ ''://'' @ h @ CHR ''/'' # q = s' @ ''://'' @ h' @ CHR ''/'' # q'"
    using assms(7)
    unfolding GAR_CacheKey_plain [OF assms(1,3,5)] GAR_CacheKey_plain [OF assms(2,4,6)] q .
  from plain_text_inject [OF assms(1-4) this] q show ?thesis by simp
qed

theorem repository_keys_separate_witness:
  "repo_prefix ''/p/r/x'' = repo_prefix ''/p/r/y''"
proof -
  have ok: "plain_scheme ''https''" "plain_host ''a.pkg.dev''" "plain_path ''p/r/x''" "plain_path ''p/r/y''"
    by (simp_all add: plain_scheme_def plain_host_def plain_path_def char_class_defs)
  have "GAR_CacheKey \<lparr>URI = ''https'' @ ''://'' @ ''a.pkg.dev'' @ CHR ''/'' # ''p/r/x''\<rparr> =
      GAR_CacheKey \<lparr>URI = ''https'' @ ''://'' @ ''a.pkg.dev'' @ CHR ''/'' # ''p/r/y''\<rparr>"
    unfolding GAR_CacheKey_plain [OF ok(1,2,3)] GAR_CacheKey_plain [OF ok(1,2,4)]
    by (simp add: repo_prefix_def)
  from repository_keys_separate [OF ok(1,1,2,2,3,4) this] show ?thesis by simp
qed

end
