(* ===== verification/Go_Base64.thy ===== *)
theory Go_Base64
  imports Go_Strings
begin

text \<open>
  \<open>base64.StdEncoding\<close> of Go's package \<open>encoding/base64\<close>: \<open>EncodeToString\<close> and
  \<open>DecodeString\<close>, which skips line breaks, requires the padding and ignores the unused bits
  of the last group.
\<close>

definition b64_char :: "nat \<Rightarrow> char" where
  "b64_char n =
     (if n < 26 then char_of (65 + n)
      else if n < 52 then char_of (71 + n)
      else if n < 62 then char_of (48 + (n - 52))
      else if n = 62 then CHR ''+'' else CHR ''/'')"

definition b64_val :: "char \<Rightarrow> nat option" where
  "b64_val c =
     (if is_upper c then Some (ord c - 65)
      else if is_lower c then Some (ord c - 71)
      else if is_digit c then Some (ord c + 4)
      else if c = CHR ''+'' then Some 62
      else if c = CHR ''/'' then Some 63
      else None)"

fun b64_encode :: "string \<Rightarrow> string" where
  "b64_encode [] = []"
| "b64_encode [a] = [b64_char (ord a div 4), b64_char (ord a mod 4 * 16), CHR ''='', CHR ''='']"
| "b64_encode [a, b] =
     [b64_char (ord a div 4), b64_char (ord a mod 4 * 16 + ord b div 16),
      b64_char (ord b mod 16 * 4), CHR ''='']"
| "b64_encode (a # b # c # s) =
     b64_char (ord a div 4) # b64_char (ord a mod 4 * 16 + ord b div 16) #
     b64_char (ord b mod 16 * 4 + ord c div 64) # b64_char (ord c mod 64) # b64_encode s"

fun b64_groups :: "string \<Rightarrow> string option" where
  "b64_groups [] = Some []"
| "b64_groups (w # x # y # z # s) =
     (case (b64_val w, b64_val x) of
        (Some v0, Some v1) \<Rightarrow>
          (case b64_val y of
             None \<Rightarrow>
               (if y = CHR ''='' \<and> z = CHR ''='' \<and> s = [] then Some [char_of (v0 * 4 + v1 div 16)]
                else None)
           | Some v2 \<Rightarrow>
               (case b64_val z of
                  None \<Rightarrow>
                    (if z = CHR ''='' \<and> s = []
                     then Some [char_of (v0 * 4 + v1 div 16), char_of (v1 mod 16 * 16 + v2 div 4)]
                     else None)
                | Some v3 \<Rightarrow>
                    map_option (\<lambda>r. char_of (v0 * 4 + v1 div 16) # char_of (v1 mod 16 * 16 + v2 div 4)
                      # char_of (v2 mod 4 * 64 + v3) # r) (b64_groups s)))
      | _ \<Rightarrow> None)"
| "b64_groups _ = None"

definition b64_decode :: "string \<Rightarrow> string option" where
  "b64_decode s = b64_groups (filter (\<lambda>c. c \<noteq> CHR 0x0A \<and> c \<noteq> CHR 0x0D) s)"

lemma b64_val_char [simp]:
  assumes "n < 64"
  shows "b64_val (b64_char n) = Some n"
proof -
  consider "n < 26" | "26 \<le> n" "n < 52" | "52 \<le> n" "n < 62" | "n = 62" | "n = 63"
    using assms by linarith
  then show ?thesis
    by cases (simp_all add: b64_char_def b64_val_def is_upper_def is_lower_def is_digit_def ord_def,
        linarith)
qed

lemma b64_val_pad [simp]: "b64_val (CHR ''='') = None"
  by (simp add: b64_val_def is_upper_def is_lower_def is_digit_def ord_def)

lemma b64_val_line_break: "b64_val c = Some n \<Longrightarrow> c \<noteq> CHR 0x0A \<and> c \<noteq> CHR 0x0D"
  by (auto simp: b64_val_def is_upper_def is_lower_def is_digit_def ord_def split: if_splits)

lemma b64_char_line_break: "n < 64 \<Longrightarrow> b64_char n \<noteq> CHR 0x0A \<and> b64_char n \<noteq> CHR 0x0D"
  using b64_val_line_break [OF b64_val_char] .

lemma sextets_less:
  "ord a div 4 < 64" "ord a mod 4 * 16 < 64" "ord a mod 4 * 16 + ord b div 16 < 64"
  "ord b mod 16 * 4 < 64" "ord b mod 16 * 4 + ord c div 64 < 64"
  using ord_less [of a] ord_less [of b] ord_less [of c] by linarith+

lemma sextets_join:
  "ord a div 4 * 4 + ord a mod 4 * 16 div 16 = ord a"
  "ord a div 4 * 4 + (ord a mod 4 * 16 + ord b div 16) div 16 = ord a"
  "(ord a mod 4 * 16 + ord b div 16) mod 16 * 16 + ord b mod 16 * 4 div 4 = ord b"
  "(ord a mod 4 * 16 + ord b div 16) mod 16 * 16 + (ord b mod 16 * 4 + ord c div 64) div 4 = ord b"
  "(ord b mod 16 * 4 + ord c div 64) mod 4 * 64 + ord c mod 64 = ord c"
  using ord_less [of a] ord_less [of b] ord_less [of c] by (simp_all add: div_add1_eq)

lemma char_of_ord [simp]: "char_of (ord c) = c"
  by (simp add: ord_def)

lemma b64_groups_encode: "b64_groups (b64_encode s) = Some s"
  by (induction s rule: b64_encode.induct) (simp_all only: b64_encode.simps b64_groups.simps
      b64_val_char sextets_less mod_less_divisor zero_less_numeral b64_val_pad sextets_join
      char_of_ord prod.case option.case option.map simp_thms if_True)

lemma b64_encode_no_breaks:
  "c \<in> set (b64_encode s) \<Longrightarrow> c \<noteq> CHR 0x0A \<and> c \<noteq> CHR 0x0D"
  by (induction s rule: b64_encode.induct) (auto simp: b64_char_line_break sextets_less)

theorem b64_decode_encode [codec_laws]: "b64_decode (b64_encode s) = Some s"
proof -
  have "filter (\<lambda>c. c \<noteq> CHR 0x0A \<and> c \<noteq> CHR 0x0D) (b64_encode s) = b64_encode s"
    by (rule filter_True) (simp add: b64_encode_no_breaks)
  then show ?thesis by (simp only: b64_decode_def b64_groups_encode)
qed

end
