(* ===== verification/GitHub.thy ===== *)
theory GitHub
  imports LookupChain Providers Go_Base64
begin

text \<open>
  The GitHub helper (\<open>src/authenticate/github/github.go\<close>): where its token comes from, how its
  expiry is learned from the API, and the header it produces.
\<close>

record GitHub_config =
  gh_LookupChain :: Config
  gh_ReadConfigFile :: bool

definition GitHub_fields :: "GitHub_config fields" where
  "GitHub_fields =
     [(''lookup_chain'', field decode_Config gh_LookupChain (\<lambda>x r. r\<lparr>gh_LookupChain := x\<rparr>)),
      (''read_config_file'', field decode_bool gh_ReadConfigFile (\<lambda>x r. r\<lparr>gh_ReadConfigFile := x\<rparr>))]"

definition GitHub_sources :: "Source list" where
  "GitHub_sources =
     [EnvS \<lparr>env_Source = ''env'', env_Name = ''GH_TOKEN'', env_Binding = ''default''\<rparr>,
      EnvS \<lparr>env_Source = ''env'', env_Name = ''GITHUB_TOKEN'', env_Binding = ''default''\<rparr>,
      KeyringS \<lparr>kr_Source = ''keyring'', kr_Service = ''gh:github.com'', kr_Binding = ''default''\<rparr>]"

definition GitHub_configFromContext :: "json option \<Rightarrow> GitHub_config result" where
  "GitHub_configFromContext ctx =
     FromContext GitHub_fields ctx \<lparr>gh_LookupChain = Default GitHub_sources, gh_ReadConfigFile = True\<rparr>"

subsection \<open>The token\<close>

definition configDir :: "world \<Rightarrow> string" where
  "configDir w =
     (let a = Getenv ''GH_CONFIG_DIR'' (proc w); b = Getenv ''XDG_CONFIG_HOME'' (proc w)
      in if 0 < length a then a
         else if b \<noteq> [] then Path_Join [b, ''gh'']
         else Path_Join [case UserHomeDir (proc w) of Inr d \<Rightarrow> d | Inl _ \<Rightarrow> [], ''.config'', ''gh''])"

record HostConfig =
  OAuthToken :: string

definition HostConfig_fields :: "HostConfig fields" where
  "HostConfig_fields = [(''oauth_token'', field decode_string OAuthToken (\<lambda>x r. r\<lparr>OAuthToken := x\<rparr>))]"

definition hostsFromFile :: "world \<Rightarrow> string \<Rightarrow> HostConfig gomap result" where
  "hostsFromFile w path =
     bind_result (open_yaml w path) (\<lambda>raw.
       decode_item (decode_map (decode_struct False HostConfig_fields) \<lparr>OAuthToken = []\<rparr>) raw [])"

definition checkTokenExpiration :: "world \<Rightarrow> string \<Rightarrow> time" where
  "checkTokenExpiration w token =
     (case http_Do w \<lparr>http_method = ''GET'', http_url = ''https://api.github.com/rate_limit'',
          http_header = [(''Authorization'', [''Bearer '' @ token])], http_body = NoBody\<rparr> of
        Inl _ \<Rightarrow> zero_time
      | Inr resp \<Rightarrow>
          (case time_Parse_github (Header_Get ''Github-Authentication-Token-Expiration'' resp) of
             Some expiration \<Rightarrow> expiration
           | None \<Rightarrow> zero_time))"

text \<open>The secret: the lookup chain, then the configuration file of the \<open>gh\<close> tool.\<close>

definition hosts_token :: "world \<Rightarrow> string result" where
  "hosts_token w =
     bind_result (hostsFromFile w (Path_Join [configDir w, ''hosts.yml''])) (\<lambda>cfg.
       case map_of cfg ''github.com'' of
         None \<Rightarrow> Inl (ErrorString ''no token available'')
       | Some hostCfg \<Rightarrow>
           if OAuthToken hostCfg = [] then Inl (ErrorString ''no token available'')
           else Inr (OAuthToken hostCfg))"

definition GitHub_secret :: "world \<Rightarrow> GitHub_config \<Rightarrow> string result" where
  "GitHub_secret w config =
     (case Lookup w (gh_LookupChain config) ''default'' of
        Inr token \<Rightarrow> Inr token
      | Inl err \<Rightarrow> if IsNotFoundErr err \<and> gh_ReadConfigFile config then hosts_token w else Inl err)"

definition GitHubTokenSource_Token :: "world \<Rightarrow> GitHub_config \<Rightarrow> oauth2_token result" where
  "GitHubTokenSource_Token w config =
     bind_result (GitHub_secret w config) (\<lambda>token. Inr (access_token token (checkTokenExpiration w token)))"

subsection \<open>Requests\<close>

definition GitHub_CacheKey :: "GetCredentialsRequest \<Rightarrow> string" where
  "GitHub_CacheKey req = (case Parse (URI req) of Inl _ \<Rightarrow> [] | Inr parsedURL \<Rightarrow> Host parsedURL)"

definition github_host :: "string \<Rightarrow> bool" where
  "github_host host \<longleftrightarrow> EqualFold host ''github.com'' \<or> HasSuffix (ToLower host) ''.github.com''
     \<or> EqualFold host ''raw.githubusercontent.com''"

definition GitHubResolver_Get :: "token_source \<Rightarrow> getter" where
  "GitHubResolver_Get tokenSource req =
     bind_result (Parse (URI req)) (\<lambda>parsedURL.
       if Scheme parsedURL \<noteq> ''https'' then Inl (ErrorString ''only https is supported'')
       else if \<not> github_host (Host parsedURL) then
         Inl (ErrorString ''only github.com and subdomains are supported'')
       else bind_result tokenSource (\<lambda>token.
         Inr \<lparr>Expires = token_expires token,
              Headers = [(''Authorization'', Some
                [if EqualFold (Host parsedURL) ''raw.githubusercontent.com''
                 then ''Basic '' @ b64_encode (AccessToken token @ '':'')
                 else ''Bearer '' @ AccessToken token])]\<rparr>))"

definition GitHub_Get :: "world \<Rightarrow> json option \<Rightarrow> getter" where
  "GitHub_Get w ctx req =
     bind_result (GitHub_configFromContext ctx) (\<lambda>cfg. GitHubResolver_Get (GitHubTokenSource_Token w cfg) req)"

interpretation github_guard: guarded_helper "GitHub_Get w ctx" "\<lambda>u. github_host (Host u)" for w ctx
  by unfold_locales (auto simp: GitHub_Get_def GitHubResolver_Get_def split: if_splits)

interpretation github_keyed: keyed_helper GitHub_CacheKey "GitHub_Get w ctx" for w ctx
  by unfold_locales (auto simp: GitHub_CacheKey_def GitHub_Get_def GitHubResolver_Get_def split: if_splits)

subsection \<open>Properties\<close>

text \<open>Without configuration the token is, in this order: \<open>GH_TOKEN\<close>, \<open>GITHUB_TOKEN\<close>, the keyring
  entry \<open>gh:github.com\<close>, the hosts file of the \<open>gh\<close> tool.  The hosts file is read only when the
  keyring answers that it has no such entry; any other keyring error is the result.\<close>

theorem github_token_order:
  "GitHub_secret w \<lparr>gh_LookupChain = Default GitHub_sources, gh_ReadConfigFile = True\<rparr> =
     (case LookupEnv ''GH_TOKEN'' (proc w) of
        Some t \<Rightarrow> Inr t
      | None \<Rightarrow>
          (case LookupEnv ''GITHUB_TOKEN'' (proc w) of
             Some t \<Rightarrow> Inr t
           | None \<Rightarrow>
               (case keyring_Get w ''gh:github.com'' [] of
                  Inr t \<Rightarrow> Inr t
                | Inl e \<Rightarrow>
                    if is_keyring_not_found e \<or> IsNotFoundErr e then hosts_token w
                    else Inl (Wrapf ''no value found for binding %q after querying'' [''default'']
                           (JoinError [Wrapf ''source %q'' [''keyring''] e])))))"
  by (auto simp: GitHub_secret_def chain_run GitHub_sources_def split: option.split sum.split)

text \<open>The labels of a name end in the labels of another one exactly when it is that name or ends in a dot
  and that name.\<close>

lemma Join_snoc_append: "qs \<noteq> [] \<Longrightarrow> Join (ps @ x # qs) [c] = Join (ps @ [x]) [c] @ c # Join qs [c]"
  by (induction ps) (simp_all add: Join_Cons)

lemma Split_proper_suffix:
  "(\<exists>pre. pre \<noteq> [] \<and> Split c s = pre @ Split c t) \<longleftrightarrow> HasSuffix s (c # t)"
proof
  assume "\<exists>pre. pre \<noteq> [] \<and> Split c s = pre @ Split c t"
  then obtain p x where pre: "Split c s = p @ x # Split c t"
    by (metis append.assoc append_Cons append_Nil rev_exhaust)
  have "s = Join (p @ x # Split c t) [c]" using pre Join_Split [of c s] by simp
  also have "\<dots> = Join (p @ [x]) [c] @ c # t" by (simp add: Join_snoc_append Join_Split)
  finally show "HasSuffix s (c # t)" by simp
qed (auto simp: HasSuffix_iff Split_append_general)

lemma github_host_labels:
  "github_host h \<longleftrightarrow> EqualFold h ''github.com''
     \<or> (\<exists>pre. pre \<noteq> [] \<and> Split (CHR ''.'') (ToLower h) = pre @ [''github'', ''com''])
     \<or> EqualFold h ''raw.githubusercontent.com''"
  using Split_proper_suffix [of "CHR ''.''" "ToLower h" "''github.com''"] by (simp add: github_host_def)

text \<open>(C39) The GitHub resolver, asked for a URL without a cache, answers exactly when its configuration and
  its token can be read, the URL parses, its scheme is https, and its host is \<open>github.com\<close> or
  \<open>raw.githubusercontent.com\<close> up to case, or its labels in lower case are some labels followed by
  \<open>github\<close> and \<open>com\<close>.  (Case is the Unicode case of Go's \<open>strings\<close> package.)  The answer is then the
  token, as basic authentication for \<open>raw.githubusercontent.com\<close> and as a bearer token otherwise.\<close>

theorem github_token_guard:
  "GitHub_Get w ctx q = Inr r \<longleftrightarrow>
     (\<exists>u cfg t. Parse (URI q) = Inr u \<and> Scheme u = ''https''
        \<and> (EqualFold (Host u) ''github.com'' \<or> EqualFold (Host u) ''raw.githubusercontent.com''
           \<or> (\<exists>pre. pre \<noteq> [] \<and> Split (CHR ''.'') (ToLower (Host u)) = pre @ [''github'', ''com'']))
        \<and> GitHub_configFromContext ctx = Inr cfg \<and> GitHubTokenSource_Token w cfg = Inr t
        \<and> r = \<lparr>Expires = token_expires t,
               Headers = [(''Authorization'', Some
                 [if EqualFold (Host u) ''raw.githubusercontent.com''
                  then ''Basic '' @ b64_encode (AccessToken t @ '':'') else ''Bearer '' @ AccessToken t])]\<rparr>)"
proof -
  have host: "(EqualFold h ''github.com'' \<or> EqualFold h ''raw.githubusercontent.com''
      \<or> (\<exists>pre. pre \<noteq> [] \<and> Split (CHR ''.'') (ToLower h) = pre @ [''github'', ''com''])) \<longleftrightarrow> github_host h" for h
    using github_host_labels by blast
  show ?thesis
    unfolding host by (cases "Parse (URI q)"; cases "GitHub_configFromContext ctx")
      (auto simp: GitHub_Get_def GitHubResolver_Get_def split: if_splits)
qed

definition github_world :: "string \<Rightarrow> world" where
  "github_world expiration = empty_world\<lparr>proc := (proc empty_world)\<lparr>env := [(''GH_TOKEN'', ''tok'')]\<rparr>,
     http_Do := (\<lambda>_. Inr \<lparr>StatusCode = 200,
       resp_header = [(''Github-Authentication-Token-Expiration'', [expiration])], resp_text = [], resp_body = Malformed\<rparr>)\<rparr>"

lemma github_world_token:
  "GitHubTokenSource_Token (github_world x) \<lparr>gh_LookupChain = Default GitHub_sources, gh_ReadConfigFile = True\<rparr> =
     Inr (access_token ''tok'' (case time_Parse_github x of Some e \<Rightarrow> e | None \<Rightarrow> zero_time))"
  by (simp add: GitHubTokenSource_Token_def GitHub_secret_def chain_run GitHub_sources_def github_world_def
      empty_world_def LookupEnv_def checkTokenExpiration_def Header_Get_def)

lemma github_world_get:
  "GitHub_Get (github_world x) None \<lparr>URI = ''https://github.com/o/r''\<rparr> =
     Inr (bearer_response (access_token ''tok'' (case time_Parse_github x of Some e \<Rightarrow> e | None \<Rightarrow> zero_time)))"
proof -
  have "Parse ''https://github.com/o/r'' = Inr (plain_url ''https'' ''github.com'' ''/o/r'')"
    using Parse_https [of "''github.com''" "''o/r''"] by (simp add: plain_host_def plain_path_def char_class_defs)
  moreover have "github_host ''github.com''" "\<not> EqualFold ''github.com'' ''raw.githubusercontent.com''"
    by (simp_all add: github_host_def EqualFold_def lower_def)
  ultimately show ?thesis
    by (simp add: GitHub_Get_def GitHub_configFromContext_def FromContext_def GitHubResolver_Get_def
        github_world_token bearer_response_def)
qed

theorem github_token_guard_witness:
  "\<not> (\<exists>r. GitHub_Get (github_world []) None \<lparr>URI = ''https://evilgithub.com/o/r''\<rparr> = Inr r)"
proof -
  have url: "Parse ''https://evilgithub.com/o/r'' = Inr (plain_url ''https'' ''evilgithub.com'' ''/o/r'')"
    using Parse_https [of "''evilgithub.com''" "''o/r''"] by (simp add: plain_host_def plain_path_def char_class_defs)
  have "\<not> (\<exists>pre. pre \<noteq> [] \<and> Split (CHR ''.'') (ToLower ''evilgithub.com'') = pre @ [''github'', ''com''])"
    by (auto simp: lower_def is_upper_def ord_def dest!: arg_cong [where f = length])
  moreover have "\<not> EqualFold ''evilgithub.com'' ''github.com''" "\<not> EqualFold ''evilgithub.com'' ''raw.githubusercontent.com''"
    by (simp_all add: EqualFold_def lower_def is_upper_def ord_def)
  ultimately show ?thesis using github_token_guard [of "github_world []" None "\<lparr>URI = ''https://evilgithub.com/o/r''\<rparr>"] url
    by simp
qed

text \<open>Lower case in Go maps the capital I with a dot above (U+0130) to \<open>i\<close>: the token is sent to the
  subdomains of another domain whose name has that letter.\<close>

theorem github_token_sent_to_dotted_i:
  "GitHub_Get (github_world x) None \<lparr>URI = ''https://x.g'' @ [CHR 0xC4, CHR 0xB0] @ ''thub.com/o''\<rparr> =
     Inr (bearer_response (access_token ''tok'' (case time_Parse_github x of Some e \<Rightarrow> e | None \<Rightarrow> zero_time)))"
proof -
  let ?h = "''x.g'' @ [CHR 0xC4, CHR 0xB0] @ ''thub.com''"
  have "case Parse (''https://'' @ ?h @ ''/o'') of Inl _ \<Rightarrow> False | Inr u \<Rightarrow> Scheme u = ''https'' \<and> Host u = ?h"
    by code_simp
  then obtain u where "Parse (''https://'' @ ?h @ ''/o'') = Inr u" "Scheme u = ''https''" "Host u = ?h"
    by (auto split: sum.splits)
  moreover have "github_host ?h" "\<not> EqualFold ?h ''raw.githubusercontent.com''"
    by (simp_all add: github_host_def EqualFold_def lower_def is_upper_def ord_def HasSuffix_rev)
  ultimately show ?thesis
    by (simp add: GitHub_Get_def GitHub_configFromContext_def FromContext_def GitHubResolver_Get_def
        github_world_token bearer_response_def)
qed

text \<open>The expiry announced by GitHub is read with a twelve-hour layout.  An expiry in the afternoon
  is not understood, the response then has no expiry, and so it is never cached.\<close>

theorem github_afternoon_expiry_lost:
  "map_sum id Expires (GitHub_Get (github_world ''2024-06-01 15:04:05 +0000'') None \<lparr>URI = ''https://github.com/o/r''\<rparr>) = Inr []
   \<and> map_sum id Expires (GitHub_Get (github_world ''2024-06-01 03:04:05 +0000'') None \<lparr>URI = ''https://github.com/o/r''\<rparr>)
       = Inr ''2024-06-01T03:04:05Z''"
proof -
  have pm: "time_Parse_github ''2024-06-01 15:04:05 +0000'' = None"
    by (simp add: time_Parse_github_def skip_space_def time_Parse_eval)
  have am: "time_Parse_github ''2024-06-01 03:04:05 +0000'' = Some 1717211045000000000"
    by (simp add: time_Parse_github_def skip_space_def parse_zone_num_def time_Parse_eval)
  have "time_Format 1717211045000000000 = ''2024-06-01T03:04:05Z''"
    by (simp add: time_Format_eval bit_0)
  with pm am show ?thesis
    by (simp add: github_world_get bearer_response_def token_expires_def access_token_def IsZero_def zero_time_def Second_def)
qed

text \<open>For \<open>raw.githubusercontent.com\<close> the token is sent as the user name of basic authentication: the
  header decodes to the token followed by a colon.\<close>

theorem github_raw_basic_auth:
  assumes "Parse (URI q) = Inr u" and "Scheme u = ''https''" and "EqualFold (Host u) ''raw.githubusercontent.com''"
    and "GitHub_configFromContext ctx = Inr cfg" and "GitHubTokenSource_Token w cfg = Inr t"
  shows "\<exists>v. GitHub_Get w ctx q = Inr \<lparr>Expires = token_expires t, Headers = [(''Authorization'', Some [''Basic '' @ v])]\<rparr>
    \<and> b64_decode v = Some (AccessToken t @ '':'')"
  using assms by (simp add: GitHub_Get_def GitHubResolver_Get_def github_host_def b64_decode_encode)

theorem github_raw_basic_auth_witness:
  "\<exists>v. GitHub_Get (github_world []) None \<lparr>URI = ''https://raw.githubusercontent.com/o/r/c/f''\<rparr> =
      Inr \<lparr>Expires = [], Headers = [(''Authorization'', Some [''Basic '' @ v])]\<rparr> \<and> b64_decode v = Some ''tok:''"
proof -
  have url: "Parse ''https://raw.githubusercontent.com/o/r/c/f'' =
      Inr (plain_url ''https'' ''raw.githubusercontent.com'' ''/o/r/c/f'')"
    using Parse_https [of "''raw.githubusercontent.com''" "''o/r/c/f''"]
    by (simp add: plain_host_def plain_path_def char_class_defs)
  have none: "time_Parse_github [] = None" by (simp add: time_Parse_github_def parse_date_def getyear_def)
  let ?q = "\<lparr>URI = ''https://raw.githubusercontent.com/o/r/c/f''\<rparr>"
  let ?u = "plain_url ''https'' ''raw.githubusercontent.com'' ''/o/r/c/f''"
  have "Parse (URI ?q) = Inr ?u" "Scheme ?u = ''https''" "EqualFold (Host ?u) ''raw.githubusercontent.com''"
    using url by (simp_all add: EqualFold_def)
  moreover have "GitHub_configFromContext None = Inr \<lparr>gh_LookupChain = Default GitHub_sources, gh_ReadConfigFile = True\<rparr>"
    by (simp add: GitHub_configFromContext_def FromContext_def)
  moreover have "GitHubTokenSource_Token (github_world []) \<lparr>gh_LookupChain = Default GitHub_sources, gh_ReadConfigFile = True\<rparr>
      = Inr (access_token ''tok'' zero_time)"
    using github_world_token [of "[]"] none by simp
  ultimately have "\<exists>v. GitHub_Get (github_world []) None ?q =
      Inr \<lparr>Expires = token_expires (access_token ''tok'' zero_time), Headers = [(''Authorization'', Some [''Basic '' @ v])]\<rparr>
      \<and> b64_decode v = Some (AccessToken (access_token ''tok'' zero_time) @ '':'')"
    by (rule github_raw_basic_auth)
  then show ?thesis by (simp add: token_expires_def access_token_def IsZero_def)
qed

end
