(* ===== verification/Cache.thy ===== *)
theory Cache
  imports Api Go_Time
begin

text \<open>
  The cache interface \<open>api.Cache\<close> (\<open>src/api/api.go\<close>) as a locale, and the two caches that
  need no connection: \<open>MemCache\<close> (\<open>src/cache/memcache.go\<close>), which the agent owns, and
  \<open>NoCache\<close> (\<open>src/cache/nocache.go\<close>), which the standalone mode uses.

  The mutex of \<open>MemCache\<close> makes each operation atomic, so an operation is a function on the
  state.  \<open>Prune\<close> reads the clock once per entry: the argument \<open>now\<close> gives the reading made
  while the entry of a key is visited.  The laws of the interface are stated over
  \<open>contents\<close>, the responses a cache can hand out.
\<close>

type_synonym clock = "string \<Rightarrow> time"

subsection \<open>The interface\<close>

text \<open>The condition under which \<open>Store\<close> keeps a response.\<close>

definition storable :: "CachableGetCredentialsResponse \<Rightarrow> bool" where
  "storable v \<longleftrightarrow> \<not> (length (CacheKey v) = 0 \<or> length (Expires (Response v)) = 0)"

definition updated :: "CachableGetCredentialsResponse \<Rightarrow> (string \<rightharpoonup> GetCredentialsResponse) \<Rightarrow>
    (string \<rightharpoonup> GetCredentialsResponse)" where
  "updated v m = (if storable v then m(CacheKey v \<mapsto> Response v) else m)"

datatype cache_op =
    RetrieveOp string
  | StoreOp CachableGetCredentialsResponse
  | PruneOp clock

fun stores :: "cache_op list \<Rightarrow> CachableGetCredentialsResponse list" where
  "stores [] = []"
| "stores (StoreOp v # ops) = v # stores ops"
| "stores (_ # ops) = stores ops"

fun no_prune :: "cache_op list \<Rightarrow> bool" where
  "no_prune [] = True"
| "no_prune (PruneOp _ # ops) = False"
| "no_prune (_ # ops) = no_prune ops"

text \<open>The last response stored under a key, if any.\<close>

fun last_stored :: "string \<Rightarrow> CachableGetCredentialsResponse list \<Rightarrow> GetCredentialsResponse option" where
  "last_stored k [] = None"
| "last_stored k (v # vs) =
     (case last_stored k vs of
        Some r \<Rightarrow> Some r
      | None \<Rightarrow> if storable v \<and> CacheKey v = k then Some (Response v) else None)"

text \<open>The method table of a value of the interface type.\<close>

record 's cache_iface =
  Retrieve :: "string \<Rightarrow> 's \<Rightarrow> GetCredentialsResponse result \<times> 's"
  Store :: "CachableGetCredentialsResponse \<Rightarrow> 's \<Rightarrow> unit result \<times> 's"
  Prune :: "clock \<Rightarrow> 's \<Rightarrow> unit result \<times> 's"

text \<open>A sequence of calls, with the results dropped.\<close>

fun cache_step :: "'s cache_iface \<Rightarrow> cache_op \<Rightarrow> 's \<Rightarrow> 's" where
  "cache_step ops (RetrieveOp k) s = snd (Retrieve ops k s)"
| "cache_step ops (StoreOp v) s = snd (Store ops v s)"
| "cache_step ops (PruneOp now) s = snd (Prune ops now s)"

definition run_cache :: "'s cache_iface \<Rightarrow> cache_op list \<Rightarrow> 's \<Rightarrow> 's" where
  "run_cache ops calls s = fold (cache_step ops) calls s"

lemma run_cache_Nil [simp]: "run_cache ops [] s = s"
  by (simp add: run_cache_def)

lemma run_cache_Cons [simp]: "run_cache ops (op # calls) s = run_cache ops calls (cache_step ops op s)"
  by (simp add: run_cache_def)

lemma run_cache_append [simp]: "run_cache ops (xs @ ys) s = run_cache ops ys (run_cache ops xs s)"
  by (simp add: run_cache_def)

locale api_cache =
  fixes inv :: "'s \<Rightarrow> bool"
    and contents :: "'s \<Rightarrow> string \<rightharpoonup> GetCredentialsResponse"
    and retrieve :: "string \<Rightarrow> 's \<Rightarrow> GetCredentialsResponse result \<times> 's"
    and store :: "CachableGetCredentialsResponse \<Rightarrow> 's \<Rightarrow> unit result \<times> 's"
    and prune :: "clock \<Rightarrow> 's \<Rightarrow> unit result \<times> 's"
  assumes inv_retrieve: "inv s \<Longrightarrow> inv (snd (retrieve k s))"
    and inv_store: "inv s \<Longrightarrow> wf_response (Response v) \<Longrightarrow> inv (snd (store v s))"
    and inv_prune: "inv s \<Longrightarrow> inv (snd (prune now s))"
    and retrieve_result: "inv s \<Longrightarrow>
          fst (retrieve k s) = (case contents s k of Some r \<Rightarrow> Inr r | None \<Rightarrow> Inl CacheMiss)"
    and retrieve_contents: "inv s \<Longrightarrow> contents (snd (retrieve k s)) = contents s"
    and store_result: "inv s \<Longrightarrow> wf_response (Response v) \<Longrightarrow> fst (store v s) = Inr ()"
    and store_contents: "inv s \<Longrightarrow> wf_response (Response v) \<Longrightarrow>
          contents (snd (store v s)) \<subseteq>\<^sub>m updated v (contents s)"
    and prune_contents: "inv s \<Longrightarrow> contents (snd (prune now s)) \<subseteq>\<^sub>m contents s"
    and contents_wf: "inv s \<Longrightarrow> contents s k = Some r \<Longrightarrow> wf_response r"
begin

definition iface :: "'s cache_iface" where
  "iface = \<lparr>Retrieve = retrieve, Store = store, Prune = prune\<rparr>"

lemma iface_sel [simp]: "Retrieve iface = retrieve" "Store iface = store" "Prune iface = prune"
  by (simp_all add: iface_def)

abbreviation step :: "cache_op \<Rightarrow> 's \<Rightarrow> 's" where
  "step \<equiv> cache_step iface"

abbreviation run :: "cache_op list \<Rightarrow> 's \<Rightarrow> 's" where
  "run \<equiv> run_cache iface"

lemma inv_step: "inv s \<Longrightarrow> \<forall>v\<in>set (stores [op]). wf_response (Response v) \<Longrightarrow> inv (step op s)"
  by (cases op) (auto intro: inv_retrieve inv_store inv_prune)

lemma stores_Cons: "stores (op # ops) = stores [op] @ stores ops"
  by (cases op) auto

lemma inv_run: "inv s \<Longrightarrow> \<forall>v\<in>set (stores ops). wf_response (Response v) \<Longrightarrow> inv (run ops s)"
proof (induction ops arbitrary: s)
  case (Cons op ops)
  then have "inv (step op s)" by (intro inv_step) (auto simp: stores_Cons [of op ops])
  with Cons show ?case by (auto simp: stores_Cons [of op ops])
qed simp

lemma step_contents:
  assumes "inv s" and "\<forall>v\<in>set (stores [op]). wf_response (Response v)"
    and "contents (step op s) k = Some r"
  shows "contents s k = Some r \<or> (\<exists>v\<in>set (stores [op]). storable v \<and> CacheKey v = k \<and> Response v = r)"
proof (cases op)
  case (RetrieveOp x)
  with assms show ?thesis by (simp add: retrieve_contents)
next
  case (PruneOp now)
  with assms prune_contents [of s now] show ?thesis
    by (auto simp: map_le_def dom_def)
next
  case (StoreOp v)
  with assms have "updated v (contents s) k = Some r"
    using store_contents [of s v] by (force simp: map_le_def dom_def)
  with StoreOp show ?thesis by (auto simp: updated_def split: if_splits)
qed

text \<open>A cache never invents a response: what it returns was there or was stored under the key.\<close>

lemma run_contents:
  assumes "inv s" and "\<forall>v\<in>set (stores ops). wf_response (Response v)"
    and "contents (run ops s) k = Some r"
  shows "contents s k = Some r \<or> (\<exists>v\<in>set (stores ops). storable v \<and> CacheKey v = k \<and> Response v = r)"
  using assms
proof (induction ops arbitrary: s)
  case (Cons op ops)
  then have wf: "\<forall>v\<in>set (stores [op]). wf_response (Response v)" "\<forall>v\<in>set (stores ops). wf_response (Response v)"
    by (auto simp: stores_Cons [of op ops])
  have "contents (step op s) k = Some r \<or> (\<exists>v\<in>set (stores ops). storable v \<and> CacheKey v = k \<and> Response v = r)"
    using Cons.IH [of "step op s"] Cons.prems wf inv_step by simp
  with step_contents [OF Cons.prems(1) wf(1)] show ?case
    by (auto simp: stores_Cons [of op ops])
qed simp

lemma retrieve_origin:
  assumes "inv s" and "\<forall>v\<in>set (stores ops). wf_response (Response v)" and "contents s = Map.empty"
    and "fst (retrieve k (run ops s)) = Inr r"
  shows "\<exists>v\<in>set (stores ops). storable v \<and> CacheKey v = k \<and> Response v = r"
  using run_contents [of s ops k r] assms
  by (auto simp: retrieve_result inv_run split: option.splits)

end

text \<open>A cache that keeps what is stored until it is pruned.\<close>

locale keeping_cache = api_cache +
  assumes store_keeps: "inv s \<Longrightarrow> wf_response (Response v) \<Longrightarrow>
    contents (snd (store v s)) = updated v (contents s)"
begin

lemma retrieve_after_store:
  assumes "inv s" and "wf_response (Response v)" and "storable v"
  shows "fst (retrieve (CacheKey v) (snd (store v s))) = Inr (Response v)"
  using assms by (simp add: retrieve_result inv_store store_keeps updated_def)

lemma run_last_stored:
  assumes "inv s" and "\<forall>v\<in>set (stores ops). wf_response (Response v)" and "no_prune ops"
  shows "contents (run ops s) k =
    (case last_stored k (stores ops) of Some r \<Rightarrow> Some r | None \<Rightarrow> contents s k)"
  using assms
proof (induction ops arbitrary: s)
  case (Cons op ops)
  have "inv (step op s)"
    using Cons.prems by (intro inv_step) (auto simp: stores_Cons [of op ops])
  with Cons show ?case
    by (cases op) (auto simp: retrieve_contents store_keeps updated_def split: option.splits)
qed simp

end

subsection \<open>The in-memory cache\<close>

record MemCache =
  cache :: "CachableGetCredentialsResponse gomap"

definition NewMemCache :: MemCache where
  "NewMemCache = \<lparr>cache = []\<rparr>"

definition MemCache_Retrieve :: "string \<Rightarrow> MemCache \<Rightarrow> GetCredentialsResponse result \<times> MemCache" where
  "MemCache_Retrieve cacheKey c =
     (case map_of (cache c) cacheKey of
        Some cacheValue \<Rightarrow> (Inr (Response cacheValue), c)
      | None \<Rightarrow> (Inl CacheMiss, c))"

definition MemCache_Store :: "CachableGetCredentialsResponse \<Rightarrow> MemCache \<Rightarrow> unit result \<times> MemCache" where
  "MemCache_Store cacheValue c =
     (if length (CacheKey cacheValue) = 0 \<or> length (Expires (Response cacheValue)) = 0 then (Inr (), c)
      else (Inr (), c\<lparr>cache := gomap_put (CacheKey cacheValue) cacheValue (cache c)\<rparr>))"

text \<open>The body of the loop of \<open>Prune\<close> for one key.\<close>

definition prune_visit :: "clock \<Rightarrow> string \<Rightarrow> CachableGetCredentialsResponse gomap \<Rightarrow>
    CachableGetCredentialsResponse gomap" where
  "prune_visit now key m =
     (let cacheValue = (case map_of m key of Some v \<Rightarrow> v | None \<Rightarrow> empty_cachable)
      in case time_Parse (Expires (Response cacheValue)) of
           None \<Rightarrow> gomap_delete key m
         | Some ts \<Rightarrow> if ts < now key then gomap_delete key m else m)"

definition MemCache_Prune :: "clock \<Rightarrow> MemCache \<Rightarrow> unit result \<times> MemCache" where
  "MemCache_Prune now c = (Inr (), c\<lparr>cache := fold (prune_visit now) (map fst (cache c)) (cache c)\<rparr>)"

definition MemCache_wf :: "MemCache \<Rightarrow> bool" where
  "MemCache_wf c \<longleftrightarrow> gomap_wf (cache c) \<and>
     list_all (\<lambda>(k, v). CacheKey v = k \<and> storable v \<and> wf_response (Response v)) (cache c)"

definition MemCache_contents :: "MemCache \<Rightarrow> string \<rightharpoonup> GetCredentialsResponse" where
  "MemCache_contents c k = map_option Response (map_of (cache c) k)"

text \<open>The entries that a prune keeps: their expiry parses and is not in the past.\<close>

definition unexpired :: "time \<Rightarrow> GetCredentialsResponse \<Rightarrow> bool" where
  "unexpired t r \<longleftrightarrow> (case time_Parse (Expires r) of None \<Rightarrow> False | Some ts \<Rightarrow> t \<le> ts)"

lemma prune_visit_map_of:
  "map_of (prune_visit now k m) = (\<lambda>x. if x = k
     then (case map_of m k of Some v \<Rightarrow> if unexpired (now k) (Response v) then Some v else None | None \<Rightarrow> None)
     else map_of m x)"
  by (auto simp: prune_visit_def unexpired_def fun_eq_iff Let_def split: option.splits)

lemma prune_visit_wf: "gomap_wf m \<Longrightarrow> gomap_wf (prune_visit now k m)"
  by (simp add: prune_visit_def Let_def split: option.split)

lemma fold_prune_visit_wf: "gomap_wf m \<Longrightarrow> gomap_wf (fold (prune_visit now) ks m)"
  by (induction ks arbitrary: m) (simp_all add: prune_visit_wf)

lemma fold_prune_visit_map_of:
  "map_of (fold (prune_visit now) ks m) k =
     (case map_of m k of
        Some v \<Rightarrow> if k \<in> set ks \<and> \<not> unexpired (now k) (Response v) then None else Some v
      | None \<Rightarrow> None)"
  by (induction ks arbitrary: m) (auto simp: prune_visit_map_of split: option.splits)

text \<open>The order in which the loop visits the keys does not matter.\<close>

lemma fold_prune_visit_filter:
  assumes "gomap_wf m" and "fst ` set m \<subseteq> set ks"
  shows "fold (prune_visit now) ks m = filter (\<lambda>(k, v). unexpired (now k) (Response v)) m"
proof (rule gomap_ext)
  show "map_of (fold (prune_visit now) ks m) = map_of (filter (\<lambda>(k, v). unexpired (now k) (Response v)) m)"
  proof
    fix k
    have "map_of m k = Some v \<Longrightarrow> k \<in> set ks" for v
      using assms(2) by (force dest: map_of_SomeD)
    then show "map_of (fold (prune_visit now) ks m) k =
        map_of (filter (\<lambda>(k, v). unexpired (now k) (Response v)) m) k"
      by (auto simp: fold_prune_visit_map_of map_of_gomap_filter [OF assms(1)] split: option.split)
  qed
qed (simp_all add: assms(1) fold_prune_visit_wf gomap_wf_filter)

lemma MemCache_Prune_filter:
  "gomap_wf (cache c) \<Longrightarrow> MemCache_Prune now c =
     (Inr (), c\<lparr>cache := filter (\<lambda>(k, v). unexpired (now k) (Response v)) (cache c)\<rparr>)"
  by (simp add: MemCache_Prune_def fold_prune_visit_filter)

lemma MemCache_contents_prune:
  assumes "MemCache_wf c"
  shows "MemCache_contents (snd (MemCache_Prune now c)) k =
    (case MemCache_contents c k of
       Some r \<Rightarrow> if unexpired (now k) r then Some r else None | None \<Rightarrow> None)"
  using assms
  by (auto simp: MemCache_contents_def MemCache_Prune_filter MemCache_wf_def map_of_gomap_filter
      split: option.splits)

lemma list_all_gomap_put:
  "list_all P m \<Longrightarrow> P (k, v) \<Longrightarrow> list_all P (gomap_put k v m)"
  by (induction m) auto

lemma MemCache_wf_new [simp]: "MemCache_wf NewMemCache"
  by (simp add: MemCache_wf_def NewMemCache_def)

lemma MemCache_contents_new [simp]: "MemCache_contents NewMemCache = Map.empty"
  by (simp add: MemCache_contents_def NewMemCache_def fun_eq_iff)

lemma MemCache_wf_store:
  "MemCache_wf c \<Longrightarrow> wf_response (Response v) \<Longrightarrow> MemCache_wf (snd (MemCache_Store v c))"
  by (auto simp: MemCache_wf_def MemCache_Store_def storable_def list_all_gomap_put)

lemma MemCache_wf_prune: "MemCache_wf c \<Longrightarrow> MemCache_wf (snd (MemCache_Prune now c))"
  by (auto simp: MemCache_wf_def MemCache_Prune_filter gomap_wf_filter list_all_iff)

lemma MemCache_contents_store:
  "MemCache_contents (snd (MemCache_Store v c)) = updated v (MemCache_contents c)"
  by (auto simp: MemCache_contents_def MemCache_Store_def updated_def storable_def fun_eq_iff)

lemma MemCache_Retrieve_state [simp]: "snd (MemCache_Retrieve k c) = c"
  by (simp add: MemCache_Retrieve_def split: option.split)

definition MemCache_iface :: "MemCache cache_iface" where
  "MemCache_iface = \<lparr>Retrieve = MemCache_Retrieve, Store = MemCache_Store, Prune = MemCache_Prune\<rparr>"

interpretation mem: keeping_cache MemCache_wf MemCache_contents MemCache_Retrieve MemCache_Store MemCache_Prune
proof unfold_locales
  fix c v now k
  assume wf: "MemCache_wf c"
  show "fst (MemCache_Retrieve k c) = (case MemCache_contents c k of Some r \<Rightarrow> Inr r | None \<Rightarrow> Inl CacheMiss)"
    by (simp add: MemCache_Retrieve_def MemCache_contents_def split: option.split)
  show "MemCache_contents (snd (MemCache_Prune now c)) \<subseteq>\<^sub>m MemCache_contents c"
    using wf by (auto simp: map_le_def MemCache_contents_prune split: option.splits if_splits)
  show "fst (MemCache_Store v c) = Inr ()"
    by (simp add: MemCache_Store_def)
  show "wf_response r" if "MemCache_contents c k = Some r" for r
    using wf that by (auto simp: MemCache_contents_def MemCache_wf_def list_all_iff dest!: map_of_SomeD)
qed (simp_all add: MemCache_wf_store MemCache_wf_prune MemCache_contents_store)

lemma mem_iface: "mem.iface = MemCache_iface"
  by (simp add: MemCache_iface_def mem.iface_def)

subsection \<open>The cache that does not cache\<close>

record NoCache =
  no_state :: unit

definition NoCache_Retrieve :: "string \<Rightarrow> NoCache \<Rightarrow> GetCredentialsResponse result \<times> NoCache" where
  "NoCache_Retrieve cacheKey c = (Inl CacheMiss, c)"

definition NoCache_Store :: "CachableGetCredentialsResponse \<Rightarrow> NoCache \<Rightarrow> unit result \<times> NoCache" where
  "NoCache_Store cacheValue c = (Inr (), c)"

definition NoCache_Prune :: "clock \<Rightarrow> NoCache \<Rightarrow> unit result \<times> NoCache" where
  "NoCache_Prune now c = (Inr (), c)"

definition NoCache_iface :: "NoCache cache_iface" where
  "NoCache_iface = \<lparr>Retrieve = NoCache_Retrieve, Store = NoCache_Store, Prune = NoCache_Prune\<rparr>"

interpretation nocache: api_cache "\<lambda>_. True" "\<lambda>_. Map.empty" NoCache_Retrieve NoCache_Store NoCache_Prune
  by unfold_locales (simp_all add: NoCache_Retrieve_def NoCache_Store_def NoCache_Prune_def)

subsection \<open>Properties\<close>

text \<open>(C6) \<open>MemCache.Prune\<close> keeps an entry exactly when its expiry is an RFC 3339 time that is not
  before the clock; every other entry, an unparsable one included, is gone afterwards, and no
  entry changes.\<close>

theorem prune_keeps_unexpired:
  assumes "MemCache_wf c"
  shows "fst (MemCache_Retrieve k (snd (MemCache_Prune now c))) = Inr r \<longleftrightarrow>
    fst (MemCache_Retrieve k c) = Inr r \<and> (\<exists>ts. time_Parse (Expires r) = Some ts \<and> now k \<le> ts)"
  using assms MemCache_contents_prune [OF assms, of now k]
  by (auto simp: mem.retrieve_result MemCache_wf_prune unexpired_def split: option.splits if_splits)

definition sample_cachable :: CachableGetCredentialsResponse where
  "sample_cachable = \<lparr>CacheKey = ''foo'', Response = \<lparr>Expires = ''2024-01-02T15:04:05Z'',
     Headers = [(''Authorization'', Some [''Bearer t''])]\<rparr>\<rparr>"

lemma sample_cachable_ok:
  "storable sample_cachable" "wf_response (Response sample_cachable)"
  "CacheKey sample_cachable = ''foo''"
  by (simp_all add: sample_cachable_def storable_def wf_response_def)

theorem prune_keeps_unexpired_witness:
  "fst (MemCache_Retrieve ''foo'' (snd (MemCache_Prune (\<lambda>_. 0) (snd (MemCache_Store sample_cachable NewMemCache)))))
     = Inr (Response sample_cachable)"
proof -
  have wf: "MemCache_wf (snd (MemCache_Store sample_cachable NewMemCache))"
    by (simp add: MemCache_wf_store sample_cachable_ok)
  have got: "fst (MemCache_Retrieve ''foo'' (snd (MemCache_Store sample_cachable NewMemCache)))
      = Inr (Response sample_cachable)"
    using mem.retrieve_after_store [of NewMemCache sample_cachable] sample_cachable_ok by simp
  have "time_Parse (Expires (Response sample_cachable)) = Some 1704207845000000000"
    by (simp add: sample_cachable_def time_Parse_eval)
  then show ?thesis
    using prune_keeps_unexpired [OF wf, of "''foo''" "\<lambda>_. 0"] got by simp
qed

end
