(* ===== verification/RemoteAPIs.thy ===== *)
theory RemoteAPIs
  imports LookupChain Providers Go_Base64 Cache
begin

text \<open>
  The helper for remote execution and caching services
  (\<open>src/authenticate/remoteapis/remoteapis.go\<close>).
\<close>

definition GOOGLE_BYTESTREAM_BYTESTREAM :: string where
  "GOOGLE_BYTESTREAM_BYTESTREAM = ''google.bytestream.ByteStream''"
definition GOOGLE_DEVTOOLS_BUILD_V1_PUBLISHBUILDEVENT :: string where
  "GOOGLE_DEVTOOLS_BUILD_V1_PUBLISHBUILDEVENT = ''google.devtools.build.v1.PublishBuildEvent''"
definition REMOTE_ASSET_V1_FETCH :: string where
  "REMOTE_ASSET_V1_FETCH = ''build.bazel.remote.asset.v1.Fetch''"
definition REMOTE_ASSET_V1_PUSH :: string where
  "REMOTE_ASSET_V1_PUSH = ''build.bazel.remote.asset.v1.Push''"
definition REMOTE_EXECUTION_V2_ACTIONCACHE :: string where
  "REMOTE_EXECUTION_V2_ACTIONCACHE = ''build.bazel.remote.execution.v2.ActionCache''"
definition REMOTE_EXECUTION_V2_CAPABILITIES :: string where
  "REMOTE_EXECUTION_V2_CAPABILITIES = ''build.bazel.remote.execution.v2.Capabilities''"
definition REMOTE_EXECUTION_V2_CONTENTADDRESSABLESTORAGE :: string where
  "REMOTE_EXECUTION_V2_CONTENTADDRESSABLESTORAGE = ''build.bazel.remote.execution.v2.ContentAddressableStorage''"
definition REMOTE_EXECUTION_V2_EXECUTION :: string where
  "REMOTE_EXECUTION_V2_EXECUTION = ''build.bazel.remote.execution.v2.Execution''"

definition rpc_names :: "string list" where
  "rpc_names =
     [GOOGLE_BYTESTREAM_BYTESTREAM, GOOGLE_DEVTOOLS_BUILD_V1_PUBLISHBUILDEVENT, REMOTE_ASSET_V1_FETCH,
      REMOTE_ASSET_V1_PUSH, REMOTE_EXECUTION_V2_ACTIONCACHE, REMOTE_EXECUTION_V2_CAPABILITIES,
      REMOTE_EXECUTION_V2_CONTENTADDRESSABLESTORAGE, REMOTE_EXECUTION_V2_EXECUTION]"

subsection \<open>Configuration\<close>

record RemoteAPIs_config =
  ra_AuthMethod :: string
  ra_HeaderName :: string
  ra_LookupChain :: Config

definition RemoteAPIs_fields :: "RemoteAPIs_config fields" where
  "RemoteAPIs_fields =
     [(''auth_method'', field decode_string ra_AuthMethod (\<lambda>x r. r\<lparr>ra_AuthMethod := x\<rparr>)),
      (''header_name'', field decode_string ra_HeaderName (\<lambda>x r. r\<lparr>ra_HeaderName := x\<rparr>)),
      (''lookup_chain'', field decode_Config ra_LookupChain (\<lambda>x r. r\<lparr>ra_LookupChain := x\<rparr>))]"

definition default_chain :: "string \<Rightarrow> string \<Rightarrow> Config" where
  "default_chain name service = Default
     [EnvS \<lparr>env_Source = ''env'', env_Name = name, env_Binding = ''default''\<rparr>,
      KeyringS \<lparr>kr_Source = ''keyring'', kr_Service = service, kr_Binding = ''default''\<rparr>]"

definition buildbuddy_config :: RemoteAPIs_config where
  "buildbuddy_config =
     \<lparr>ra_AuthMethod = ''header'', ra_HeaderName = ''x-buildbuddy-api-key'',
      ra_LookupChain = default_chain ''BUILDBUDDY_API_KEY'' ''tweag-credential-helper:buildbuddy_api_key''\<rparr>"

definition wellKnownServices :: "RemoteAPIs_config gomap" where
  "wellKnownServices = [(''remote.buildbuddy.io'', buildbuddy_config)]"

definition RemoteAPIs_configFromContext :: "json option \<Rightarrow> url \<Rightarrow> RemoteAPIs_config result" where
  "RemoteAPIs_configFromContext ctx uri =
     (case map_of wellKnownServices (Host uri) of
        Some cfg \<Rightarrow> FromContext RemoteAPIs_fields ctx cfg
      | None \<Rightarrow>
          if HasSuffix (Host uri) ''.buildbuddy.io'' then FromContext RemoteAPIs_fields ctx buildbuddy_config
          else FromContext RemoteAPIs_fields ctx
            \<lparr>ra_AuthMethod = ''header'', ra_HeaderName = [],
             ra_LookupChain = default_chain ''CREDENTIAL_HELPER_REMOTEAPIS_SECRET'' ''tweag-credential-helper:remoteapis''\<rparr>)"

subsection \<open>Requests\<close>

definition RemoteAPIs_CacheKey :: "GetCredentialsRequest \<Rightarrow> string" where
  "RemoteAPIs_CacheKey req = URI req"

text \<open>The end of \<open>Get\<close>: header name and value for the secret, by the method.\<close>

definition remote_header :: "RemoteAPIs_config \<Rightarrow> string \<Rightarrow> (string \<times> string) result" where
  "remote_header cfg secret =
     (if ra_AuthMethod cfg = ''header'' then
        (if length (ra_HeaderName cfg) = 0
         then Inl (ErrorString ''header_name must be set for auth method \"header\"'')
         else Inr (ra_HeaderName cfg, secret))
      else if ra_AuthMethod cfg = ''basic_auth'' then
        Inr (if 0 < length (ra_HeaderName cfg) then ra_HeaderName cfg else ''authorization'',
             ''Basic '' @ b64_encode secret)
      else Inl (Errorf ''unknown auth method %q. Possible values are \"header\" and \"basic_auth\"'' [ra_AuthMethod cfg]))"

definition RemoteAPIs_Get :: "world \<Rightarrow> json option \<Rightarrow> getter" where
  "RemoteAPIs_Get w ctx req =
     bind_result (Parse (URI req)) (\<lambda>parsedURL.
       if Scheme parsedURL \<noteq> ''https'' \<and> Scheme parsedURL \<noteq> ''grpc'' \<and> Scheme parsedURL \<noteq> ''grpcs'' then
         Inl (Errorf ''only https, grpc, and grpcs are supported, but got %q'' [Scheme parsedURL])
       else if \<not> HasPrefix (Path parsedURL) ''/'' then
         Inl (ErrorString ''remote execution API path must start with /'')
       else if TrimPrefix (Path parsedURL) ''/'' \<notin> set rpc_names then
         Inl (Errorf ''unknown remote execution API path %q - maybe you are trying to use HTTP/1.1, but currently only gRPC is supported'' [Path parsedURL])
       else
         (case RemoteAPIs_configFromContext ctx parsedURL of
            Inl e \<Rightarrow> Inl (Wrapf ''getting configuration fragment for remotapis helper and url %s'' [URI req] e)
          | Inr cfg \<Rightarrow>
              bind_result (Lookup w (ra_LookupChain cfg) ''default'') (\<lambda>secret.
                bind_result (remote_header cfg secret) (\<lambda>(headerName, v).
                  Inr \<lparr>Expires = [], Headers = [(headerName, Some [v])]\<rparr>))))"

interpretation remote_keyed: safe_keyed_helper RemoteAPIs_CacheKey "RemoteAPIs_Get w ctx" for w ctx
  unfolding RemoteAPIs_CacheKey_def by (rule safe_keyed_by_URI)

subsection \<open>Properties\<close>

text \<open>The helper answers exactly when the URL has one of the three schemes, its path is one of the
  known services, the configuration is valid, the lookup chain has the secret, and the method
  yields a header; the answer is that one header.\<close>

theorem remoteapis_get_iff:
  "RemoteAPIs_Get w ctx q = Inr r \<longleftrightarrow>
     (\<exists>u name cfg secret h v. Parse (URI q) = Inr u \<and> Scheme u \<in> {''https'', ''grpc'', ''grpcs''}
        \<and> Path u = CHR ''/'' # name \<and> name \<in> set rpc_names
        \<and> RemoteAPIs_configFromContext ctx u = Inr cfg \<and> Lookup w (ra_LookupChain cfg) ''default'' = Inr secret
        \<and> remote_header cfg secret = Inr (h, v) \<and> r = \<lparr>Expires = [], Headers = [(h, Some [v])]\<rparr>)"
proof (cases "Parse (URI q)")
  case (Inr u)
  show ?thesis
  proof (cases "Path u")
    case (Cons c name)
    show ?thesis
      using Inr Cons
      by (cases "RemoteAPIs_configFromContext ctx u")
        (auto simp: RemoteAPIs_Get_def HasPrefix_def TrimPrefix_def)
  qed (simp add: Inr RemoteAPIs_Get_def HasPrefix_def)
qed (simp add: RemoteAPIs_Get_def)

text \<open>With basic authentication the header carries the configured secret: decoding it gives the
  secret back.\<close>

theorem remoteapis_basic_auth_roundtrip:
  assumes "ra_AuthMethod cfg = ''basic_auth''"
  shows "\<exists>h v. remote_header cfg secret = Inr (h, ''Basic '' @ v) \<and> b64_decode v = Some secret \<and> h \<noteq> []"
  using assms by (simp add: remote_header_def b64_decode_encode)

theorem remoteapis_basic_auth_roundtrip_witness:
  "\<exists>h v. remote_header \<lparr>ra_AuthMethod = ''basic_auth'', ra_HeaderName = [], ra_LookupChain = []\<rparr> ''user:pw'' =
     Inr (h, ''Basic '' @ v) \<and> b64_decode v = Some ''user:pw'' \<and> h \<noteq> []"
  by (rule remoteapis_basic_auth_roundtrip) simp

text \<open>Although the helper has a cache key, its responses have no expiry: storing one leaves the cache
  as it was, so every request asks the secret sources again.\<close>

theorem remoteapis_never_cached:
  assumes "RemoteAPIs_Get w ctx q = Inr r"
  shows "MemCache_Store \<lparr>CacheKey = RemoteAPIs_CacheKey q, Response = r\<rparr> c = (Inr (), c)"
  using assms by (auto simp: RemoteAPIs_Get_def MemCache_Store_def split: if_splits sum.splits prod.splits)

definition buildbuddy_world :: world where
  "buildbuddy_world = empty_world\<lparr>proc := (proc empty_world)\<lparr>env := [(''BUILDBUDDY_API_KEY'', ''key'')]\<rparr>\<rparr>"

definition buildbuddy_request :: GetCredentialsRequest where
  "buildbuddy_request = \<lparr>URI = ''https://remote.buildbuddy.io/build.bazel.remote.execution.v2.Execution''\<rparr>"

lemma buildbuddy_get:
  "RemoteAPIs_Get buildbuddy_world None buildbuddy_request =
     Inr \<lparr>Expires = [], Headers = [(''x-buildbuddy-api-key'', Some [''key''])]\<rparr>"
proof -
  have "plain_scheme ''https''" "plain_host ''remote.buildbuddy.io''"
    "plain_path ''build.bazel.remote.execution.v2.Execution''"
    by (simp_all add: plain_scheme_def plain_host_def plain_path_def char_class_defs)
  from Parse_plain [OF this] have "Parse (URI buildbuddy_request) =
      Inr (plain_url ''https'' ''remote.buildbuddy.io'' ''/build.bazel.remote.execution.v2.Execution'')"
    by (simp add: buildbuddy_request_def)
  then show ?thesis
    by (simp add: RemoteAPIs_Get_def HasPrefix_def TrimPrefix_def rpc_names_def REMOTE_EXECUTION_V2_EXECUTION_def
        RemoteAPIs_configFromContext_def wellKnownServices_def FromContext_def buildbuddy_config_def
        default_chain_def chain_run buildbuddy_world_def empty_world_def LookupEnv_def remote_header_def)
qed

theorem remoteapis_never_cached_witness:
  "MemCache_Store \<lparr>CacheKey = RemoteAPIs_CacheKey buildbuddy_request,
     Response = \<lparr>Expires = [], Headers = [(''x-buildbuddy-api-key'', Some [''key''])]\<rparr>\<rparr> NewMemCache = (Inr (), NewMemCache)"
  by (rule remoteapis_never_cached [OF buildbuddy_get])

end
