(* ===== verification/Go_Sha256.thy ===== *)
theory Go_Sha256
  imports Go_Md5
begin

text \<open>
  \<open>crypto/sha256\<close> (FIPS 180-4), which the S3 helper uses to turn a Cloudflare API token into a
  secret access key (\<open>src/authenticate/s3/s3.go\<close>).
\<close>

text \<open>The round constants, in decimal.\<close>

definition sha256_table :: "w32 list" where
  "sha256_table = [
     1116352408, 1899447441, 3049323471, 3921009573, 961987163, 1508970993, 2453635748, 2870763221,
     3624381080, 310598401, 607225278, 1426881987, 1925078388, 2162078206, 2614888103, 3248222580,
     3835390401, 4022224774, 264347078, 604807628, 770255983, 1249150122, 1555081692, 1996064986,
     2554220882, 2821834349, 2952996808, 3210313671, 3336571891, 3584528711, 113926993, 338241895,
     666307205, 773529912, 1294757372, 1396182291, 1695183700, 1986661051, 2177026350, 2456956037,
     2730485921, 2820302411, 3259730800, 3345764771, 3516065817, 3600352804, 4094571909, 275423344,
     430227734, 506948616, 659060556, 883997877, 958139571, 1322822218, 1537002063, 1747873779,
     1955562222, 2024104815, 2227730452, 2361852424, 2428436474, 2756734187, 3204031479, 3329325298]"

definition rotr32 :: "nat \<Rightarrow> w32 \<Rightarrow> w32" where
  "rotr32 n x = (drop_bit n x OR push_bit (32 - n) x)"

definition be_word :: "string \<Rightarrow> w32" where
  "be_word bs = foldl (\<lambda>acc b. push_bit 8 acc + of_nat (ord b)) 0 bs"

definition be_bytes :: "nat \<Rightarrow> nat \<Rightarrow> string" where
  "be_bytes n v = rev (le_bytes n v)"

definition sha256_pad :: "string \<Rightarrow> string" where
  "sha256_pad s =
     (let n = length s
      in s @ char_of (0x80 :: nat) # replicate ((119 - n mod 64) mod 64) (char_of (0 :: nat)) @ be_bytes 8 (8 * n))"

text \<open>The message schedule: each word from the sixteen before it.\<close>

fun schedule :: "nat \<Rightarrow> w32 list \<Rightarrow> w32 list" where
  "schedule 0 ws = ws"
| "schedule (Suc k) ws =
     (let n = length ws;
          a = ws ! (n - 15); b = ws ! (n - 2);
          s0 = (rotr32 7 a XOR rotr32 18 a) XOR drop_bit 3 a;
          s1 = (rotr32 17 b XOR rotr32 19 b) XOR drop_bit 10 b
      in schedule k (ws @ [ws ! (n - 16) + s0 + ws ! (n - 7) + s1]))"

definition sha256_round :: "w32 \<times> w32 \<Rightarrow> w32 list \<Rightarrow> w32 list" where
  "sha256_round kw st =
     (let (k, x) = kw;
          a = st ! 0; b = st ! 1; c = st ! 2; e = st ! 4; f = st ! 5; g = st ! 6;
          s1 = (rotr32 6 e XOR rotr32 11 e) XOR rotr32 25 e;
          ch = (e AND f) XOR (NOT e AND g);
          t1 = st ! 7 + s1 + ch + k + x;
          s0 = (rotr32 2 a XOR rotr32 13 a) XOR rotr32 22 a;
          maj = ((a AND b) XOR (a AND c)) XOR (b AND c)
      in [t1 + (s0 + maj), a, b, c, st ! 3 + t1, e, f, g])"

definition sha256_block :: "string \<Rightarrow> w32 list \<Rightarrow> w32 list" where
  "sha256_block block st =
     map2 (+) st (fold sha256_round (zip sha256_table (schedule 48 (map be_word (chunks 4 16 block)))) st)"

definition sha256_sum :: "string \<Rightarrow> string" where
  "sha256_sum s =
     (let p = sha256_pad s
      in concat (map (\<lambda>w. be_bytes 4 (unat w))
           (fold sha256_block (chunks 64 (length p div 64) p)
             [0x6a09e667, 0xbb67ae85, 0x3c6ef372, 0xa54ff53a, 0x510e527f, 0x9b05688c, 0x1f83d9ab, 0x5be0cd19])))"

lemma length_sha256_round: "length (sha256_round kw st) = 8"
  by (simp add: sha256_round_def Let_def split: prod.split)

lemma length_sha256_rounds: "length st = 8 \<Longrightarrow> length (fold sha256_round kws st) = 8"
  by (induction kws arbitrary: st) (simp_all add: length_sha256_round)

lemma length_sha256_blocks: "length st = 8 \<Longrightarrow> length (fold sha256_block bs st) = 8"
  by (induction bs arbitrary: st) (simp_all add: sha256_block_def length_sha256_rounds)

lemma length_concat_be_bytes: "length (concat (map (\<lambda>w. be_bytes 4 (unat w)) ws)) = 4 * length ws"
  by (induction ws) (simp_all add: be_bytes_def le_bytes_def)

lemma length_sha256_sum: "length (sha256_sum s) = 32"
  unfolding sha256_sum_def Let_def length_concat_be_bytes by (simp add: length_sha256_blocks)

end
