(* ===== verification/S3.thy ===== *)
theory S3
  imports LookupChain Providers Go_Sha256
begin

text \<open>
  The helper for S3 and compatible stores (\<open>src/authenticate/s3/s3.go\<close>): where the keys come from,
  the region of a host, and the signed response.  Loading the AWS configuration and signing
  are the AWS library's.
\<close>

definition expiresIn :: duration where "expiresIn = 15 * Minute"

definition emptySHA256 :: string where
  "emptySHA256 = ''e3b0c44298fc1c149afbf4c8996fb92427ae41e4649b934ca495991b7852b855''"

datatype S3Provider = ProviderUnknown | ProviderAWS | ProviderCloudflareR2

definition providerFromHost :: "string \<Rightarrow> S3Provider" where
  "providerFromHost host =
     (if HasSuffix host ''.r2.cloudflarestorage.com'' then ProviderCloudflareR2
      else if HasSuffix host ''.amazonaws.com'' then ProviderAWS
      else ProviderUnknown)"

definition awsLegacyGlobalRegion :: "string \<Rightarrow> string option" where
  "awsLegacyGlobalRegion host =
     (if host = ''s3.amazonaws.com'' then Some ''us-east-1''
      else if HasSuffix host ''.s3.amazonaws.com'' then Some ''us-east-1''
      else None)"

definition regionFromHost :: "string \<Rightarrow> string" where
  "regionFromHost host =
     (if HasSuffix host ''.r2.cloudflarestorage.com'' then ''auto''
      else if \<not> HasSuffix host ''.amazonaws.com'' then []
      else case awsLegacyGlobalRegion host of
        Some region \<Rightarrow> region
      | None \<Rightarrow>
          (let rest = TrimSuffix host ''.amazonaws.com''; parts = Split (CHR ''.'') rest
           in if HasPrefix rest ''s3.'' then (if length parts \<noteq> 2 then [] else parts ! 1)
              else if length parts = 3 then parts ! 2
              else []))"

subsection \<open>Configuration\<close>

definition BindigAccessKeyID :: string where "BindigAccessKeyID = ''aws-access-key-id''"
definition BindingSecretAccessKey :: string where "BindingSecretAccessKey = ''aws-secret-access-key''"
definition BindingSessionToken :: string where "BindingSessionToken = ''aws-session-token''"
definition BindingCloudflareAPIToken :: string where "BindingCloudflareAPIToken = ''cloudflare-api-token''"
definition BindingRegion :: string where "BindingRegion = ''aws-default-region''"

record S3_config =
  s3_Region :: string
  s3_LookupChain :: Config

definition S3_fields :: "S3_config fields" where
  "S3_fields =
     [(''region'', field decode_string s3_Region (\<lambda>x r. r\<lparr>s3_Region := x\<rparr>)),
      (''lookup_chain'', field decode_Config s3_LookupChain (\<lambda>x r. r\<lparr>s3_LookupChain := x\<rparr>))]"

definition aws_sources :: "Source list" where
  "aws_sources =
     [KeyringS \<lparr>kr_Source = ''keyring'', kr_Service = ''tweag-credential-helper:aws-access-key-id'', kr_Binding = BindigAccessKeyID\<rparr>,
      KeyringS \<lparr>kr_Source = ''keyring'', kr_Service = ''tweag-credential-helper:aws-secret-access-key'', kr_Binding = BindingSecretAccessKey\<rparr>,
      KeyringS \<lparr>kr_Source = ''keyring'', kr_Service = ''tweag-credential-helper:aws-default-region'', kr_Binding = BindingRegion\<rparr>]"

definition r2_sources :: "Source list" where
  "r2_sources =
     [EnvS \<lparr>env_Source = ''env'', env_Name = ''R2_ACCESS_KEY_ID'', env_Binding = BindigAccessKeyID\<rparr>,
      EnvS \<lparr>env_Source = ''env'', env_Name = ''R2_SECRET_ACCESS_KEY'', env_Binding = BindingSecretAccessKey\<rparr>,
      EnvS \<lparr>env_Source = ''env'', env_Name = ''CLOUDFLARE_API_TOKEN'', env_Binding = BindingCloudflareAPIToken\<rparr>,
      KeyringS \<lparr>kr_Source = ''env'', kr_Service = ''tweag-credential-helper:cloudflare-api-token'', kr_Binding = BindingCloudflareAPIToken\<rparr>]"

definition S3_configFromContext :: "json option \<Rightarrow> url \<Rightarrow> S3_config result" where
  "S3_configFromContext ctx uri =
     FromContext S3_fields ctx
       (case providerFromHost (Host uri) of
          ProviderAWS \<Rightarrow> \<lparr>s3_Region = regionFromHost (Host uri), s3_LookupChain = Default aws_sources\<rparr>
        | ProviderCloudflareR2 \<Rightarrow> \<lparr>s3_Region = ''auto'', s3_LookupChain = Default (r2_sources @ aws_sources)\<rparr>
        | ProviderUnknown \<Rightarrow> \<lparr>s3_Region = [], s3_LookupChain = Default aws_sources\<rparr>)"

subsection \<open>Requests\<close>

definition S3_CacheKey :: "GetCredentialsRequest \<Rightarrow> string" where
  "S3_CacheKey req = URI req"

text \<open>A secret that may be missing: every failed lookup is logged and leaves the fallback.\<close>

definition lookup_or :: "world \<Rightarrow> Config \<Rightarrow> string \<Rightarrow> string \<Rightarrow> string" where
  "lookup_or w chain binding fallback = (case Lookup w chain binding of Inr v \<Rightarrow> v | Inl _ \<Rightarrow> fallback)"

definition s3_secret_key :: "world \<Rightarrow> Config \<Rightarrow> string \<Rightarrow> string" where
  "s3_secret_key w chain host =
     lookup_or w chain BindingSecretAccessKey
       (if providerFromHost host = ProviderCloudflareR2 then
          (case Lookup w chain BindingCloudflareAPIToken of
             Inr cloudflareAPIToken \<Rightarrow> hex_string (sha256_sum cloudflareAPIToken)
           | Inl _ \<Rightarrow> [])
        else [])"

definition s3_options :: "world \<Rightarrow> S3_config \<Rightarrow> string \<Rightarrow> aws_options" where
  "s3_options w cfg host =
     (let chain = s3_LookupChain cfg;
          accessKeyID = lookup_or w chain BindigAccessKeyID [];
          secretAccessKey = s3_secret_key w chain host;
          sessionToken = lookup_or w chain BindingSessionToken [];
          region = lookup_or w chain BindingRegion (s3_Region cfg)
      in \<lparr>opt_credentials = (if 0 < length accessKeyID \<and> 0 < length secretAccessKey
            then Some (accessKeyID, secretAccessKey, sessionToken) else None),
          opt_region = (if 0 < length region then Some region else None)\<rparr>)"

definition S3Resolver_Get :: "world \<Rightarrow> json option \<Rightarrow> getter" where
  "S3Resolver_Get w ctx req =
     bind_result (Parse (URI req)) (\<lambda>parsedURL.
       if values_has ''X-Amz-Expires'' (Query parsedURL) then Inr empty_response
       else if Scheme parsedURL \<noteq> ''https'' then Inl (ErrorString ''only https is supported'')
       else
         (case S3_configFromContext ctx parsedURL of
            Inl e \<Rightarrow> Inl (Wrapf ''getting configuration fragment for remotapis helper and url %s'' [URI req] e)
          | Inr cfg \<Rightarrow>
              (let opts = s3_options w cfg (Host parsedURL);
                   region = (case opt_region opts of None \<Rightarrow> [] | Some r \<Rightarrow> r);
                   ts = w_now w
               in bind_result (aws_LoadDefaultConfig w opts) (\<lambda>provider.
                  bind_result provider (\<lambda>cred.
                  bind_result (aws_SignHTTP w cred parsedURL [(''X-Amz-Content-SHA256'', Some [emptySHA256])]
                      emptySHA256 ''s3'' region ts) (\<lambda>signed.
                  Inr \<lparr>Expires = time_Format (ts + expiresIn), Headers = signed\<rparr>))))))"

interpretation s3_keyed: safe_keyed_helper S3_CacheKey "S3Resolver_Get w ctx" for w ctx
  unfolding S3_CacheKey_def by (rule safe_keyed_by_URI)

subsection \<open>Properties\<close>

lemma aws_host:
  "HasSuffix (rest @ ''.amazonaws.com'') ''.amazonaws.com''"
  "\<not> HasSuffix (rest @ ''.amazonaws.com'') ''.r2.cloudflarestorage.com''"
  "HasSuffix (rest @ ''.amazonaws.com'') ''.s3.amazonaws.com'' \<longleftrightarrow> HasSuffix rest ''.s3''"
  "rest @ ''.amazonaws.com'' = ''s3.amazonaws.com'' \<longleftrightarrow> rest = ''s3''"
  by (simp, simp_all add: HasSuffix_rev)

lemma regionFromHost_aws:
  "regionFromHost (rest @ ''.amazonaws.com'') =
     (if rest = ''s3'' \<or> HasSuffix rest ''.s3'' then ''us-east-1''
      else if HasPrefix rest ''s3.'' then
        (if length (Split (CHR ''.'') rest) = 2 then Split (CHR ''.'') rest ! 1 else [])
      else if length (Split (CHR ''.'') rest) = 3 then Split (CHR ''.'') rest ! 2 else [])"
  by (simp only: regionFromHost_def awsLegacyGlobalRegion_def aws_host TrimSuffix_append if_True if_False
      simp_thms Let_def option.case if_distrib [of "case_option _ _"]) simp

lemma no_dot_suffix: "CHR ''.'' \<notin> set r \<Longrightarrow> r \<noteq> ''s3'' \<Longrightarrow> \<not> HasSuffix (x @ CHR ''.'' # r) ''.s3''"
proof
  assume r: "CHR ''.'' \<notin> set r" "r \<noteq> ''s3''" and "HasSuffix (x @ CHR ''.'' # r) ''.s3''"
  then obtain t where "x @ CHR ''.'' # r = t @ CHR ''.'' # ''s3''" by (auto simp: HasSuffix_iff)
  then have "LastCut (CHR ''.'') (x @ CHR ''.'' # r) = LastCut (CHR ''.'') (t @ CHR ''.'' # ''s3'')" by simp
  with r show False by (simp add: LastCut_append)
qed

text \<open>The region is read off the host: the third label of a virtual-hosted-style host, the second of a
  path-style host, \<open>us-east-1\<close> for the legacy global endpoints.\<close>

theorem region_of_s3_hosts:
  assumes "CHR ''.'' \<notin> set bucket" and "CHR ''.'' \<notin> set region" and "bucket \<noteq> ''s3''" and "region \<noteq> ''s3''"
  shows "regionFromHost (bucket @ ''.s3.'' @ region @ ''.amazonaws.com'') = region
    \<and> regionFromHost (''s3.'' @ region @ ''.amazonaws.com'') = region
    \<and> regionFromHost (bucket @ ''.s3.amazonaws.com'') = ''us-east-1''"
proof -
  let ?v = "bucket @ CHR ''.'' # ''s3'' @ CHR ''.'' # region" and ?p = "''s3'' @ CHR ''.'' # region"
  have sv: "Split (CHR ''.'') ?v = [bucket, ''s3'', region]"
    using Split_append [of "CHR ''.''" bucket "''s3'' @ CHR ''.'' # region"]
      Split_append [of "CHR ''.''" "''s3''" region] Split_no_sep [of "CHR ''.''" region] assms(1,2) by simp
  have sp: "Split (CHR ''.'') ?p = [''s3'', region]"
    using Split_append [of "CHR ''.''" "''s3''" region] Split_no_sep [of "CHR ''.''" region] assms(2) by simp
  have pre: "\<not> HasPrefix ?v ''s3.''"
  proof
    assume "HasPrefix ?v ''s3.''"
    then obtain t where "?v = ''s3'' @ CHR ''.'' # t" by (auto simp: HasPrefix_iff)
    then have "Cut (CHR ''.'') ?v = Cut (CHR ''.'') (''s3'' @ CHR ''.'' # t)" by simp
    with assms(1,3) show False by (simp add: Cut_append)
  qed
  have suf: "\<not> HasSuffix ?v ''.s3''" "\<not> HasSuffix ?p ''.s3''"
    using no_dot_suffix [OF assms(2,4), of "bucket @ CHR ''.'' # ''s3''"] no_dot_suffix [OF assms(2,4), of "''s3''"]
    by simp_all
  have vne: "?v \<noteq> ''s3''"
  proof
    assume "?v = ''s3''"
    then have "length ?v = length ''s3''" by (rule arg_cong)
    then show False by simp
  qed
  have "?p \<noteq> ''s3''" by simp
  with pre suf vne show ?thesis
    using regionFromHost_aws [of ?v] regionFromHost_aws [of ?p] regionFromHost_aws [of "bucket @ ''.s3''"] sv sp
    by simp
qed

theorem region_of_s3_hosts_witness:
  "regionFromHost ''my-bucket.s3.eu-west-1.amazonaws.com'' = ''eu-west-1''"
  using region_of_s3_hosts [of "''my-bucket''" "''eu-west-1''"] by simp

text \<open>What a successful answer to a request that is not presigned consists of.\<close>

lemma signed_answer:
  assumes "S3Resolver_Get w ctx q = Inr r" and "Parse (URI q) = Inr u"
    and "\<not> values_has ''X-Amz-Expires'' (Query u)"
  shows "Scheme u = ''https'' \<and> Expires r = time_Format (w_now w + expiresIn)
    \<and> (\<exists>opts cred region. aws_LoadDefaultConfig w opts = Inr (Inr cred)
         \<and> aws_SignHTTP w cred u [(''X-Amz-Content-SHA256'', Some [emptySHA256])] emptySHA256 ''s3'' region (w_now w)
           = Inr (Headers r))"
proof -
  obtain cfg where cfg: "S3_configFromContext ctx u = Inr cfg"
    using assms by (auto simp: S3Resolver_Get_def split: if_splits sum.splits)
  with assms show ?thesis
    by (auto simp: S3Resolver_Get_def Let_def split: if_splits intro!: exI [of _ "s3_options w cfg (Host u)"])
qed

text \<open>(C40) For a presigned URL a successful answer is empty, without signature and without expiry.  For
  every other URL the request is https, the headers are those the AWS signer returned for the credentials
  the AWS configuration provides, the service \<open>s3\<close>, the present time and the hash of an empty body, and
  the response expires 900 seconds after that time, to the second.\<close>

theorem s3_response_expiry:
  assumes "S3Resolver_Get w ctx q = Inr r" and "rfc3339_range (w_now w + 900000000000)"
  shows "\<exists>u. Parse (URI q) = Inr u \<and>
    (if values_has ''X-Amz-Expires'' (Query u) then Expires r = [] \<and> Headers r = []
     else Scheme u = ''https''
       \<and> time_Parse (Expires r) = Some (truncate_second (w_now w + 900000000000))
       \<and> (\<exists>opts cred region. aws_LoadDefaultConfig w opts = Inr (Inr cred)
            \<and> aws_SignHTTP w cred u
                [(''X-Amz-Content-SHA256'', Some [''e3b0c44298fc1c149afbf4c8996fb92427ae41e4649b934ca495991b7852b855''])]
                ''e3b0c44298fc1c149afbf4c8996fb92427ae41e4649b934ca495991b7852b855'' ''s3'' region (w_now w)
              = Inr (Headers r)))"
proof (cases "Parse (URI q)")
  case (Inl e)
  with assms(1) show ?thesis by (simp add: S3Resolver_Get_def)
next
  case (Inr u)
  show ?thesis
  proof (cases "values_has ''X-Amz-Expires'' (Query u)")
    case True
    with Inr assms(1) show ?thesis by (auto simp: S3Resolver_Get_def empty_response_def)
  next
    case False
    have min: "w_now w + expiresIn = w_now w + 900000000000" by (simp add: expiresIn_def Minute_def Second_def)
    from signed_answer [OF assms(1) Inr False] assms(2) Inr False show ?thesis
      by (intro exI [of _ u]) (auto simp: time_Parse_Format min emptySHA256_def)
  qed
qed

definition s3_world :: world where
  "s3_world = empty_world\<lparr>
     proc := (proc empty_world)\<lparr>env := [(''CLOUDFLARE_API_TOKEN'', ''cf''), (''R2_ACCESS_KEY_ID'', ''id'')]\<rparr>,
     aws_LoadDefaultConfig := (\<lambda>_. Inr (Inr ''cred'')),
     aws_SignHTTP := (\<lambda>c _ h _ _ _ _. Inr (gomap_put ''Authorization'' (Some [c]) h))\<rparr>"

lemma s3_request:
  "Parse ''https://acct.r2.cloudflarestorage.com/b/o'' = Inr (plain_url ''https'' ''acct.r2.cloudflarestorage.com'' ''/b/o'')"
proof -
  have "plain_scheme ''https''" "plain_host ''acct.r2.cloudflarestorage.com''" "plain_path ''b/o''"
    by (simp_all add: plain_scheme_def plain_host_def plain_path_def char_class_defs)
  from Parse_plain [OF this] show ?thesis by simp
qed

lemma s3_get:
  "\<exists>r. S3Resolver_Get s3_world None \<lparr>URI = ''https://acct.r2.cloudflarestorage.com/b/o''\<rparr> = Inr r"
  by (simp add: S3Resolver_Get_def s3_request Query_empty values_has_def S3_configFromContext_def FromContext_def
      s3_world_def)

theorem s3_response_expiry_witness:
  "\<exists>r region. S3Resolver_Get s3_world None \<lparr>URI = ''https://acct.r2.cloudflarestorage.com/b/o''\<rparr> = Inr r
     \<and> time_Parse (Expires r) = Some 1704068100000000000
     \<and> aws_SignHTTP s3_world ''cred'' (plain_url ''https'' ''acct.r2.cloudflarestorage.com'' ''/b/o'')
         [(''X-Amz-Content-SHA256'', Some [''e3b0c44298fc1c149afbf4c8996fb92427ae41e4649b934ca495991b7852b855''])]
         ''e3b0c44298fc1c149afbf4c8996fb92427ae41e4649b934ca495991b7852b855'' ''s3'' region 1704067200000000000 = Inr (Headers r)"
proof -
  obtain r where r: "S3Resolver_Get s3_world None \<lparr>URI = ''https://acct.r2.cloudflarestorage.com/b/o''\<rparr> = Inr r"
    using s3_get by blast
  have t0: "w_now s3_world = 1704067200000000000" by (simp add: s3_world_def empty_world_def Second_def)
  have "rfc3339_range (w_now s3_world + 900000000000)" by (simp add: t0 rfc3339_range_def Second_def)
  moreover have "truncate_second 1704068100000000000 = 1704068100000000000" by (simp add: truncate_second_def Second_def)
  moreover have "cred = ''cred''" if "aws_LoadDefaultConfig s3_world opts = Inr (Inr cred)" for opts cred
    using that by (simp add: s3_world_def)
  ultimately show ?thesis
    using s3_response_expiry [OF r] r by (fastforce simp: s3_request Query_empty values_has_def t0)
qed

text \<open>For R2 with the default sources: an access key id and a Cloudflare API token in the environment,
  without a secret key there or in the keyring, become static credentials whose secret is the
  hexadecimal SHA-256 hash of the token.\<close>

theorem r2_secret_from_api_token:
  assumes "LookupEnv ''R2_ACCESS_KEY_ID'' (proc w) = Some accessKey" and "accessKey \<noteq> []"
    and "LookupEnv ''CLOUDFLARE_API_TOKEN'' (proc w) = Some tok"
    and "LookupEnv ''R2_SECRET_ACCESS_KEY'' (proc w) = None"
    and "keyring_Get w ''tweag-credential-helper:aws-secret-access-key'' [] = Inl KeyringErrNotFound"
    and "HasSuffix host ''.r2.cloudflarestorage.com''"
  shows "opt_credentials (s3_options w \<lparr>s3_Region = ''auto'', s3_LookupChain = Default (r2_sources @ aws_sources)\<rparr> host)
    = Some (accessKey, hex_string (sha256_sum tok), [])"
proof -
  let ?chain = "Default (r2_sources @ aws_sources)"
  note bindings = BindigAccessKeyID_def BindingSecretAccessKey_def BindingSessionToken_def
    BindingCloudflareAPIToken_def BindingRegion_def
  note run = chain_run r2_sources_def aws_sources_def bindings
  have "Lookup w ?chain BindigAccessKeyID = Inr accessKey" using assms(1) by (simp add: run)
  moreover have "Lookup w ?chain BindingCloudflareAPIToken = Inr tok" using assms(3) by (simp add: run)
  moreover have "\<exists>e. Lookup w ?chain BindingSecretAccessKey = Inl e" using assms(4,5) by (simp add: run)
  moreover have "\<exists>e. Lookup w ?chain BindingSessionToken = Inl e" by (simp add: run)
  moreover have "providerFromHost host = ProviderCloudflareR2" using assms(6) by (simp add: providerFromHost_def)
  moreover have "hex_string (sha256_sum tok) \<noteq> []"
    using length_hex_string [of "sha256_sum tok"] by (auto simp: length_sha256_sum simp flip: length_greater_0_conv)
  ultimately show ?thesis
    using assms(2) by (auto simp: s3_options_def s3_secret_key_def lookup_or_def Let_def)
qed

theorem r2_secret_from_api_token_witness:
  "opt_credentials (s3_options s3_world \<lparr>s3_Region = ''auto'', s3_LookupChain = Default (r2_sources @ aws_sources)\<rparr>
     ''acct.r2.cloudflarestorage.com'') = Some (''id'', hex_string (sha256_sum ''cf''), [])"
  by (rule r2_secret_from_api_token)
    (simp_all add: s3_world_def empty_world_def LookupEnv_def HasSuffix_rev)

end
