(* ===== verification/Oauth.thy ===== *)
theory Oauth
  imports World Go_Base64 "HOL-Library.Word"
begin

text \<open>
  The token formats of container registries (\<open>src/authenticate/oci/oauth.go\<close>): the
  \<open>WWW-Authenticate\<close> challenge, and the conversion of token responses with their expiry.
  Strings are valid UTF-8, which \<open>strconv.Unquote\<close> copies.
\<close>

record WWWAuthenticate =
  Realm :: string
  Service :: string

record AuthConfig =
  Username :: string
  Password :: string
  Auth :: string
  IdentityToken :: string
  RegistryToken :: string
  TokenExchangeMethod :: string

definition empty_auth :: AuthConfig where
  "empty_auth = \<lparr>Username = [], Password = [], Auth = [], IdentityToken = [], RegistryToken = [],
     TokenExchangeMethod = []\<rparr>"

subsection \<open>Tokens\<close>

record BasicAuthToken =
  ba_Token :: string
  ba_AccessToken :: string
  ba_ExpiresIn :: int
  ba_IssuedAt :: string
  ba_RefreshToken :: string

definition empty_basic_token :: BasicAuthToken where
  "empty_basic_token = \<lparr>ba_Token = [], ba_AccessToken = [], ba_ExpiresIn = 0, ba_IssuedAt = [], ba_RefreshToken = []\<rparr>"

definition BasicAuthToken_fields :: "BasicAuthToken fields" where
  "BasicAuthToken_fields =
     [(''token'', field decode_string ba_Token (\<lambda>x r. r\<lparr>ba_Token := x\<rparr>)),
      (''access_token'', field decode_string ba_AccessToken (\<lambda>x r. r\<lparr>ba_AccessToken := x\<rparr>)),
      (''expires_in'', field decode_int ba_ExpiresIn (\<lambda>x r. r\<lparr>ba_ExpiresIn := x\<rparr>)),
      (''issued_at'', field decode_string ba_IssuedAt (\<lambda>x r. r\<lparr>ba_IssuedAt := x\<rparr>)),
      (''refresh_token'', field decode_string ba_RefreshToken (\<lambda>x r. r\<lparr>ba_RefreshToken := x\<rparr>))]"

record OAuth2Token =
  oa_AccessToken :: string
  oa_Scope :: string
  oa_ExpiresIn :: int
  oa_IssuedAt :: string
  oa_RefreshToken :: string

definition empty_oauth2_token :: OAuth2Token where
  "empty_oauth2_token = \<lparr>oa_AccessToken = [], oa_Scope = [], oa_ExpiresIn = 0, oa_IssuedAt = [], oa_RefreshToken = []\<rparr>"

definition OAuth2Token_fields :: "OAuth2Token fields" where
  "OAuth2Token_fields =
     [(''access_token'', field decode_string oa_AccessToken (\<lambda>x r. r\<lparr>oa_AccessToken := x\<rparr>)),
      (''scope'', field decode_string oa_Scope (\<lambda>x r. r\<lparr>oa_Scope := x\<rparr>)),
      (''expires_in'', field decode_int oa_ExpiresIn (\<lambda>x r. r\<lparr>oa_ExpiresIn := x\<rparr>)),
      (''issued_at'', field decode_string oa_IssuedAt (\<lambda>x r. r\<lparr>oa_IssuedAt := x\<rparr>)),
      (''refresh_token'', field decode_string oa_RefreshToken (\<lambda>x r. r\<lparr>oa_RefreshToken := x\<rparr>))]"

text \<open>\<open>time.Duration(n) * time.Second\<close> is a product of 64-bit integers.\<close>

definition seconds64 :: "int \<Rightarrow> duration" where
  "seconds64 n = sint ((word_of_int n :: 64 word) * word_of_int Second)"

text \<open>The part both conversions share: defaults for the time of issue and the lifetime.\<close>

definition issued_at :: "string \<Rightarrow> time \<Rightarrow> time" where
  "issued_at text now =
     (case time_Parse (if text = [] then time_Format now else text) of None \<Rightarrow> now | Some t \<Rightarrow> t)"

definition lifetime :: "int \<Rightarrow> int" where
  "lifetime n = (if n = 0 then 60 else n)"

definition BasicAuthToken_Convert :: "BasicAuthToken \<Rightarrow> time \<Rightarrow> oauth2_token" where
  "BasicAuthToken_Convert b now =
     \<lparr>AccessToken = (if ba_Token b = [] \<and> ba_AccessToken b \<noteq> [] then ba_AccessToken b else ba_Token b),
      TokenType = ''Bearer'', RefreshToken = ba_RefreshToken b,
      Expiry = issued_at (ba_IssuedAt b) now + seconds64 (lifetime (ba_ExpiresIn b)),
      ExpiresIn64 = lifetime (ba_ExpiresIn b)\<rparr>"

definition OAuth2Token_Convert :: "OAuth2Token \<Rightarrow> time \<Rightarrow> oauth2_token" where
  "OAuth2Token_Convert t now =
     \<lparr>AccessToken = oa_AccessToken t, TokenType = ''Bearer'', RefreshToken = oa_RefreshToken t,
      Expiry = issued_at (oa_IssuedAt t) now + seconds64 (lifetime (oa_ExpiresIn t)),
      ExpiresIn64 = lifetime (oa_ExpiresIn t)\<rparr>"

subsection \<open>Quoted strings\<close>

text \<open>\<open>strconv.UnquoteChar\<close> in double quotes: the bytes of one character or escape, and the rest.\<close>

definition hex_value :: "string \<Rightarrow> nat option" where
  "hex_value s = (if list_all is_hex s then Some (foldl (\<lambda>a c. 16 * a + unhex c) 0 s) else None)"

definition encode_rune :: "nat \<Rightarrow> string" where
  "encode_rune r =
     (if r < 0x80 then [char_of r]
      else if r < 0x800 then [char_of (0xC0 + r div 64), char_of (0x80 + r mod 64)]
      else if r < 0x10000 then
        [char_of (0xE0 + r div 4096), char_of (0x80 + r div 64 mod 64), char_of (0x80 + r mod 64)]
      else [char_of (0xF0 + r div 262144), char_of (0x80 + r div 4096 mod 64),
            char_of (0x80 + r div 64 mod 64), char_of (0x80 + r mod 64)])"

definition valid_rune :: "nat \<Rightarrow> bool" where
  "valid_rune r \<longleftrightarrow> r < 0xD800 \<or> (0xDFFF < r \<and> r \<le> 0x10FFFF)"

definition unquote_hex :: "nat \<Rightarrow> bool \<Rightarrow> string \<Rightarrow> (string \<times> string) option" where
  "unquote_hex n byte s =
     (if length s < n then None
      else case hex_value (take n s) of
             None \<Rightarrow> None
           | Some v \<Rightarrow> if byte then Some ([char_of v], drop n s)
               else if valid_rune v then Some (encode_rune v, drop n s) else None)"

definition unquote_octal :: "char \<Rightarrow> string \<Rightarrow> (string \<times> string) option" where
  "unquote_octal c s =
     (case s of
        a # b # rest \<Rightarrow>
          (let ds = [c, a, b]; v = foldl (\<lambda>x d. 8 * x + (ord d - 48)) 0 ds
           in if list_all (\<lambda>d. 48 \<le> ord d \<and> ord d \<le> 55) ds \<and> v < 256 then Some ([char_of v], rest) else None)
      | _ \<Rightarrow> None)"

fun unquote_char :: "string \<Rightarrow> (string \<times> string) option" where
  "unquote_char [] = None"
| "unquote_char (c # s) =
     (if c = CHR 0x5C then
        (case s of
           [] \<Rightarrow> None
         | e # rest \<Rightarrow>
             (if e = CHR ''a'' then Some ([CHR 0x07], rest)
              else if e = CHR ''b'' then Some ([CHR 0x08], rest)
              else if e = CHR ''f'' then Some ([CHR 0x0C], rest)
              else if e = CHR ''n'' then Some ([CHR 0x0A], rest)
              else if e = CHR ''r'' then Some ([CHR 0x0D], rest)
              else if e = CHR ''t'' then Some ([CHR 0x09], rest)
              else if e = CHR ''v'' then Some ([CHR 0x0B], rest)
              else if e = CHR ''x'' then unquote_hex 2 True rest
              else if e = CHR ''u'' then unquote_hex 4 False rest
              else if e = CHR ''U'' then unquote_hex 8 False rest
              else if e = CHR 0x5C then Some ([CHR 0x5C], rest)
              else if e = CHR 0x22 then Some ([CHR 0x22], rest)
              else unquote_octal e rest))
      else Some ([c], s))"

lemma unquote_char_shorter: "unquote_char s = Some (out, rest) \<Longrightarrow> length rest < length s"
  by (cases s) (auto simp: unquote_hex_def unquote_octal_def Let_def split: if_splits list.splits option.splits)

declare unquote_char.simps [simp del]

text \<open>The characters up to the closing quote, and the text after it.\<close>

function unquote_body :: "string \<Rightarrow> (string \<times> string) option" where
  "unquote_body s =
     (case s of
        [] \<Rightarrow> None
      | c # t \<Rightarrow>
          (if c = CHR 0x22 then Some ([], t)
           else if c = CHR 0x0A then None
           else case unquote_char s of
                  None \<Rightarrow> None
                | Some (out, rest) \<Rightarrow> map_option (\<lambda>(v, r). (out @ v, r)) (unquote_body rest)))"
  by pat_completeness auto
termination
  by (relation "measure length") (auto dest: unquote_char_shorter)

declare unquote_body.simps [simp del]

lemma unquote_body_Nil [simp]: "unquote_body [] = None"
  by (simp add: unquote_body.simps)

lemma unquote_body_Cons:
  "unquote_body (c # t) =
     (if c = CHR 0x22 then Some ([], t)
      else if c = CHR 0x0A then None
      else case unquote_char (c # t) of
             None \<Rightarrow> None
           | Some (out, rest) \<Rightarrow> map_option (\<lambda>(v, r). (out @ v, r)) (unquote_body rest))"
  by (subst unquote_body.simps) simp

lemma unquote_body_shorter: "unquote_body s = Some (v, rest) \<Longrightarrow> length rest < length s"
proof (induction "length s" arbitrary: s v rest rule: less_induct)
  case less
  show ?case
  proof (cases s)
    case Nil
    with less.prems show ?thesis by simp
  next
    case (Cons c t)
    with less.prems show ?thesis
    proof (cases "c = CHR 0x22 \<or> c = CHR 0x0A")
      case True
      with less.prems Cons show ?thesis by (auto simp: unquote_body_Cons split: if_splits)
    next
      case False
      with less.prems Cons obtain out r v' where
        "unquote_char s = Some (out, r)" "unquote_body r = Some (v', rest)"
        by (auto simp: unquote_body_Cons split: option.splits)
      with less.hyps [of r v' rest] unquote_char_shorter [of s out r] show ?thesis by simp
    qed
  qed
qed

subsection \<open>The challenge\<close>

definition consumeKey :: "string \<Rightarrow> string \<times> string" where
  "consumeKey input =
     (case SplitN2 (CHR ''='') input of
        [] \<Rightarrow> ([], [])
      | [k] \<Rightarrow> (k, [])
      | k # v # _ \<Rightarrow> (TrimSpace k, v))"

definition token_end :: "char \<Rightarrow> bool" where
  "token_end c \<longleftrightarrow> c \<in> {CHR '','', CHR '' '', CHR 0x09, CHR 0x0D, CHR 0x0A}"

definition consumeToken :: "string \<Rightarrow> string \<times> string" where
  "consumeToken input =
     (case dropWhile (\<lambda>c. \<not> token_end c) input of
        [] \<Rightarrow> (TrimSpace input, [])
      | _ # rest \<Rightarrow> (TrimSpace (takeWhile (\<lambda>c. \<not> token_end c) input), rest))"

definition consumeQuoted :: "string \<Rightarrow> string \<times> string" where
  "consumeQuoted input =
     (case input of
        [] \<Rightarrow> ([], input)
      | _ # body \<Rightarrow> (case unquote_body body of None \<Rightarrow> ([], input) | Some (v, rest) \<Rightarrow> (v, rest)))"

definition consumeTokenOrQuoted :: "string \<Rightarrow> string \<times> string" where
  "consumeTokenOrQuoted input =
     (if HasPrefix input [CHR 0x22] then consumeQuoted input else consumeToken input)"

definition consumeKV :: "string \<Rightarrow> string \<times> string \<times> string" where
  "consumeKV input =
     (case consumeKey input of (key, rest) \<Rightarrow>
        if key = [] then ([], [], rest)
        else case consumeTokenOrQuoted rest of (v, rest') \<Rightarrow> (key, v, rest'))"

lemma consumeQuoted_length: "length (snd (consumeQuoted input)) \<le> length input"
  by (auto simp: consumeQuoted_def split: list.splits option.splits dest!: unquote_body_shorter)

lemma consumeToken_length: "length (snd (consumeToken input)) \<le> length input"
proof -
  have "length (dropWhile (\<lambda>c. \<not> token_end c) input) \<le> length input" by (rule length_dropWhile_le)
  then show ?thesis by (auto simp: consumeToken_def split: list.splits)
qed

lemma consumeKey_length:
  assumes "consumeKey input = (key, rest)"
  shows "length rest \<le> length input"
proof -
  have "length (snd (consumeKey input)) \<le> length input"
    by (auto simp: consumeKey_def SplitN2_def split: prod.splits dest: Cut_True)
  with assms show ?thesis by simp
qed

lemma consumeKV_length: "consumeKV input = (k, v, rest) \<Longrightarrow> length rest \<le> length input"
  using consumeQuoted_length [of "snd (consumeKey input)"] consumeToken_length [of "snd (consumeKey input)"]
  by (auto simp: consumeKV_def consumeTokenOrQuoted_def split: prod.splits if_splits dest!: consumeKey_length)

lemma challenge_round:
  assumes "HasPrefix header '',''" and "consumeKV (drop 1 header) = (k, v, rest)"
  shows "length rest < length header"
proof -
  from assms(1) obtain c t where "header = c # t" by (cases header) auto
  with consumeKV_length [OF assms(2)] show ?thesis by simp
qed

text \<open>The loop consumes the comma of every round, so that it ends.\<close>

function challenge_loop :: "string \<Rightarrow> string gomap \<Rightarrow> string gomap" where
  "challenge_loop header result =
     (if HasPrefix header '','' then
        (case consumeKV (drop 1 header) of (k, v, rest) \<Rightarrow> challenge_loop rest (gomap_put k v result))
      else result)"
  by pat_completeness auto
termination
  by (relation "measure (length \<circ> fst)") (auto dest: challenge_round [OF _ sym])

declare challenge_loop.simps [simp del]

definition parseWWWAuthenticate :: "string \<Rightarrow> string gomap result" where
  "parseWWWAuthenticate header =
     (if \<not> HasPrefix header ''Bearer '' then Inl (ErrorString ''unexpected auth type'')
      else Inr (challenge_loop ('','' @ drop (length ''Bearer '') header) []))"

subsection \<open>Bounds of the expiry\<close>

lemma seconds64_exact:
  assumes "- 9223372036 \<le> n" and "n \<le> 9223372036"
  shows "seconds64 n = n * Second"
proof -
  have "seconds64 n = signed_take_bit 63 (n * Second)"
    unfolding seconds64_def wi_hom_mult by (simp only: signed_of_int) simp
  also have "\<dots> = n * Second"
    using assms by (intro signed_take_bit_int_eq_self) (simp_all add: Second_def)
  finally show ?thesis .
qed

lemma issued_at_cases:
  "rfc3339_range ti \<Longrightarrow> issued_at (time_Format ti) now = ti - ti mod 1000000000"
  "rfc3339_range now \<Longrightarrow> issued_at [] now = now - now mod 1000000000"
  "time_Parse s = Some ti \<Longrightarrow> issued_at s now = ti"
  "s \<noteq> [] \<Longrightarrow> time_Parse s = None \<Longrightarrow> issued_at s now = now"
proof -
  have trunc: "truncate_second x = x - x mod 1000000000" for x
    by (simp add: truncate_second_def Second_def minus_mod_eq_div_mult)
  show "rfc3339_range ti \<Longrightarrow> issued_at (time_Format ti) now = ti - ti mod 1000000000"
    using time_Parse_Format [of ti] by (auto simp: issued_at_def trunc)
  show "rfc3339_range now \<Longrightarrow> issued_at [] now = now - now mod 1000000000"
    by (simp add: issued_at_def time_Parse_Format trunc)
  have "time_Parse [] = None" by (simp add: time_Parse_eval)
  then show "time_Parse s = Some ti \<Longrightarrow> issued_at s now = ti" by (auto simp: issued_at_def)
  show "s \<noteq> [] \<Longrightarrow> time_Parse s = None \<Longrightarrow> issued_at s now = now" by (simp add: issued_at_def)
qed

text \<open>(C28) A token with a lifetime of \<open>n\<close> seconds, up to 9223372036, expires \<open>n\<close> seconds (a minute when
  \<open>n\<close> is 0) after the time its \<open>issued_at\<close> text says, which for a text written by Go's RFC 3339 formatter
  is the formatted time to the second; without such a text, after the present second; with a text that is
  no RFC 3339 time, after the present time.  This holds for both kinds of token.\<close>

theorem token_expiry_bounds:
  assumes "0 \<le> n" and "n \<le> 9223372036"
    and "e = Expiry (OAuth2Token_Convert (t\<lparr>oa_ExpiresIn := n, oa_IssuedAt := s\<rparr>) now)
      \<or> e = Expiry (BasicAuthToken_Convert (b\<lparr>ba_ExpiresIn := n, ba_IssuedAt := s\<rparr>) now)"
    and "life = (if n = 0 then 60 else n) * 1000000000"
  shows "(\<forall>ti. s = time_Format ti \<and> rfc3339_range ti \<longrightarrow> e = ti - ti mod 1000000000 + life)
    \<and> (\<forall>ti. time_Parse s = Some ti \<longrightarrow> e = ti + life)
    \<and> (s = [] \<and> rfc3339_range now \<longrightarrow> e = now - now mod 1000000000 + life)
    \<and> (s \<noteq> [] \<and> time_Parse s = None \<longrightarrow> e = now + life)"
proof -
  have "e = issued_at s now + life"
    using assms by (auto simp: OAuth2Token_Convert_def BasicAuthToken_Convert_def lifetime_def seconds64_exact Second_def)
  then show ?thesis by (auto simp: issued_at_cases)
qed

definition sample_oauth2_token :: OAuth2Token where
  "sample_oauth2_token = empty_oauth2_token\<lparr>oa_AccessToken := ''t'', oa_ExpiresIn := 300\<rparr>"

theorem token_expiry_bounds_witness:
  "Expiry (OAuth2Token_Convert (sample_oauth2_token\<lparr>oa_IssuedAt := ''2024-06-01T03:04:05Z''\<rparr>) (1704067200 * Second)) =
     1717211345000000000
   \<and> Expiry (OAuth2Token_Convert sample_oauth2_token (1704067200 * Second)) = 1704067500000000000"
proof -
  have parse: "time_Parse ''2024-06-01T03:04:05Z'' = Some 1717211045000000000" by (simp add: time_Parse_eval)
  have sample: "sample_oauth2_token\<lparr>oa_ExpiresIn := 300, oa_IssuedAt := x\<rparr> = sample_oauth2_token\<lparr>oa_IssuedAt := x\<rparr>"
    "sample_oauth2_token\<lparr>oa_IssuedAt := []\<rparr> = sample_oauth2_token" for x
    by (simp_all add: sample_oauth2_token_def empty_oauth2_token_def)
  have range: "rfc3339_range (1704067200 * Second)" by (simp add: rfc3339_range_def Second_def)
  note e = token_expiry_bounds [where n = 300 and t = sample_oauth2_token and now = "1704067200 * Second",
    OF _ _ disjI1 [OF refl] refl]
  from e [where s = "''2024-06-01T03:04:05Z''"] parse e [where s = "[]"] range show ?thesis
    by (simp add: sample Second_def)
qed

text \<open>The product of the lifetime and the second wraps around in 64 bits: a token announced to live
  ten billion seconds expires more than two centuries before it was issued, and so is never cached
  as valid.\<close>

theorem long_lifetime_wraps:
  "oa_ExpiresIn t = 10000000000 \<Longrightarrow>
     Expiry (OAuth2Token_Convert t now) = issued_at (oa_IssuedAt t) now - 8446744073709551616"
  by (simp add: OAuth2Token_Convert_def lifetime_def seconds64_def Second_def)

subsection \<open>Challenges\<close>


definition key_ok :: "string \<Rightarrow> bool" where
  "key_ok k \<longleftrightarrow> k \<noteq> [] \<and> CHR ''='' \<notin> set k \<and> TrimSpace k = k"








definition token_ok :: "string \<Rightarrow> bool" where
  "token_ok v \<longleftrightarrow> v \<noteq> [] \<and> hd v \<noteq> CHR 0x22 \<and> list_all (\<lambda>c. \<not> token_end c) v \<and> TrimSpace v = v"

text \<open>An unquoted value swallows the comma behind it: the parameters that follow are lost unless
  another comma comes first.\<close>

theorem unquoted_value_ends_challenge:
  assumes "key_ok k" and "token_ok v" and "\<not> HasPrefix rest '',''"
  shows "parseWWWAuthenticate (''Bearer '' @ k @ ''='' @ v @ '','' @ rest) = Inr [(k, v)]"
proof -
  have "takeWhile (\<lambda>c. \<not> token_end c) (v @ CHR '','' # rest) = v"
    "dropWhile (\<lambda>c. \<not> token_end c) (v @ CHR '','' # rest) = CHR '','' # rest"
    using assms(2) by (simp_all add: token_ok_def list_all_iff token_end_def)
  with assms have "consumeKV (k @ CHR ''='' # v @ CHR '','' # rest) = (k, v, rest)"
    by (cases v) (simp_all add: consumeKV_def consumeKey_def key_ok_def SplitN2_append
        consumeTokenOrQuoted_def consumeToken_def token_ok_def)
  then have "challenge_loop ('','' @ k @ ''='' @ v @ '','' @ rest) [] = [(k, v)]"
    by (subst challenge_loop.simps) (simp, subst challenge_loop.simps, simp add: assms(3))
  then show ?thesis by (simp add: parseWWWAuthenticate_def HasPrefix_append)
qed

end
