(* ===== verification/Docker.thy ===== *)
theory Docker
  imports Oauth
begin

text \<open>
  Credentials from the Docker configuration (\<open>src/authenticate/oci/dockerConfig.go\<close>): the
  configuration file, the credential helper programs it names, and the credentials of a host.
\<close>

record DockerAuthConfig =
  da_Username :: string
  da_Password :: string
  da_Auth :: string
  da_ServerAddress :: string
  da_IdentityToken :: string
  da_RegistryToken :: string

definition empty_docker_auth :: DockerAuthConfig where
  "empty_docker_auth = \<lparr>da_Username = [], da_Password = [], da_Auth = [], da_ServerAddress = [],
     da_IdentityToken = [], da_RegistryToken = []\<rparr>"

definition DockerAuthConfig_fields :: "DockerAuthConfig fields" where
  "DockerAuthConfig_fields =
     [(''username'', field decode_string da_Username (\<lambda>x r. r\<lparr>da_Username := x\<rparr>)),
      (''password'', field decode_string da_Password (\<lambda>x r. r\<lparr>da_Password := x\<rparr>)),
      (''auth'', field decode_string da_Auth (\<lambda>x r. r\<lparr>da_Auth := x\<rparr>)),
      (''serveraddress'', field decode_string da_ServerAddress (\<lambda>x r. r\<lparr>da_ServerAddress := x\<rparr>)),
      (''identitytoken'', field decode_string da_IdentityToken (\<lambda>x r. r\<lparr>da_IdentityToken := x\<rparr>)),
      (''registrytoken'', field decode_string da_RegistryToken (\<lambda>x r. r\<lparr>da_RegistryToken := x\<rparr>))]"

definition illegal_base64 :: goerr where
  "illegal_base64 = ErrorString ''illegal base64 data''"

definition decodeAuthField :: "string \<Rightarrow> (string \<times> string) result" where
  "decodeAuthField authField =
     (case b64_decode authField of
        None \<Rightarrow> Inl illegal_base64
      | Some decodedAuth \<Rightarrow>
          (let parts = SplitN2 (CHR '':'') decodedAuth
           in if length parts \<noteq> 2 then Inl (Errorf ''invalid auth field: %s'' [authField])
              else Inr (parts ! 0, parts ! 1)))"

definition encodeAuthField :: "string \<Rightarrow> string \<Rightarrow> string" where
  "encodeAuthField username password = b64_encode (username @ '':'' @ password)"

definition DockerAuthConfig_toAuthConfig :: "DockerAuthConfig \<Rightarrow> AuthConfig result" where
  "DockerAuthConfig_toAuthConfig a =
     bind_result
       (if da_Password a = [] \<and> da_Auth a \<noteq> [] then
          (case decodeAuthField (da_Auth a) of
             Inl e \<Rightarrow> Inl e
           | Inr (username, password) \<Rightarrow> Inr (a\<lparr>da_Username := username, da_Password := password\<rparr>))
        else if da_Auth a = [] \<and> da_Username a \<noteq> [] \<and> da_Password a \<noteq> [] then
          Inr (a\<lparr>da_Auth := encodeAuthField (da_Username a) (da_Password a)\<rparr>)
        else Inr a)
       (\<lambda>a'. Inr \<lparr>Username = da_Username a', Password = da_Password a', Auth = da_Auth a',
              IdentityToken = da_IdentityToken a', RegistryToken = da_RegistryToken a',
              TokenExchangeMethod = []\<rparr>)"

record CredentialHelperOutput =
  ch_ServerURL :: string
  ch_Username :: string
  ch_Secret :: string

definition CredentialHelperOutput_fields :: "CredentialHelperOutput fields" where
  "CredentialHelperOutput_fields =
     [(''ServerURL'', field decode_string ch_ServerURL (\<lambda>x r. r\<lparr>ch_ServerURL := x\<rparr>)),
      (''Username'', field decode_string ch_Username (\<lambda>x r. r\<lparr>ch_Username := x\<rparr>)),
      (''Secret'', field decode_string ch_Secret (\<lambda>x r. r\<lparr>ch_Secret := x\<rparr>))]"

definition CredentialHelperOutput_toAuthConfig :: "CredentialHelperOutput \<Rightarrow> AuthConfig result" where
  "CredentialHelperOutput_toAuthConfig c =
     Inr (empty_auth\<lparr>Username := ch_Username c, Password := ch_Secret c\<rparr>)"

record ConfigFile =
  Auths :: "DockerAuthConfig gomap"
  CredentialsStore :: string
  CredentialHelpers :: "string gomap"

definition empty_config_file :: ConfigFile where
  "empty_config_file = \<lparr>Auths = [], CredentialsStore = [], CredentialHelpers = []\<rparr>"

definition ConfigFile_fields :: "ConfigFile fields" where
  "ConfigFile_fields =
     [(''auths'', field (decode_map (decode_struct False DockerAuthConfig_fields) empty_docker_auth)
        Auths (\<lambda>x r. r\<lparr>Auths := x\<rparr>)),
      (''credsStore'', field decode_string CredentialsStore (\<lambda>x r. r\<lparr>CredentialsStore := x\<rparr>)),
      (''credHelpers'', field (decode_map decode_string []) CredentialHelpers (\<lambda>x r. r\<lparr>CredentialHelpers := x\<rparr>))]"

subsection \<open>Loading the file\<close>

definition docker_locations :: "process \<Rightarrow> string list" where
  "docker_locations p =
     (case UserHomeDir p of Inr home \<Rightarrow> [Path_Join [home, ''.docker'', ''config.json'']] | Inl _ \<Rightarrow> []) @
     (case LookupEnv ''DOCKER_CONFIG'' p of Some d \<Rightarrow> [Path_Join [d, ''config.json'']] | None \<Rightarrow> []) @
     (case LookupEnv ''REGISTRY_AUTH_FILE'' p of Some f \<Rightarrow> [f] | None \<Rightarrow> []) @
     (case LookupEnv ''XDG_RUNTIME_DIR'' p of Some d \<Rightarrow> [Path_Join [d, ''containers'', ''auth.json'']] | None \<Rightarrow> [])"

fun load_loop :: "world \<Rightarrow> string list \<Rightarrow> ConfigFile result" where
  "load_loop w [] = Inr empty_config_file"
| "load_loop w (loc # locs) =
     (case open_json w loc of
        Inl err \<Rightarrow> if is_not_exist err then load_loop w locs else Inl err
      | Inr f \<Rightarrow> decode_item (decode_struct False ConfigFile_fields) f empty_config_file)"

definition loadDockerConfig :: "world \<Rightarrow> ConfigFile result" where
  "loadDockerConfig w = load_loop w (docker_locations (proc w))"

subsection \<open>Credentials of a host\<close>

text \<open>A result \<open>None\<close> is \<open>found = false\<close> without an error; the auth config is then empty.\<close>

definition dockerCredentialHelperToAuth :: "world \<Rightarrow> string \<Rightarrow> string \<Rightarrow> AuthConfig option result" where
  "dockerCredentialHelperToAuth w helper host =
     (let out = exec_Output w (''docker-credential-'' @ helper) host
      in case exec_error out of
           Some err \<Rightarrow>
             if Contains (exec_text out) ''credentials not found in native keychain'' then Inr None
             else Inl (Errorf ''running helper docker-credential-%s get: %v'' [helper, err_msg err])
         | None \<Rightarrow>
             bind_result (decode_item (decode_struct False CredentialHelperOutput_fields) (exec_json out)
                 \<lparr>ch_ServerURL = [], ch_Username = [], ch_Secret = []\<rparr>) (\<lambda>cred.
               map_sum id Some (CredentialHelperOutput_toAuthConfig cred)))"

definition authForHost :: "world \<Rightarrow> ConfigFile \<Rightarrow> string \<Rightarrow> AuthConfig option result" where
  "authForHost w cfg host =
     (case map_of (CredentialHelpers cfg) host of
        Some helper \<Rightarrow> dockerCredentialHelperToAuth w helper host
      | None \<Rightarrow>
          if CredentialsStore cfg \<noteq> [] then dockerCredentialHelperToAuth w (CredentialsStore cfg) host
          else case map_of (Auths cfg) host of
                 None \<Rightarrow> Inr None
               | Some auth \<Rightarrow> map_sum id Some (DockerAuthConfig_toAuthConfig auth))"

subsection \<open>Properties\<close>

lemma decode_encode_auth: "CHR '':'' \<notin> set username \<Longrightarrow> decodeAuthField (encodeAuthField username password) = Inr (username, password)"
  by (simp add: decodeAuthField_def encodeAuthField_def b64_decode_encode SplitN2_append)

text \<open>(C27) The \<open>auth\<close> field of the Docker configuration: a user name without a colon and a password are
  recovered from it, whatever the password; so the entry \<open>docker login\<close> writes and the entry with
  the two fields spelled out give the same credentials.\<close>

theorem docker_auth_roundtrip:
  assumes "CHR '':'' \<notin> set username" and "username \<noteq> []" and "password \<noteq> []"
  shows "decodeAuthField (encodeAuthField username password) = Inr (username, password)
    \<and> DockerAuthConfig_toAuthConfig (empty_docker_auth\<lparr>da_Auth := encodeAuthField username password\<rparr>) =
      DockerAuthConfig_toAuthConfig (empty_docker_auth\<lparr>da_Username := username, da_Password := password\<rparr>)"
proof -
  have "encodeAuthField username password \<noteq> []"
    using decode_encode_auth [OF assms(1), of password]
    by (auto simp: decodeAuthField_def b64_decode_def SplitN2_def)
  with assms decode_encode_auth [OF assms(1), of password] show ?thesis
    by (simp add: DockerAuthConfig_toAuthConfig_def empty_docker_auth_def)
qed

theorem docker_auth_roundtrip_witness:
  "decodeAuthField (encodeAuthField ''alice'' ''pa:ss'') = Inr (''alice'', ''pa:ss'')"
  using docker_auth_roundtrip [of "''alice''" "''pa:ss''"] by simp

end
