(* ===== verification/Oci.thy ===== *)
theory Oci
  imports Docker LookupChain Providers
begin

text \<open>
  The helper for container registries (\<open>src/authenticate/oci/oci.go\<close>): which repository a URL belongs
  to, how the realm and the credentials of a registry are found, the token exchange, and the
  response.  The resolver keeps authenticators in a map that \<open>deriveAuthConfig\<close> fills, so the
  operations that reach it pass the resolver along.
\<close>

subsection \<open>State and configuration\<close>

type_synonym authenticator = "string \<Rightarrow> string \<Rightarrow> string \<Rightarrow> AuthConfig result"

text \<open>A nil map and an empty one behave alike, since \<open>Resolver\<close> replaces the former by the latter.\<close>

record OCI =
  o_wwwAuthenticateForRegistry :: "WWWAuthenticate gomap"
  o_authenticatorForRegistry :: "authenticator gomap"
  o_resolveAuthenticators :: "authenticator gomap result option"

record OCIResolver =
  wwwAuthenticateForRegistry :: "WWWAuthenticate gomap"
  authenticatorForRegistry :: "authenticator gomap"

definition NewFallbackOCI :: OCI where
  "NewFallbackOCI = \<lparr>o_wwwAuthenticateForRegistry = [], o_authenticatorForRegistry = [],
     o_resolveAuthenticators = None\<rparr>"

definition NewCustomOCI :: "WWWAuthenticate gomap \<Rightarrow> authenticator gomap \<Rightarrow> authenticator gomap result option \<Rightarrow> OCI" where
  "NewCustomOCI www auths resolver = \<lparr>o_wwwAuthenticateForRegistry = www, o_authenticatorForRegistry = auths,
     o_resolveAuthenticators = resolver\<rparr>"

definition OCI_Resolver :: "OCI \<Rightarrow> (OCIResolver \<times> OCI) result" where
  "OCI_Resolver oci =
     bind_result
       (case o_resolveAuthenticators oci of
          None \<Rightarrow> Inr oci
        | Some resolved \<Rightarrow>
            bind_result resolved (\<lambda>authenticators.
              Inr (oci\<lparr>o_authenticatorForRegistry :=
                fold (\<lambda>(k, v). gomap_put k v) authenticators (o_authenticatorForRegistry oci)\<rparr>)))
       (\<lambda>oci'. Inr (\<lparr>wwwAuthenticateForRegistry = o_wwwAuthenticateForRegistry oci',
          authenticatorForRegistry = o_authenticatorForRegistry oci'\<rparr>, oci'))"

definition BindingUsername :: string where "BindingUsername = ''username''"
definition BindingPassword :: string where "BindingPassword = ''password''"
definition BindingAuth :: string where "BindingAuth = ''auth''"
definition BindingIdentityToken :: string where "BindingIdentityToken = ''identitytoken''"
definition BindingRegistryToken :: string where "BindingRegistryToken = ''registrytoken''"

record OCI_config =
  oc_ParseDockerConfig :: bool
  oc_TokenExchangeMethod :: string
  oc_LookupChain :: Config

definition OCI_fields :: "OCI_config fields" where
  "OCI_fields =
     [(''parse_docker_config'', field decode_bool oc_ParseDockerConfig (\<lambda>x r. r\<lparr>oc_ParseDockerConfig := x\<rparr>)),
      (''token_exchange_method'', field decode_string oc_TokenExchangeMethod (\<lambda>x r. r\<lparr>oc_TokenExchangeMethod := x\<rparr>)),
      (''lookup_chain'', field decode_Config oc_LookupChain (\<lambda>x r. r\<lparr>oc_LookupChain := x\<rparr>))]"

definition lookupChainByRegistry :: "string \<Rightarrow> Source list" where
  "lookupChainByRegistry registry =
     (if registry = ''ghcr.io'' then
        [EnvS \<lparr>env_Source = ''env'', env_Name = ''GITHUB_ACTOR'', env_Binding = BindingUsername\<rparr>,
         StaticS \<lparr>st_Source = ''env'', st_Value = ''unset'', st_Binding = BindingUsername\<rparr>,
         EnvS \<lparr>env_Source = ''env'', env_Name = ''GHCR_TOKEN'', env_Binding = BindingPassword\<rparr>,
         EnvS \<lparr>env_Source = ''env'', env_Name = ''GH_TOKEN'', env_Binding = BindingPassword\<rparr>,
         EnvS \<lparr>env_Source = ''env'', env_Name = ''GITHUB_TOKEN'', env_Binding = BindingPassword\<rparr>,
         KeyringS \<lparr>kr_Source = ''keyring'', kr_Service = ''gh:github.com'', kr_Binding = BindingPassword\<rparr>]
      else [])"

definition OCI_configFromContext :: "json option \<Rightarrow> string \<Rightarrow> OCI_config result" where
  "OCI_configFromContext ctx registry =
     FromContext OCI_fields ctx
       \<lparr>oc_ParseDockerConfig = True, oc_TokenExchangeMethod = ''auto'',
        oc_LookupChain = Default (lookupChainByRegistry registry)\<rparr>"

subsection \<open>Repositories\<close>

text \<open>The repository of a pull endpoint, the path after \<open>/v2/\<close>; \<open>None\<close> for every other endpoint.\<close>

definition endpoint_repository :: "string \<Rightarrow> string option" where
  "endpoint_repository endpoint =
     (if HasSuffix endpoint ''/tags/list'' then Some (TrimSuffix endpoint ''/tags/list'')
      else
        (let parts = Split (CHR ''/'') endpoint; n = length parts
         in if n < 3 then None
            else if parts ! (n - 2) = ''blobs'' then Some (TrimSuffix endpoint (''/blobs/'' @ parts ! (n - 1)))
            else if parts ! (n - 2) = ''manifests'' then Some (TrimSuffix endpoint (''/manifests/'' @ parts ! (n - 1)))
            else None))"

text \<open>Registry, repository, and whether the request is left alone.\<close>

definition deriveRepository :: "string \<Rightarrow> (string \<times> string \<times> bool) result" where
  "deriveRepository uri =
     bind_result (Parse uri) (\<lambda>u.
       if Scheme u \<noteq> ''https'' then Inl (Errorf ''unsupported scheme: %s'' [Scheme u])
       else if Host u = [] then Inl (ErrorString ''missing host'')
       else if \<not> HasPrefix (Path u) ''/v2/'' then Inr ([], [], True)
       else if Path u = ''/v2/'' \<or> Path u = ''/v2'' then Inr (Host u, [], True)
       else
         (case endpoint_repository (TrimPrefix (Path u) ''/v2/'') of
            None \<Rightarrow> Inr (Host u, [], True)
          | Some repository \<Rightarrow> Inr (Host u, repository, False)))"

definition GuessOCIRegistry :: "process \<Rightarrow> string \<Rightarrow> bool" where
  "GuessOCIRegistry p uri =
     (if LookupEnv GuessOCIRegistryEnv p \<noteq> Some ''1'' then False
      else case deriveRepository uri of Inl _ \<Rightarrow> False | Inr (_, _, ignore) \<Rightarrow> \<not> ignore)"

definition oci_key_url :: "string \<Rightarrow> string \<Rightarrow> url" where
  "oci_key_url registry repository =
     empty_url\<lparr>Scheme := ''oci-registry-v2-auth'', Host := registry,
       RawQuery := values_encode [(''repository'', [repository]), (''action'', [''pull''])]\<rparr>"

definition OCI_CacheKey :: "GetCredentialsRequest \<Rightarrow> string" where
  "OCI_CacheKey req =
     (case deriveRepository (URI req) of
        Inl _ \<Rightarrow> []
      | Inr (registry, repository, ignore) \<Rightarrow> if ignore then [] else URLString (oci_key_url registry repository))"

subsection \<open>Realm and credentials\<close>

text \<open>\<open>http.NewRequestWithContext\<close>, which parses the URL, followed by \<open>Do\<close>.\<close>

definition do_request :: "world \<Rightarrow> string \<Rightarrow> string \<Rightarrow> string list gomap \<Rightarrow> http_body \<Rightarrow> http_response result" where
  "do_request w method url header body =
     bind_result (Parse url) (\<lambda>_.
       http_Do w \<lparr>http_method = method, http_url = url, http_header = header, http_body = body\<rparr>)"

definition learn_realm :: "world \<Rightarrow> OCIResolver \<Rightarrow> string \<Rightarrow> WWWAuthenticate result" where
  "learn_realm w r registry =
     (case map_of (wwwAuthenticateForRegistry r) registry of
        Some realm \<Rightarrow> Inr realm
      | None \<Rightarrow>
          (let u = URLString (empty_url\<lparr>Scheme := ''https'', Host := registry, Path := ''/v2/''\<rparr>)
           in bind_result (do_request w ''GET'' u [] NoBody) (\<lambda>resp.
                if StatusCode resp \<noteq> 401 then
                  Inl (Errorf ''learning realm via %s: unexpected status code %d'' [u, Itoa (StatusCode resp)])
                else
                  (let challenge = Header_Get ''Www-Authenticate'' resp
                   in if challenge = [] then Inl (ErrorString ''missing WWW-Authenticate header'')
                      else bind_result (parseWWWAuthenticate challenge) (\<lambda>vals.
                        case map_of vals ''realm'' of
                          None \<Rightarrow> Inl (ErrorString ''missing realm in WWW-Authenticate header'')
                        | Some realm \<Rightarrow>
                            (case map_of vals ''service'' of
                               None \<Rightarrow> Inl (ErrorString ''missing service in WWW-Authenticate header'')
                             | Some service \<Rightarrow> Inr \<lparr>Realm = realm, Service = service\<rparr>))))))"

text \<open>The values of the lookup chain that override those of the Docker configuration.\<close>

definition chain_overrides :: "world \<Rightarrow> Config \<Rightarrow> AuthConfig \<Rightarrow> AuthConfig" where
  "chain_overrides w chain a0 =
     (let over = (\<lambda>binding upd a. case Lookup w chain binding of Inr v \<Rightarrow> upd v a | Inl _ \<Rightarrow> a);
          a1 = over BindingUsername (\<lambda>v a. a\<lparr>Username := v\<rparr>) a0;
          a2 = over BindingPassword
                 (\<lambda>v a. a\<lparr>Password := v, Username := (if Username a = [] then ''unset'' else Username a)\<rparr>) a1;
          a3 = over BindingAuth (\<lambda>v a. a\<lparr>Auth := v\<rparr>) a2;
          a4 = over BindingIdentityToken (\<lambda>v a. a\<lparr>IdentityToken := v\<rparr>) a3
      in over BindingRegistryToken (\<lambda>v a. a\<lparr>RegistryToken := v\<rparr>) a4)"

text \<open>The part of \<open>deriveAuthConfig\<close> that reads the Docker configuration and remembers what it found.\<close>

definition docker_auth :: "world \<Rightarrow> OCIResolver \<Rightarrow> string \<Rightarrow> (AuthConfig \<times> OCIResolver) result" where
  "docker_auth w r registry =
     (case loadDockerConfig w of
        Inl e \<Rightarrow> Inl (Wrapf ''loading Docker config'' [] e)
      | Inr dockerConfig \<Rightarrow>
          (case authForHost w dockerConfig registry of
             Inl e \<Rightarrow> Inl (Wrapf ''finding auth config for registry %q'' [registry] e)
           | Inr None \<Rightarrow> Inr (empty_auth, r)
           | Inr (Some dockerAuthConfig) \<Rightarrow>
               Inr (dockerAuthConfig,
                    r\<lparr>authenticatorForRegistry :=
                       gomap_put registry (\<lambda>_ _ _. Inr dockerAuthConfig) (authenticatorForRegistry r)\<rparr>)))"

definition configured_auth :: "world \<Rightarrow> json option \<Rightarrow> OCIResolver \<Rightarrow> string \<Rightarrow> AuthConfig result \<times> OCIResolver" where
  "configured_auth w ctx r registry =
     (case OCI_configFromContext ctx registry of
        Inl e \<Rightarrow> (Inl (Wrapf ''loading config from context'' [] e), r)
      | Inr cfg \<Rightarrow>
          (case (if oc_ParseDockerConfig cfg then docker_auth w r registry else Inr (empty_auth, r)) of
             Inl e \<Rightarrow> (Inl e, r)
           | Inr (authConfig, r') \<Rightarrow>
               (Inr (chain_overrides w (oc_LookupChain cfg)
                  (authConfig\<lparr>TokenExchangeMethod := oc_TokenExchangeMethod cfg\<rparr>)), r')))"

definition deriveAuthConfig ::
  "world \<Rightarrow> json option \<Rightarrow> OCIResolver \<Rightarrow> string \<Rightarrow> string \<Rightarrow> string \<Rightarrow> AuthConfig result \<times> OCIResolver" where
  "deriveAuthConfig w ctx r registry service realm =
     (case map_of (authenticatorForRegistry r) registry of
        None \<Rightarrow> configured_auth w ctx r registry
      | Some authenticator \<Rightarrow>
          (case authenticator registry service realm of
             Inl e \<Rightarrow> (Inl e, r)
           | Inr customAuthConfig \<Rightarrow>
               if customAuthConfig \<noteq> empty_auth then (Inr customAuthConfig, r)
               else configured_auth w ctx r registry))"

subsection \<open>The token exchange\<close>

definition basicToken :: "world \<Rightarrow> string \<Rightarrow> string \<Rightarrow> string list \<Rightarrow> AuthConfig \<Rightarrow> oauth2_token result" where
  "basicToken w service realm scopes cfg =
     bind_result (Parse realm) (\<lambda>u.
       let queryParams = values_set ''service'' service (values_set ''scope'' (Join scopes '' '') (Query u));
           header = (if 0 < length (Username cfg) \<and> 0 < length (Password cfg)
             then [(''Authorization'', [''Basic '' @ b64_encode (Username cfg @ '':'' @ Password cfg)])] else [])
       in bind_result (do_request w ''GET'' (URLString (u\<lparr>RawQuery := values_encode queryParams\<rparr>)) header NoBody) (\<lambda>resp.
            if StatusCode resp \<noteq> 200 then
              Inl (Errorf ''unexpected status code when obtaining token for %s: %d'' [service, Itoa (StatusCode resp)])
            else case decode_item (decode_struct False BasicAuthToken_fields) (resp_body resp) empty_basic_token of
                   Inl e \<Rightarrow> Inl (Wrapf ''decoding token response'' [] e)
                 | Inr token \<Rightarrow> Inr (BasicAuthToken_Convert token (w_now w))))"

definition oauth_values :: "string \<Rightarrow> string list \<Rightarrow> AuthConfig \<Rightarrow> url_values option" where
  "oauth_values service scopes cfg =
     (let vals = [(''scope'', [Join scopes '' '']), (''service'', [service]), (''client_id'', [''tweag-credential-helper''])]
      in if IdentityToken cfg \<noteq> [] then
           Some (values_set ''refresh_token'' (IdentityToken cfg) (values_set ''grant_type'' ''refresh_token'' vals))
         else if Username cfg \<noteq> [] \<and> Password cfg \<noteq> [] then
           Some (values_set ''password'' (Password cfg) (values_set ''username'' (Username cfg)
             (values_set ''grant_type'' ''password'' vals)))
         else None)"

definition oauthToken :: "world \<Rightarrow> string \<Rightarrow> string \<Rightarrow> string list \<Rightarrow> AuthConfig \<Rightarrow> oauth2_token result" where
  "oauthToken w service realm scopes cfg =
     (case oauth_values service scopes cfg of
        None \<Rightarrow> basicToken w service realm scopes cfg
      | Some vals \<Rightarrow>
          bind_result (do_request w ''POST'' realm [(''Content-Type'', [''application/x-www-form-urlencoded''])]
              (FormBody (values_encode vals))) (\<lambda>resp.
            if StatusCode resp = 404 then basicToken w service realm scopes cfg
            else if StatusCode resp \<noteq> 200 then
              Inl (Errorf ''unexpected status code when obtaining token for %s: %d'' [service, Itoa (StatusCode resp)])
            else case decode_item (decode_struct False OAuth2Token_fields) (resp_body resp) empty_oauth2_token of
                   Inl e \<Rightarrow> Inl (Wrapf ''decoding token response'' [] e)
                 | Inr token \<Rightarrow> Inr (OAuth2Token_Convert token (w_now w))))"

definition exchange_with :: "world \<Rightarrow> WWWAuthenticate \<Rightarrow> string list \<Rightarrow> AuthConfig \<Rightarrow> oauth2_token result" where
  "exchange_with w www scopes cfg =
     (if RegistryToken cfg \<noteq> [] then
        Inr ((access_token (RegistryToken cfg) zero_time)\<lparr>TokenType := ''bearer''\<rparr>)
      else if TokenExchangeMethod cfg = ''basic'' then basicToken w (Service www) (Realm www) scopes cfg
      else if TokenExchangeMethod cfg = ''oauth2'' then oauthToken w (Service www) (Realm www) scopes cfg
      else if TokenExchangeMethod cfg \<noteq> ''auto'' then
        Inl (Errorf ''unsupported token exchange method %q'' [TokenExchangeMethod cfg])
      else if Username cfg = ''<token>'' \<or> IdentityToken cfg \<noteq> [] then
        oauthToken w (Service www) (Realm www) scopes cfg
      else basicToken w (Service www) (Realm www) scopes cfg)"

definition Exchange ::
  "world \<Rightarrow> json option \<Rightarrow> OCIResolver \<Rightarrow> string \<Rightarrow> string list \<Rightarrow> oauth2_token result \<times> OCIResolver" where
  "Exchange w ctx r registry scopes =
     (case learn_realm w r registry of
        Inl e \<Rightarrow> (Inl (Wrapf ''learning realm and service for registry %q'' [registry] e), r)
      | Inr www \<Rightarrow>
          (case deriveAuthConfig w ctx r registry (Service www) (Realm www) of
             (Inl e, r') \<Rightarrow> (Inl (Wrapf ''deriving auth config for registry %q'' [registry] e), r')
           | (Inr cfg, r') \<Rightarrow> (exchange_with w www scopes cfg, r')))"

definition oci_response :: "oauth2_token \<Rightarrow> GetCredentialsResponse" where
  "oci_response token =
     \<lparr>Expires = token_expires token,
      Headers =
        [(''Accept'', Some [''application/vnd.docker.distribution.manifest.v2+json'',
            ''application/vnd.oci.image.manifest.v1+json'',
            ''application/vnd.docker.distribution.manifest.list.v2+json'',
            ''application/vnd.oci.image.index.v1+json'']),
         (''Authorization'', Some [''Bearer '' @ AccessToken token]),
         (''Docker-Distribution-API-Version'', Some [''registry/2.0''])]\<rparr>"

definition OCIResolver_Get ::
  "world \<Rightarrow> json option \<Rightarrow> OCIResolver \<Rightarrow> GetCredentialsRequest \<Rightarrow> GetCredentialsResponse result \<times> OCIResolver" where
  "OCIResolver_Get w ctx r req =
     (case deriveRepository (URI req) of
        Inl e \<Rightarrow> (Inl e, r)
      | Inr (registry, repository, ignore) \<Rightarrow>
          if ignore then (Inr empty_response, r)
          else case Exchange w ctx r registry [''repository:'' @ repository @ '':pull''] of
                 (Inl e, r') \<Rightarrow> (Inl e, r')
               | (Inr token, r') \<Rightarrow> (Inr (oci_response token), r'))"

definition OCI_Get :: "world \<Rightarrow> json option \<Rightarrow> OCI \<Rightarrow> getter" where
  "OCI_Get w ctx oci req =
     bind_result (OCI_Resolver oci) (\<lambda>(r, _). fst (OCIResolver_Get w ctx r req))"

subsection \<open>Cache keys\<close>

lemma oci_key_text:
  assumes "registry \<noteq> []"
  shows "URLString (oci_key_url registry repository) =
    ''oci-registry-v2-auth://'' @ escape encodeHost registry @ ''?action=pull&repository='' @ QueryEscape repository"
proof -
  have "values_encode [(''repository'', [repository]), (''action'', [''pull''])] =
      QueryEscape ''action'' @ CHR ''='' # QueryEscape ''pull'' @ CHR ''&'' # QueryEscape ''repository'' @ CHR ''='' # QueryEscape repository"
    by (simp add: values_encode_def)
  moreover have "QueryEscape ''action'' = ''action''" "QueryEscape ''pull'' = ''pull''" "QueryEscape ''repository'' = ''repository''"
    unfolding QueryEscape_def by (rule escape_clean, simp add: shouldEscape_def char_class_defs)+
  ultimately show ?thesis using assms
    by (simp add: URLString_def oci_key_url_def empty_url_def authority_string_def path_string_def EscapedPath_def escape_def)
qed

lemma oci_key_inject:
  assumes "registry \<noteq> []" "registry' \<noteq> []"
    and "URLString (oci_key_url registry repository) = URLString (oci_key_url registry' repository')"
  shows "registry = registry' \<and> repository = repository'"
proof -
  let ?q = "\<lambda>h rest. Cut (CHR ''?'') (escape encodeHost h @ CHR ''?'' # rest)"
  from assms have "escape encodeHost registry @ CHR ''?'' # ''action=pull&repository='' @ QueryEscape repository =
      escape encodeHost registry' @ CHR ''?'' # ''action=pull&repository='' @ QueryEscape repository'"
    by (simp add: oci_key_text)
  then have "?q registry (''action=pull&repository='' @ QueryEscape repository) =
      ?q registry' (''action=pull&repository='' @ QueryEscape repository')" by (rule arg_cong)
  then show ?thesis
    by (simp add: Cut_append escape_host_no_question) (metis escape_inject QueryEscape_inject)
qed

lemma deriveRepository_host: "deriveRepository uri = Inr (registry, repository, False) \<Longrightarrow> registry \<noteq> []"
  by (auto simp: deriveRepository_def split: if_splits option.splits)

lemma oci_key_repository:
  assumes "OCI_CacheKey q = OCI_CacheKey q'" and "OCI_CacheKey q \<noteq> []"
  shows "deriveRepository (URI q) = deriveRepository (URI q')"
proof -
  from assms obtain registry repository where d: "deriveRepository (URI q) = Inr (registry, repository, False)"
    by (auto simp: OCI_CacheKey_def split: sum.splits if_splits)
  from assms obtain registry' repository' where d': "deriveRepository (URI q') = Inr (registry', repository', False)"
    by (auto simp: OCI_CacheKey_def split: sum.splits if_splits)
  from assms d d' oci_key_inject [OF deriveRepository_host [OF d] deriveRepository_host [OF d']]
  have "registry = registry' \<and> repository = repository'" by (simp add: OCI_CacheKey_def)
  with d d' show ?thesis by simp
qed

lemma OCI_Get_repository:
  "deriveRepository (URI q) = deriveRepository (URI q') \<Longrightarrow> OCI_Get w ctx oci q = OCI_Get w ctx oci q'"
  by (simp add: OCI_Get_def OCIResolver_Get_def split: sum.split)

interpretation oci_keyed: safe_keyed_helper OCI_CacheKey "OCI_Get w ctx oci" for w ctx oci
  by (rule safe_keyedI) (blast intro: OCI_Get_repository oci_key_repository)

interpretation oci_guard: guarded_helper "OCI_Get w ctx oci" "\<lambda>u. Host u \<noteq> []" for w ctx oci
  by unfold_locales (auto simp: OCI_Get_def OCIResolver_Get_def deriveRepository_def split: if_splits sum.splits prod.splits option.splits)

subsection \<open>Endpoints\<close>

text \<open>The part of a URL after \<open>/v2/\<close>, by its last two elements.\<close>

lemma endpoint_parts:
  assumes "CHR ''/'' \<notin> set kind" "CHR ''/'' \<notin> set ref"
  shows "Split (CHR ''/'') (name @ CHR ''/'' # kind @ CHR ''/'' # ref) = Split (CHR ''/'') name @ [kind, ref]"
  using assms by (simp add: Split_append_general Split_append Split_no_sep)

lemma endpoint_pull:
  assumes "CHR ''/'' \<notin> set ref" and "kind = ''blobs'' \<or> kind = ''manifests''"
  shows "endpoint_repository (name @ CHR ''/'' # kind @ CHR ''/'' # ref) = Some name"
proof -
  let ?endpoint = "name @ CHR ''/'' # kind @ CHR ''/'' # ref"
  have parts: "Split (CHR ''/'') ?endpoint = Split (CHR ''/'') name @ [kind, ref]"
    using assms by (intro endpoint_parts) auto
  have "\<not> HasSuffix ?endpoint ''/tags/list''"
  proof
    assume "HasSuffix ?endpoint ''/tags/list''"
    then obtain t where "?endpoint = t @ CHR ''/'' # ''tags'' @ CHR ''/'' # ''list''" by (auto simp: HasSuffix_iff)
    with parts endpoint_parts [of "''tags''" "''list''" t] show False using assms(2) by auto
  qed
  moreover have "TrimSuffix ?endpoint (CHR ''/'' # kind @ CHR ''/'' # ref) = name" by (rule TrimSuffix_append)
  moreover have "0 < length (Split (CHR ''/'') name)" by simp
  ultimately show ?thesis
    using assms(2) unfolding endpoint_repository_def parts by (auto simp: nth_append Let_def)
qed

lemma endpoint_tags: "endpoint_repository (name @ ''/tags/list'') = Some name"
  by (simp only: endpoint_repository_def HasSuffix_append TrimSuffix_append if_True)

lemma deriveRepository_endpoint:
  assumes "plain_host h" "plain_path e" "endpoint_repository e = Some name"
  shows "deriveRepository (''https://'' @ h @ ''/v2/'' @ e) = Inr (h, name, False)"
proof -
  have "plain_path (''v2/'' @ e)" using assms(2) by (auto simp: plain_path_def char_class_defs)
  from Parse_https [OF assms(1) this]
  have parse: "Parse (''https://'' @ h @ ''/v2/'' @ e) = Inr (plain_url ''https'' h (''/v2/'' @ e))" by simp
  have "e \<noteq> []" using assms(3) by (auto simp: endpoint_repository_def HasSuffix_def)
  moreover have "h \<noteq> []" using assms(1) by (simp add: plain_host_def)
  moreover have "TrimPrefix (''/v2/'' @ e) ''/v2/'' = e" by (rule TrimPrefix_append)
  ultimately show ?thesis
    using assms(3) unfolding deriveRepository_def parse sum.case plain_url_sel by simp
qed

lemma plain_endpoint:
  assumes "plain_path name" "plain_path ref" "kind = ''blobs'' \<or> kind = ''manifests''"
  shows "plain_path (name @ CHR ''/'' # kind @ CHR ''/'' # ref)" "plain_path (name @ ''/tags/list'')"
  using assms by (auto simp: plain_path_def char_class_defs)

lemmas deriveRepository_pull = deriveRepository_endpoint [OF _ plain_endpoint(1) endpoint_pull]
lemmas deriveRepository_tags = deriveRepository_endpoint [OF _ plain_endpoint(2) endpoint_tags]

text \<open>(C26) The pull endpoints of the registry API name their repository: blobs, manifests and the tag
  list of a repository all derive it, and all its requests share a cache key.\<close>

theorem oci_pull_endpoints:
  assumes "plain_host h" "plain_path name" "plain_path ref" "CHR ''/'' \<notin> set ref"
  shows "deriveRepository (''https://'' @ h @ ''/v2/'' @ name @ ''/blobs/'' @ ref) = Inr (h, name, False)
    \<and> deriveRepository (''https://'' @ h @ ''/v2/'' @ name @ ''/manifests/'' @ ref) = Inr (h, name, False)
    \<and> deriveRepository (''https://'' @ h @ ''/v2/'' @ name @ ''/tags/list'') = Inr (h, name, False)"
  using deriveRepository_pull [OF assms(1,2,3) _ assms(4), of "''blobs''"]
    deriveRepository_pull [OF assms(1,2,3) _ assms(4), of "''manifests''"]
    deriveRepository_tags [OF assms(1,2,3), of "''blobs''"] by simp

theorem oci_pull_endpoints_witness:
  "deriveRepository ''https://ghcr.io/v2/a/b/manifests/v1'' = Inr (''ghcr.io'', ''a/b'', False)"
  using oci_pull_endpoints [of "''ghcr.io''" "''a/b''" "''v1''"]
  by (simp add: plain_host_def plain_path_def char_class_defs)

text \<open>(C20) Requests that share a cache key are requests for the same repository of the same registry, and the
  helper answers them alike; so a cached response is the one a fresh request would get.\<close>

theorem oci_key_determines_answer:
  assumes "OCI_CacheKey q = OCI_CacheKey q'" and "OCI_CacheKey q \<noteq> []"
  shows "deriveRepository (URI q) = deriveRepository (URI q')
    \<and> OCI_Get w ctx oci q = OCI_Get w ctx oci q'"
  using oci_key_repository [OF assms] OCI_Get_repository by blast

theorem oci_key_determines_answer_witness:
  "OCI_Get empty_world None NewFallbackOCI \<lparr>URI = ''https://ghcr.io/v2/a/b/blobs/x''\<rparr> =
   OCI_Get empty_world None NewFallbackOCI \<lparr>URI = ''https://ghcr.io/v2/a/b/manifests/v1''\<rparr>"
proof -
  have "deriveRepository ''https://ghcr.io/v2/a/b/blobs/x'' = Inr (''ghcr.io'', ''a/b'', False)"
    "deriveRepository ''https://ghcr.io/v2/a/b/manifests/v1'' = Inr (''ghcr.io'', ''a/b'', False)"
    using deriveRepository_pull [of "''ghcr.io''" "''a/b''" "''x''" "''blobs''"]
      deriveRepository_pull [of "''ghcr.io''" "''a/b''" "''v1''" "''manifests''"]
    by (simp_all add: plain_host_def plain_path_def char_class_defs)
  then have "OCI_CacheKey \<lparr>URI = ''https://ghcr.io/v2/a/b/blobs/x''\<rparr> = OCI_CacheKey \<lparr>URI = ''https://ghcr.io/v2/a/b/manifests/v1''\<rparr>"
    "OCI_CacheKey \<lparr>URI = ''https://ghcr.io/v2/a/b/blobs/x''\<rparr> \<noteq> []"
    by (simp_all add: OCI_CacheKey_def oci_key_text)
  from oci_key_determines_answer [OF this] show ?thesis by blast
qed

subsection \<open>The remembered Docker credentials\<close>

lemma authForHost_method: "authForHost w cfg host = Inr (Some a) \<Longrightarrow> TokenExchangeMethod a = []"
  by (auto simp: authForHost_def dockerCredentialHelperToAuth_def CredentialHelperOutput_toAuthConfig_def
      DockerAuthConfig_toAuthConfig_def empty_auth_def Let_def decode_item_def map_sum_def
      split: option.splits if_splits sum.splits wire_item.splits prod.splits)

text \<open>Once the Docker credentials of a registry are remembered, they are used as they stand, without the
  exchange method of the configuration.\<close>

lemma Exchange_remembers:
  assumes "learn_realm w r registry = Inr www" and "map_of (authenticatorForRegistry r) registry = None"
    and "OCI_configFromContext ctx registry = Inr cfg" and "oc_ParseDockerConfig cfg"
    and "loadDockerConfig w = Inr docker" and "authForHost w docker registry = Inr (Some a)"
  shows "snd (Exchange w ctx r registry scopes) =
    r\<lparr>authenticatorForRegistry := gomap_put registry (\<lambda>_ _ _. Inr a) (authenticatorForRegistry r)\<rparr>"
  using assms by (simp add: Exchange_def deriveAuthConfig_def configured_auth_def docker_auth_def)

lemma learn_realm_authenticators [simp]:
  "learn_realm w (r\<lparr>authenticatorForRegistry := x\<rparr>) registry = learn_realm w r registry"
  by (simp add: learn_realm_def)

text \<open>(C37) The credentials found in the Docker configuration are remembered without the exchange method:
  whatever the first exchange for a registry gave, the second one on the same resolver is refused
  as having an unsupported method, unless the credentials are a finished token.\<close>

theorem second_exchange_refused:
  assumes "learn_realm w r registry = Inr www" and "map_of (authenticatorForRegistry r) registry = None"
    and "OCI_configFromContext ctx registry = Inr cfg" and "oc_ParseDockerConfig cfg"
    and "loadDockerConfig w = Inr docker" and "authForHost w docker registry = Inr (Some a)"
    and "a \<noteq> empty_auth" and "RegistryToken a = []"
  shows "fst (Exchange w ctx (snd (Exchange w ctx r registry scopes)) registry scopes') =
    Inl (Errorf ''unsupported token exchange method %q'' [[]])"
  using assms authForHost_method [OF assms(6)] unfolding Exchange_remembers [OF assms(1-6)]
  by (simp add: Exchange_def deriveAuthConfig_def exchange_with_def)

definition docker_file :: json where
  "docker_file = JObj [(''auths'', JObj [(''r.io'', JObj [(''username'', JStr ''u''), (''password'', JStr ''p'')])])]"

definition docker_world :: world where
  "docker_world = empty_world\<lparr>proc := (proc empty_world)\<lparr>env := [(''REGISTRY_AUTH_FILE'', ''/auth.json'')]\<rparr>,
     open_json := (\<lambda>p. if p = ''/auth.json'' then Inr (Value docker_file) else Inl (ErrNotExist p))\<rparr>"

definition docker_resolver :: OCIResolver where
  "docker_resolver = \<lparr>wwwAuthenticateForRegistry = [(''r.io'', \<lparr>Realm = ''https://r.io/token'', Service = ''r.io''\<rparr>)],
     authenticatorForRegistry = []\<rparr>"

definition docker_loaded :: ConfigFile where
  "docker_loaded = empty_config_file\<lparr>Auths :=
     [(''r.io'', empty_docker_auth\<lparr>da_Username := ''u'', da_Password := ''p''\<rparr>)]\<rparr>"

lemma docker_world_loads: "loadDockerConfig docker_world = Inr docker_loaded"
  by (simp add: loadDockerConfig_def docker_locations_def docker_world_def empty_world_def UserHomeDir_def
      LookupEnv_def Getenv_def docker_loaded_def docker_file_def decode_item_def ConfigFile_fields_def DockerAuthConfig_fields_def
      decode_field_def find_field_def field_def EqualFold_def lower_def empty_config_file_def empty_docker_auth_def is_not_exist_def)

theorem second_exchange_refused_witness:
  "fst (Exchange docker_world None (snd (Exchange docker_world None docker_resolver ''r.io'' [''s''])) ''r.io'' [''s'']) =
    Inl (Errorf ''unsupported token exchange method %q'' [[]])"
proof (rule second_exchange_refused)
  show "loadDockerConfig docker_world = Inr docker_loaded" by (rule docker_world_loads)
  show "authForHost docker_world docker_loaded ''r.io'' = Inr (Some (empty_auth\<lparr>Username := ''u'', Password := ''p'',
      Auth := encodeAuthField ''u'' ''p''\<rparr>))"
    by (simp add: authForHost_def docker_loaded_def empty_config_file_def DockerAuthConfig_toAuthConfig_def
        empty_docker_auth_def empty_auth_def)
  show "OCI_configFromContext None ''r.io'' =
      Inr \<lparr>oc_ParseDockerConfig = True, oc_TokenExchangeMethod = ''auto'', oc_LookupChain = Default (lookupChainByRegistry ''r.io'')\<rparr>"
    by (simp add: OCI_configFromContext_def FromContext_def)
qed (simp_all add: docker_resolver_def learn_realm_def empty_auth_def)

end
