(* ===== verification/Setup_Texts.thy ===== *)
theory Setup_Texts
  imports GitHub RemoteAPIs S3 Oci
begin

text \<open>
  The setup instructions of the helpers: \<open>SetupInstructionsForURI\<close> in the files under
  \<open>src/authenticate\<close>.  Each prints a fixed text with the URI and what the lookup chain of the
  helper says about its secrets.
\<close>

definition gcs_text :: string where
  "gcs_text = Join
     [''%s is a Google Cloud Storage (GCS) url.'',
      [],
      ''IAM Setup:'',
      [],
      ''  In order to access data from a bucket, you need a Google Cloud user- or service account with read access to the objects you want to access (storage.objects.get).'',
      ''  No other permissions are needed. Refer to Google'' @ CHR 0x27 # ''s documentation for more information: https://cloud.google.com/storage/docs/access-control/iam-permissions'',
      [],
      ''Authentication Methods:'',
      [],
      ''  Option 1: Using gcloud CLI as a regular user (Recommended)'',
      ''    1. Install the Google Cloud SDK: https://cloud.google.com/sdk/docs/install'',
      ''    2. Run:'',
      ''      $ gcloud auth application-default login'',
      ''    3. Follow the browser prompts to authenticate'',
      [],
      ''  Option 2: Using a Service Account Key, OpenID Connect or other authentication mechanisms'',
      ''    1. Follow Google'' @ CHR 0x27 # ''s documentation for choosing and setting up your method of choice: https://cloud.google.com/docs/authentication'',
      ''    2. Ensure your method of choice sets the Application Default Credentials (ADC) environment variable (GOOGLE_APPLICATION_CREDENTIALS): https://cloud.google.com/docs/authentication/provide-credentials-adc'',
      ''    3. Alternatively, check that the credentials file is in a well-known location ($HOME/.config/gcloud/application_default_credentials.json)'']
     [CHR 0x0A]"

definition GCS_SetupInstructionsForURI :: "string \<Rightarrow> string" where
  "GCS_SetupInstructionsForURI uri = Sprintf gcs_text [uri]"

definition gar_text :: string where
  "gar_text = Join
     [''%s is a Google Artifact Registry URL.'',
      [],
      ''IAM Setup:'',
      [],
      ''  In order to access packages from a registry, you need a Google Cloud user- or service account with read access to the repos you want to access (e.g IAM role with read access roles/artifactregistry.reader).'',
      ''  No other permissions are needed. Refer to Google'' @ CHR 0x27 # ''s documentation for more information: https://cloud.google.com/storage/docs/access-control/iam-permissions'',
      [],
      ''Authentication Methods:'',
      [],
      ''  Option 1: Using gcloud CLI as a regular user (Recommended)'',
      ''    1. Install the Google Cloud SDK: https://cloud.google.com/sdk/docs/install'',
      ''    2. Run:'',
      ''      $ gcloud auth application-default login'',
      ''    3. Follow the browser prompts to authenticate'',
      [],
      ''  Option 2: Using a Service Account Key, OpenID Connect or other authentication mechanisms'',
      ''    1. Follow Google'' @ CHR 0x27 # ''s documentation for choosing and setting up your method of choice: https://cloud.google.com/docs/authentication'',
      ''    2. Ensure your method of choice sets the Application Default Credentials (ADC) environment variable (GOOGLE_APPLICATION_CREDENTIALS): https://cloud.google.com/docs/authentication/provide-credentials-adc'',
      ''    3. Alternatively, check that the credentials file is in a well-known location ($HOME/.config/gcloud/application_default_credentials.json)'']
     [CHR 0x0A]"

definition GAR_SetupInstructionsForURI :: "string \<Rightarrow> string" where
  "GAR_SetupInstructionsForURI uri = Sprintf gar_text [uri]"

definition azstorage_text :: string where
  "azstorage_text = Join
     [''%s is a Azure Storage URL.'',
      [],
      ''IAM Setup:'',
      [],
      ''To access blob data, a user must have the following role assignments:'',
      ''- A data access role, such as Storage Blob Data Reader or Storage Blob Data Contributor'',
      ''- The Azure Resource Manager Reader role, at a minimum.'',
      [],
      ''The following example assigns the Storage Blob Data Reader role to a user by specifying the object ID.'',
      ''In this example, the role assignment is scoped to the level of the storage account.'',
      [],
      ''az role assignment create '' @ [CHR 0x5C],
      ''   --role \"Storage Blob Data Reader\" '' @ [CHR 0x5C],
      CHR 0x09 # ''--assignee-object-id \"aaaaaaaa-0000-1111-2222-bbbbbbbbbbbb\" '' @ [CHR 0x5C],
      CHR 0x09 # ''--assignee-principal-type \"User\" '' @ [CHR 0x5C],
      CHR 0x09 # ''--scope \"/subscriptions/<subscription-id>/resourceGroups/<resource-group-name>/providers/Microsoft.Storage/storageAccounts/<storage-account-name>\"'',
      [],
      ''Refer to Azure'' @ CHR 0x27 # ''s documentation for more information about RBAC: https://learn.microsoft.com/en-us/azure/role-based-access-control/'',
      [],
      ''Authentication Methods:'',
      [],
      ''There are several methods that you can use to authenticate with Azure.'',
      [],
      ''You can refer to Azure'' @ CHR 0x27 # ''s documentation: https://learn.microsoft.com/en-us/cli/azure/authenticate-azure-cli?view=azure-cli-latest'']
     [CHR 0x0A]"

definition AzStorage_SetupInstructionsForURI :: "string \<Rightarrow> string" where
  "AzStorage_SetupInstructionsForURI uri = Sprintf azstorage_text [uri]"

text \<open>What the text says about secrets: the instructions of the chain, or why there are none.\<close>

definition chain_section :: "world \<Rightarrow> Config result \<Rightarrow> (string \<times> string) list \<Rightarrow> string list" where
  "chain_section w chain bindings =
     (case chain of
        Inr config \<Rightarrow> map (\<lambda>(binding, meaning). SetupInstructions w config binding meaning) bindings
      | Inl err \<Rightarrow> [Sprintf ''due to a configuration parsing issue, no further setup instructions are available: %v''
          [err_msg err]])"

definition parsed_or_empty :: "string \<Rightarrow> url" where
  "parsed_or_empty uri = (case Parse uri of Inr u \<Rightarrow> u | Inl _ \<Rightarrow> empty_url)"

definition blank_line :: string where "blank_line = [CHR 0x0A, CHR 0x0A]"

definition github_text :: string where
  "github_text = Join
     [''%s is a GitHub url.'',
      [],
      ''The credential helper can be used to download any assets GitHub hosts, including:'',
      [],
      ''  - the git protocol via https'',
      ''  - raw code files (raw.githubusercontent.com/<org>/<repo>/<commit>/<file>)'',
      ''  - patches (github.com/<org>/<repo>/<commit>.patch)'',
      ''  - source tarballs (github.com/<org>/<repo>/archive/refs/tags/v1.2.3.tar.gz)'',
      ''  - release assets (github.com/<org>/<repo>/releases/download/v1.2.3/<file>)'',
      ''  - container images from ghcr.io (doc)'',
      ''  ... and more.'',
      [],
      ''With credentials, you are also less likely to be blocked by GitHub rate limits, even when accessing public repositories.'',
      [],
      ''Authentication Methods:'',
      [],
      ''  Option 1: Using the GitHub CLI as a regular user (Recommended)'',
      ''    1. Install the GitHub CLI (gh): https://github.com/cli/cli#installation'',
      ''    2. Login via:'',
      ''      $ gh auth login'',
      ''    3. Follow the browser prompts to authenticate'',
      [],
      ''  Option 2: Authentication using a GitHub App, GitHub Actions Token or Personal Access Token (PAT)'',
      ''    1. Setup your authentication method of choice'',
      ''    2. Set the required environment variable (GH_TOKEN or GITHUB_TOKEN) when running Bazel (or other tools that access credential helpers)'',
      ''    3. Alternatively, add the secret to the system keyring under the gh:github.com key'',
      [],
      ''%s'']
     [CHR 0x0A]"

definition GitHub_SetupInstructionsForURI :: "world \<Rightarrow> json option \<Rightarrow> string \<Rightarrow> string" where
  "GitHub_SetupInstructionsForURI w ctx uri =
     Sprintf github_text (uri # chain_section w (map_sum id gh_LookupChain (GitHub_configFromContext ctx))
       [(''default'', ''secret sent to GitHub as a bearer token in the Authorization header'')])"

definition RemoteAPIs_SetupInstructionsForURI :: "world \<Rightarrow> json option \<Rightarrow> string \<Rightarrow> string" where
  "RemoteAPIs_SetupInstructionsForURI w ctx uri =
     Sprintf (''%s refers to a remote build execution (RBE) system (a gRPC endpoint used for remote execution, remote caching, or related purposes).'' @
         CHR 0x0A # ''%s'' @ blank_line @ ''%s'')
       (uri #
        (if HasPrefix uri ''https://remote.buildbuddy.io/''
         then ''For BuildBuddy, visit https://app.buildbuddy.io/docs/setup/ and copy the secret after \"x-buildbuddy-api-key=\". Use the header_name \"x-buildbuddy-api-key\" in the configuration.''
         else ''Cannot infer RBE provider based on uri. Skipping provider-specific setup instructions.'') #
        chain_section w (map_sum id ra_LookupChain (RemoteAPIs_configFromContext ctx (parsed_or_empty uri)))
          [(''default'', ''secret sent to remote APIs as an authentication token or basic auth credentials'')])"

definition s3_text :: string where
  "s3_text = Join
     [''%s is a %s.'',
      [],
      ''The credential helper can be used to download objects from S3 (or S3-compatible object store) buckets.'',
      [],
      ''IAM Setup:'',
      [],
      ''  In order to access data from a bucket, you need an AWS user- or service account with read access to the objects you want to access (s3:GetObject).'',
      ''  Refer to the AWS documentation for more information: https://docs.aws.amazon.com/AmazonS3/latest/userguide/security-iam.html'',
      [],
      ''Authentication Methods:'',
      [],
      ''  Option 1: Using the AWS CLI and Single Sign On (SSO) as a regular user (Recommended)'',
      ''    1. Install the AWS CLI: https://docs.aws.amazon.com/cli/latest/userguide/getting-started-install.html'',
      ''    2. Follow the documentation for using aws configure sso and aws sso login to sign in: https://docs.aws.amazon.com/signin/latest/userguide/command-line-sign-in.html'',
      ''    3. Follow the browser prompts to authenticate'',
      [],
      ''  Option 2: Authenticate with other methods:'',
      ''    AWS has a lot of ways to authenticate and the credential helper uses the official SDK.'',
      ''    If you have more complex requirements, follow the AWS documentation to setup your method of choice:'',
      [],
      ''      https://docs.aws.amazon.com/sdkref/latest/guide/access.html'',
      [],
      ''    This may require you to set environment variables when using Bazel (or other tools).'',
      [],
      ''%s'']
     [CHR 0x0A]"

definition S3_SetupInstructionsForURI :: "world \<Rightarrow> json option \<Rightarrow> string \<Rightarrow> string" where
  "S3_SetupInstructionsForURI w ctx uri =
     (let u = parsed_or_empty uri;
          secrets = chain_section w (map_sum id s3_LookupChain (S3_configFromContext ctx u))
            ([(BindigAccessKeyID, ''AWS Access Key ID''), (BindingSecretAccessKey, ''AWS Secret Access Key''),
              (BindingSessionToken, ''AWS Session Token''), (BindingRegion, ''AWS Region'')] @
             (if providerFromHost (Host u) = ProviderCloudflareR2
              then [(BindingCloudflareAPIToken, ''Cloudflare API Token - can optionally be used to derive the secret access key'')]
              else []));
          service = (case providerFromHost (Host u) of
              ProviderAWS \<Rightarrow> ''AWS S3 object''
            | ProviderCloudflareR2 \<Rightarrow> ''Cloudflare R2 object''
            | ProviderUnknown \<Rightarrow> ''S3-compatible object store object'')
      in Sprintf s3_text [uri, service, Join secrets blank_line])"

definition oci_text :: string where
  "oci_text = Join
     [''%s is a %s.'',
      [],
      ''The credential helper can be used to download container images from OCI registries.'',
      [],
      ''Default flow:'',
      [],
      ''  If no custom logic exists to obtain tokens for a specific registry,'',
      ''  the helper parses your docker config (~/.docker/config.json) to obtain credentials for registries.'',
      ''  This allows you to use any registry that can be used via docker pull, simply by configuring it in advance with docker login'',
      [],
      ''Custom implementations:'',
      [],
      ''  For selected registries, the credential helper implements custom logic for obtaining tokens.'',
      [],
      ''  - GitHub packages / ghcr.io'',
      [],
      ''    For the GitHub container registry, the credential helper uses the same token flow that is also used for the GitHub api.'',
      ''    You can use a different token for ghcr.io by setting the $GHCR_TOKEN environment variable.'',
      [],
      ''%s'']
     [CHR 0x0A]"

definition OCI_SetupInstructionsForURI :: "world \<Rightarrow> json option \<Rightarrow> string \<Rightarrow> string" where
  "OCI_SetupInstructionsForURI w ctx uri =
     (let u = parsed_or_empty uri;
          secrets = chain_section w (map_sum id oc_LookupChain (OCI_configFromContext ctx (Host u)))
            [(BindingUsername, ''Username''), (BindingPassword, ''Password''),
             (BindingAuth, ''username:password encoded as base64''), (BindingIdentityToken, ''used for OAuth''),
             (BindingRegistryToken, ''immediately usable token for the registry - no exchange necessary'')];
          service = (if Host u = ''ghcr.io'' then ''GitHub Container Registry image'' else ''container image'')
      in Sprintf oci_text [uri, service, Join secrets blank_line])"

end
