(* ===== verification/Registry.thy ===== *)
theory Registry
  imports Setup_Texts
begin

text \<open>
  Helpers as values of the interface \<open>api.Helper\<close> (\<open>src/api/api.go\<close>), the table of helpers by name
  (\<open>src/registry/registry.go\<close>), and the choice of a helper by the host of a URL
  (\<open>src/helperfactory/fallback/fallback_factory.go\<close>).
\<close>

subsection \<open>The interface\<close>

text \<open>The cache key, the resolver with its \<open>Get\<close>, and the setup instructions if the helper has
  them.  \<open>Resolver\<close> and \<open>Get\<close> see the outside and the configuration in the context.\<close>

record helper =
  helper_CacheKey :: "GetCredentialsRequest \<Rightarrow> string"
  helper_Resolver :: "world \<Rightarrow> json option \<Rightarrow> getter result"
  helper_Setup :: "(world \<Rightarrow> json option \<Rightarrow> string \<Rightarrow> string) option"

definition helper_Get :: "world \<Rightarrow> json option \<Rightarrow> helper \<Rightarrow> getter" where
  "helper_Get w ctx h req = bind_result (helper_Resolver h w ctx) (\<lambda>get. get req)"

definition Null_Resolver :: "getter result" where
  [simp]: "Null_Resolver = Inr Null_Get"

definition Null_helper :: helper where
  "Null_helper = \<lparr>helper_CacheKey = Null_CacheKey, helper_Resolver = (\<lambda>w ctx. Null_Resolver), helper_Setup = None\<rparr>"

definition GCS_helper :: helper where
  "GCS_helper = \<lparr>helper_CacheKey = GCS_CacheKey,
     helper_Resolver = (\<lambda>w ctx. map_sum id GCSResolver_Get (GCS_Resolver w)),
     helper_Setup = Some (\<lambda>w ctx. GCS_SetupInstructionsForURI)\<rparr>"

definition GAR_helper :: helper where
  "GAR_helper = \<lparr>helper_CacheKey = GAR_CacheKey,
     helper_Resolver = (\<lambda>w ctx. map_sum id GARResolver_Get (GAR_Resolver w)),
     helper_Setup = Some (\<lambda>w ctx. GAR_SetupInstructionsForURI)\<rparr>"

definition AzStorage_helper :: helper where
  "AzStorage_helper = \<lparr>helper_CacheKey = AzStorage_CacheKey,
     helper_Resolver = (\<lambda>w ctx. map_sum id (AzStorageResolver_Get w) (AzStorage_Resolver w)),
     helper_Setup = Some (\<lambda>w ctx. AzStorage_SetupInstructionsForURI)\<rparr>"

definition GitHub_Resolver :: "world \<Rightarrow> json option \<Rightarrow> getter result" where
  "GitHub_Resolver w ctx = map_sum id (\<lambda>cfg. GitHubResolver_Get (GitHubTokenSource_Token w cfg)) (GitHub_configFromContext ctx)"

definition GitHub_helper :: helper where
  "GitHub_helper = \<lparr>helper_CacheKey = GitHub_CacheKey, helper_Resolver = GitHub_Resolver,
     helper_Setup = Some GitHub_SetupInstructionsForURI\<rparr>"

definition RemoteAPIs_helper :: helper where
  "RemoteAPIs_helper = \<lparr>helper_CacheKey = RemoteAPIs_CacheKey,
     helper_Resolver = (\<lambda>w ctx. Inr (RemoteAPIs_Get w ctx)),
     helper_Setup = Some RemoteAPIs_SetupInstructionsForURI\<rparr>"

definition S3_helper :: helper where
  "S3_helper = \<lparr>helper_CacheKey = S3_CacheKey, helper_Resolver = (\<lambda>w ctx. Inr (S3Resolver_Get w ctx)),
     helper_Setup = Some S3_SetupInstructionsForURI\<rparr>"

definition OCI_helper :: "OCI \<Rightarrow> helper" where
  "OCI_helper oci = \<lparr>helper_CacheKey = OCI_CacheKey,
     helper_Resolver = (\<lambda>w ctx. map_sum id (\<lambda>(r, _) req. fst (OCIResolver_Get w ctx r req)) (OCI_Resolver oci)),
     helper_Setup = Some OCI_SetupInstructionsForURI\<rparr>"

lemmas helper_defs = Null_helper_def GCS_helper_def GAR_helper_def AzStorage_helper_def GitHub_helper_def
  RemoteAPIs_helper_def S3_helper_def OCI_helper_def

lemma helper_Get_simps [simp]:
  "helper_Get w ctx Null_helper = Null_Get"
  "helper_Get w ctx GCS_helper = GCS_Get w"
  "helper_Get w ctx GAR_helper = GAR_Get w"
  "helper_Get w ctx AzStorage_helper = AzStorage_Get w"
  "helper_Get w ctx GitHub_helper = GitHub_Get w ctx"
  "helper_Get w ctx RemoteAPIs_helper = RemoteAPIs_Get w ctx"
  "helper_Get w ctx S3_helper = S3Resolver_Get w ctx"
  "helper_Get w ctx (OCI_helper oci) = OCI_Get w ctx oci"
  by (auto simp: fun_eq_iff helper_Get_def helper_defs GCS_Get_def GAR_Get_def AzStorage_Get_def GitHub_Get_def
      GitHub_Resolver_def OCI_Get_def split: sum.split)

lemma helper_CacheKey_simps:
  "helper_CacheKey Null_helper = Null_CacheKey" "helper_CacheKey GCS_helper = GCS_CacheKey"
  "helper_CacheKey GAR_helper = GAR_CacheKey" "helper_CacheKey AzStorage_helper = AzStorage_CacheKey"
  "helper_CacheKey GitHub_helper = GitHub_CacheKey" "helper_CacheKey RemoteAPIs_helper = RemoteAPIs_CacheKey"
  "helper_CacheKey S3_helper = S3_CacheKey" "helper_CacheKey (OCI_helper oci) = OCI_CacheKey"
  by (simp_all add: helper_defs)

subsection \<open>The registry\<close>

definition singleton :: "helper gomap" where
  "singleton =
     [(''azstorage'', AzStorage_helper), (''gar'', GAR_helper), (''gcs'', GCS_helper), (''github'', GitHub_helper),
      (''null'', Null_helper), (''oci'', OCI_helper NewFallbackOCI), (''remoteapis'', RemoteAPIs_helper), (''s3'', S3_helper)]"

definition HelperFromString :: "helper gomap \<Rightarrow> string \<Rightarrow> helper option" where
  "HelperFromString m s = map_of m s"

definition Helpers_register :: "string \<Rightarrow> helper \<Rightarrow> helper gomap \<Rightarrow> helper gomap" where
  [simp]: "Helpers_register name h m = gomap_put name h m"

definition Register :: "string \<Rightarrow> helper \<Rightarrow> helper gomap \<Rightarrow> helper gomap" where
  "Register name h m = Helpers_register name h m"

text \<open>Go iterates over a map in an unspecified order; the names are the set of its keys.\<close>

definition Helpers_names :: "helper gomap \<Rightarrow> string set" where
  [simp]: "Helpers_names m = fst ` set m"

definition Names :: "helper gomap \<Rightarrow> string set" where
  "Names m = Helpers_names m"

lemma Register_lookup:
  "HelperFromString (Register name h m) s = (if s = name then Some h else HelperFromString m s)"
  by (simp add: HelperFromString_def Register_def)

lemma HelperFromString_Names: "s \<in> Names m \<longleftrightarrow> HelperFromString m s \<noteq> None"
  by (auto simp: Names_def HelperFromString_def map_of_eq_None_iff)

subsection \<open>The fallback factory\<close>

definition registry_host :: "string \<Rightarrow> bool" where
  "registry_host host \<longleftrightarrow> HasSuffix host ''.app.snowflake.com'' \<or> HasSuffix host ''.azurecr.io'' \<or>
     list_ex (EqualFold host)
       [''cgr.dev'', ''docker.elastic.co'', ''gcr.io'', ''ghcr.io'', ''index.docker.io'', ''nvcr.io'',
        ''public.ecr.aws'', ''quay.io'', ''registry.gitlab.com'']"

definition FallbackHelperFactory :: "process \<Rightarrow> string \<Rightarrow> helper result" where
  "FallbackHelperFactory p rawURL =
     bind_result (Parse rawURL) (\<lambda>u.
       if HasSuffix (Hostname u) ''.amazonaws.com'' then Inr S3_helper
       else if EqualFold (Hostname u) ''storage.googleapis.com'' then Inr GCS_helper
       else if EqualFold (Hostname u) ''github.com'' \<or> HasSuffix (ToLower (Host u)) ''.github.com''
           \<or> EqualFold (Hostname u) ''raw.githubusercontent.com'' then Inr GitHub_helper
       else if HasSuffix (ToLower (Hostname u)) ''.r2.cloudflarestorage.com''
           \<and> \<not> values_has ''X-Amz-Expires'' (Query u) then Inr S3_helper
       else if HasSuffix (Hostname u) ''.buildbuddy.io'' then Inr RemoteAPIs_helper
       else if HasSuffix (Hostname u) ''pkg.dev'' then Inr GAR_helper
       else if HasSuffix (Hostname u) ''blob.core.windows.net'' then Inr AzStorage_helper
       else if registry_host (Hostname u) then Inr (OCI_helper NewFallbackOCI)
       else if GuessOCIRegistry p rawURL then Inr (OCI_helper NewFallbackOCI)
       else Inr Null_helper)"

end
