(* ===== verification/Glob.thy ===== *)
theory Glob
  imports Prelude
begin

text \<open>
  \<open>globMatch\<close> of \<open>src/config/config.go\<close>: wildcard matching by a loop over four indices that
  restarts at the last star on a mismatch.  \<open>glob_spec\<close> is what a pattern means, by recursion on the
  pattern; the loop is shown to end and to decide exactly that.
\<close>

partial_function (option) glob_loop :: "string \<Rightarrow> string \<Rightarrow> nat \<Rightarrow> nat \<Rightarrow> nat \<Rightarrow> nat \<Rightarrow> bool option" where
  "glob_loop pattern candidate patternIDX candidateIDX nextPatternIDX nextCandidateIDX =
     (if patternIDX < length pattern \<or> candidateIDX < length candidate then
        if patternIDX < length pattern \<and> pattern ! patternIDX = CHR ''*'' then
          glob_loop pattern candidate (patternIDX + 1) candidateIDX patternIDX (candidateIDX + 1)
        else if patternIDX < length pattern \<and> candidateIDX < length candidate \<and>
            candidate ! candidateIDX = pattern ! patternIDX then
          glob_loop pattern candidate (patternIDX + 1) (candidateIDX + 1) nextPatternIDX nextCandidateIDX
        else if 0 < nextCandidateIDX \<and> nextCandidateIDX \<le> length candidate then
          glob_loop pattern candidate nextPatternIDX nextCandidateIDX nextPatternIDX nextCandidateIDX
        else Some False
      else Some True)"

definition globMatch :: "string \<Rightarrow> string \<Rightarrow> bool option" where
  "globMatch pattern candidate = glob_loop pattern candidate 0 0 0 0"

subsection \<open>What a pattern means\<close>

fun glob_spec :: "string \<Rightarrow> string \<Rightarrow> bool" where
  "glob_spec [] s = (s = [])"
| "glob_spec (p # ps) [] = (p = CHR ''*'' \<and> glob_spec ps [])"
| "glob_spec (p # ps) (x # s) =
     (if p = CHR ''*'' then glob_spec ps (x # s) \<or> glob_spec (p # ps) s
      else x = p \<and> glob_spec ps s)"

lemma glob_spec_star:
  "glob_spec (CHR ''*'' # ps) s \<longleftrightarrow> (\<exists>n\<le>length s. glob_spec ps (drop n s))"
proof (induction s)
  case Nil
  then show ?case by simp
next
  case (Cons x s)
  have "(\<exists>n\<le>length (x # s). glob_spec ps (drop n (x # s))) \<longleftrightarrow>
      glob_spec ps (x # s) \<or> (\<exists>n\<le>length s. glob_spec ps (drop n s))" (is "?l \<longleftrightarrow> ?r")
  proof
    assume ?l
    then obtain n where n: "n \<le> length (x # s)" "glob_spec ps (drop n (x # s))" by blast
    then show ?r by (cases n) auto
  qed (force intro: exI [of _ 0] exI [of _ "Suc _"])
  with Cons show ?case by simp
qed

lemma glob_spec_star_suffix:
  assumes "glob_spec (CHR ''*'' # ps) (drop m s)" and "c \<le> m"
  shows "glob_spec (CHR ''*'' # ps) (drop c s)"
proof (cases "m \<le> length s")
  case True
  from assms(1) obtain n where n: "n \<le> length (drop m s)" "glob_spec ps (drop n (drop m s))"
    unfolding glob_spec_star by blast
  then show ?thesis
    unfolding glob_spec_star using assms(2) True
    by (intro exI [of _ "n + m - c"]) (simp add: add.commute)
next
  case False
  with assms(1) have "glob_spec (CHR ''*'' # ps) []" by simp
  then have "glob_spec ps []" by (simp add: glob_spec_star)
  then show ?thesis unfolding glob_spec_star
    by (intro exI [of _ "length (drop c s)"]) simp
qed

lemma glob_spec_literals:
  "CHR ''*'' \<notin> set l \<Longrightarrow> glob_spec (l @ ps) s \<longleftrightarrow> take (length l) s = l \<and> glob_spec ps (drop (length l) s)"
proof (induction l arbitrary: s)
  case (Cons x l)
  then show ?case by (cases s) auto
qed simp

text \<open>A pattern without a star matches only itself, and a lone star matches everything.\<close>

lemma glob_spec_no_star: "CHR ''*'' \<notin> set ps \<Longrightarrow> glob_spec ps s \<longleftrightarrow> s = ps"
  using glob_spec_literals [of ps "[]" s] by auto

lemma glob_spec_lone_star: "glob_spec ''*'' s"
  unfolding glob_spec_star by (intro exI [of _ "length s"]) simp

subsection \<open>The loop decides the meaning\<close>

text \<open>
  Either no star was passed, or \<open>np\<close> is the last star passed; then the loop is about to
  restart there, or the literals after the star match the candidate from \<open>nc - 1\<close> up to \<open>c\<close>.
\<close>

definition glob_inv :: "string \<Rightarrow> string \<Rightarrow> nat \<Rightarrow> nat \<Rightarrow> nat \<Rightarrow> nat \<Rightarrow> bool" where
  "glob_inv P C p c np nc \<longleftrightarrow> p \<le> length P \<and> c \<le> length C \<and>
     (nc = 0 \<or>
      np < length P \<and> P ! np = CHR ''*'' \<and> nc \<le> Suc (length C) \<and>
      (p = np \<and> c = nc \<or>
       (\<exists>l. drop (Suc np) P = l @ drop p P \<and> CHR ''*'' \<notin> set l \<and> np < p \<and> c = nc - 1 + length l)))"

definition glob_result :: "string \<Rightarrow> string \<Rightarrow> nat \<Rightarrow> nat \<Rightarrow> nat \<Rightarrow> nat \<Rightarrow> bool" where
  "glob_result P C p c np nc \<longleftrightarrow> glob_spec (drop p P) (drop c C) \<or>
     (0 < nc \<and> nc \<le> length C \<and> glob_spec (drop np P) (drop nc C))"

definition glob_measure :: "string \<Rightarrow> string \<Rightarrow> nat \<Rightarrow> nat \<Rightarrow> nat \<Rightarrow> nat \<Rightarrow> nat \<times> nat" where
  "glob_measure P C p c np nc =
     (length C + 2 - (if 0 < nc \<and> p = np \<and> c = nc then Suc nc else nc), length P - p)"

lemma glob_spec_split_star:
  assumes "c \<le> length C"
  shows "glob_spec (CHR ''*'' # R) (drop c C) \<longleftrightarrow>
    glob_spec R (drop c C) \<or> (Suc c \<le> length C \<and> glob_spec (CHR ''*'' # R) (drop (Suc c) C))"
proof (cases "drop c C")
  case Nil
  then show ?thesis using assms by simp
next
  case (Cons x s)
  then have "c < length C" by (metis drop_all linorder_not_less list.distinct(1))
  moreover have "drop (Suc c) C = s" using Cons by (metis drop_Suc list.sel(3) tl_drop)
  ultimately show ?thesis using Cons by simp
qed

lemma star_result:
  assumes inv: "glob_inv P C p c np nc" and p: "p < length P" "P ! p = CHR ''*''"
  shows "glob_result P C p c np nc = glob_result P C (Suc p) c p (Suc c)"
proof -
  let ?R = "drop (Suc p) P"
  have dp: "drop p P = CHR ''*'' # ?R" using Cons_nth_drop_Suc [OF p(1)] p(2) by simp
  have c: "c \<le> length C" using inv by (simp add: glob_inv_def)
  have alt: "glob_spec (drop p P) (drop c C)"
    if nc: "0 < nc" and m: "glob_spec (drop np P) (drop nc C)"
  proof -
    from inv nc consider "p = np" "c = nc"
      | l where "np < length P" "P ! np = CHR ''*''" "drop (Suc np) P = l @ drop p P" "CHR ''*'' \<notin> set l"
          "c = nc - 1 + length l"
      by (auto simp: glob_inv_def)
    then show ?thesis
    proof cases
      case 1
      with m show ?thesis by simp
    next
      case (2 l)
      have "drop np P = CHR ''*'' # l @ drop p P"
        using Cons_nth_drop_Suc [OF 2(1)] 2(2,3) by simp
      with m obtain n where "glob_spec (l @ drop p P) (drop n (drop nc C))"
        by (auto simp: glob_spec_star)
      with 2(4) have "glob_spec (drop p P) (drop (length l + (n + nc)) C)"
        by (simp add: glob_spec_literals ac_simps)
      moreover have "c \<le> length l + (n + nc)" using 2(5) by linarith
      ultimately show ?thesis unfolding dp by (rule glob_spec_star_suffix)
    qed
  qed
  show ?thesis
    using alt glob_spec_split_star [OF c, of ?R] by (auto simp: glob_result_def dp)
qed

lemma star_inv:
  "glob_inv P C p c np nc \<Longrightarrow> p < length P \<Longrightarrow> P ! p = CHR ''*'' \<Longrightarrow> glob_inv P C (Suc p) c p (Suc c)"
  by (auto simp: glob_inv_def)

lemma literal_step:
  assumes inv: "glob_inv P C p c np nc" and p: "p < length P" "P ! p \<noteq> CHR ''*''"
    and c: "c < length C" "C ! c = P ! p"
  shows "glob_inv P C (Suc p) (Suc c) np nc" (is ?inv)
    and "glob_result P C p c np nc = glob_result P C (Suc p) (Suc c) np nc" (is ?result)
proof -
  have dp: "drop p P = P ! p # drop (Suc p) P" using Cons_nth_drop_Suc [OF p(1)] by simp
  have dc: "drop c C = C ! c # drop (Suc c) C" using Cons_nth_drop_Suc [OF c(1)] by simp
  show ?result using p c by (simp add: glob_result_def dp dc)
  show ?inv
  proof (cases "nc = 0")
    case True
    with inv p c show ?thesis by (simp add: glob_inv_def)
  next
    case False
    with inv p(2) obtain l where l: "drop (Suc np) P = l @ drop p P" "CHR ''*'' \<notin> set l" "np < p"
      "c = nc - 1 + length l" "np < length P" "P ! np = CHR ''*''" "nc \<le> Suc (length C)"
      by (auto simp: glob_inv_def)
    then have "drop (Suc np) P = (l @ [P ! p]) @ drop (Suc p) P" "CHR ''*'' \<notin> set (l @ [P ! p])"
      "Suc c = nc - 1 + length (l @ [P ! p])" using p(2) dp by simp_all
    with l p c show ?thesis unfolding glob_inv_def by (metis Suc_leI less_SucI)
  qed
qed

lemma mismatch_result:
  assumes "p < length P \<or> c < length C" and "\<not> (p < length P \<and> P ! p = CHR ''*'')"
    and "\<not> (p < length P \<and> c < length C \<and> C ! c = P ! p)"
  shows "\<not> glob_spec (drop p P) (drop c C)"
proof (cases "p < length P")
  case True
  then have dp: "drop p P = P ! p # drop (Suc p) P" using Cons_nth_drop_Suc by metis
  show ?thesis
  proof (cases "c < length C")
    case c: True
    then have "drop c C = C ! c # drop (Suc c) C" using Cons_nth_drop_Suc by metis
    with True c assms dp show ?thesis by simp
  qed (use True assms dp in simp)
qed (use assms in simp)

text \<open>The loop ends and returns whether the pattern matches.\<close>

lemma glob_loop_correct:
  "glob_inv P C p c np nc \<Longrightarrow> glob_loop P C p c np nc = Some (glob_result P C p c np nc)"
proof (induction "glob_measure P C p c np nc" arbitrary: p c np nc
    rule: wf_induct_rule [OF wf_lex_prod [OF wf_less_than wf_less_than]])
  case (1 p c np nc)
  note IH = "1.hyps" and inv = "1.prems"
  have nc: "nc \<le> Suc (length C)" using inv by (auto simp: glob_inv_def)
  consider (finished) "\<not> (p < length P \<or> c < length C)"
    | (star) "p < length P" "P ! p = CHR ''*''"
    | (literal) "p < length P" "P ! p \<noteq> CHR ''*''" "c < length C" "C ! c = P ! p"
    | (mismatch) "p < length P \<or> c < length C" "\<not> (p < length P \<and> P ! p = CHR ''*'')"
        "\<not> (p < length P \<and> c < length C \<and> C ! c = P ! p)" by blast
  then show ?case
  proof cases
    case finished
    then show ?thesis using inv by (subst glob_loop.simps) (simp add: glob_result_def)
  next
    case star
    have "(glob_measure P C (Suc p) c p (Suc c), glob_measure P C p c np nc) \<in> less_than <*lex*> less_than"
      using star nc inv by (auto simp: glob_measure_def glob_inv_def)
    from IH [OF this star_inv [OF inv star]] star show ?thesis
      by (subst glob_loop.simps) (simp add: star_result [OF inv star])
  next
    case literal
    have "(glob_measure P C (Suc p) (Suc c) np nc, glob_measure P C p c np nc) \<in> less_than <*lex*> less_than"
      using literal nc inv by (auto simp: glob_measure_def glob_inv_def)
    from IH [OF this literal_step(1) [OF inv literal]] literal show ?thesis
      by (subst glob_loop.simps) (simp add: literal_step(2) [OF inv literal])
  next
    case mismatch
    note no = mismatch_result [OF mismatch]
    show ?thesis
    proof (cases "0 < nc \<and> nc \<le> length C")
      case True
      then have "(glob_measure P C np nc np nc, glob_measure P C p c np nc) \<in> less_than <*lex*> less_than"
        using mismatch inv by (auto simp: glob_measure_def glob_inv_def)
      moreover have "glob_inv P C np nc np nc" using True inv by (auto simp: glob_inv_def)
      ultimately have "glob_loop P C np nc np nc = Some (glob_result P C np nc np nc)" by (rule IH)
      with mismatch True no show ?thesis
        by (subst glob_loop.simps) (auto simp: glob_result_def)
    next
      case False
      with mismatch no show ?thesis by (subst glob_loop.simps) (auto simp: glob_result_def)
    qed
  qed
qed

lemma globMatch_correct: "globMatch pattern candidate = Some (glob_spec pattern candidate)"
  unfolding globMatch_def
  by (subst glob_loop_correct) (simp_all add: glob_inv_def glob_result_def)

text \<open>The pattern with its stars replaced by the given strings, in order.\<close>

fun fill :: "string \<Rightarrow> string list \<Rightarrow> string" where
  "fill [] gs = []"
| "fill (p # ps) gs =
     (if p = CHR ''*'' then (case gs of [] \<Rightarrow> fill ps [] | g # gs' \<Rightarrow> g @ fill ps gs')
      else p # fill ps gs)"

lemma glob_spec_fill: "glob_spec ps s \<longleftrightarrow> (\<exists>gs. fill ps gs = s)"
proof (induction ps arbitrary: s)
  case Nil
  show ?case by auto
next
  case (Cons p ps)
  show ?case
  proof (cases "p = CHR ''*''")
    case True
    show ?thesis
    proof
      assume "glob_spec (p # ps) s"
      with True Cons obtain n gs where "fill ps gs = drop n s" by (auto simp: glob_spec_star)
      with True have "fill (p # ps) (take n s # gs) = s" by simp
      then show "\<exists>gs. fill (p # ps) gs = s" ..
    next
      assume "\<exists>gs. fill (p # ps) gs = s"
      then obtain gs where gs: "fill (p # ps) gs = s" ..
      obtain g gs' where "s = g @ fill ps gs'"
        using gs True by (cases gs) (auto intro: that [of "[]" "[]"])
      then show "glob_spec (p # ps) s"
        using True Cons by (auto simp: glob_spec_star intro!: exI [of _ "length g"])
    qed
  next
    case False
    with Cons show ?thesis by (cases s) auto
  qed
qed

subsection \<open>Properties\<close>

text \<open>(C4) \<open>globMatch\<close> returns on every pattern and candidate, and returns whether the candidate is the
  pattern with each star replaced by some string.\<close>

theorem globMatch_decides: "globMatch pattern candidate = Some (\<exists>gs. fill pattern gs = candidate)"
  by (simp add: globMatch_correct glob_spec_fill)

end
