(* ===== verification/Config_File.thy ===== *)
theory Config_File
  imports Registry Glob
begin

text \<open>
  The configuration file (\<open>src/config/config.go\<close>): reading it, choosing the helper of a URL from it,
  and the set-up of a command that needs a helper (\<open>src/cmd/internal/util/util.go\<close>).
\<close>

record URLConfig =
  uc_Scheme :: string
  uc_Host :: string
  uc_Path :: string
  uc_Helper :: string
  uc_Config :: "json option"

definition empty_URLConfig :: URLConfig where
  "empty_URLConfig = \<lparr>uc_Scheme = [], uc_Host = [], uc_Path = [], uc_Helper = [], uc_Config = None\<rparr>"

definition URLConfig_fields :: "URLConfig fields" where
  "URLConfig_fields =
     [(''scheme'', field decode_string uc_Scheme (\<lambda>x r. r\<lparr>uc_Scheme := x\<rparr>)),
      (''host'', field decode_string uc_Host (\<lambda>x r. r\<lparr>uc_Host := x\<rparr>)),
      (''path'', field decode_string uc_Path (\<lambda>x r. r\<lparr>uc_Path := x\<rparr>)),
      (''helper'', field decode_string uc_Helper (\<lambda>x r. r\<lparr>uc_Helper := x\<rparr>)),
      (''config'', field decode_raw uc_Config (\<lambda>x r. r\<lparr>uc_Config := x\<rparr>))]"

record file_config =
  URLs :: "URLConfig list option"

definition file_config_fields :: "file_config fields" where
  "file_config_fields =
     [(''urls'', field (decode_slice (decode_struct True URLConfig_fields) empty_URLConfig) URLs (\<lambda>x r. r\<lparr>URLs := x\<rparr>))]"

subsection \<open>Choosing a helper\<close>

text \<open>The glob matcher always returns (theory \<open>Glob\<close>).\<close>

definition glob_ok :: "string \<Rightarrow> string \<Rightarrow> bool" where
  "glob_ok pattern candidate \<longleftrightarrow> globMatch pattern candidate = Some True"

definition url_matches :: "URLConfig \<Rightarrow> url \<Rightarrow> bool" where
  "url_matches c requested \<longleftrightarrow>
     \<not> (0 < length (uc_Scheme c) \<and> uc_Scheme c \<noteq> Scheme requested) \<and>
     \<not> (0 < length (uc_Host c) \<and> \<not> glob_ok (uc_Host c) (Host requested)) \<and>
     \<not> (0 < length (uc_Path c) \<and> \<not> glob_ok (uc_Path c) (Path requested))"

text \<open>A helper may be nil: the outcome when no entry matches and the null helper is not registered.\<close>

fun find_loop :: "helper gomap \<Rightarrow> url \<Rightarrow> URLConfig list \<Rightarrow> (helper option \<times> json option) result" where
  "find_loop reg requested [] = Inr (HelperFromString reg ''null'', None)"
| "find_loop reg requested (c # cs) =
     (if length (uc_Helper c) = 0 then Inl (ErrorString ''invalid configuration file: helper field is required'')
      else if \<not> url_matches c requested then find_loop reg requested cs
      else case HelperFromString reg (uc_Helper c) of
             Some h \<Rightarrow> Inr (Some h, uc_Config c)
           | None \<Rightarrow> Inl (Errorf ''unknown helper: %s'' [uc_Helper c]))"

definition FindHelper :: "helper gomap \<Rightarrow> file_config \<Rightarrow> string \<Rightarrow> (helper option \<times> json option) result" where
  "FindHelper reg cfg uri =
     bind_result (Parse uri) (\<lambda>requested.
       case URLs cfg of
         None \<Rightarrow> Inl (ErrorString ''invalid configuration file: no helpers configured'')
       | Some cs \<Rightarrow>
           if length cs = 0 then Inl (ErrorString ''invalid configuration file: no helpers configured'')
           else find_loop reg requested cs)"

subsection \<open>Reading the file\<close>

definition OSReader_Read :: "world \<Rightarrow> file_config result" where
  "OSReader_Read w =
     (let configPath = LookupPathEnv ConfigFileEnv (Path_Join [''%workspace%'', ''.tweag-credential-helper.json'']) False (proc w)
      in case open_json w configPath of
           Inl err \<Rightarrow> if is_not_exist err then Inl ErrConfigNotFound else Inl err
         | Inr file \<Rightarrow> decode_item (decode_struct True file_config_fields) file \<lparr>URLs = None\<rparr>)"

text \<open>\<open>util.Configure\<close>: the helper of a URL and its configuration for the context; an error ends the
  process.  \<open>err != config.ErrConfigNotFound\<close> compares with the sentinel itself.\<close>

definition Configure ::
  "helper gomap \<Rightarrow> (string \<Rightarrow> helper result) \<Rightarrow> file_config result \<Rightarrow> string \<Rightarrow> (json option \<times> helper option) result" where
  "Configure reg helperFactory configRead uri =
     (case configRead of
        Inr cfg \<Rightarrow> map_sum id (\<lambda>(h, helperConfig). (helperConfig, h)) (FindHelper reg cfg uri)
      | Inl err \<Rightarrow>
          if err \<noteq> ErrConfigNotFound then Inl (ErrorString (''reading config: '' @ err_msg err))
          else map_sum id (\<lambda>h. (None, Some h)) (helperFactory uri))"

subsection \<open>Properties\<close>

lemma glob_ok_iff: "glob_ok pattern candidate \<longleftrightarrow> (\<exists>gs. fill pattern gs = candidate)"
  by (simp add: glob_ok_def globMatch_correct glob_spec_fill)

text \<open>What an entry asks of a URL: each field that is present fits, the wildcards standing for any text.\<close>

definition entry_fits :: "URLConfig \<Rightarrow> url \<Rightarrow> bool" where
  "entry_fits c u \<longleftrightarrow> (uc_Scheme c \<noteq> [] \<longrightarrow> uc_Scheme c = Scheme u)
     \<and> (uc_Host c \<noteq> [] \<longrightarrow> (\<exists>gs. fill (uc_Host c) gs = Host u))
     \<and> (uc_Path c \<noteq> [] \<longrightarrow> (\<exists>gs. fill (uc_Path c) gs = Path u))"

lemma url_matches_iff: "url_matches c u \<longleftrightarrow> entry_fits c u"
  by (auto simp: url_matches_def entry_fits_def glob_ok_iff)

lemma find_loop_find:
  "find_loop reg u cs =
     (case find (\<lambda>c. uc_Helper c = [] \<or> entry_fits c u) cs of
        None \<Rightarrow> Inr (HelperFromString reg ''null'', None)
      | Some c \<Rightarrow>
          if uc_Helper c = [] then Inl (ErrorString ''invalid configuration file: helper field is required'')
          else case HelperFromString reg (uc_Helper c) of
                 Some h \<Rightarrow> Inr (Some h, uc_Config c)
               | None \<Rightarrow> Inl (Errorf ''unknown helper: %s'' [uc_Helper c]))"
  by (induction cs) (simp_all add: url_matches_iff)

text \<open>(C19) The configuration file decides by its first entry that fits the URL, where each wildcard of the
  host and the path stands for any text: its helper and its configuration are used, an unknown
  helper is an error, and without a fitting entry the request is left alone.  An entry without a
  helper is an error once the search reaches it.\<close>

theorem FindHelper_first_fit:
  assumes "Parse uri = Inr u" and "URLs cfg = Some cs" and "cs \<noteq> []"
  shows "FindHelper reg cfg uri =
     (case find (\<lambda>c. uc_Helper c = [] \<or> entry_fits c u) cs of
        None \<Rightarrow> Inr (HelperFromString reg ''null'', None)
      | Some c \<Rightarrow>
          if uc_Helper c = [] then Inl (ErrorString ''invalid configuration file: helper field is required'')
          else case HelperFromString reg (uc_Helper c) of
                 Some h \<Rightarrow> Inr (Some h, uc_Config c)
               | None \<Rightarrow> Inl (Errorf ''unknown helper: %s'' [uc_Helper c]))"
  using assms by (simp add: FindHelper_def find_loop_find)

definition sample_file_config :: file_config where
  "sample_file_config = \<lparr>URLs = Some [empty_URLConfig\<lparr>uc_Host := ''*.corp'', uc_Helper := ''oci''\<rparr>,
     empty_URLConfig\<lparr>uc_Path := ''/o/*'', uc_Helper := ''github'', uc_Config := Some JNull\<rparr>]\<rparr>"

theorem FindHelper_first_fit_witness:
  "FindHelper singleton sample_file_config ''https://github.com/o/r'' = Inr (Some GitHub_helper, Some JNull)"
proof -
  have u: "Parse ''https://github.com/o/r'' = Inr (plain_url ''https'' ''github.com'' ''/o/r'')"
    using Parse_https [of "''github.com''" "''o/r''"] by (simp add: plain_host_def plain_path_def char_class_defs)
  have "\<not> glob_spec ''*.corp'' ''github.com''" "glob_spec ''/o/*'' ''/o/r''" by simp_all
  then have "\<not> (\<exists>gs. fill ''*.corp'' gs = ''github.com'')" "\<exists>gs. fill ''/o/*'' gs = ''/o/r''"
    unfolding glob_spec_fill .
  then show ?thesis
    unfolding FindHelper_first_fit [OF u, of sample_file_config, unfolded sample_file_config_def file_config.simps, OF refl list.simps(3)]
      sample_file_config_def
    by (simp add: entry_fits_def empty_URLConfig_def HelperFromString_def singleton_def)
qed

end
