(* ===== verification/Setup.thy ===== *)
theory Setup
  imports Go_Flag Config_File LookupChain
begin

text \<open>
  The setup commands: \<open>setup-keyring\<close> (\<open>src/cmd/setup/keyring.go\<close>), which stores, prints or deletes a secret of
  the system keyring, and \<open>setup-uri\<close> (\<open>src/cmd/setup/uri.go\<close>), which prints the setup instructions for a
  URL.  The keyring is a package outside the repository: its operations are the record \<open>keyring\<close> over a
  state of type \<open>'k\<close>, and what is relied on is the hypothesis \<open>keyring_laws\<close>.
\<close>

subsection \<open>The outcome of a command\<close>

text \<open>What a command prints on standard output when it succeeds; the text on standard error, or for
  \<open>SetupFailed\<close> on standard output, with which it exits with status 1.  \<open>SetupUsage\<close> is the message of a bad
  argument and the usage.\<close>

datatype setup_run = SetupPrinted string | SetupFatal string | SetupFailed string | SetupUsage string

definition usage_examples :: "string list \<Rightarrow> string" where
  "usage_examples examples = CHR 0x0A # ''Examples:'' @ CHR 0x0A # concat (map (\<lambda>e. ''  $ '' @ e @ [CHR 0x0A]) examples)"

definition fatalFmt :: "string \<Rightarrow> string list \<Rightarrow> setup_run" where
  "fatalFmt format args =
     SetupFatal (Sprintf (if HasSuffix format [CHR 0x0A] then format else format @ [CHR 0x0A]) args)"

subsection \<open>The keyring\<close>

record 'k keyring =
  Keyring_Get :: "string \<Rightarrow> string \<Rightarrow> 'k \<Rightarrow> string result"
  Keyring_Set :: "string \<Rightarrow> string \<Rightarrow> string \<Rightarrow> 'k \<Rightarrow> unit result \<times> 'k"
  Keyring_Delete :: "string \<Rightarrow> string \<Rightarrow> 'k \<Rightarrow> unit result \<times> 'k"

text \<open>The documented behaviour of the package: a secret that was set is what \<open>Get\<close> returns, a deleted one
  is not found, and secrets of other services stay as they are.\<close>

definition keyring_laws :: "'k keyring \<Rightarrow> bool" where
  "keyring_laws kr \<longleftrightarrow>
     (\<forall>service user secret k k'. Keyring_Set kr service user secret k = (Inr (), k') \<longrightarrow>
        Keyring_Get kr service user k' = Inr secret \<and>
        (\<forall>s u. (s, u) \<noteq> (service, user) \<longrightarrow> Keyring_Get kr s u k' = Keyring_Get kr s u k)) \<and>
     (\<forall>service user k k'. Keyring_Delete kr service user k = (Inr (), k') \<longrightarrow>
        Keyring_Get kr service user k' = Inl KeyringErrNotFound \<and>
        (\<forall>s u. (s, u) \<noteq> (service, user) \<longrightarrow> Keyring_Get kr s u k' = Keyring_Get kr s u k))"

subsection \<open>setup-keyring\<close>

record keyring_flags =
  sourceFilePath :: string
  read_flag :: bool
  clear_flag :: bool

definition keyring_flagset :: "keyring_flags flagset" where
  "keyring_flagset = map_of
     [(''file'', StringVar (\<lambda>v a. a\<lparr>sourceFilePath := v\<rparr>)),
      (''read'', BoolVar (\<lambda>b a. a\<lparr>read_flag := b\<rparr>)),
      (''clear'', BoolVar (\<lambda>b a. a\<lparr>clear_flag := b\<rparr>))]"

definition keyring_usage :: string where
  "keyring_usage =
     ''Stores a secret read from a file or stdin in the system keyring under the name specified by service.'' @ [CHR 0x0A, CHR 0x0A] @
     ''Usage: credential-helper setup-keyring [--file file] [--read | --clear] [service]'' @ CHR 0x0A #
     PrintDefaults
       [(''clear'', [], ''Clear the secret stored in the keyring for this service and exit''),
        (''file'', ''string'', ''File to read the secret from''),
        (''read'', [], ''Print the current secret stored in the keyring for this service to stdout and exit'')] @
     usage_examples
       [''credential-helper setup-keyring gh:github.com < secret.txt'',
        ''credential-helper setup-keyring --clear gh:github.com'',
        ''credential-helper setup-keyring --file secret.txt tweag-credential-helper:remoteapis'',
        ''credential-helper setup-keyring --read tweag-credential-helper:buildbuddy_api_key'']"

text \<open>Storing the secret: \<open>open_file\<close> gives for a path the outcome of opening it and, once open, that of
  reading it to the end; \<open>stdin\<close> is what can be read from standard input.\<close>

definition store_secret ::
  "'k keyring \<Rightarrow> process \<Rightarrow> (string \<Rightarrow> string result result) \<Rightarrow> string result \<Rightarrow> string \<Rightarrow> string \<Rightarrow> 'k \<Rightarrow> setup_run \<times> 'k" where
  "store_secret kr p open_file stdin path service k =
     (let file = RemapToOriginalWorkingDirectory path p
      in case (if length path > 0 then open_file file else Inr stdin) of
           Inl openErr \<Rightarrow> (fatalFmt ''opening source file %s: %v'' [file, err_msg openErr], k)
         | Inr (Inl err) \<Rightarrow>
             (if length path > 0 then fatalFmt ''reading secret from %s: %v'' [file, err_msg err]
              else fatalFmt (''Reading secret from stdin.'' @ CHR 0x0A # ''reading secret from %s: %v'') [''stdin'', err_msg err], k)
         | Inr (Inr secret) \<Rightarrow>
             (case Keyring_Set kr service [] secret k of
                (Inl err, k') \<Rightarrow> (fatalFmt ''storing secret in keyring: %v'' [err_msg err], k')
              | (Inr _, k') \<Rightarrow> (SetupPrinted (Sprintf (''Stored secret %s'' @ [CHR 0x0A]) [service]), k')))"

definition KeyringProcess ::
  "'k keyring \<Rightarrow> process \<Rightarrow> (string \<Rightarrow> string result result) \<Rightarrow> string result \<Rightarrow> string list \<Rightarrow> 'k \<Rightarrow> setup_run \<times> 'k" where
  "KeyringProcess kr p open_file stdin args k =
     (case flag_parse keyring_flagset args \<lparr>sourceFilePath = [], read_flag = False, clear_flag = False\<rparr> of
        Inl err \<Rightarrow> (SetupUsage (failf_text err @ keyring_usage), k)
      | Inr (flags, rest) \<Rightarrow>
          if length rest \<noteq> 1 then (SetupUsage keyring_usage, k)
          else
            (let service = rest ! 0
             in if read_flag flags \<and> clear_flag flags then (fatalFmt ''cannot specify both --read and --clear'' [], k)
                else if read_flag flags then
                  (case Keyring_Get kr service [] k of
                     Inl err \<Rightarrow> (fatalFmt ''reading secret from keyring: %v'' [err_msg err], k)
                   | Inr secret \<Rightarrow> (SetupPrinted secret, k))
                else if clear_flag flags then
                  (case Keyring_Delete kr service [] k of
                     (Inl err, k') \<Rightarrow> (fatalFmt ''deleting secret from keyring: %v'' [err_msg err], k')
                   | (Inr _, k') \<Rightarrow> (SetupPrinted (Sprintf (''Cleared secret %s'' @ [CHR 0x0A]) [service]), k'))
                else store_secret kr p open_file stdin (sourceFilePath flags) service k))"

subsection \<open>setup-uri\<close>

text \<open>\<open>resolver_setup\<close> is the method of the resolver, if it has one.  The variable \<open>ok\<close> of the inner check
  shadows the outer one, which keeps its value for the test that follows.\<close>

definition no_setup_text :: "string \<Rightarrow> string" where
  "no_setup_text uri = Sprintf (''No setup instructions available for %s'' @ CHR 0x0A #
     ''Maybe the config file is missing or incorrectly configured?'') [uri]"

definition print_instructions ::
  "world \<Rightarrow> json option \<Rightarrow> helper \<Rightarrow> (getter \<Rightarrow> (string \<Rightarrow> string) option) \<Rightarrow> string \<Rightarrow> setup_run" where
  "print_instructions w ctx authenticator resolver_setup uri =
     (let own = map_option (\<lambda>f. f w ctx) (helper_Setup authenticator);
          ok = (own \<noteq> None)
      in case (if ok then Inr own
               else map_sum id resolver_setup (helper_Resolver authenticator w ctx)) of
           Inl err \<Rightarrow> SetupFatal (''instantiating resolver: '' @ err_msg err @ [CHR 0x0A])
         | Inr instructionGiver \<Rightarrow>
             if \<not> ok then SetupFailed (no_setup_text uri)
             else (case instructionGiver of
                     Some f \<Rightarrow> SetupPrinted (f uri @ [CHR 0x0A])
                   | None \<Rightarrow> SetupFatal ''invalid memory address or nil pointer dereference''))"

definition uri_usage :: string where
  "uri_usage =
     ''Prints setup instructions for a given uri.'' @ [CHR 0x0A, CHR 0x0A] @
     ''Usage: credential-helper setup-uri [uri]'' @ CHR 0x0A # PrintDefaults [] @
     usage_examples
       [''credential-helper setup-uri https://github.com/my-org/project/releases/download/v1.2.3/my-artifact.tar.gz'',
        ''credential-helper setup-uri https://raw.githubusercontent.com/my-org/project/6012...a5de28/file.txt'',
        ''credential-helper setup-uri https://storage.googleapis.com/bucket/path/to/object'',
        ''credential-helper setup-uri https://my-bucket.s3.amazonaws.com/path/to/object'',
        ''credential-helper setup-uri https://org-id.r2.cloudflarestorage.com/bucket/path/to/object'',
        ''credential-helper setup-uri https://index.docker.io/v2/library/hello-world/blobs/sha256:d2c94e...7264ac5a'']"

definition URIProcess ::
  "world \<Rightarrow> helper gomap \<Rightarrow> (string \<Rightarrow> helper result) \<Rightarrow> (getter \<Rightarrow> (string \<Rightarrow> string) option) \<Rightarrow> string list \<Rightarrow> setup_run" where
  "URIProcess w reg helperFactory resolver_setup args =
     (case flag_parse (\<lambda>_. None :: unit flag option) args () of
        Inl err \<Rightarrow> SetupUsage (failf_text err @ uri_usage)
      | Inr (_, rest) \<Rightarrow>
          if length rest \<noteq> 1 then SetupUsage uri_usage
          else
            (case Configure reg helperFactory (OSReader_Read w) (rest ! 0) of
               Inl err \<Rightarrow> SetupFatal (err_msg err @ [CHR 0x0A])
             | Inr (ctx, None) \<Rightarrow> SetupFatal ''invalid memory address or nil pointer dereference''
             | Inr (ctx, Some authenticator) \<Rightarrow> print_instructions w ctx authenticator resolver_setup (rest ! 0)))"

subsection \<open>Properties\<close>

lemma KeyringProcess_simps:
  assumes "plain_arg service"
  shows KeyringProcess_file: "KeyringProcess kr p open_file stdin [''--file'', f, service] k =
      store_secret kr p open_file stdin f service k"
    and KeyringProcess_stdin: "KeyringProcess kr p open_file stdin [service] k =
      store_secret kr p open_file stdin [] service k"
    and KeyringProcess_read: "KeyringProcess kr p open_file stdin [''--read'', service] k =
      (case Keyring_Get kr service [] k of
         Inl err \<Rightarrow> (fatalFmt ''reading secret from keyring: %v'' [err_msg err], k)
       | Inr secret \<Rightarrow> (SetupPrinted secret, k))"
    and KeyringProcess_clear: "KeyringProcess kr p open_file stdin [''--clear'', service] k =
      (case Keyring_Delete kr service [] k of
         (Inl err, k') \<Rightarrow> (fatalFmt ''deleting secret from keyring: %v'' [err_msg err], k')
       | (Inr _, k') \<Rightarrow> (SetupPrinted (Sprintf (''Cleared secret %s'' @ [CHR 0x0A]) [service]), k'))"
  using assms
  by (simp_all add: KeyringProcess_def flag_parse_value flag_parse_switch flag_ident_def invalid_value_def
      keyring_flagset_def StringVar_def BoolVar_def ParseBool_def)

text \<open>The lookup chain sees the keyring in the state the command left.\<close>

definition with_keyring :: "'k keyring \<Rightarrow> 'k \<Rightarrow> world \<Rightarrow> world" where
  "with_keyring kr k w = w\<lparr>keyring_Get := (\<lambda>service user. Keyring_Get kr service user k)\<rparr>"

lemma store_secret_stored:
  assumes "store_secret kr p open_file stdin path service k = (SetupPrinted out, k')"
  obtains secret where "(if path = [] then Inr stdin else open_file (RemapToOriginalWorkingDirectory path p)) = Inr (Inr secret)"
    and "Keyring_Set kr service [] secret k = (Inr (), k')"
  using assms
  by (auto simp: store_secret_def Let_def fatalFmt_def split: sum.splits if_splits prod.splits)

text \<open>(C30) A secret stored by \<open>setup-keyring\<close> is found by the lookup chain: when the command reports success
  for a file, the keyring source of that service yields the bytes of the file, a trailing newline
  included, \<open>--read\<close> prints them, sources of other services see no change, and after a successful
  \<open>--clear\<close> the secret is not found.\<close>

theorem setup_keyring_roundtrip:
  assumes laws: "keyring_laws kr" and service: "plain_arg service" and "path \<noteq> []"
    and opened: "open_file (RemapToOriginalWorkingDirectory path p) = Inr (Inr secret)"
    and stored: "KeyringProcess kr p open_file stdin [''--file'', path, service] k = (SetupPrinted out, k1)"
    and cleared: "KeyringProcess kr p open_file stdin [''--clear'', service] k1 = (SetupPrinted out2, k2)"
    and src: "kr_Service src = service"
  shows "Keyring_Lookup (with_keyring kr k1 w) src (kr_Binding src) = Inr secret
    \<and> KeyringProcess kr p open_file stdin [''--read'', service] k1 = (SetupPrinted secret, k1)
    \<and> (kr_Service other \<noteq> service \<longrightarrow>
         Keyring_Lookup (with_keyring kr k1 w) other b = Keyring_Lookup (with_keyring kr k w) other b)
    \<and> Keyring_Lookup (with_keyring kr k2 w) src (kr_Binding src) = Inl (NotFoundErr ''secret not found in keyring'')"
proof -
  have "Keyring_Set kr service [] secret k = (Inr (), k1)"
    using store_secret_stored [OF stored [unfolded KeyringProcess_file [OF service]]] opened assms(3) by auto
  with laws have get: "Keyring_Get kr service [] k1 = Inr secret"
    and same: "\<And>s u. (s, u) \<noteq> (service, []) \<Longrightarrow> Keyring_Get kr s u k1 = Keyring_Get kr s u k"
    by (auto simp: keyring_laws_def)
  have "Keyring_Delete kr service [] k1 = (Inr (), k2)"
    using cleared by (auto simp: KeyringProcess_clear [OF service] fatalFmt_def split: prod.splits sum.splits)
  with laws have gone: "Keyring_Get kr service [] k2 = Inl KeyringErrNotFound"
    by (auto simp: keyring_laws_def)
  from get gone same src show ?thesis
    by (simp add: Keyring_Lookup_def with_keyring_def KeyringProcess_read [OF service])
qed

text \<open>A keyring that keeps its secrets in a list.\<close>

definition list_keyring :: "((string \<times> string) \<times> string) list keyring" where
  "list_keyring = \<lparr>
     Keyring_Get = (\<lambda>service user k. case map_of k (service, user) of Some s \<Rightarrow> Inr s | None \<Rightarrow> Inl KeyringErrNotFound),
     Keyring_Set = (\<lambda>service user secret k. (Inr (), ((service, user), secret) # k)),
     Keyring_Delete = (\<lambda>service user k.
       if map_of k (service, user) = None then (Inl KeyringErrNotFound, k)
       else (Inr (), filter (\<lambda>(x, _). x \<noteq> (service, user)) k))\<rparr>"

lemma map_of_filter_key: "map_of (filter (\<lambda>(x, _). x \<noteq> a) xs) b = (if b = a then None else map_of xs b)"
  by (induction xs) auto

lemma list_keyring_laws: "keyring_laws list_keyring"
  by (simp add: keyring_laws_def list_keyring_def map_of_filter_key)

theorem setup_keyring_roundtrip_witness:
  "Keyring_Lookup (with_keyring list_keyring [((''svc'', []), ''s3cret''), ((''svc'', []), ''old'')] empty_world)
      \<lparr>kr_Source = ''keyring'', kr_Service = ''svc'', kr_Binding = ''default''\<rparr> ''default'' = Inr ''s3cret''
   \<and> Keyring_Lookup (with_keyring list_keyring [] empty_world)
      \<lparr>kr_Source = ''keyring'', kr_Service = ''svc'', kr_Binding = ''default''\<rparr> ''default'' = Inl (NotFoundErr ''secret not found in keyring'')"
  using setup_keyring_roundtrip [OF list_keyring_laws, of "''svc''" "''/f''" "\<lambda>_. Inr (Inr ''s3cret'')" _ "''s3cret''" _
      "[((''svc'', []), ''old'')]" _ "[((''svc'', []), ''s3cret''), ((''svc'', []), ''old'')]" _ "[]"
      "\<lparr>kr_Source = ''keyring'', kr_Service = ''svc'', kr_Binding = ''default''\<rparr>" empty_world]
  by (simp add: plain_arg_def KeyringProcess_file KeyringProcess_clear store_secret_def list_keyring_def HasPrefix_def)

text \<open>The command line that the lookup chain suggests for a missing secret is refused by the command it
  names: the instructions say \<open>setup-keyring -f secret.txt\<close>, but the command has only the flag \<open>--file\<close>, so
  it prints its usage and stores nothing.\<close>

theorem suggested_keyring_command_refused:
  "(\<exists>status. Keyring_SetupInstructions w src (kr_Binding src) =
      Some (Sprintf ('' - Add the secret to the system keyring under the %s service name (status: %s):'' @
              CHR 0x0A # ''    $ %s setup-keyring -f secret.txt %s'') [kr_Service src, status, argv0 w, kr_Service src]))
   \<and> KeyringProcess kr p open_file stdin [''-f'', ''secret.txt'', kr_Service src] k =
      (SetupUsage (''flag provided but not defined: -f'' @ CHR 0x0A # keyring_usage), k)"
proof
  show "KeyringProcess kr p open_file stdin [''-f'', ''secret.txt'', kr_Service src] k =
      (SetupUsage (''flag provided but not defined: -f'' @ CHR 0x0A # keyring_usage), k)"
    by (simp add: KeyringProcess_def flag_parse_unknown keyring_flagset_def failf_text_def ErrHelp_def)
qed (auto simp: Keyring_SetupInstructions_def Let_def)

text \<open>\<open>setup-uri\<close> prints the instructions of the helper that the configuration chooses for the URL.  A
  helper without instructions of its own is reported as having none, even when its resolver has
  them, although the code looks for those.\<close>

theorem setup_uri_outcome:
  assumes "plain_arg uri" and "Configure reg helperFactory (OSReader_Read w) uri = Inr (ctx, Some h)"
  shows "URIProcess w reg helperFactory resolver_setup [uri] =
     (case helper_Setup h of
        Some instructions \<Rightarrow> SetupPrinted (instructions w ctx uri @ [CHR 0x0A])
      | None \<Rightarrow>
          (case helper_Resolver h w ctx of
             Inl err \<Rightarrow> SetupFatal (''instantiating resolver: '' @ err_msg err @ [CHR 0x0A])
           | Inr _ \<Rightarrow> SetupFailed (no_setup_text uri)))"
  using assms by (simp add: URIProcess_def print_instructions_def Let_def split: option.split sum.split)

theorem setup_uri_outcome_witness:
  "URIProcess empty_world [] (\<lambda>_. Inr Null_helper) (\<lambda>_. Some (\<lambda>_. ''unused'')) [''https://x.org/a''] =
     SetupFailed (no_setup_text ''https://x.org/a'')
   \<and> URIProcess empty_world [] (\<lambda>_. Inr GCS_helper) (\<lambda>_. None) [''https://x.org/a''] =
     SetupPrinted (GCS_SetupInstructionsForURI ''https://x.org/a'' @ [CHR 0x0A])"
proof -
  have "Configure [] (\<lambda>_. Inr h) (OSReader_Read empty_world) ''https://x.org/a'' = Inr (None, Some h)" for h
    by (simp add: Configure_def OSReader_Read_def empty_world_def is_not_exist_def)
  from setup_uri_outcome [OF _ this [of Null_helper]] setup_uri_outcome [OF _ this [of GCS_helper]]
  show ?thesis by (simp add: plain_arg_def HasPrefix_def Null_helper_def GCS_helper_def)
qed

end
