(* ===== verification/Go_Duration.thy ===== *)
theory Go_Duration
  imports Go_Time
begin

text \<open>
  \<open>time.ParseDuration\<close> of the Go library: a sign and a sequence of decimal numbers with units, added up
  in an unsigned 64-bit integer.  The fraction of a number is scaled exactly here; Go scales it in
  floating point, which may differ in the last nanosecond.
\<close>

definition max63 :: nat where "max63 = 2 ^ 63"

text \<open>\<open>leadingInt\<close>: the number at the front; \<open>None\<close> on overflow.\<close>

fun leadingInt :: "nat \<Rightarrow> string \<Rightarrow> (nat \<times> string) option" where
  "leadingInt x [] = Some (x, [])"
| "leadingInt x (c # s) =
     (if \<not> is_digit c then Some (x, c # s)
      else if max63 div 10 < x then None
      else if max63 < 10 * x + (ord c - 48) then None
      else leadingInt (10 * x + (ord c - 48)) s)"

text \<open>\<open>leadingFraction\<close>: the digits as a number, the power of ten they are to be divided by, and the
  rest; digits that do not fit are dropped.\<close>

fun leadingFraction :: "nat \<Rightarrow> nat \<Rightarrow> bool \<Rightarrow> string \<Rightarrow> nat \<times> nat \<times> string" where
  "leadingFraction x scale overflow [] = (x, scale, [])"
| "leadingFraction x scale overflow (c # s) =
     (if \<not> is_digit c then (x, scale, c # s)
      else if overflow then leadingFraction x scale True s
      else if (max63 - 1) div 10 < x then leadingFraction x scale True s
      else if max63 < 10 * x + (ord c - 48) then leadingFraction x scale True s
      else leadingFraction (10 * x + (ord c - 48)) (10 * scale) False s)"

definition unitMap :: "(string \<times> nat) list" where
  "unitMap =
     [(''ns'', 1), (''us'', 1000), ([CHR 0xC2, CHR 0xB5, CHR ''s''], 1000), ([CHR 0xCE, CHR 0xBC, CHR ''s''], 1000),
      (''ms'', 1000000), (''s'', 1000000000), (''m'', 60000000000), (''h'', 3600000000000)]"

definition unit_char :: "char \<Rightarrow> bool" where
  "unit_char c \<longleftrightarrow> \<not> (c = CHR ''.'' \<or> is_digit c)"

text \<open>One number with its unit: its value in nanoseconds and the rest.\<close>

definition parse_amount :: "string \<Rightarrow> (nat \<times> string) option" where
  "parse_amount s =
     (if s = [] \<or> unit_char (hd s) then None
      else case leadingInt 0 s of
             None \<Rightarrow> None
           | Some (v, s1) \<Rightarrow>
               (let pre = length s \<noteq> length s1;
                    dot = HasPrefix s1 ''.'';
                    (f, scale, s2) = (if dot then leadingFraction 0 1 False (tl s1) else (0, 1, s1));
                    post = (dot \<and> length (tl s1) \<noteq> length s2);
                    u = takeWhile unit_char s2
                in if \<not> pre \<and> \<not> post \<or> u = [] then None
                   else case map_of unitMap u of
                          None \<Rightarrow> None
                        | Some unit \<Rightarrow>
                            if max63 div unit < v then None
                            else if max63 < v * unit + f * unit div scale then None
                            else Some (v * unit + f * unit div scale, drop (length u) s2)))"

lemma leadingInt_length: "leadingInt x s = Some (v, s') \<Longrightarrow> length s' \<le> length s"
  by (induction x s rule: leadingInt.induct) (auto split: if_splits)

lemma leadingFraction_length: "leadingFraction x scale ov s = (f, sc, s') \<Longrightarrow> length s' \<le> length s"
  by (induction s arbitrary: x scale ov) (auto split: if_splits dest: le_SucI)

lemma parse_amount_length: "parse_amount s = Some (v, s') \<Longrightarrow> length s' < length s"
proof -
  assume h: "parse_amount s = Some (v, s')"
  then obtain x s1 where s1: "leadingInt 0 s = Some (x, s1)"
    by (auto simp: parse_amount_def split: if_splits option.splits)
  define f2 where "f2 = (if HasPrefix s1 ''.'' then leadingFraction 0 1 False (tl s1) else (0, 1, s1))"
  obtain f scale s2 where s2: "f2 = (f, scale, s2)" by (cases f2)
  from h s1 s2 have "takeWhile unit_char s2 \<noteq> []" "s' = drop (length (takeWhile unit_char s2)) s2"
    by (auto simp: parse_amount_def Let_def f2_def split: if_splits option.splits)
  moreover have "length s2 \<le> length s1"
    using s2 leadingFraction_length [of 0 1 False "tl s1" f scale s2] by (auto simp: f2_def split: if_splits)
  moreover have "length (takeWhile unit_char s2) \<le> length s2" by (rule length_takeWhile_le)
  ultimately show ?thesis using leadingInt_length [OF s1]
    by (cases "takeWhile unit_char s2") simp_all
qed

function parse_amounts :: "nat \<Rightarrow> string \<Rightarrow> nat option" where
  "parse_amounts d s =
     (if s = [] then Some d
      else case parse_amount s of
             None \<Rightarrow> None
           | Some (v, s') \<Rightarrow>
               if max63 < (d + v) mod 2 ^ 64 then None else parse_amounts ((d + v) mod 2 ^ 64) s')"
  by pat_completeness auto
termination
  by (relation "measure (length \<circ> snd)") (auto dest: parse_amount_length)

declare parse_amounts.simps [simp del]

definition ParseDuration :: "string \<Rightarrow> duration result" where
  "ParseDuration orig =
     (let signed = (orig \<noteq> [] \<and> hd orig \<in> {CHR ''-'', CHR ''+''});
          neg = (signed \<and> hd orig = CHR ''-'');
          s = (if signed then tl orig else orig);
          bad = Inl (ErrorString (''time: invalid duration '' @ Quote orig))
      in if s = ''0'' then Inr 0
         else if s = [] then bad
         else case parse_amounts 0 s of
                None \<Rightarrow> bad
              | Some d \<Rightarrow> if neg then Inr (- int d) else if max63 - 1 < d then bad else Inr (int d))"

lemma parse_amounts_bound: "parse_amounts d s = Some r \<Longrightarrow> d \<le> max63 \<Longrightarrow> r \<le> max63"
proof (induction d s rule: parse_amounts.induct)
  case (1 d s)
  show ?case
  proof (cases "s = []")
    case True
    with 1 show ?thesis by (simp add: parse_amounts.simps)
  next
    case False
    with "1.prems" obtain v s' where v: "parse_amount s = Some (v, s')" "\<not> max63 < (d + v) mod 2 ^ 64"
      "parse_amounts ((d + v) mod 2 ^ 64) s' = Some r"
      by (subst (asm) parse_amounts.simps) (auto split: option.splits if_splits)
    from "1.IH" [OF False v(1) refl v(2,3)] v(2) show ?thesis by simp
  qed
qed

text \<open>A duration that was parsed fits 64 bits.\<close>

lemma ParseDuration_bounds:
  assumes "ParseDuration s = Inr d"
  shows "- (2 ^ 63) \<le> d \<and> d < 2 ^ 63"
proof -
  have b: "parse_amounts 0 t = Some n \<Longrightarrow> int n \<le> 2 ^ 63" for t n
    using parse_amounts_bound [of 0 t n] by (simp add: max63_def)
  have "\<not> max63 - 1 < n \<Longrightarrow> int n < 2 ^ 63" for n by (simp add: max63_def)
  with assms b show ?thesis
    by (auto simp: ParseDuration_def Let_def split: if_splits option.splits)
qed

text \<open>A whole number with a unit is read back.\<close>

lemma digits_value_ge: "digits_value x ds = Some n \<Longrightarrow> x \<le> n"
  by (induction x ds rule: digits_value.induct) (auto split: if_splits)

lemma leadingInt_digits:
  assumes "digits_value x ds = Some n" and "n \<le> max63" and "u = [] \<or> \<not> is_digit (hd u)"
  shows "leadingInt x (ds @ u) = Some (n, u)"
  using assms
proof (induction x ds rule: digits_value.induct)
  case (1 acc)
  then show ?case by (cases u) auto
next
  case (2 acc c cs)
  then have n: "digits_value (10 * acc + (ord c - 48)) cs = Some n" "is_digit c" by (auto split: if_splits)
  with 2 digits_value_ge [OF n(1)] show ?case by (simp add: max63_def)
qed

lemma unit_chars:
  assumes "map_of unitMap u = Some k"
  shows "u \<noteq> []" "takeWhile unit_char u = u" "\<not> is_digit (hd u)" "\<not> HasPrefix u ''.''" "0 < k"
  using assms by (auto simp: unitMap_def unit_char_def is_digit_def ord_def split: if_splits)

lemma parse_amount_whole:
  assumes "map_of unitMap u = Some k" and "n * k \<le> max63"
  shows "parse_amount (utoa n @ u) = Some (n * k, [])"
proof -
  note u = unit_chars [OF assms(1)]
  from u(5) have "n \<le> n * k" by simp
  with assms(2) have "n \<le> max63" by (rule order_trans [rotated])
  then have "leadingInt 0 (utoa n @ u) = Some (n, u)"
    by (intro leadingInt_digits digits_value_utoa) (use u(3) in auto)
  moreover have "\<not> unit_char (hd (utoa n @ u))"
    using utoa_digits [of "hd (utoa n)" n] by (simp add: unit_char_def)
  moreover from assms(2) u(5) have "n \<le> max63 div k" by (simp add: less_eq_div_iff_mult_less_eq)
  ultimately show ?thesis
    using u assms by (simp add: parse_amount_def Let_def del: takeWhile_eq_all_conv)
qed

lemma ParseDuration_whole:
  assumes "map_of unitMap u = Some k" and "n * k < max63"
  shows "ParseDuration (utoa n @ u) = Inr (int (n * k))"
proof -
  note u = unit_chars [OF assms(1)]
  have hd: "is_digit (hd (utoa n))" using utoa_digits [of "hd (utoa n)" n] by simp
  then have "hd (utoa n @ u) \<noteq> CHR ''-''" "hd (utoa n @ u) \<noteq> CHR ''+''" by (auto simp: is_digit_def ord_def)
  moreover have "utoa n @ u \<noteq> ''0''" using u(1) by (cases "utoa n") auto
  moreover have "parse_amounts 0 (utoa n @ u) = Some (n * k)"
    using assms u(1) parse_amount_whole [OF assms(1), of n]
    by (subst parse_amounts.simps) (simp add: parse_amounts.simps [of _ "[]"] max63_def)
  ultimately show ?thesis using assms(2) by (simp add: ParseDuration_def)
qed

end
