(* ===== verification/Go_Fmt.thy ===== *)
theory Go_Fmt
  imports Go_Strings
begin

text \<open>
  \<open>fmt.Sprintf(format)\<close> without arguments, for formats the program does not choose itself: the whole
  syntax of a directive (flags, argument index, width, precision, verb) and what is written when there
  is no argument for it.  The format is valid UTF-8, as every string decoded from JSON is.
\<close>

subsection \<open>The parts of a directive\<close>

definition is_flag :: "char \<Rightarrow> bool" where
  "is_flag c \<longleftrightarrow> c \<in> set ''#0+- ''"

text \<open>\<open>parsenum\<close>: whether there is a number, and the text behind it; a number that gets too large ends the
  whole format.\<close>

fun parsenum_loop :: "nat \<Rightarrow> bool \<Rightarrow> string \<Rightarrow> bool \<times> string" where
  "parsenum_loop num isnum [] = (isnum, [])"
| "parsenum_loop num isnum (c # cs) =
     (if \<not> is_digit c then (isnum, c # cs)
      else if 1000000 < num then (False, [])
      else parsenum_loop (num * 10 + (ord c - 48)) True cs)"

definition parsenum :: "string \<Rightarrow> bool \<times> string" where
  "parsenum s = parsenum_loop 0 False s"

text \<open>\<open>parseArgNumber\<close> of a text that begins with a bracket: how much of it is taken, and whether the
  brackets hold a number.\<close>

definition parseArgNumber :: "string \<Rightarrow> nat \<times> bool" where
  "parseArgNumber s =
     (if length s < 3 then (1, False)
      else case Cut CHR '']'' (tl s) of
             (digits, _, found) \<Rightarrow>
               if found then (length digits + 2, parsenum digits = (True, [])) else (1, False))"

text \<open>\<open>argNumber\<close> with no arguments: the text behind an index, whether one was found, and whether the
  directive is still good.  No index is in range.\<close>

definition argNumber :: "bool \<Rightarrow> string \<Rightarrow> string \<times> bool \<times> bool" where
  "argNumber good s =
     (case s of
        [] \<Rightarrow> (s, False, good)
      | c # _ \<Rightarrow>
          if c \<noteq> CHR ''['' then (s, False, good)
          else case parseArgNumber s of (wid, ok) \<Rightarrow> (drop wid s, ok, False))"

definition badWidthString :: string where "badWidthString = ''%!(BADWIDTH)''"
definition badPrecString :: string where "badPrecString = ''%!(BADPREC)''"
definition noVerbString :: string where "noVerbString = ''%!(NOVERB)''"

text \<open>The width: what is written, the text behind it, whether an index stands right before what follows,
  and whether the directive is good.\<close>

definition format_width :: "string \<Rightarrow> bool \<Rightarrow> bool \<Rightarrow> string \<times> string \<times> bool \<times> bool" where
  "format_width s afterIndex good =
     (if s \<noteq> [] \<and> hd s = CHR ''*'' then (badWidthString, tl s, False, good)
      else case parsenum s of (isnum, s') \<Rightarrow> ([], s', afterIndex, good \<and> \<not> (afterIndex \<and> isnum)))"

definition format_precision :: "string \<Rightarrow> bool \<Rightarrow> bool \<Rightarrow> string \<times> string \<times> bool \<times> bool" where
  "format_precision s afterIndex good =
     (if s \<noteq> [] \<and> hd s = CHR ''.'' then
        (case argNumber (good \<and> \<not> afterIndex) (tl s) of
           (s1, after1, good1) \<Rightarrow>
             if s1 \<noteq> [] \<and> hd s1 = CHR ''*'' then (badPrecString, tl s1, False, good1)
             else ([], snd (parsenum s1), after1, good1))
      else ([], s, afterIndex, good))"

text \<open>The bytes of the character a text begins with.\<close>

definition rune_size :: "char \<Rightarrow> nat" where
  "rune_size c = (if ord c < 128 then 1 else if ord c < 224 then 2 else if ord c < 240 then 3 else 4)"

text \<open>One directive, from behind its percent sign: what is written and the text behind it.\<close>

definition format_directive :: "string \<Rightarrow> string \<times> string" where
  "format_directive s =
     (case argNumber True (dropWhile is_flag s) of (s1, after1, good1) \<Rightarrow>
      case format_width s1 after1 good1 of (out2, s2, after2, good2) \<Rightarrow>
      case format_precision s2 after2 good2 of (out3, s3, after3, good3) \<Rightarrow>
      case (if after3 then (s3, True, good3) else argNumber good3 s3) of (s4, _, good4) \<Rightarrow>
        (case s4 of
           [] \<Rightarrow> (out2 @ out3 @ noVerbString, [])
         | c # cs \<Rightarrow>
             if c = CHR ''%'' then (out2 @ out3 @ ''%'', cs)
             else let verb = take (rune_size c) s4
                  in (out2 @ out3 @ ''%!'' @ verb @ (if good4 then ''(MISSING)'' else ''(BADINDEX)''),
                      drop (rune_size c) s4)))"

subsection \<open>Every directive consumes input only\<close>

lemma parsenum_loop_shorter: "length (snd (parsenum_loop n b s)) \<le> length s"
  by (induction n b s rule: parsenum_loop.induct) auto

lemma parsenum_shorter: "parsenum s = (b, s') \<Longrightarrow> length s' \<le> length s"
  using parsenum_loop_shorter [of 0 False s] by (simp add: parsenum_def)

lemma argNumber_shorter: "argNumber g s = (s', a, g') \<Longrightarrow> length s' \<le> length s"
  by (auto simp: argNumber_def split: list.splits if_splits prod.splits)

lemma format_width_shorter: "format_width s a g = (out, s', a', g') \<Longrightarrow> length s' \<le> length s"
  by (auto simp: format_width_def dest: parsenum_shorter split: if_splits prod.splits)

lemma format_precision_shorter: "format_precision s a g = (out, s', a', g') \<Longrightarrow> length s' \<le> length s"
proof (cases "s \<noteq> [] \<and> hd s = CHR ''.''")
  case True
  assume fp: "format_precision s a g = (out, s', a', g')"
  obtain s1 a1 g1 where an: "argNumber (g \<and> \<not> a) (tl s) = (s1, a1, g1)" by (cases "argNumber (g \<and> \<not> a) (tl s)")
  have "length (snd (parsenum s1)) \<le> length s1" by (rule parsenum_shorter) (rule prod.collapse [symmetric])
  with argNumber_shorter [OF an] True fp an show ?thesis
    by (auto simp: format_precision_def split: if_splits)
qed (simp add: format_precision_def)

lemma format_directive_shorter: "format_directive s = (out, s') \<Longrightarrow> length s' \<le> length s"
proof -
  assume fd: "format_directive s = (out, s')"
  have "length (dropWhile is_flag s) \<le> length s" by (rule length_dropWhile_le)
  moreover obtain s1 a1 g1 where r1: "argNumber True (dropWhile is_flag s) = (s1, a1, g1)" by (metis prod_cases3)
  moreover obtain o2 s2 a2 g2 where r2: "format_width s1 a1 g1 = (o2, s2, a2, g2)" by (metis prod_cases4)
  moreover obtain o3 s3 a3 g3 where r3: "format_precision s2 a2 g2 = (o3, s3, a3, g3)" by (metis prod_cases4)
  moreover obtain s4 a4 g4 where r4: "(if a3 then (s3, True, g3) else argNumber g3 s3) = (s4, a4, g4)" by (metis prod_cases3)
  moreover have "length s4 \<le> length s3" using r4 argNumber_shorter [of g3 s3] by (auto split: if_splits)
  moreover have "length s' \<le> length s4"
    using fd by (auto simp: format_directive_def r1 r2 r3 r4 Let_def split: list.splits if_splits)
  ultimately show ?thesis
    using argNumber_shorter [OF r1] format_width_shorter [OF r2] format_precision_shorter [OF r3] by linarith
qed

subsection \<open>The format\<close>

function Sprintf0 :: "string \<Rightarrow> string" where
  "Sprintf0 [] = []"
| "Sprintf0 (c # cs) =
     (if c \<noteq> CHR ''%'' then c # Sprintf0 cs
      else case format_directive cs of (out, rest) \<Rightarrow> out @ Sprintf0 rest)"
  by pat_completeness auto
termination
  by (relation "measure length") (auto simp: le_imp_less_Suc dest: sym [THEN format_directive_shorter])

lemma Sprintf0_plain: "CHR ''%'' \<notin> set s \<Longrightarrow> Sprintf0 s = s"
  by (induction s) auto

lemma Sprintf0_append: "CHR ''%'' \<notin> set s \<Longrightarrow> Sprintf0 (s @ t) = s @ Sprintf0 t"
  by (induction s) auto

lemma Sprintf0_sample:
  "Sprintf0 ''https://h/a%2Fb'' = ''https://h/a%!F(MISSING)b''"
  "Sprintf0 ''a%20b'' = ''a%!b(MISSING)''"
  "Sprintf0 ''100%'' = ''100%!(NOVERB)''"
  "Sprintf0 ''%[1]d'' = ''%!d(BADINDEX)''"
  by (simp_all add: format_directive_def argNumber_def is_flag_def format_width_def format_precision_def parsenum_def
      is_digit_def ord_def parseArgNumber_def noVerbString_def rune_size_def)

end
