(* ===== verification/Logging.thy ===== *)
theory Logging
  imports Go_Fmt
begin

text \<open>
  Logging (\<open>src/logging\<close>): the level chosen by a text, the global state of the package and what the
  logging functions write, to standard error (\<open>logging.go\<close>) and to the system log
  (\<open>syslog_linux.go\<close>, \<open>syslog_fallback.go\<close>).
\<close>

subsection \<open>Levels\<close>

definition LogLevelOff :: int where "LogLevelOff = 0"
definition LogLevelBasic :: int where "LogLevelBasic = 1"
definition LogLevelDebug :: int where "LogLevelDebug = 2"

lemmas log_levels = LogLevelOff_def LogLevelBasic_def LogLevelDebug_def

definition boundedLogLevel :: "int \<Rightarrow> int" where
  "boundedLogLevel numericLevel =
     (if numericLevel < 0 then LogLevelOff else if 2 < numericLevel then LogLevelDebug else numericLevel)"

definition FromString :: "string \<Rightarrow> int" where
  "FromString s =
     (case Atoi s of
        Some numericLogLevel \<Rightarrow> boundedLogLevel numericLogLevel
      | None \<Rightarrow>
          if ToLower s = ''off'' then LogLevelOff
          else if ToLower s = ''basic'' then LogLevelBasic
          else if ToLower s = ''debug'' then LogLevelDebug
          else LogLevelOff)"

subsection \<open>State\<close>

text \<open>The variables of the package, and what it has written to standard error.  The connection to the
  system log, when there is one, is the entries it was sent.\<close>

record logger =
  log_level :: int
  syslogger :: "string list option"
  log_stderr :: string

definition initial_logger :: logger where
  "initial_logger = \<lparr>log_level = LogLevelOff, syslogger = None, log_stderr = []\<rparr>"

definition SetLevel :: "int \<Rightarrow> logger \<Rightarrow> logger" where
  "SetLevel l lg = lg\<lparr>log_level := l\<rparr>"

definition GetLevel :: "logger \<Rightarrow> int" where
  "GetLevel lg = log_level lg"

subsection \<open>Standard error\<close>

definition fmtWithNewline :: "string \<Rightarrow> string" where
  "fmtWithNewline format = (if \<not> HasSuffix format [CHR 0x0A] then format @ [CHR 0x0A] else format)"

definition fPrintOut :: "string \<Rightarrow> string list \<Rightarrow> logger \<Rightarrow> logger" where
  "fPrintOut format args lg = lg\<lparr>log_stderr := log_stderr lg @ Sprintf (fmtWithNewline format) args\<rparr>"

definition Debugf :: "string \<Rightarrow> string list \<Rightarrow> logger \<Rightarrow> logger" where
  "Debugf format args lg = (if LogLevelDebug \<le> log_level lg then fPrintOut format args lg else lg)"

definition Basicf :: "string \<Rightarrow> string list \<Rightarrow> logger \<Rightarrow> logger" where
  "Basicf format args lg = (if LogLevelBasic \<le> log_level lg then fPrintOut format args lg else lg)"

definition logging_Errorf :: "string \<Rightarrow> string list \<Rightarrow> logger \<Rightarrow> logger" where
  "logging_Errorf format args lg = fPrintOut format args lg"

subsection \<open>The system log\<close>

text \<open>\<open>Init\<close>, with the outcome of \<open>syslog.New\<close>; the time \<open>log.Printf\<close> puts in front of its message is left out.\<close>

definition Init :: "unit result \<Rightarrow> logger \<Rightarrow> logger" where
  "Init syslogNew lg =
     (case syslogNew of
        Inr _ \<Rightarrow> lg\<lparr>syslogger := Some []\<rparr>
      | Inl err \<Rightarrow> lg\<lparr>syslogger := None,
          log_stderr := log_stderr lg @ ''Failed to initialize syslog: '' @ err_msg err @ [CHR 0x0A]\<rparr>)"

text \<open>\<open>SyslogDebugf\<close> on Linux, called without arguments beside the format; \<open>Inl\<close> is the state in
  which a method call on a writer that is nil panics.\<close>

definition SyslogDebugf :: "unit result \<Rightarrow> string \<Rightarrow> logger \<Rightarrow> logger + logger" where
  "SyslogDebugf syslogNew format lg =
     (if log_level lg < LogLevelDebug then Inr lg
      else let lg1 = (if syslogger lg = None then Init syslogNew lg else lg)
           in case syslogger lg1 of
                None \<Rightarrow> Inl lg1
              | Some entries \<Rightarrow> Inr (lg1\<lparr>syslogger := Some (entries @ [Sprintf0 format])\<rparr>))"

text \<open>The fallback of the other systems writes to standard error.\<close>

definition SyslogDebugf_fallback :: "string \<Rightarrow> logger \<Rightarrow> logger" where
  "SyslogDebugf_fallback format lg =
     (if LogLevelDebug \<le> log_level lg
      then lg\<lparr>log_stderr := log_stderr lg @ Sprintf0 (fmtWithNewline format)\<rparr> else lg)"

subsection \<open>Laws\<close>

lemma FromString_bounds: "LogLevelOff \<le> FromString s \<and> FromString s \<le> LogLevelDebug"
  by (simp add: FromString_def boundedLogLevel_def log_levels split: option.split)

lemma fmtWithNewline_ends: "\<exists>t. fmtWithNewline format = t @ [CHR 0x0A]"
  by (auto simp: fmtWithNewline_def HasSuffix_iff)

lemma fmtWithNewline_idem [simp]: "fmtWithNewline (fmtWithNewline format) = fmtWithNewline format"
  by (simp add: fmtWithNewline_def)

lemma logging_keeps_level [simp]:
  "log_level (fPrintOut f as lg) = log_level lg" "log_level (Debugf f as lg) = log_level lg" "log_level (Basicf f as lg) = log_level lg"
  "log_level (Init s lg) = log_level lg"
  by (simp_all add: fPrintOut_def Debugf_def Basicf_def Init_def split: sum.split)

lemma GetLevel_SetLevel [simp]: "GetLevel (SetLevel l lg) = l"
  by (simp add: GetLevel_def SetLevel_def)

text \<open>What is logged at the debug level is logged at the basic one.\<close>

lemma Debugf_implies_Basicf: "Debugf f as lg \<noteq> lg \<Longrightarrow> Basicf f as lg = Debugf f as lg"
  by (auto simp: Debugf_def Basicf_def log_levels)

lemma SyslogDebugf_quiet: "log_level lg < LogLevelDebug \<Longrightarrow> SyslogDebugf s f lg = Inr lg"
  by (simp add: SyslogDebugf_def)

text \<open>The call panics exactly in debug mode on a system whose log cannot be opened, after \<open>Init\<close> has
  reported it.\<close>

lemma SyslogDebugf_panics_iff:
  "SyslogDebugf s f lg = Inl lg' \<longleftrightarrow> LogLevelDebug \<le> log_level lg \<and> syslogger lg = None \<and> (\<exists>e. s = Inl e \<and> lg' = Init s lg)"
  by (auto simp: SyslogDebugf_def Init_def Let_def split: sum.split option.split)

lemma SyslogDebugf_entry:
  "LogLevelDebug \<le> log_level lg \<Longrightarrow> syslogger lg = None \<Longrightarrow>
     SyslogDebugf (Inr ()) f lg = Inr (lg\<lparr>syslogger := Some [Sprintf0 f]\<rparr>)"
  by (simp add: SyslogDebugf_def Init_def)

lemma fallback_newline: "CHR ''%'' \<notin> set f \<Longrightarrow> LogLevelDebug \<le> log_level lg \<Longrightarrow>
    log_stderr (SyslogDebugf_fallback f lg) = log_stderr lg @ fmtWithNewline f"
  by (simp add: SyslogDebugf_fallback_def Sprintf0_plain fmtWithNewline_def)

end
