(* ===== verification/Agent.thy ===== *)
theory Agent
  imports Cache
begin

text \<open>
  The agent of \<open>src/agent/service.go\<close>: its state, the handlers of the four request methods,
  and the loop of \<open>handleConn\<close> that serves one connection.  The agent works on any value of
  the cache interface: its operations take the method table and the state holds the cache.

  A connection is the sequence of items that arrive on it; its end is the client closing it.
  \<open>handleShutdown\<close> is split at its compare-and-swap, because several goroutines may be
  inside it at once; the theory of the server interleaves the two parts.
\<close>

datatype chan = ChanOpen | ChanClosed | ChanPanicked

text \<open>\<open>close(ch)\<close>: closing a closed channel panics.\<close>

fun close_chan :: "chan \<Rightarrow> chan" where
  "close_chan ChanOpen = ChanClosed"
| "close_chan _ = ChanPanicked"

text \<open>A timer is the instant at which it fires, \<open>None\<close> once its tick was received.\<close>

type_synonym timer = "time option"

definition Microsecond :: duration where "Microsecond = 1000"

definition timer_reset :: "time \<Rightarrow> duration \<Rightarrow> timer" where
  "timer_reset now d = Some (now + d)"

fun timer_fired :: "time \<Rightarrow> timer \<Rightarrow> bool" where
  "timer_fired now None = False"
| "timer_fired now (Some t) = (t \<le> now)"

record 's CachingAgent =
  agent_cache :: 's
  lis_open :: bool
  shutdownChan :: chan
  shutdownStarted :: bool
  idleTimeout :: duration
  idleTimer :: timer
  pruneInterval :: duration
  pruneTimer :: timer

subsection \<open>Handlers\<close>

definition handleRetrieve :: "'s cache_iface \<Rightarrow> AgentRequest \<Rightarrow> 's CachingAgent \<Rightarrow>
    AgentResponse result \<times> 's CachingAgent" where
  "handleRetrieve ops req a =
     (case unmarshal_raw decode_string (ReqPayload req) [] of
        Inl e \<Rightarrow> (Inl (Wrapf ''retrieve: failed to unmarshal cache key from request'' [] e), a)
      | Inr cacheKey \<Rightarrow>
          (let (r, c') = Retrieve ops cacheKey (agent_cache a); a' = a\<lparr>agent_cache := c'\<rparr>
           in case r of
                Inl e \<Rightarrow> if is_cache_miss e
                   then (Inr \<lparr>Status = AgentResponseCacheMiss, RespPayload = None\<rparr>, a')
                   else (Inl e, a')
              | Inr resp \<Rightarrow>
                  (Inr \<lparr>Status = AgentResponseOK, RespPayload = Some (encode_GetCredentialsResponse resp)\<rparr>, a')))"

definition handleStore :: "'s cache_iface \<Rightarrow> AgentRequest \<Rightarrow> 's CachingAgent \<Rightarrow>
    AgentResponse result \<times> 's CachingAgent" where
  "handleStore ops req a =
     (case unmarshal_raw decode_Cachable (ReqPayload req) empty_cachable of
        Inl e \<Rightarrow> (Inl (Wrapf ''store: failed to unmarshal cache value from request'' [] e), a)
      | Inr cachableResp \<Rightarrow>
          (let (r, c') = Store ops cachableResp (agent_cache a); a' = a\<lparr>agent_cache := c'\<rparr>
           in case r of
                Inl e \<Rightarrow> (Inl e, a')
              | Inr _ \<Rightarrow> (Inr \<lparr>Status = AgentResponseOK, RespPayload = None\<rparr>, a')))"

definition handlePrune :: "'s cache_iface \<Rightarrow> clock \<Rightarrow> 's CachingAgent \<Rightarrow>
    AgentResponse result \<times> 's CachingAgent" where
  "handlePrune ops clk a =
     (let (r, c') = Prune ops clk (agent_cache a); a' = a\<lparr>agent_cache := c'\<rparr>
      in case r of
           Inl e \<Rightarrow> (Inl e, a')
         | Inr _ \<Rightarrow> (Inr \<lparr>Status = AgentResponseOK, RespPayload = None\<rparr>, a'))"

text \<open>The compare-and-swap: \<open>None\<close> when a shutdown has started already.\<close>

definition shutdown_cas :: "'s CachingAgent \<Rightarrow> 's CachingAgent option" where
  "shutdown_cas a = (if shutdownStarted a then None else Some (a\<lparr>shutdownStarted := True\<rparr>))"

text \<open>The rest of the shutdown, which only the goroutine that won the swap runs.\<close>

definition shutdown_finish :: "time \<Rightarrow> 's CachingAgent \<Rightarrow> 's CachingAgent" where
  "shutdown_finish now a = a\<lparr>
     idleTimeout := - Microsecond,
     idleTimer := timer_reset now (- Microsecond),
     pruneInterval := - Microsecond,
     pruneTimer := timer_reset now (- Microsecond),
     shutdownChan := close_chan (shutdownChan a)\<rparr>"

definition shutdown_response :: AgentResponse where
  "shutdown_response = \<lparr>Status = AgentResponseOK, RespPayload = None\<rparr>"

definition handleShutdown :: "time \<Rightarrow> 's CachingAgent \<Rightarrow> AgentResponse result \<times> 's CachingAgent" where
  "handleShutdown now a =
     (case shutdown_cas a of
        None \<Rightarrow> (Inr shutdown_response, a)
      | Some a' \<Rightarrow> (Inr shutdown_response, shutdown_finish now a'))"

subsection \<open>One connection\<close>

definition invalid_json_response :: AgentResponse where
  "invalid_json_response =
     \<lparr>Status = AgentResponseError, RespPayload = Some (JStr ''invalid json in request'')\<rparr>"

definition unknown_method_response :: AgentResponse where
  "unknown_method_response = \<lparr>Status = AgentResponseError, RespPayload = Some (JStr ''unknown method'')\<rparr>"

text \<open>The response that is sent for the outcome of a handler.\<close>

definition respond :: "AgentResponse result \<Rightarrow> AgentResponse" where
  "respond r = (case r of
     Inr resp \<Rightarrow> resp
   | Inl e \<Rightarrow> \<lparr>Status = AgentResponseError, RespPayload = Some (JStr (err_msg e))\<rparr>)"

definition reset_idle :: "time \<Rightarrow> 's CachingAgent \<Rightarrow> 's CachingAgent" where
  "reset_idle now a = a\<lparr>idleTimer := timer_reset now (idleTimeout a)\<rparr>"

text \<open>The \<open>switch\<close> on the method of a decoded request.\<close>

definition dispatch :: "'s cache_iface \<Rightarrow> time \<Rightarrow> clock \<Rightarrow> AgentRequest \<Rightarrow> 's CachingAgent \<Rightarrow>
    AgentResponse result \<times> 's CachingAgent" where
  "dispatch ops now clk req a =
     (if Method req = AgentRequestRetrieve then handleRetrieve ops req a
      else if Method req = AgentRequestStore then handleStore ops req a
      else if Method req = AgentRequestPrune then handlePrune ops clk a
      else if Method req = AgentRequestShutdown then handleShutdown now a
      else (Inr unknown_method_response, a))"

text \<open>
  An arrival is an item on the connection, the instant at which it is handled, and the clock
  for a prune.  The variable \<open>req\<close> of the source lives outside the loop: a message is decoded
  into the value the previous message left.
\<close>

record arrival =
  item :: wire_item
  arr_now :: time
  arr_clock :: clock

text \<open>One pass of the loop: the response sent, and the request kept for the next pass, \<open>None\<close> when
  the handler returns and closes the connection.\<close>

definition serve_item :: "'s cache_iface \<Rightarrow> arrival \<Rightarrow> AgentRequest \<Rightarrow> 's CachingAgent \<Rightarrow>
    AgentResponse \<times> AgentRequest option \<times> 's CachingAgent" where
  "serve_item ops x req a =
     (case item x of
        Malformed \<Rightarrow> (invalid_json_response, None, a)
      | Value v \<Rightarrow>
          (case decode_AgentRequest v req of
             Inl e \<Rightarrow> (invalid_json_response, None, a)
           | Inr req' \<Rightarrow>
               (let (r, a') = dispatch ops (arr_now x) (arr_clock x) req' (reset_idle (arr_now x) a)
                in (respond r, Some req', a'))))"

fun handleConn :: "'s cache_iface \<Rightarrow> arrival list \<Rightarrow> AgentRequest \<Rightarrow> 's CachingAgent \<Rightarrow>
    AgentResponse list \<times> 's CachingAgent" where
  "handleConn ops [] req a = ([], a)"
| "handleConn ops (x # xs) req a =
     (case serve_item ops x req a of
        (resp, None, a') \<Rightarrow> ([resp], a')
      | (resp, Some req', a') \<Rightarrow>
          (let (resps, a'') = handleConn ops xs req' a' in (resp # resps, a'')))"

subsection \<open>What a connection does to the cache\<close>

text \<open>The cache operation a decoded request stands for.\<close>

definition request_ops :: "clock \<Rightarrow> AgentRequest \<Rightarrow> cache_op list" where
  "request_ops clk req =
     (if Method req = AgentRequestRetrieve then
        (case unmarshal_raw decode_string (ReqPayload req) [] of Inl _ \<Rightarrow> [] | Inr k \<Rightarrow> [RetrieveOp k])
      else if Method req = AgentRequestStore then
        (case unmarshal_raw decode_Cachable (ReqPayload req) empty_cachable of
           Inl _ \<Rightarrow> [] | Inr v \<Rightarrow> [StoreOp v])
      else if Method req = AgentRequestPrune then [PruneOp clk]
      else [])"

text \<open>The requests a connection carries, up to the first item that is not a request.\<close>

fun conn_requests :: "arrival list \<Rightarrow> AgentRequest \<Rightarrow> (arrival \<times> AgentRequest) list" where
  "conn_requests [] req = []"
| "conn_requests (x # xs) req =
     (case item x of
        Malformed \<Rightarrow> []
      | Value v \<Rightarrow>
          (case decode_AgentRequest v req of
             Inl e \<Rightarrow> []
           | Inr req' \<Rightarrow> (x, req') # conn_requests xs req'))"

definition conn_ops :: "arrival list \<Rightarrow> AgentRequest \<Rightarrow> cache_op list" where
  "conn_ops xs req = concat (map (\<lambda>(x, q). request_ops (arr_clock x) q) (conn_requests xs req))"

lemma agent_cache_reset_idle [simp]: "agent_cache (reset_idle now a) = agent_cache a"
  by (simp add: reset_idle_def)

lemma agent_cache_handleShutdown [simp]: "agent_cache (snd (handleShutdown now a)) = agent_cache a"
  by (simp add: handleShutdown_def shutdown_cas_def shutdown_finish_def)

lemma stores_append: "stores (xs @ ys) = stores xs @ stores ys"
  by (induction xs rule: stores.induct) auto

lemma request_ops_wf: "\<forall>v\<in>set (stores (request_ops clk req)). wf_response (Response v)"
  by (auto simp: request_ops_def unmarshal_raw_def empty_cachable_def split: sum.splits option.splits
      dest!: decode_Cachable_wf)

lemma conn_ops_wf: "\<forall>v\<in>set (stores (conn_ops xs req)). wf_response (Response v)"
proof -
  have "\<forall>v\<in>set (stores (concat (map (\<lambda>(x, q). request_ops (arr_clock x) q) qs))). wf_response (Response v)" for qs
    by (induction qs) (auto simp: stores_append request_ops_wf)
  then show ?thesis by (simp add: conn_ops_def)
qed

lemma method_names_distinct [simp]:
  "AgentRequestStore \<noteq> AgentRequestRetrieve" "AgentRequestPrune \<noteq> AgentRequestRetrieve"
  "AgentRequestPrune \<noteq> AgentRequestStore" "AgentRequestShutdown \<noteq> AgentRequestRetrieve"
  "AgentRequestShutdown \<noteq> AgentRequestStore" "AgentRequestShutdown \<noteq> AgentRequestPrune"
  by (simp_all add: api_consts)

lemma length_handleConn:
  "length (fst (handleConn ops xs req a)) =
     length (conn_requests xs req) + (if length (conn_requests xs req) < length xs then 1 else 0)"
  by (induction xs arbitrary: req a)
    (simp_all add: serve_item_def Let_def case_prod_beta split: wire_item.split sum.split)

context api_cache
begin

lemma dispatch_run: "agent_cache (snd (dispatch iface now clk req a)) = run (request_ops clk req) (agent_cache a)"
  by (auto simp: dispatch_def request_ops_def handleRetrieve_def handleStore_def handlePrune_def Let_def
      split: sum.split prod.split)

lemma handleConn_run: "agent_cache (snd (handleConn iface xs req a)) = run (conn_ops xs req) (agent_cache a)"
proof (induction xs arbitrary: req a)
  case (Cons x xs)
  then show ?case
    by (simp add: serve_item_def conn_ops_def dispatch_run Let_def case_prod_beta
        split: wire_item.split sum.split)
qed (simp add: conn_ops_def)

lemma handleConn_inv: "inv (agent_cache a) \<Longrightarrow> inv (agent_cache (snd (handleConn iface xs req a)))"
  by (simp add: handleConn_run inv_run conn_ops_wf)

end

subsection \<open>Properties\<close>

text \<open>(C7) Whatever bytes arrive on a connection, the agent's cache ends up as if the requests the
  connection carries had been made directly on the cache, in order, and its invariant holds.\<close>

theorem handleConn_refines_cache:
  assumes "MemCache_wf (agent_cache a)"
  shows "agent_cache (snd (handleConn MemCache_iface xs empty_agent_request a)) =
      run_cache MemCache_iface (conn_ops xs empty_agent_request) (agent_cache a)
    \<and> MemCache_wf (agent_cache (snd (handleConn MemCache_iface xs empty_agent_request a)))"
  using mem.handleConn_run [of xs empty_agent_request a] mem.handleConn_inv [OF assms, of xs empty_agent_request]
  by (simp add: mem_iface)

definition sample_agent :: "MemCache CachingAgent" where
  "sample_agent = \<lparr>agent_cache = NewMemCache, lis_open = True, shutdownChan = ChanOpen,
     shutdownStarted = False, idleTimeout = 3 * Hour, idleTimer = Some (3 * Hour),
     pruneInterval = Minute, pruneTimer = Some 0\<rparr>"

lemma sample_agent_cache: "agent_cache sample_agent = NewMemCache"
  by (simp add: sample_agent_def)

definition sample_arrival :: "json \<Rightarrow> arrival" where
  "sample_arrival v = \<lparr>item = Value v, arr_now = 0, arr_clock = (\<lambda>_. 0)\<rparr>"

theorem handleConn_refines_cache_witness:
  "MemCache_wf (agent_cache (snd (handleConn MemCache_iface
     [sample_arrival (encode_AgentRequest \<lparr>Method = AgentRequestStore,
        ReqPayload = Some (encode_Cachable sample_cachable)\<rparr>)]
     empty_agent_request sample_agent)))"
  by (rule handleConn_refines_cache [THEN conjunct2]) (simp add: sample_agent_cache)

text \<open>(C18) Every request on a connection gets exactly one response, and the first item that is not a
  request gets one more and ends the connection: nothing after it is answered.\<close>

theorem handleConn_one_response_each:
  "length (fst (handleConn ops xs req a)) =
     length (conn_requests xs req) + (if length (conn_requests xs req) < length xs then 1 else 0)"
  by (rule length_handleConn)

lemma decode_empty_message: "decode_AgentRequest (JObj []) old = Inr old"
  by (simp add: decode_AgentRequest_def)

text \<open>The decoder reuses the request of the previous pass: after a retrieve, the message \<open>{}\<close>
  names no method and no key, and is answered like the retrieve again.\<close>

theorem empty_message_repeats_retrieve:
  "let q = encode_AgentRequest \<lparr>Method = AgentRequestRetrieve, ReqPayload = Some (JStr k)\<rparr>;
       out = fst (handleConn MemCache_iface [sample_arrival q, sample_arrival (JObj [])] empty_agent_request a)
   in length out = 2 \<and> out ! 1 = out ! 0 \<and> out ! 1 \<noteq> unknown_method_response"
  by (simp add: Let_def sample_arrival_def serve_item_def decode_encode_agent_request decode_empty_message
      dispatch_def handleRetrieve_def unmarshal_raw_def MemCache_iface_def MemCache_Retrieve_def
      case_prod_beta respond_def unknown_method_response_def api_consts reset_idle_def
      split: option.split)

end
