(* ===== verification/Go_Utf8.thy ===== *)
theory Go_Utf8
  imports Go_Strings
begin

text \<open>
  Go's package \<open>unicode/utf8\<close>, as far as \<open>encoding/json\<close> uses it: the length of the rune at the start of
  a text, and the replacement of every byte that starts none by U+FFFD (bytes EF BF BD), which the JSON
  encoder and decoder apply to strings.
\<close>

definition continuation :: "char \<Rightarrow> bool" where
  "continuation c \<longleftrightarrow> 0x80 \<le> ord c \<and> ord c \<le> 0xBF"

text \<open>\<open>utf8.DecodeRune\<close>: the number of bytes of the first rune, 0 for an invalid byte (and for no byte).
  The second byte excludes overlong forms, surrogates and code points above U+10FFFF.\<close>

fun rune_len :: "string \<Rightarrow> nat" where
  "rune_len [] = 0"
| "rune_len (a # s) =
     (if ord a < 0x80 then 1
      else if 0xC2 \<le> ord a \<and> ord a \<le> 0xDF then
        (case s of b # _ \<Rightarrow> if continuation b then 2 else 0 | _ \<Rightarrow> 0)
      else if 0xE0 \<le> ord a \<and> ord a \<le> 0xEF then
        (case s of
           b # c # _ \<Rightarrow>
             if continuation b \<and> continuation c \<and> (ord a = 0xE0 \<longrightarrow> 0xA0 \<le> ord b) \<and> (ord a = 0xED \<longrightarrow> ord b \<le> 0x9F)
             then 3 else 0
         | _ \<Rightarrow> 0)
      else if 0xF0 \<le> ord a \<and> ord a \<le> 0xF4 then
        (case s of
           b # c # d # _ \<Rightarrow>
             if continuation b \<and> continuation c \<and> continuation d
               \<and> (ord a = 0xF0 \<longrightarrow> 0x90 \<le> ord b) \<and> (ord a = 0xF4 \<longrightarrow> ord b \<le> 0x8F)
             then 4 else 0
         | _ \<Rightarrow> 0)
      else 0)"

definition RuneError :: string where
  "RuneError = [CHR 0xEF, CHR 0xBF, CHR 0xBD]"

function coerce_utf8 :: "string \<Rightarrow> string" where
  "coerce_utf8 [] = []"
| "coerce_utf8 (a # s) =
     (case rune_len (a # s) of
        0 \<Rightarrow> RuneError @ coerce_utf8 s
      | Suc n \<Rightarrow> a # take n s @ coerce_utf8 (drop n s))"
  by pat_completeness auto
termination
  by (relation "measure length") auto

declare coerce_utf8.simps(2) [simp del]

text \<open>\<open>utf8.ValidString\<close>\<close>

definition valid_utf8 :: "string \<Rightarrow> bool" where
  "valid_utf8 s \<longleftrightarrow> coerce_utf8 s = s"

subsection \<open>Runes\<close>

lemma rune_len_ascii [simp]: "ord a < 128 \<Longrightarrow> rune_len (a # s) = 1"
  by simp

lemma rune_len_one: "rune_len (a # s) = Suc 0 \<longleftrightarrow> ord a < 128"
  by (auto split: list.splits if_splits)

text \<open>A rune is complete: its length does not depend on what follows it.\<close>

lemma rune_len_take: "rune_len (a # s) = Suc n \<Longrightarrow> rune_len (a # take n s @ t) = Suc n"
  by (auto split: if_splits list.splits)

lemma rune_len_RuneError [simp]: "rune_len (RuneError @ t) = 3"
  by (simp add: RuneError_def ord_def continuation_def)

lemma coerce_Cons_rune: "rune_len (a # s) = Suc n \<Longrightarrow> coerce_utf8 (a # take n s @ t) = a # take n s @ coerce_utf8 t"
proof -
  assume n: "rune_len (a # s) = Suc n"
  then have "length (take n s) = n" by (auto split: if_splits list.splits)
  with rune_len_take [OF n, of t] show ?thesis by (simp add: coerce_utf8.simps(2) del: length_take)
qed

lemma coerce_RuneError: "coerce_utf8 (RuneError @ t) = RuneError @ coerce_utf8 t"
proof -
  have "rune_len (CHR 0xEF # [CHR 0xBF, CHR 0xBD] @ []) = Suc 2" by (simp add: ord_def continuation_def)
  from coerce_Cons_rune [OF this, of t] show ?thesis by (simp add: RuneError_def)
qed

lemma coerce_idem [simp]: "coerce_utf8 (coerce_utf8 s) = coerce_utf8 s"
proof (induction s rule: coerce_utf8.induct)
  case (2 a s)
  show ?case
  proof (cases "rune_len (a # s)")
    case 0
    with 2(1) show ?thesis by (simp add: coerce_utf8.simps(2) [of a s] coerce_RuneError del: rune_len.simps)
  next
    case (Suc n)
    with 2(2) [OF Suc] coerce_Cons_rune [OF Suc] show ?thesis
      by (simp add: coerce_utf8.simps(2) [of a s] del: rune_len.simps)
  qed
qed simp

lemma valid_coerce [simp]: "valid_utf8 (coerce_utf8 s)"
  by (simp add: valid_utf8_def)

lemma valid_ascii: "list_all (\<lambda>c. ord c < 128) s \<Longrightarrow> valid_utf8 s"
  unfolding valid_utf8_def by (induction s) (simp_all add: coerce_utf8.simps(2))

text \<open>Two different bytes that are no text become the same text.\<close>

lemma coerce_not_injective: "coerce_utf8 [CHR 0xFE] = coerce_utf8 [CHR 0xFF]"
  by (simp add: coerce_utf8.simps(2) ord_def)

end
