(* ===== verification/Go_Json_Text.thy ===== *)
theory Go_Json_Text
  imports Go_Json Go_Utf8
begin

text \<open>
  JSON as text: what \<open>encoding/json\<close> prints, how it reads a value from a text, and how a decoder
  splits a stream into values.  Both directions replace bytes of a string that are no UTF-8 by U+FFFD.
  The lemmas show that reading undoes printing up to this replacement, and exactly for valid UTF-8, so
  that the messages of the agent, the files and the answers can be taken as the values they denote.
\<close>

subsection \<open>Printing\<close>

text \<open>The encoder escapes quotes, backslashes, control characters, the characters special in HTML, the
  separators U+2028 and U+2029 (bytes E2 80 A8 and E2 80 A9), and prints the escape of U+FFFD for a byte
  that is no UTF-8.\<close>

definition json_char :: "char \<Rightarrow> string" where
  "json_char c =
     (if c = CHR 0x22 \<or> c = CHR 0x5C then [CHR 0x5C, c]
      else if c = CHR 0x08 then CHR 0x5C # ''b'' else if c = CHR 0x0C then CHR 0x5C # ''f''
      else if c = CHR 0x0A then CHR 0x5C # ''n'' else if c = CHR 0x0D then CHR 0x5C # ''r''
      else if c = CHR 0x09 then CHR 0x5C # ''t''
      else if ord c < 32 \<or> c = CHR ''<'' \<or> c = CHR ''>'' \<or> c = CHR ''&''
        then CHR 0x5C # ''u00'' @ [hex_digit (ord c div 16), hex_digit (ord c mod 16)]
      else [c])"

definition json_rune :: "string \<Rightarrow> string" where
  "json_rune r =
     (if r = [CHR 0xE2, CHR 0x80, CHR 0xA8] then CHR 0x5C # ''u2028''
      else if r = [CHR 0xE2, CHR 0x80, CHR 0xA9] then CHR 0x5C # ''u2029''
      else if length r = 1 then json_char (hd r)
      else r)"

function json_chars :: "string \<Rightarrow> string" where
  "json_chars [] = []"
| "json_chars (a # s) =
     (case rune_len (a # s) of
        0 \<Rightarrow> CHR 0x5C # ''ufffd'' @ json_chars s
      | Suc n \<Rightarrow> json_rune (a # take n s) @ json_chars (drop n s))"
  by pat_completeness auto
termination
  by (relation "measure length") auto

declare json_chars.simps(2) [simp del]

definition json_string :: "string \<Rightarrow> string" where
  "json_string s = CHR 0x22 # json_chars s @ [CHR 0x22]"

text \<open>\<open>json.Marshal\<close>.\<close>

fun Marshal :: "json \<Rightarrow> string" where
  "Marshal JNull = ''null''"
| "Marshal (JBool b) = (if b then ''true'' else ''false'')"
| "Marshal (JNum n) = n"
| "Marshal (JStr s) = json_string s"
| "Marshal (JArr vs) = ''['' @ Join (map Marshal vs) '','' @ '']''"
| "Marshal (JObj kvs) = ''{'' @ Join (map (\<lambda>(k, v). json_string k @ '':'' @ Marshal v) kvs) '','' @ ''}''"

text \<open>\<open>Encoder.Encode\<close> ends the value with a newline.\<close>

definition Encode :: "json \<Rightarrow> string" where
  "Encode v = Marshal v @ [CHR 0x0A]"

subsection \<open>Reading\<close>

definition json_space :: "char \<Rightarrow> bool" where
  "json_space c \<longleftrightarrow> c = CHR '' '' \<or> c = CHR 0x09 \<or> c = CHR 0x0A \<or> c = CHR 0x0D"

definition skip_space :: "string \<Rightarrow> string" where
  "skip_space s = dropWhile json_space s"

definition hex_value :: "char \<Rightarrow> nat option" where
  "hex_value c =
     (if is_digit c then Some (ord c - 48)
      else if 97 \<le> ord c \<and> ord c \<le> 102 then Some (ord c - 87)
      else if 65 \<le> ord c \<and> ord c \<le> 70 then Some (ord c - 55)
      else None)"

text \<open>Four hexadecimal digits and the text behind them.\<close>

definition hex4 :: "string \<Rightarrow> (nat \<times> string) option" where
  "hex4 s =
     (case s of
        a # b # c # d # rest \<Rightarrow>
          (case (hex_value a, hex_value b, hex_value c, hex_value d) of
             (Some x, Some y, Some z, Some t) \<Rightarrow> Some (4096 * x + 256 * y + 16 * z + t, rest)
           | _ \<Rightarrow> None)
      | _ \<Rightarrow> None)"

text \<open>The bytes of a code point.\<close>

definition utf8 :: "nat \<Rightarrow> string" where
  "utf8 n =
     (if n < 0x80 then [char_of n]
      else if n < 0x800 then [char_of (0xC0 + n div 64), char_of (0x80 + n mod 64)]
      else if n < 0x10000 then [char_of (0xE0 + n div 4096), char_of (0x80 + n div 64 mod 64), char_of (0x80 + n mod 64)]
      else [char_of (0xF0 + n div 262144), char_of (0x80 + n div 4096 mod 64), char_of (0x80 + n div 64 mod 64),
        char_of (0x80 + n mod 64)])"

text \<open>A \<open>\u\<close> escape, from behind the \<open>u\<close>: two halves of a surrogate pair are one code point, a half on its own is
  the replacement character.\<close>

definition unescape_u :: "string \<Rightarrow> (string \<times> string) option" where
  "unescape_u s =
     (case hex4 s of
        None \<Rightarrow> None
      | Some (n, rest) \<Rightarrow>
          if 0xD800 \<le> n \<and> n < 0xE000 then
            (case rest of
               a # b # rest1 \<Rightarrow>
                 (case (if a = CHR 0x5C \<and> b = CHR ''u'' then hex4 rest1 else None) of
                    Some (m, rest2) \<Rightarrow>
                      if n < 0xDC00 \<and> 0xDC00 \<le> m \<and> m < 0xE000
                      then Some (utf8 (0x10000 + (n - 0xD800) * 1024 + (m - 0xDC00)), rest2)
                      else Some (utf8 0xFFFD, rest)
                  | None \<Rightarrow> Some (utf8 0xFFFD, rest))
             | _ \<Rightarrow> Some (utf8 0xFFFD, rest))
          else Some (utf8 n, rest))"

definition unescape_simple :: "char \<Rightarrow> char option" where
  "unescape_simple c =
     (if c = CHR 0x22 \<or> c = CHR 0x5C \<or> c = CHR ''/'' then Some c
      else if c = CHR ''b'' then Some (CHR 0x08) else if c = CHR ''f'' then Some (CHR 0x0C)
      else if c = CHR ''n'' then Some (CHR 0x0A) else if c = CHR ''r'' then Some (CHR 0x0D)
      else if c = CHR ''t'' then Some (CHR 0x09) else None)"

lemma hex4_shorter: "hex4 s = Some (n, rest) \<Longrightarrow> length rest < length s"
  by (auto simp: hex4_def split: list.splits option.splits)

lemma unescape_u_shorter: "unescape_u s = Some (t, rest) \<Longrightarrow> length rest < length s"
  by (fastforce simp: unescape_u_def dest: hex4_shorter split: option.splits list.splits if_splits prod.splits)

text \<open>The rest of a string, from behind its opening quote, with every byte that is no UTF-8 replaced.\<close>

function read_string :: "string \<Rightarrow> (string \<times> string) option" where
  "read_string [] = None"
| "read_string (c # s) =
     (if c = CHR 0x22 then Some ([], s)
      else if c = CHR 0x5C then
        (case s of
           [] \<Rightarrow> None
         | e # s1 \<Rightarrow>
             (if e = CHR ''u'' then
                (case unescape_u s1 of
                   None \<Rightarrow> None
                 | Some (t, s2) \<Rightarrow> map_option (\<lambda>(body, rest). (t @ body, rest)) (read_string s2))
              else
                (case unescape_simple e of
                   None \<Rightarrow> None
                 | Some d \<Rightarrow> map_option (\<lambda>(body, rest). (d # body, rest)) (read_string s1))))
      else if ord c < 32 then None
      else
        (case rune_len (c # s) of
           0 \<Rightarrow> map_option (\<lambda>(body, rest). (RuneError @ body, rest)) (read_string s)
         | Suc n \<Rightarrow> map_option (\<lambda>(body, rest). (c # take n s @ body, rest)) (read_string (drop n s))))"
  by pat_completeness auto
termination
  by (relation "measure length") (auto dest: unescape_u_shorter)

declare read_string.simps [simp del]

text \<open>A number takes as much of the text as the grammar allows.\<close>

definition read_digits :: "string \<Rightarrow> string \<times> string" where
  "read_digits s = (takeWhile is_digit s, dropWhile is_digit s)"

definition read_integer :: "string \<Rightarrow> (string \<times> string) option" where
  "read_integer s =
     (case read_digits s of
        ([], _) \<Rightarrow> None
      | (d # ds, rest) \<Rightarrow> if d = CHR ''0'' then Some ([d], ds @ rest) else Some (d # ds, rest))"

definition read_fraction :: "string \<Rightarrow> (string \<times> string) option" where
  "read_fraction s =
     (if s \<noteq> [] \<and> hd s = CHR ''.'' then
        (case read_digits (tl s) of (ds, rest) \<Rightarrow> if ds = [] then None else Some (CHR ''.'' # ds, rest))
      else Some ([], s))"

definition exponent_sign :: "string \<Rightarrow> string" where
  "exponent_sign s = (if s \<noteq> [] \<and> (hd s = CHR ''+'' \<or> hd s = CHR ''-'') then [hd s] else [])"

definition read_exponent :: "string \<Rightarrow> (string \<times> string) option" where
  "read_exponent s =
     (if s \<noteq> [] \<and> (hd s = CHR ''e'' \<or> hd s = CHR ''E'') then
        (let sgn = exponent_sign (tl s)
         in case read_digits (drop (length sgn) (tl s)) of
              (ds, rest) \<Rightarrow> if ds = [] then None else Some (hd s # sgn @ ds, rest))
      else Some ([], s))"

definition read_number :: "string \<Rightarrow> (string \<times> string) option" where
  "read_number s =
     (let sgn = (if s \<noteq> [] \<and> hd s = CHR ''-'' then ''-'' else [])
      in case read_integer (drop (length sgn) s) of
           None \<Rightarrow> None
         | Some (i, s1) \<Rightarrow>
             (case read_fraction s1 of
                None \<Rightarrow> None
              | Some (f, s2) \<Rightarrow>
                  (case read_exponent s2 of None \<Rightarrow> None | Some (e, s3) \<Rightarrow> Some (sgn @ i @ f @ e, s3))))"

definition read_literal :: "string \<Rightarrow> json \<Rightarrow> string \<Rightarrow> (json \<times> string) option" where
  "read_literal word v s = (if HasPrefix s word then Some (v, drop (length word) s) else None)"

text \<open>A value, the elements of an array behind the bracket or a comma, and the members of an object; the
  number bounds the characters that are looked at.\<close>

fun read_value :: "nat \<Rightarrow> string \<Rightarrow> (json \<times> string) option"
  and read_elements :: "nat \<Rightarrow> string \<Rightarrow> (json list \<times> string) option"
  and read_members :: "nat \<Rightarrow> string \<Rightarrow> ((string \<times> json) list \<times> string) option"
where
  "read_value 0 s = None"
| "read_value (Suc n) s =
     (case skip_space s of
        [] \<Rightarrow> None
      | c # s1 \<Rightarrow>
          if c = CHR ''{'' then
            (case skip_space s1 of
               [] \<Rightarrow> None
             | d # s2 \<Rightarrow>
                 if d = CHR ''}'' then Some (JObj [], s2)
                 else map_option (\<lambda>(kvs, rest). (JObj kvs, rest)) (read_members n (d # s2)))
          else if c = CHR ''['' then
            (case skip_space s1 of
               [] \<Rightarrow> None
             | d # s2 \<Rightarrow>
                 if d = CHR '']'' then Some (JArr [], s2)
                 else map_option (\<lambda>(vs, rest). (JArr vs, rest)) (read_elements n (d # s2)))
          else if c = CHR 0x22 then map_option (\<lambda>(t, rest). (JStr t, rest)) (read_string s1)
          else if c = CHR ''t'' then read_literal ''true'' (JBool True) (c # s1)
          else if c = CHR ''f'' then read_literal ''false'' (JBool False) (c # s1)
          else if c = CHR ''n'' then read_literal ''null'' JNull (c # s1)
          else map_option (\<lambda>(t, rest). (JNum t, rest)) (read_number (c # s1)))"
| "read_elements 0 s = None"
| "read_elements (Suc n) s =
     (case read_value n s of
        None \<Rightarrow> None
      | Some (v, s1) \<Rightarrow>
          (case skip_space s1 of
             [] \<Rightarrow> None
           | c # s2 \<Rightarrow>
               if c = CHR '']'' then Some ([v], s2)
               else if c = CHR '','' then map_option (\<lambda>(vs, rest). (v # vs, rest)) (read_elements n s2)
               else None))"
| "read_members 0 s = None"
| "read_members (Suc n) s =
     (case skip_space s of
        [] \<Rightarrow> None
      | q # s0 \<Rightarrow>
          if q \<noteq> CHR 0x22 then None
          else
            (case read_string s0 of
               None \<Rightarrow> None
             | Some (k, s1) \<Rightarrow>
                 (case skip_space s1 of
                    [] \<Rightarrow> None
                  | colon # s2 \<Rightarrow>
                      if colon \<noteq> CHR '':'' then None
                      else
                        (case read_value n s2 of
                           None \<Rightarrow> None
                         | Some (v, s3) \<Rightarrow>
                             (case skip_space s3 of
                                [] \<Rightarrow> None
                              | c # s4 \<Rightarrow>
                                  if c = CHR ''}'' then Some ([(k, v)], s4)
                                  else if c = CHR '','' then
                                    map_option (\<lambda>(kvs, rest). ((k, v) # kvs, rest)) (read_members n s4)
                                  else None)))))"


declare read_value.simps [simp del] read_elements.simps [simp del] read_members.simps [simp del]

subsection \<open>The bound is enough\<close>

lemma skip_space_shorter: "length (skip_space s) \<le> length s"
  by (simp add: skip_space_def length_dropWhile_le)

lemma skip_space_Cons: "skip_space s = c # s' \<Longrightarrow> length s' < length s"
  using skip_space_shorter [of s] by simp

lemma read_string_shorter: "read_string s = Some (t, rest) \<Longrightarrow> length rest < length s"
proof (induction s arbitrary: t rule: read_string.induct)
  case (2 c s)
  show ?case
  proof (cases "c = CHR 0x5C")
    case True
    with 2(5) obtain e s1 where s: "s = e # s1" by (subst (asm) read_string.simps) (auto split: list.splits)
    show ?thesis
    proof (cases "e = CHR ''u''")
      case True
      with 2(5) \<open>c = _\<close> s obtain u s2 t' where u: "unescape_u s1 = Some (u, s2)" "read_string s2 = Some (t', rest)"
        by (subst (asm) read_string.simps) (auto split: option.splits)
      have "length rest < length s2" by (rule 2(1) [OF _ _ _ _ _ refl]) (use True \<open>c = _\<close> s u in simp_all)
      with unescape_u_shorter [OF u(1)] s show ?thesis by simp
    next
      case False
      with 2(5) \<open>c = _\<close> s obtain d t' where d: "unescape_simple e = Some d" "read_string s1 = Some (t', rest)"
        by (subst (asm) read_string.simps) (auto split: option.splits)
      have "length rest < length s1" by (rule 2(2) [OF _ _ s False d(1) d(2)]) (use \<open>c = _\<close> in simp_all)
      with s show ?thesis by simp
    qed
  next
    case False
    show ?thesis
    proof (cases "c = CHR 0x22")
      case True
      with 2(5) show ?thesis by (subst (asm) read_string.simps) simp
    next
      case quote: False
      with False 2(5) have c: "\<not> ord c < 32" by (subst (asm) read_string.simps) (auto split: if_splits)
      show ?thesis
      proof (cases "rune_len (c # s)")
        case 0
        with quote False c 2(5) obtain t' where "read_string s = Some (t', rest)"
          by (subst (asm) read_string.simps) auto
        with 2(3) [OF quote False c 0] show ?thesis by simp
      next
        case (Suc n)
        with quote False c 2(5) obtain t' where "read_string (drop n s) = Some (t', rest)"
          by (subst (asm) read_string.simps) auto
        with 2(4) [OF quote False c Suc] show ?thesis by fastforce
      qed
    qed
  qed
qed (simp add: read_string.simps)

lemma read_digits_shorter: "read_digits s = (d, rest) \<Longrightarrow> s = d @ rest"
  by (auto simp: read_digits_def)

lemma read_number_split: "read_number s = Some (t, rest) \<Longrightarrow> s = t @ rest \<and> t \<noteq> []"
proof -
  assume num: "read_number s = Some (t, rest)"
  define sgn where "sgn = (if s \<noteq> [] \<and> hd s = CHR ''-'' then ''-'' else [])"
  have s: "s = sgn @ drop (length sgn) s" by (cases s) (auto simp: sgn_def)
  obtain i s1 f s2 e where parts: "read_integer (drop (length sgn) s) = Some (i, s1)" "read_fraction s1 = Some (f, s2)"
    "read_exponent s2 = Some (e, rest)" "t = sgn @ i @ f @ e"
    using num by (auto simp: read_number_def sgn_def [symmetric] Let_def split: option.splits)
  have "drop (length sgn) s = i @ s1 \<and> i \<noteq> []"
    using parts(1) by (auto simp: read_integer_def dest!: read_digits_shorter split: prod.splits list.splits if_splits)
  moreover have "s1 = f @ s2"
    using parts(2) by (cases s1) (auto simp: read_fraction_def dest!: read_digits_shorter split: prod.splits if_splits)
  moreover have "s2 = e @ rest"
    using parts(3) by (cases s2; cases "tl s2")
      (auto simp: read_exponent_def exponent_sign_def Let_def dest!: read_digits_shorter split: prod.splits if_splits)
  ultimately show ?thesis using s parts(4) by (metis append.assoc append_is_Nil_conv)
qed

lemma read_literal_shorter: "read_literal w v s = Some (x, rest) \<Longrightarrow> w \<noteq> [] \<Longrightarrow> length rest < length s"
  by (auto simp: read_literal_def HasPrefix_iff split: if_splits)

lemma read_number_shorter: "read_number s = Some (t, rest) \<Longrightarrow> length rest < length s"
  using read_number_split [of s t rest] by auto

lemma read_shorter:
  "(\<forall>v rest. read_value n s = Some (v, rest) \<longrightarrow> length rest < length s)
   \<and> (\<forall>vs rest. read_elements n s = Some (vs, rest) \<longrightarrow> length rest < length s)
   \<and> (\<forall>kvs rest. read_members n s = Some (kvs, rest) \<longrightarrow> length rest < length s)"
proof (induction n arbitrary: s)
  case 0
  show ?case by (simp add: read_value.simps read_elements.simps read_members.simps)
next
  case (Suc n)
  have lit: "length rest < Suc (length s1)" if "read_literal w x (c # s1) = Some (v, rest)" "w \<noteq> []" for w x c s1 v rest
    using read_literal_shorter [OF that] by simp
  have val: "length rest < length s" if r: "read_value (Suc n) s = Some (v, rest)" for v rest s
    using r Suc.IH
    by (fastforce simp: read_value.simps dest: read_string_shorter read_number_shorter lit skip_space_Cons
        split: if_splits list.splits)
  have els: "length rest < length s" if r: "read_elements (Suc n) s = Some (vs, rest)" for vs rest
  proof -
    obtain v s1 c s2 where st: "read_value n s = Some (v, s1)" "skip_space s1 = c # s2" "rest = s2 \<or> (\<exists>ws. read_elements n s2 = Some (ws, rest))"
      using r by (auto simp: read_elements.simps split: option.splits list.splits if_splits)
    have "length s1 < length s" "length s2 < length s1" using st Suc.IH skip_space_Cons by blast+
    moreover have "length rest \<le> length s2" using st(3) Suc.IH [of s2] by (auto intro: less_imp_le)
    ultimately show ?thesis by simp
  qed
  have mem: "length rest < length s" if r: "read_members (Suc n) s = Some (kvs, rest)" for kvs rest
  proof -
    obtain q s0 k s1 colon s2 v s3 c s4 where st: "skip_space s = q # s0" "read_string s0 = Some (k, s1)" "skip_space s1 = colon # s2"
      "read_value n s2 = Some (v, s3)" "skip_space s3 = c # s4" "rest = s4 \<or> (\<exists>ws. read_members n s4 = Some (ws, rest))"
      using r by (auto simp: read_members.simps split: option.splits list.splits if_splits)
    have "length s0 < length s" "length s1 < length s0" "length s2 < length s1" "length s3 < length s2" "length s4 < length s3"
      using st Suc.IH skip_space_Cons read_string_shorter by blast+
    moreover have "length rest \<le> length s4" using st(6) Suc.IH [of s4] by (auto intro: less_imp_le)
    ultimately show ?thesis by simp
  qed
  show ?case using val els mem by blast
qed

lemma read_value_shorter: "read_value n s = Some (v, rest) \<Longrightarrow> length rest < length s"
  using read_shorter by blast

text \<open>With twice as many steps as characters the bound plays no part.\<close>

lemma read_enough:
  "(2 * length s + 1 \<le> n \<longrightarrow> read_value (Suc n) s = read_value n s)
   \<and> (2 * length s + 2 \<le> n \<longrightarrow> read_elements (Suc n) s = read_elements n s)
   \<and> (2 * length s + 1 \<le> n \<longrightarrow> read_members (Suc n) s = read_members n s)"
proof (induction n arbitrary: s)
  case (Suc n)
  have val: "read_value (Suc (Suc n)) s = read_value (Suc n) s" if b: "2 * length s + 1 \<le> Suc n"
  proof (cases "skip_space s")
    case (Cons c s1)
    note l1 = skip_space_Cons [OF Cons]
    have "read_members (Suc n) (d # s2) = read_members n (d # s2)" "read_elements (Suc n) (d # s2) = read_elements n (d # s2)"
      if "skip_space s1 = d # s2" for d s2
      using Suc.IH [of "d # s2"] skip_space_shorter [of s1] that l1 b by auto
    then show ?thesis
      by (simp add: read_value.simps(2) [of n] read_value.simps(2) [of "Suc n"] Cons split: list.split)
  qed (simp add: read_value.simps)
  have els: "read_elements (Suc (Suc n)) s = read_elements (Suc n) s" if b: "2 * length s + 2 \<le> Suc n"
  proof -
    have v: "read_value (Suc n) s = read_value n s" using Suc.IH [of s] b by auto
    have "read_elements (Suc n) s2 = read_elements n s2" if "read_value n s = Some (x, s1)" "skip_space s1 = c # s2" for x s1 c s2
      using Suc.IH [of s2] read_value_shorter [OF that(1)] skip_space_Cons [OF that(2)] b by auto
    then show ?thesis
      by (simp add: read_elements.simps(2) [of n] read_elements.simps(2) [of "Suc n"] v split: option.split list.split)
  qed
  have mem: "read_members (Suc (Suc n)) s = read_members (Suc n) s" if b: "2 * length s + 1 \<le> Suc n"
  proof -
    have "read_value (Suc n) s2 = read_value n s2" if "skip_space s = q # s0" "read_string s0 = Some (k, s1)" "skip_space s1 = e # s2"
      for q s0 k s1 e s2
      using Suc.IH [of s2] skip_space_Cons [OF that(1)] read_string_shorter [OF that(2)] skip_space_Cons [OF that(3)] b by auto
    moreover have "read_members (Suc n) s4 = read_members n s4" if "skip_space s = q # s0" "read_string s0 = Some (k, s1)"
        "skip_space s1 = e # s2" "read_value n s2 = Some (v, s3)" "skip_space s3 = c # s4" for q s0 k s1 e s2 v s3 c s4
      using Suc.IH [of s4] skip_space_Cons [OF that(1)] read_string_shorter [OF that(2)] skip_space_Cons [OF that(3)]
        read_value_shorter [OF that(4)] skip_space_Cons [OF that(5)] b by auto
    ultimately show ?thesis
      by (simp add: read_members.simps(2) [of n] read_members.simps(2) [of "Suc n"] split: option.split list.split)
  qed
  from val els mem show ?case by blast
qed simp

lemma read_value_enough: "2 * length s + 1 \<le> n \<Longrightarrow> n \<le> m \<Longrightarrow> read_value m s = read_value n s"
proof (induction m)
  case (Suc m)
  then show ?case using read_enough [of s m] by (cases "n = Suc m") auto
qed simp

subsection \<open>Reading undoes printing\<close>

lemma hex_value_digit: "n < 16 \<Longrightarrow> hex_value (hex_digit n) = Some n"
  by (auto simp: hex_value_def hex_digit_def is_digit_def ord_def)

lemma utf8_ascii: "ord c < 128 \<Longrightarrow> utf8 (ord c) = [c]"
  by (simp add: utf8_def ord_def)

lemma unescape_u_byte: "ord c < 128 \<Longrightarrow>
    unescape_u (''00'' @ [hex_digit (ord c div 16), hex_digit (ord c mod 16)] @ t) = Some ([c], t)"
proof -
  assume c: "ord c < 128"
  have z: "hex_value (CHR ''0'') = Some 0" by (simp add: hex_value_def is_digit_def ord_def)
  have "hex4 (''00'' @ [hex_digit (ord c div 16), hex_digit (ord c mod 16)] @ t) = Some (ord c, t)"
    using c by (simp add: hex4_def z hex_value_digit)
  with c utf8_ascii [OF c] show ?thesis by (simp add: unescape_u_def)
qed

lemma unescape_u_separator:
  "unescape_u (''2028'' @ t) = Some ([CHR 0xE2, CHR 0x80, CHR 0xA8], t)"
  "unescape_u (''2029'' @ t) = Some ([CHR 0xE2, CHR 0x80, CHR 0xA9], t)"
  by (simp_all add: unescape_u_def hex4_def hex_value_def is_digit_def ord_def utf8_def char_of_def bit_0)

text \<open>The characters with an escape of their own.\<close>

definition short_escapes :: "(char \<times> char) list" where
  "short_escapes = [(CHR 0x22, CHR 0x22), (CHR 0x5C, CHR 0x5C), (CHR 0x08, CHR ''b''), (CHR 0x0C, CHR ''f''),
     (CHR 0x0A, CHR ''n''), (CHR 0x0D, CHR ''r''), (CHR 0x09, CHR ''t'')]"

lemma short_escape: "(c, e) \<in> set short_escapes \<Longrightarrow> json_char c = [CHR 0x5C, e] \<and> e \<noteq> CHR ''u'' \<and> unescape_simple e = Some c"
proof -
  assume "(c, e) \<in> set short_escapes"
  moreover have "list_all (\<lambda>(c, e). json_char c = [CHR 0x5C, e] \<and> e \<noteq> CHR ''u'' \<and> unescape_simple e = Some c) short_escapes"
    by (simp add: short_escapes_def json_char_def unescape_simple_def)
  ultimately show ?thesis by (auto simp: list_all_iff)
qed

lemma unescape_u_fffd: "unescape_u (''fffd'' @ t) = Some (RuneError, t)"
  by (simp add: unescape_u_def hex4_def hex_value_def is_digit_def ord_def utf8_def char_of_def bit_0 RuneError_def)

lemma read_string_json_char: "ord c < 128 \<Longrightarrow> read_string (json_char c @ t) = map_option (\<lambda>(body, rest). (c # body, rest)) (read_string t)"
proof -
  assume ascii: "ord c < 128"
  consider (short) e where "(c, e) \<in> set short_escapes"
    | (long) "c \<notin> fst ` set short_escapes" "ord c < 32 \<or> c = CHR ''<'' \<or> c = CHR ''>'' \<or> c = CHR ''&''"
    | (plain) "c \<notin> fst ` set short_escapes" "\<not> ord c < 32" "c \<noteq> CHR ''<''" "c \<noteq> CHR ''>''" "c \<noteq> CHR ''&''"
    by force
  then show ?thesis
  proof cases
    case short
    from short_escape [OF this] show ?thesis by (simp add: read_string.simps(2) [of "CHR 0x5C"])
  next
    case long
    have codes: "ord (CHR ''<'') = 60" "ord (CHR ''>'') = 62" "ord (CHR ''&'') = 38" by (simp_all add: ord_def)
    from long(2) have small: "ord c < 128" by (elim disjE) (simp_all add: codes)
    from long have "json_char c = CHR 0x5C # CHR ''u'' # ''00'' @ [hex_digit (ord c div 16), hex_digit (ord c mod 16)]"
      by (simp add: json_char_def short_escapes_def)
    with unescape_u_byte [OF small, of t] show ?thesis by (simp add: read_string.simps(2) [of "CHR 0x5C"])
  next
    case plain
    then have "json_char c = [c]" "c \<noteq> CHR 0x22" "c \<noteq> CHR 0x5C" by (simp_all add: json_char_def short_escapes_def)
    with plain ascii show ?thesis by (simp add: read_string.simps(2) [of c] del: rune_len.simps)
  qed
qed

lemma read_string_json_rune:
  assumes "rune_len (a # s) = Suc n"
  shows "read_string (json_rune (a # take n s) @ t) = map_option (\<lambda>(body, rest). (a # take n s @ body, rest)) (read_string t)"
proof (cases n)
  case 0
  with assms have "ord a < 128" using rune_len_one by blast
  with 0 read_string_json_char [of a t] show ?thesis by (simp add: json_rune_def)
next
  case (Suc m)
  with assms have high: "\<not> ord a < 128" and len: "length (take n s) = n"
    by (auto split: if_splits list.splits)
  then have a: "a \<noteq> CHR 0x22" "a \<noteq> CHR 0x5C" "\<not> ord a < 32" by (auto simp: ord_def)
  show ?thesis
  proof (cases "a # take n s = [CHR 0xE2, CHR 0x80, CHR 0xA8] \<or> a # take n s = [CHR 0xE2, CHR 0x80, CHR 0xA9]")
    case True
    with unescape_u_separator [of t] show ?thesis by (auto simp: json_rune_def read_string.simps(2) [of "CHR 0x5C"])
  next
    case False
    have "length (a # take n s) \<noteq> 1" using len Suc by simp
    with False have "json_rune (a # take n s) = a # take n s" unfolding json_rune_def by metis
    with rune_len_take [OF assms, of t] a len show ?thesis
      by (simp add: read_string.simps(2) [of a] del: rune_len.simps length_take)
  qed
qed

lemma read_string_json_chars: "read_string (json_chars s @ CHR 0x22 # rest) = Some (coerce_utf8 s, rest)"
proof (induction s rule: json_chars.induct)
  case (2 a s)
  show ?case
  proof (cases "rune_len (a # s)")
    case 0
    with 2(1) unescape_u_fffd [of "json_chars s @ CHR 0x22 # rest"] show ?thesis
      by (simp add: json_chars.simps(2) coerce_utf8.simps(2) read_string.simps(2) [of "CHR 0x5C"] del: rune_len.simps)
  next
    case (Suc n)
    with 2(2) [OF Suc] read_string_json_rune [OF Suc] show ?thesis
      by (simp add: json_chars.simps(2) coerce_utf8.simps(2) del: rune_len.simps)
  qed
qed (simp add: read_string.simps(2) [of "CHR 0x22"])

text \<open>What can follow a number.\<close>

definition stops :: "string \<Rightarrow> bool" where
  "stops rest \<longleftrightarrow> rest = [] \<or> \<not> (is_digit (hd rest) \<or> hd rest \<in> set ''.eE'')"

lemma read_digits_append:
  "read_digits (ds @ e) = (ds, e) \<Longrightarrow> stops rest \<Longrightarrow> read_digits (ds @ e @ rest) = (ds, e @ rest)"
proof -
  assume r: "read_digits (ds @ e) = (ds, e)" and st: "stops rest"
  then have ds: "\<forall>c\<in>set ds. is_digit c" by (metis Pair_inject read_digits_def set_takeWhileD)
  have "takeWhile is_digit (e @ rest) = []"
  proof (cases e)
    case Nil
    with st show ?thesis by (cases rest) (auto simp: stops_def)
  next
    case (Cons c e')
    have "takeWhile is_digit (ds @ e) = ds" using r by (simp add: read_digits_def)
    with ds Cons show ?thesis by (auto split: if_splits)
  qed
  with ds show ?thesis
    by (simp add: read_digits_def) (metis append.right_neutral append_Nil takeWhile_dropWhile_id)
qed

lemma read_exponent_append:
  assumes "read_exponent e = Some (e, [])" and "stops rest"
  shows "read_exponent (e @ rest) = Some (e, rest)"
proof (cases e)
  case Nil
  with assms(2) show ?thesis by (cases rest) (auto simp: read_exponent_def stops_def)
next
  case (Cons x e')
  from assms(1) Cons have x: "x = CHR ''e'' \<or> x = CHR ''E''"
    by (auto simp: read_exponent_def split: if_splits)
  with assms(1) Cons obtain ds where ds: "read_digits (drop (length (exponent_sign e')) e') = (ds, [])" "ds \<noteq> []" "e' = exponent_sign e' @ ds"
    by (auto simp: read_exponent_def Let_def split: prod.splits if_splits)
  then have "e' \<noteq> []" "drop (length (exponent_sign e')) e' = ds" by (auto, metis append_eq_conv_conj)
  moreover from this have "exponent_sign (e' @ rest) = exponent_sign e'" by (simp add: exponent_sign_def)
  moreover have "length (exponent_sign e') \<le> length e'" by (simp add: exponent_sign_def Suc_le_eq)
  moreover have "read_digits (ds @ [] @ rest) = (ds, [] @ rest)"
    by (rule read_digits_append) (use ds(1) calculation(2) assms(2) in simp_all)
  ultimately show ?thesis using x ds Cons by (auto simp: read_exponent_def Let_def)
qed

lemma read_fraction_append:
  assumes "read_fraction (f @ e) = Some (f, e)" and "stops rest"
  shows "read_fraction (f @ e @ rest) = Some (f, e @ rest)"
proof (cases f)
  case Nil
  with assms have "e = [] \<or> hd e \<noteq> CHR ''.''"
    by (cases e) (auto simp: read_fraction_def split: prod.splits if_splits)
  with Nil assms(2) show ?thesis by (cases e; cases rest) (auto simp: read_fraction_def stops_def)
next
  case (Cons x ds)
  with assms(1) have "x = CHR ''.''" "read_digits (ds @ e) = (ds, e)" "ds \<noteq> []"
    by (auto simp: read_fraction_def split: prod.splits if_splits)
  with read_digits_append [OF this(2) assms(2)] Cons show ?thesis by (simp add: read_fraction_def)
qed

lemma read_integer_append:
  assumes "read_integer (i @ u) = Some (i, u)" and "stops rest"
  shows "read_integer (i @ u @ rest) = Some (i, u @ rest)"
proof -
  obtain ds v where d: "read_digits (i @ u) = (ds, v)" by (rule prod.exhaust)
  have iu: "i @ u = ds @ v" by (rule read_digits_shorter [OF d])
  have "read_digits (ds @ v @ rest) = (ds, v @ rest)"
    using read_digits_append [of ds v rest] d iu assms(2) by simp
  moreover have "i @ u @ rest = ds @ v @ rest" using iu by (metis append.assoc)
  ultimately show ?thesis
    using d assms(1) by (cases ds) (auto simp: read_integer_def split: if_splits)
qed

lemma read_number_append:
  assumes "read_number t = Some (t, [])" and "stops rest"
  shows "read_number (t @ rest) = Some (t, rest)"
proof -
  define sgn where "sgn = (if t \<noteq> [] \<and> hd t = CHR ''-'' then ''-'' else [])"
  obtain i s1 f s2 e where parts: "read_integer (drop (length sgn) t) = Some (i, s1)" "read_fraction s1 = Some (f, s2)"
    "read_exponent s2 = Some (e, [])" "t = sgn @ i @ f @ e"
    using assms(1) by (auto simp: read_number_def sgn_def [symmetric] Let_def split: option.splits)
  have i: "drop (length sgn) t = i @ f @ e" using parts(4) by simp
  have s1: "s1 = f @ e"
    using parts(1) unfolding i by (auto simp: read_integer_def dest!: read_digits_shorter split: prod.splits list.splits if_splits)
  have s2: "s2 = e"
    using parts(2) unfolding s1 by (cases "f @ e") (auto simp: read_fraction_def dest!: read_digits_shorter split: prod.splits if_splits)
  have int: "read_integer (i @ f @ e @ rest) = Some (i, f @ e @ rest)"
    using read_integer_append [of i "f @ e" rest] parts(1) i s1 assms(2) by simp
  have frac: "read_fraction (f @ e @ rest) = Some (f, e @ rest)"
    using read_fraction_append [of f e rest] parts(2) s1 s2 assms(2) by simp
  have ex: "read_exponent (e @ rest) = Some (e, rest)"
    using read_exponent_append [of e rest] parts(3) s2 assms(2) by simp
  have "t \<noteq> []" using read_number_split [OF assms(1)] by simp
  then have "(if t @ rest \<noteq> [] \<and> hd (t @ rest) = CHR ''-'' then ''-'' else []) = sgn" by (simp add: sgn_def)
  moreover have "drop (length sgn) (t @ rest) = i @ f @ e @ rest" using parts(4) by simp
  ultimately show ?thesis using int frac ex parts(4) by (simp add: read_number_def Let_def)
qed

text \<open>Values whose numbers are JSON numbers.\<close>

fun valid_json :: "json \<Rightarrow> bool" where
  "valid_json (JNum t) \<longleftrightarrow> read_number t = Some (t, [])"
| "valid_json (JArr vs) \<longleftrightarrow> list_all valid_json vs"
| "valid_json (JObj kvs) \<longleftrightarrow> list_all (\<lambda>(_, v). valid_json v) kvs"
| "valid_json _ \<longleftrightarrow> True"

lemma Marshal_head:
  assumes "valid_json v"
  obtains c t where "Marshal v = c # t" and "\<not> json_space c" and "c \<noteq> CHR '']''" and "c \<noteq> CHR ''}''"
proof (cases v)
  case (JNum n)
  with assms have num: "read_number n = Some (n, [])" by simp
  from read_number_split [OF this] obtain c t where n: "n = c # t" by (cases n) auto
  with num have "c = CHR ''-'' \<or> is_digit c"
    by (auto simp: read_number_def read_integer_def read_digits_def Let_def split: if_splits list.splits option.splits prod.splits)
  then have "\<not> json_space c" "c \<noteq> CHR '']''" "c \<noteq> CHR ''}''" by (auto simp: json_space_def is_digit_def ord_def)
  with that [of c t] JNum n show thesis by simp
next
  case (JBool b)
  with that show thesis by (cases b) (auto simp: json_space_def)
qed (use that in \<open>auto simp: json_string_def json_space_def\<close>)

lemma skip_space_id [simp]: "\<not> json_space c \<Longrightarrow> skip_space (c # t) = c # t"
  by (simp add: skip_space_def)

lemma stops_punctuation [simp]: "stops (CHR '']'' # r)" "stops (CHR '','' # r)" "stops (CHR ''}'' # r)" "stops (CHR 0x0A # r)" "stops []"
  by (simp_all add: stops_def is_digit_def ord_def)

lemma punctuation_not_space [simp]:
  "\<not> json_space (CHR '']'')" "\<not> json_space (CHR '','')" "\<not> json_space (CHR ''}'')" "\<not> json_space (CHR '':'')" "\<not> json_space (CHR 0x22)"
  "\<not> json_space (CHR ''['')" "\<not> json_space (CHR ''{'')"
  by (simp_all add: json_space_def)

text \<open>A value as it is read back: its strings and keys in valid UTF-8.\<close>

fun coerce_json :: "json \<Rightarrow> json" where
  "coerce_json (JStr t) = JStr (coerce_utf8 t)"
| "coerce_json (JArr vs) = JArr (map coerce_json vs)"
| "coerce_json (JObj kvs) = JObj (map (\<lambda>(k, v). (coerce_utf8 k, coerce_json v)) kvs)"
| "coerce_json v = v"

definition reads :: "json \<Rightarrow> bool" where
  "reads v \<longleftrightarrow> (\<forall>rest. stops rest \<longrightarrow> (\<exists>N. \<forall>n\<ge>N. read_value n (Marshal v @ rest) = Some (coerce_json v, rest)))"

lemma readsD: "reads v \<Longrightarrow> stops rest \<Longrightarrow> \<exists>N. \<forall>n\<ge>N. read_value n (Marshal v @ rest) = Some (coerce_json v, rest)"
  by (simp add: reads_def)

lemma read_elements_ok:
  "vs \<noteq> [] \<Longrightarrow> \<forall>v\<in>set vs. reads v \<Longrightarrow>
     \<exists>N. \<forall>n\<ge>N. read_elements n (Join (map Marshal vs) '','' @ CHR '']'' # rest) = Some (map coerce_json vs, rest)"
proof (induction vs)
  case (Cons v vs)
  show ?case
  proof (cases "vs = []")
    case True
    obtain N where "\<forall>n\<ge>N. read_value n (Marshal v @ CHR '']'' # rest) = Some (coerce_json v, CHR '']'' # rest)"
      using Cons.prems(2) readsD [of v "CHR '']'' # rest"] by auto
    then have "read_elements (Suc n) (Marshal v @ CHR '']'' # rest) = Some ([coerce_json v], rest)" if "N \<le> n" for n
      using that by (simp add: read_elements.simps)
    with True show ?thesis by (intro exI [of _ "Suc N"]) (auto simp: Suc_le_eq gr0_conv_Suc dest!: less_imp_Suc_add)
  next
    case False
    let ?more = "Join (map Marshal vs) '','' @ CHR '']'' # rest"
    obtain N where N: "\<forall>n\<ge>N. read_elements n ?more = Some (map coerce_json vs, rest)" using Cons False by auto
    obtain M where M: "\<forall>n\<ge>M. read_value n (Marshal v @ CHR '','' # ?more) = Some (coerce_json v, CHR '','' # ?more)"
      using Cons.prems(2) readsD [of v "CHR '','' # ?more"] by auto
    have "read_elements (Suc n) (Marshal v @ CHR '','' # ?more) = Some (map coerce_json (v # vs), rest)" if "max M N \<le> n" for n
      using that M N by (simp add: read_elements.simps)
    with False show ?thesis
      by (intro exI [of _ "Suc (max M N)"]) (auto simp: Join_Cons Suc_le_eq dest!: less_imp_Suc_add)
  qed
qed simp

abbreviation member :: "string \<times> json \<Rightarrow> string" where
  "member kv \<equiv> (case kv of (k, v) \<Rightarrow> json_string k @ '':'' @ Marshal v)"

abbreviation coerce_member :: "string \<times> json \<Rightarrow> string \<times> json" where
  "coerce_member kv \<equiv> (case kv of (k, v) \<Rightarrow> (coerce_utf8 k, coerce_json v))"

lemma read_members_ok:
  "kvs \<noteq> [] \<Longrightarrow> \<forall>(k, v)\<in>set kvs. reads v \<Longrightarrow>
     \<exists>N. \<forall>n\<ge>N. read_members n (Join (map member kvs) '','' @ CHR ''}'' # rest) = Some (map coerce_member kvs, rest)"
proof (induction kvs)
  case (Cons kv kvs)
  obtain k v where kv: "kv = (k, v)" by (rule prod.exhaust)
  have "reads v" using Cons.prems(2) kv by simp
  have one: "read_members (Suc n) (json_string k @ CHR '':'' # Marshal v @ d # more) =
      (if d = CHR ''}'' then Some ([(coerce_utf8 k, coerce_json v)], more)
       else if d = CHR '','' then map_option (\<lambda>(kvs, rest). ((coerce_utf8 k, coerce_json v) # kvs, rest)) (read_members n more) else None)"
    if "read_value n (Marshal v @ d # more) = Some (coerce_json v, d # more)" "\<not> json_space d" for n d more
    using that read_string_json_chars [of k "CHR '':'' # Marshal v @ d # more"]
    by (simp add: read_members.simps json_string_def)
  show ?case
  proof (cases "kvs = []")
    case True
    obtain N where "\<forall>n\<ge>N. read_value n (Marshal v @ CHR ''}'' # rest) = Some (coerce_json v, CHR ''}'' # rest)"
      using readsD [OF \<open>reads v\<close>, of "CHR ''}'' # rest"] by auto
    then have "read_members (Suc n) (json_string k @ CHR '':'' # Marshal v @ CHR ''}'' # rest) = Some ([(coerce_utf8 k, coerce_json v)], rest)" if "N \<le> n" for n
      using that one [of n "CHR ''}''" rest] by simp
    with True kv show ?thesis by (intro exI [of _ "Suc N"]) (auto simp: Suc_le_eq dest!: less_imp_Suc_add)
  next
    case False
    let ?more = "Join (map member kvs) '','' @ CHR ''}'' # rest"
    obtain N where N: "\<forall>n\<ge>N. read_members n ?more = Some (map coerce_member kvs, rest)" using Cons False by auto
    obtain M where M: "\<forall>n\<ge>M. read_value n (Marshal v @ CHR '','' # ?more) = Some (coerce_json v, CHR '','' # ?more)"
      using readsD [OF \<open>reads v\<close>, of "CHR '','' # ?more"] by auto
    have "read_members (Suc n) (json_string k @ CHR '':'' # Marshal v @ CHR '','' # ?more) = Some (map coerce_member ((k, v) # kvs), rest)" if "max M N \<le> n" for n
      using that M N one [of n "CHR '',''" ?more] by simp
    with False kv show ?thesis
      by (intro exI [of _ "Suc (max M N)"]) (auto simp: Join_Cons Suc_le_eq dest!: less_imp_Suc_add)
  qed
qed simp

lemma reads_valid: "valid_json v \<Longrightarrow> reads v"
proof (induction v)
  case (JNum t)
  then have num: "read_number t = Some (t, [])" by simp
  obtain c u where t: "t = c # u" "\<not> json_space c" by (rule Marshal_head [OF JNum]) simp
  have head: "c \<noteq> CHR ''{''" "c \<noteq> CHR ''[''" "c \<noteq> CHR 0x22" "c \<noteq> CHR ''t''" "c \<noteq> CHR ''f''" "c \<noteq> CHR ''n''"
    using num unfolding t(1)
    by (auto simp: read_number_def read_integer_def read_digits_def is_digit_def ord_def Let_def split: option.splits)
  { fix rest n
    assume "stops rest"
    from read_number_append [OF num this] t head have "read_value (Suc n) (t @ rest) = Some (coerce_json (JNum t), rest)"
      by (simp add: read_value.simps) }
  then show ?case unfolding reads_def by (metis Marshal.simps(3) Suc_le_D)
next
  case (JStr t)
  have "read_value (Suc n) (Marshal (JStr t) @ rest) = Some (coerce_json (JStr t), rest)" for rest n
    using read_string_json_chars [of t rest] by (simp add: read_value.simps json_string_def)
  then show ?case unfolding reads_def by (metis Suc_le_D)
next
  case (JArr vs)
  then have all: "\<forall>v\<in>set vs. reads v" by (auto simp: list_all_iff)
  show ?case
  proof (cases "vs = []")
    case True
    have "read_value (Suc n) (Marshal (JArr []) @ rest) = Some (coerce_json (JArr []), rest)" for rest n
      by (simp add: read_value.simps)
    with True show ?thesis unfolding reads_def by (metis Suc_le_D)
  next
    case False
    then obtain v vs' where vs: "vs = v # vs'" by (cases vs) auto
    have "valid_json v" using JArr.prems vs by simp
    then obtain c t where head: "Marshal v = c # t" "\<not> json_space c" "c \<noteq> CHR '']''" by (rule Marshal_head)
    then obtain u where joined: "Join (map Marshal vs) '','' = c # u" using vs by (cases vs') (auto simp: Join_Cons)
    { fix rest
      obtain N where N: "\<forall>n\<ge>N. read_elements n (Join (map Marshal vs) '','' @ CHR '']'' # rest) = Some (map coerce_json vs, rest)"
        using read_elements_ok [OF False all] by blast
      have "read_value (Suc n) (Marshal (JArr vs) @ rest) = Some (coerce_json (JArr vs), rest)" if "N \<le> n" for n
        using N that head joined by (simp add: read_value.simps)
      then have "\<exists>N. \<forall>n\<ge>N. read_value n (Marshal (JArr vs) @ rest) = Some (coerce_json (JArr vs), rest)"
        by (intro exI [of _ "Suc N"]) (auto simp: Suc_le_eq dest!: less_imp_Suc_add) }
    then show ?thesis by (simp only: reads_def) blast
  qed
next
  case (JObj kvs)
  then have all: "\<forall>(k, v)\<in>set kvs. reads v" by (fastforce simp: list_all_iff)
  show ?case
  proof (cases "kvs = []")
    case True
    have "read_value (Suc n) (Marshal (JObj []) @ rest) = Some (coerce_json (JObj []), rest)" for rest n
      by (simp add: read_value.simps)
    with True show ?thesis unfolding reads_def by (metis Suc_le_D)
  next
    case False
    then obtain kv kvs' where kvs: "kvs = kv # kvs'" by (cases kvs) auto
    then obtain u where joined: "Join (map member kvs) '','' = CHR 0x22 # u"
      by (cases kv; cases kvs') (auto simp: Join_Cons json_string_def)
    { fix rest
      obtain N where N: "\<forall>n\<ge>N. read_members n (Join (map member kvs) '','' @ CHR ''}'' # rest) = Some (map coerce_member kvs, rest)"
        using read_members_ok [OF False all] by blast
      have "read_value (Suc n) (Marshal (JObj kvs) @ rest) = Some (coerce_json (JObj kvs), rest)" if "N \<le> n" for n
        using N that joined by (simp add: read_value.simps)
      then have "\<exists>N. \<forall>n\<ge>N. read_value n (Marshal (JObj kvs) @ rest) = Some (coerce_json (JObj kvs), rest)"
        by (intro exI [of _ "Suc N"]) (auto simp: Suc_le_eq dest!: less_imp_Suc_add) }
    then show ?thesis by (simp only: reads_def) blast
  qed
next
  case (JBool b)
  have "read_value (Suc n) (Marshal (JBool b) @ rest) = Some (coerce_json (JBool b), rest)" for rest n
    by (cases b) (simp_all add: read_value.simps read_literal_def json_space_def HasPrefix_def)
  then show ?case unfolding reads_def by (metis Suc_le_D)
next
  case JNull
  have "read_value (Suc n) (Marshal JNull @ rest) = Some (coerce_json JNull, rest)" for rest n
    by (simp add: read_value.simps read_literal_def json_space_def HasPrefix_def)
  then show ?case unfolding reads_def by (metis Suc_le_D)
qed

lemma read_value_Marshal:
  assumes "valid_json v" and "stops rest" and "2 * length (Marshal v @ rest) + 1 \<le> n"
  shows "read_value n (Marshal v @ rest) = Some (coerce_json v, rest)"
proof -
  obtain N where N: "\<forall>m\<ge>N. read_value m (Marshal v @ rest) = Some (coerce_json v, rest)"
    using readsD [OF reads_valid [OF assms(1)] assms(2)] by blast
  have "read_value (max n N) (Marshal v @ rest) = read_value n (Marshal v @ rest)"
    by (rule read_value_enough [OF assms(3)]) simp
  with N show ?thesis by simp
qed

subsection \<open>Streams and files\<close>

text \<open>The scanner gives up on values nested deeper than ten thousand levels.\<close>

fun json_depth :: "json \<Rightarrow> nat" where
  "json_depth (JArr vs) = Suc (fold max (map json_depth vs) 0)"
| "json_depth (JObj kvs) = Suc (fold max (map (\<lambda>(_, v). json_depth v) kvs) 0)"
| "json_depth _ = 0"

definition maxNestingDepth :: nat where "maxNestingDepth = 10000"

definition next_value :: "string \<Rightarrow> (json \<times> string) option" where
  "next_value s =
     (case read_value (2 * length s + 1) s of
        None \<Rightarrow> None
      | Some (v, rest) \<Rightarrow> if json_depth v \<le> maxNestingDepth then Some (v, rest) else None)"

lemma next_value_shorter: "next_value s = Some (v, rest) \<Longrightarrow> length rest < length s"
  by (auto simp: next_value_def dest: read_value_shorter split: option.splits if_splits)

text \<open>The values a \<open>Decoder\<close> reads from a connection or a file, one after the other; after an error it reads no
  more.\<close>

function decode_stream :: "string \<Rightarrow> wire_item list" where
  "decode_stream s =
     (if skip_space s = [] then []
      else case next_value s of None \<Rightarrow> [Malformed] | Some (v, rest) \<Rightarrow> Value v # decode_stream rest)"
  by pat_completeness auto
termination
  by (relation "measure length") (auto dest: next_value_shorter)

declare decode_stream.simps [simp del]

text \<open>\<open>json.Unmarshal\<close> of a text: one value and nothing behind it.\<close>

definition Unmarshal :: "string \<Rightarrow> wire_item" where
  "Unmarshal s =
     (case next_value s of None \<Rightarrow> Malformed | Some (v, rest) \<Rightarrow> if skip_space rest = [] then Value v else Malformed)"

definition printable :: "json \<Rightarrow> bool" where
  "printable v \<longleftrightarrow> valid_json v \<and> json_depth v \<le> maxNestingDepth"

lemma depth_coerce [simp]: "json_depth (coerce_json v) = json_depth v"
proof (induction v)
  case (JArr vs)
  then have "map (\<lambda>v. json_depth (coerce_json v)) vs = map json_depth vs" by simp
  then show ?case by (simp only: coerce_json.simps json_depth.simps map_map comp_def)
next
  case (JObj kvs)
  then have "map (\<lambda>kv. case coerce_member kv of (_, v) \<Rightarrow> json_depth v) kvs = map (\<lambda>(_, v). json_depth v) kvs" by fastforce
  then show ?case by (simp only: coerce_json.simps json_depth.simps map_map comp_def)
qed simp_all

text \<open>Values whose texts are valid UTF-8 are read back as they are.\<close>

fun valid_strings :: "json \<Rightarrow> bool" where
  "valid_strings (JStr t) \<longleftrightarrow> valid_utf8 t"
| "valid_strings (JArr vs) \<longleftrightarrow> list_all valid_strings vs"
| "valid_strings (JObj kvs) \<longleftrightarrow> list_all (\<lambda>(k, v). valid_utf8 k \<and> valid_strings v) kvs"
| "valid_strings _ \<longleftrightarrow> True"

lemma coerce_valid [simp]: "valid_strings v \<Longrightarrow> coerce_json v = v"
proof (induction v)
  case (JArr vs)
  then show ?case by (auto simp: list_all_iff intro!: map_idI)
next
  case (JObj kvs)
  then show ?case by (fastforce simp: list_all_iff valid_utf8_def intro!: map_idI)
qed (simp_all add: valid_utf8_def)

lemma valid_coerce_json [simp]: "valid_strings (coerce_json v)"
proof (induction v)
  case (JObj kvs)
  then show ?case by (fastforce simp: list_all_iff)
qed (auto simp: list_all_iff)

lemma next_value_Marshal: "printable v \<Longrightarrow> stops rest \<Longrightarrow> next_value (Marshal v @ rest) = Some (coerce_json v, rest)"
  by (simp add: next_value_def read_value_Marshal printable_def depth_coerce)

lemma skip_space_Marshal: "printable v \<Longrightarrow> skip_space (Marshal v @ rest) \<noteq> []"
  by (rule Marshal_head [of v]) (simp_all add: printable_def)

lemma skip_space_idem [simp]: "skip_space (skip_space s) = skip_space s"
  by (simp add: skip_space_def)

lemma next_value_skip: "next_value (skip_space s) = next_value s"
proof -
  have "read_value (2 * length s + 1) (skip_space s) = read_value (2 * length (skip_space s) + 1) (skip_space s)"
    by (rule read_value_enough) (use skip_space_shorter [of s] in simp_all)
  moreover have "read_value (Suc n) (skip_space s) = read_value (Suc n) s" for n
    by (simp add: read_value.simps)
  ultimately show ?thesis by (simp add: next_value_def)
qed

lemma decode_stream_skip: "decode_stream (skip_space s) = decode_stream s"
  by (subst (1 2) decode_stream.simps) (simp add: next_value_skip)

lemma decode_stream_space: "json_space c \<Longrightarrow> decode_stream (c # s) = decode_stream s"
  using decode_stream_skip [of "c # s"] decode_stream_skip [of s] by (simp add: skip_space_def)

lemma decode_stream_Encode: "printable v \<Longrightarrow> decode_stream (Encode v @ rest) = Value (coerce_json v) # decode_stream rest"
proof -
  assume v: "printable v"
  have "decode_stream (Marshal v @ CHR 0x0A # rest) = Value (coerce_json v) # decode_stream (CHR 0x0A # rest)"
    by (subst decode_stream.simps) (simp add: v skip_space_Marshal next_value_Marshal)
  then show ?thesis by (simp add: Encode_def decode_stream_space json_space_def)
qed

lemma decode_stream_Nil [simp]: "decode_stream [] = []"
  by (subst decode_stream.simps) (simp add: skip_space_def)

lemma stream_decodes: "list_all printable vs \<Longrightarrow> decode_stream (concat (map Encode vs) @ rest) = map (\<lambda>v. Value (coerce_json v)) vs @ decode_stream rest"
  by (induction vs) (simp_all add: decode_stream_Encode)

lemma Unmarshal_Marshal: "printable v \<Longrightarrow> Unmarshal (Marshal v) = Value (coerce_json v)"
  using next_value_Marshal [of v "[]"] by (simp add: Unmarshal_def skip_space_def)

text \<open>A text that breaks off inside a value is malformed.\<close>

lemma decode_stream_samples:
  "decode_stream (CHR 0x7B # CHR 0x22 # ''a'') = [Malformed]"
  "decode_stream ''1 2'' = [Value (JNum ''1''), Value (JNum ''2'')]"
  by (subst decode_stream.simps, simp add: next_value_def read_value.simps read_members.simps read_string.simps skip_space_def json_space_def
      numeral_eq_Suc read_number_def read_integer_def read_digits_def read_fraction_def read_exponent_def is_digit_def ord_def Let_def maxNestingDepth_def
      decode_stream.simps)+

end
