(* ===== verification/SocketCache.thy ===== *)
theory SocketCache
  imports Agent Go_Json_Text
begin

text \<open>
  The client side of the agent: \<open>SocketCache\<close> (\<open>src/cache/socketcache.go\<close>) and
  \<open>AgentCommandClient\<close> (\<open>src/agent/client.go\<close>).  The state of a client is its end of a
  connection together with the agent at the other end, so that a request and its response
  are one step: the message is encoded, the handler of the connection serves it, and the
  client decodes the response.  The last section shows that a \<open>SocketCache\<close> in front of an
  agent over \<open>MemCache\<close> satisfies the laws of a cache that keeps what it is given.
\<close>

record 's socket =
  peer :: "'s CachingAgent"
  peer_req :: AgentRequest
  conn_open :: bool
  sock_now :: time
  sock_clock :: clock
  stdin :: "wire_item list"
  stdout :: "json list"

definition conn_closed_error :: goerr where
  "conn_closed_error = ErrorString ''use of closed network connection''"

subsection \<open>Requests and responses\<close>

text \<open>\<open>AgentCommandClient.Command\<close>; the methods of \<open>SocketCache\<close> start with the same exchange.\<close>

definition Command :: "'s cache_iface \<Rightarrow> AgentRequest \<Rightarrow> 's socket \<Rightarrow> AgentResponse result \<times> 's socket" where
  "Command ops req s =
     (if \<not> conn_open s then (Inl conn_closed_error, s)
      else
        (let x = \<lparr>item = Value (encode_AgentRequest req), arr_now = sock_now s, arr_clock = sock_clock s\<rparr>;
             (resp, kept, a) = serve_item ops x (peer_req s) (peer s)
         in (decode_AgentResponse (encode_AgentResponse resp) empty_agent_response,
             (case kept of
                Some req' \<Rightarrow> s\<lparr>peer := a, peer_req := req'\<rparr>
              | None \<Rightarrow> s\<lparr>peer := a, conn_open := False\<rparr>))))"

definition NewAgentCommandClient :: "'c result \<Rightarrow> 'c result" where
  "NewAgentCommandClient dialed = (case dialed of Inl e \<Rightarrow> Inl e | Inr conn \<Rightarrow> Inr conn)"

definition Close :: "'s socket \<Rightarrow> 's socket" where
  "Close s = s\<lparr>conn_open := False\<rparr>"

definition SocketCache_Close :: "'s socket \<Rightarrow> 's socket" where
  [simp]: "SocketCache_Close = Close"

subsection \<open>Connecting\<close>

text \<open>
  \<open>NewSocketCache\<close> dials until an attempt succeeds or the waiting time is used up.
  \<open>dial i\<close> is the outcome of the \<open>i\<close>-th attempt.
\<close>

definition wait :: duration where "wait = Millisecond"

function dial_loop :: "(nat \<Rightarrow> 'c option) \<Rightarrow> nat \<Rightarrow> duration \<Rightarrow> duration \<Rightarrow> 'c option" where
  "dial_loop dial i waited timeout =
     (if waited < timeout then
        (case dial i of
           Some conn \<Rightarrow> Some conn
         | None \<Rightarrow> dial_loop dial (Suc i) (waited + wait) timeout)
      else None)"
  by pat_completeness auto
termination
  by (relation "measure (\<lambda>(_, _, waited, timeout). nat (timeout - waited))")
    (auto simp: wait_def Millisecond_def)

declare dial_loop.simps [simp del]

definition NewSocketCache :: "(nat \<Rightarrow> 'c option) \<Rightarrow> duration \<Rightarrow> 'c result" where
  "NewSocketCache dial timeout =
     (case dial_loop dial 0 0 timeout of
        None \<Rightarrow> Inl (Wrapf ''dialing socket'' [] ErrDeadlineExceeded)
      | Some conn \<Rightarrow> Inr conn)"

lemma NewSocketCache_first: "0 < timeout \<Longrightarrow> dial 0 = Some c \<Longrightarrow> NewSocketCache dial timeout = Inr c"
  by (simp add: NewSocketCache_def dial_loop.simps)

lemma peer_Close [simp]: "peer (Close s) = peer s"
  by (simp add: Close_def)

subsection \<open>The cache methods\<close>

text \<open>The verb \<open>%v\<close> prints a \<open>json.RawMessage\<close>, a slice of bytes, as the list of their decimal values.  The
  bytes are those the agent's encoder wrote.\<close>

definition format_raw :: "json option \<Rightarrow> string" where
  "format_raw p = ''['' @ Join (map (\<lambda>c. utoa (ord c)) (case p of None \<Rightarrow> [] | Some v \<Rightarrow> Marshal v)) '' '' @ '']''"

definition SocketCache_Retrieve :: "'s cache_iface \<Rightarrow> string \<Rightarrow> 's socket \<Rightarrow>
    GetCredentialsResponse result \<times> 's socket" where
  "SocketCache_Retrieve ops cacheKey c =
     (if length cacheKey = 0 then (Inl CacheMiss, c)
      else
        (case Command ops \<lparr>Method = AgentRequestRetrieve, ReqPayload = Some (JStr cacheKey)\<rparr> c of
           (Inl e, c') \<Rightarrow> (Inl e, c')
         | (Inr resp, c') \<Rightarrow>
             (if Status resp = AgentResponseCacheMiss then Inl CacheMiss
              else if Status resp \<noteq> AgentResponseOK then
                Inl (Errorf ''retrieving cacheKey from agent: %s %v'' [Status resp, format_raw (RespPayload resp)])
              else
                (case unmarshal_raw decode_GetCredentialsResponse (RespPayload resp) empty_response of
                   Inl e \<Rightarrow> Inl (Wrapf ''retrieving cacheKey from agent: umarshaling response'' [] e)
                 | Inr respPayload \<Rightarrow> Inr respPayload), c')))"

definition SocketCache_Store :: "'s cache_iface \<Rightarrow> CachableGetCredentialsResponse \<Rightarrow> 's socket \<Rightarrow>
    unit result \<times> 's socket" where
  "SocketCache_Store ops cacheValue c =
     (if length (CacheKey cacheValue) = 0 \<or> length (Expires (Response cacheValue)) = 0 then (Inr (), c)
      else
        (case Command ops \<lparr>Method = AgentRequestStore, ReqPayload = Some (encode_Cachable cacheValue)\<rparr> c of
           (Inl e, c') \<Rightarrow> (Inl e, c')
         | (Inr agentResponse, c') \<Rightarrow>
             (if Status agentResponse \<noteq> AgentResponseOK then
                Inl (Errorf ''storing response in agent: %s %v'' [Status agentResponse, format_raw (RespPayload agentResponse)])
              else Inr (), c')))"

text \<open>
  \<open>Prune\<close> writes its request to the standard output of the client and reads the response from
  its standard input; the connection is not used.  (An error message shows the payload without the white
  space it may have had there.)
\<close>

definition SocketCache_Prune :: "clock \<Rightarrow> 's socket \<Rightarrow> unit result \<times> 's socket" where
  "SocketCache_Prune clk c =
     (let c' = c\<lparr>stdout := stdout c @ [encode_AgentRequest \<lparr>Method = AgentRequestPrune, ReqPayload = None\<rparr>]\<rparr>
      in case stdin c of
           [] \<Rightarrow> (Inl (ErrorString ''EOF''), c')
         | Malformed # rest \<Rightarrow> (Inl syntax_error, c'\<lparr>stdin := rest\<rparr>)
         | Value v # rest \<Rightarrow>
             (case decode_AgentResponse v empty_agent_response of
                Inl e \<Rightarrow> (Inl e, c'\<lparr>stdin := rest\<rparr>)
              | Inr agentResponse \<Rightarrow>
                  (if Status agentResponse \<noteq> AgentResponseOK then
                     Inl (Errorf ''pruning cache in agent: %s %v'' [Status agentResponse, format_raw (RespPayload agentResponse)])
                   else Inr (), c'\<lparr>stdin := rest\<rparr>)))"

definition SocketCache_iface :: "'s cache_iface \<Rightarrow> 's socket cache_iface" where
  "SocketCache_iface ops =
     \<lparr>Retrieve = SocketCache_Retrieve ops, Store = SocketCache_Store ops, Prune = SocketCache_Prune\<rparr>"

subsection \<open>Facts on connecting\<close>

lemma dial_loop_attempts:
  "waited + int n * wait < timeout \<Longrightarrow> dial (i + n) = Some conn \<Longrightarrow>
     \<forall>l. i \<le> l \<and> l < i + n \<longrightarrow> dial l = None \<Longrightarrow> dial_loop dial i waited timeout = Some conn"
proof (induction n arbitrary: i waited)
  case 0
  then show ?case by (subst dial_loop.simps) simp
next
  case (Suc n)
  have pos: "0 \<le> int n * wait" "0 < wait" by (simp_all add: wait_def Millisecond_def)
  moreover have "int (Suc n) * wait = int n * wait + wait" by (simp add: algebra_simps)
  ultimately have lt: "waited < timeout" using Suc.prems(1) by linarith
  have "dial_loop dial (Suc i) (waited + wait) timeout = Some conn"
    using Suc.prems by (intro Suc.IH) (auto simp: algebra_simps)
  with Suc.prems(3) lt show ?case by (subst dial_loop.simps) simp
qed

lemma dial_loop_within:
  "dial_loop dial i waited timeout = Some conn \<Longrightarrow> waited = int i * wait \<Longrightarrow>
     \<exists>j. int j * wait < timeout \<and> dial j = Some conn"
proof (induction dial i waited timeout rule: dial_loop.induct)
  case (1 dial i waited timeout)
  from "1.prems"(1) have lt: "waited < timeout"
    by (subst (asm) dial_loop.simps) (simp split: if_splits)
  show ?case
  proof (cases "dial i")
    case (Some c)
    with "1.prems"(1) lt have "c = conn" by (subst (asm) dial_loop.simps) simp
    with Some lt "1.prems"(2) show ?thesis by (intro exI [of _ i]) simp
  next
    case None
    with "1.prems"(1) lt have "dial_loop dial (Suc i) (waited + wait) timeout = Some conn"
      by (subst (asm) dial_loop.simps) simp
    with "1.IH" [OF lt None] "1.prems"(2) show ?thesis by (simp add: algebra_simps)
  qed
qed

subsection \<open>The client refines the cache behind the agent\<close>

lemma Command_payload:
  assumes "conn_open s" and "ReqPayload req = Some p"
  shows "Command ops req s =
    (let (r, a) = dispatch ops (sock_now s) (sock_clock s) req (reset_idle (sock_now s) (peer s))
     in (Inr (respond r), s\<lparr>peer := a, peer_req := req\<rparr>))"
proof -
  obtain m where "req = \<lparr>Method = m, ReqPayload = Some p\<rparr>" using assms(2) by (cases req) simp
  with assms show ?thesis
    by (simp add: Command_def serve_item_def decode_encode_agent_request decode_encode_agent_response
        Let_def case_prod_beta)
qed

lemma status_names_distinct [simp]:
  "AgentResponseCacheMiss \<noteq> AgentResponseOK" "AgentResponseOK \<noteq> AgentResponseCacheMiss"
  "AgentResponseError \<noteq> AgentResponseOK" "AgentResponseError \<noteq> AgentResponseCacheMiss"
  by (simp_all add: api_consts)

lemma SocketCache_Prune_peer [simp]:
  "peer (snd (SocketCache_Prune clk s)) = peer s" "conn_open (snd (SocketCache_Prune clk s)) = conn_open s"
  by (simp_all add: SocketCache_Prune_def Let_def split: list.split wire_item.split sum.split)

context api_cache
begin

definition sock_inv :: "'s socket \<Rightarrow> bool" where
  "sock_inv c \<longleftrightarrow> conn_open c \<and> inv (agent_cache (peer c))"

definition sock_contents :: "'s socket \<Rightarrow> string \<rightharpoonup> GetCredentialsResponse" where
  "sock_contents c k = (if k = [] then None else contents (agent_cache (peer c)) k)"

lemma sock_retrieve:
  assumes "sock_inv c"
  shows "fst (SocketCache_Retrieve iface k c) =
      (case sock_contents c k of Some r \<Rightarrow> Inr r | None \<Rightarrow> Inl CacheMiss)" (is ?result)
    and "sock_inv (snd (SocketCache_Retrieve iface k c))" (is ?inv)
    and "sock_contents (snd (SocketCache_Retrieve iface k c)) = sock_contents c" (is ?contents)
proof -
  let ?m = "agent_cache (peer c)"
  from assms have inv: "inv ?m" and conn: "conn_open c" by (simp_all add: sock_inv_def)
  have res: "fst (retrieve k ?m) = (case contents ?m k of Some r \<Rightarrow> Inr r | None \<Rightarrow> Inl CacheMiss)"
    using inv by (rule retrieve_result)
  note unfold = SocketCache_Retrieve_def Command_payload dispatch_def handleRetrieve_def unmarshal_raw_def
    Let_def case_prod_beta respond_def sock_contents_def sock_inv_def
  show ?result
    using res conn decode_encode_response contents_wf [OF inv, of k]
    by (auto simp: unfold split: option.splits sum.splits)
  show ?inv
    using res conn inv inv_retrieve [OF inv, of k] by (auto simp: unfold split: option.splits sum.splits)
  show ?contents
    using res conn inv retrieve_contents [OF inv, of k]
    by (auto simp: unfold fun_eq_iff split: option.splits sum.splits)
qed

lemma sock_store:
  assumes "sock_inv c" and "wf_response (Response v)"
  shows "fst (SocketCache_Store iface v c) = Inr ()" (is ?result)
    and "sock_inv (snd (SocketCache_Store iface v c))" (is ?inv)
    and "sock_contents (snd (SocketCache_Store iface v c)) =
      (if storable v then (\<lambda>k. if k = [] then None else contents (snd (store v (agent_cache (peer c)))) k)
       else sock_contents c)" (is ?contents)
proof -
  let ?m = "agent_cache (peer c)"
  from assms have inv: "inv ?m" and conn: "conn_open c" by (simp_all add: sock_inv_def)
  have res: "fst (store v ?m) = Inr ()" using inv assms(2) by (rule store_result)
  note unfold = SocketCache_Store_def Command_payload dispatch_def handleStore_def unmarshal_raw_def
    Let_def case_prod_beta respond_def sock_contents_def sock_inv_def storable_def
    decode_encode_cachable [OF assms(2)]
  show ?result using res conn by (auto simp: unfold)
  show ?inv using res conn inv inv_store [OF inv assms(2)] by (auto simp: unfold)
  show ?contents using res conn by (auto simp: unfold fun_eq_iff)
qed

end

interpretation sock: keeping_cache mem.sock_inv mem.sock_contents
  "SocketCache_Retrieve MemCache_iface" "SocketCache_Store MemCache_iface" SocketCache_Prune
proof -
  note [simp] = mem_iface [symmetric]
  show "keeping_cache mem.sock_inv mem.sock_contents
      (SocketCache_Retrieve MemCache_iface) (SocketCache_Store MemCache_iface) SocketCache_Prune"
  proof unfold_locales
    fix c :: "MemCache socket" and v :: CachableGetCredentialsResponse and k now
    assume c: "mem.sock_inv c"
    show "mem.sock_inv (snd (SocketCache_Prune now c))"
      using c by (simp add: mem.sock_inv_def)
    show "mem.sock_contents (snd (SocketCache_Prune now c)) \<subseteq>\<^sub>m mem.sock_contents c"
      by (simp add: mem.sock_contents_def map_le_def)
    show "wf_response r" if "mem.sock_contents c k = Some r" for r
      using c that mem.contents_wf [of "agent_cache (peer c)" k r]
      by (simp add: mem.sock_contents_def mem.sock_inv_def split: if_splits)
    assume v: "wf_response (Response v)"
    show *: "mem.sock_contents (snd (SocketCache_Store MemCache_iface v c)) = updated v (mem.sock_contents c)"
      using mem.sock_store(3) [OF c v] c v mem.store_keeps [of "agent_cache (peer c)" v]
      by (auto simp: updated_def mem.sock_contents_def mem.sock_inv_def storable_def fun_eq_iff)
    show "mem.sock_contents (snd (SocketCache_Store MemCache_iface v c)) \<subseteq>\<^sub>m updated v (mem.sock_contents c)"
      unfolding * by (rule map_le_refl)
  qed (simp_all add: mem.sock_retrieve mem.sock_store)
qed

lemma sock_iface: "sock.iface = SocketCache_iface MemCache_iface"
  by (simp add: SocketCache_iface_def sock.iface_def)

lemma sock_inv_iff: "mem.sock_inv c \<longleftrightarrow> conn_open c \<and> MemCache_wf (agent_cache (peer c))"
  by (simp add: mem.sock_inv_def)

subsection \<open>Properties\<close>

text \<open>(C2) A client on an open connection to an agent over \<open>MemCache\<close>, with messages as JSON values, sees for
  retrieves and stores the cache it would have in its own process: after any of them, a retrieve of a key that
  is not empty returns the response last stored under the key, and what the agent already had for the key if
  there is none.  (A \<open>Prune\<close> through the socket does not reach the agent; see below.)\<close>

theorem socket_cache_refines_mem:
  assumes "conn_open c" and "MemCache_wf (agent_cache (peer c))"
    and "\<forall>v\<in>set (stores calls). wf_response (Response v)" and "no_prune calls" and "k \<noteq> []"
  shows "fst (SocketCache_Retrieve MemCache_iface k (run_cache (SocketCache_iface MemCache_iface) calls c)) =
    (case last_stored k (stores calls) of
       Some r \<Rightarrow> Inr r
     | None \<Rightarrow> fst (MemCache_Retrieve k (agent_cache (peer c))))"
proof -
  have inv: "mem.sock_inv c" using assms by (simp add: sock_inv_iff)
  have "fst (MemCache_Retrieve k (agent_cache (peer c))) =
      (case mem.sock_contents c k of Some r \<Rightarrow> Inr r | None \<Rightarrow> Inl CacheMiss)"
    using assms by (simp add: mem.retrieve_result mem.sock_contents_def)
  with sock.run_last_stored [OF inv assms(3,4), of k] sock.inv_run [OF inv assms(3)]
  show ?thesis
    by (simp add: sock_iface sock.retrieve_result split: option.split)
qed

definition sample_socket :: "MemCache socket" where
  "sample_socket = \<lparr>peer = sample_agent, peer_req = empty_agent_request, conn_open = True,
     sock_now = 0, sock_clock = (\<lambda>_. 0), stdin = [], stdout = []\<rparr>"

lemma sample_socket_ok:
  "conn_open sample_socket" "MemCache_wf (agent_cache (peer sample_socket))"
  "MemCache_contents (agent_cache (peer sample_socket)) = Map.empty"
  by (simp_all add: sample_socket_def sample_agent_def)

theorem socket_cache_refines_mem_witness:
  "fst (SocketCache_Retrieve MemCache_iface ''foo''
     (run_cache (SocketCache_iface MemCache_iface) [RetrieveOp ''bar'', StoreOp sample_cachable] sample_socket))
   = Inr (Response sample_cachable)"
  using socket_cache_refines_mem [of sample_socket "[RetrieveOp ''bar'', StoreOp sample_cachable]" "''foo''"]
    sample_socket_ok sample_cachable_ok
  by simp



text \<open>(C17) \<open>NewSocketCache\<close> returns: it connects with the first attempt that succeeds if that attempt
  falls into the waiting time, and gives up with the deadline error if no attempt does.\<close>

theorem NewSocketCache_outcome:
  "(int n * wait < timeout \<and> dial n = Some conn \<and> (\<forall>l<n. dial l = None) \<longrightarrow>
      NewSocketCache dial timeout = Inr conn)
   \<and> ((\<forall>l. int l * wait < timeout \<longrightarrow> dial l = None) \<longrightarrow>
      NewSocketCache dial timeout = Inl (Wrapf ''dialing socket'' [] ErrDeadlineExceeded))"
  (is "?connect \<and> ?giveup")
proof
  show ?connect
    using dial_loop_attempts [of 0 n timeout dial 0 conn] by (auto simp: NewSocketCache_def)
  show ?giveup
  proof
    assume none: "\<forall>l. int l * wait < timeout \<longrightarrow> dial l = None"
    have "dial_loop dial 0 0 timeout = None"
    proof (rule ccontr)
      assume "dial_loop dial 0 0 timeout \<noteq> None"
      then obtain c where "dial_loop dial 0 0 timeout = Some c" by auto
      from dial_loop_within [OF this] none show False by auto
    qed
    then show "NewSocketCache dial timeout = Inl (Wrapf ''dialing socket'' [] ErrDeadlineExceeded)"
      by (simp add: NewSocketCache_def)
  qed
qed

theorem NewSocketCache_outcome_witness:
  "NewSocketCache (\<lambda>i. if i = 3 then Some ''conn'' else None) (4 * Millisecond) = Inr ''conn''"
  using NewSocketCache_outcome [of 3 "4 * Millisecond" "\<lambda>i. if i = 3 then Some ''conn'' else None" "''conn''"]
  by (simp add: wait_def Millisecond_def)

text \<open>\<open>SocketCache.Prune\<close> does not reach the agent: the agent, its cache and the connection are
  as before, and the request goes to the standard output of the client.\<close>

theorem socket_prune_bypasses_agent:
  "peer (snd (SocketCache_Prune clk c)) = peer c
   \<and> stdout (snd (SocketCache_Prune clk c)) =
       stdout c @ [encode_AgentRequest \<lparr>Method = AgentRequestPrune, ReqPayload = None\<rparr>]"
  by (simp add: SocketCache_Prune_def Let_def split: list.split wire_item.split sum.split)

end
