(* ===== verification/Server.thy ===== *)
theory Server
  imports Agent
begin

text \<open>
  \<open>CachingAgent.Serve\<close> (\<open>src/agent/service.go\<close>) as a step relation.  The goroutines are the
  main loop, the accept loop, the idle and the prune goroutine, and one handler per
  connection; a state holds the agent they share and the place each of them has reached.
  A step is an action of one goroutine, of a client, or of time.  A pass of the connection loop is
  three steps (decoding the request and reading the idle timeout, resetting the timer with the value
  read, handling the request), the prune goroutine resets its timer with the interval it read in a
  step before, and the two parts of \<open>handleShutdown\<close> are separate steps; so a shutdown can come
  between the reading of a timeout and its use, and several shutdowns can overlap.  What is left
  atomic is a cache operation, which the mutex of the cache guards, and the tail of a shutdown, of
  which there is one: what other goroutines see of it half done are the intervals and timers it is
  about to overwrite.  A timer has the semantics of Go 1.23 and later (\<open>go.mod\<close> asks for 1.24): a reset
  discards a tick that nobody has received.
\<close>

datatype main_pc = Serving | Returned
datatype accept_pc = Accepting | Handing | AcceptDone
datatype idle_pc = IdleWaiting | IdleClosing | IdleDone
datatype prune_pc = PruneHead | PruneWaiting | PruneTiming duration | PruneDone
datatype conn_pc = ConnReading | ConnTiming duration | ConnHandling | ConnClosing | ConnDone

record conn =
  inbox :: "wire_item list"
  hung_up :: bool
  conn_req :: AgentRequest
  outbox :: "AgentResponse list"
  conn_at :: conn_pc

definition new_conn :: conn where
  "new_conn = \<lparr>inbox = [], hung_up = False, conn_req = empty_agent_request, outbox = [],
     conn_at = ConnReading\<rparr>"

record 's server =
  agent :: "'s CachingAgent"
  now :: time
  ctx_done :: bool
  backlog :: nat
  main_at :: main_pc
  accept_at :: accept_pc
  idle_at :: idle_pc
  prune_at :: prune_pc
  conns :: "conn list"

text \<open>The state in which \<open>Serve\<close> enters its loop.\<close>

definition serve_start :: "'s \<Rightarrow> duration \<Rightarrow> duration \<Rightarrow> time \<Rightarrow> 's server" where
  "serve_start c idle_d prune_d t =
     \<lparr>agent = \<lparr>agent_cache = c, lis_open = True, shutdownChan = ChanOpen, shutdownStarted = False,
        idleTimeout = idle_d, idleTimer = timer_reset t idle_d,
        pruneInterval = prune_d, pruneTimer = timer_reset t 0\<rparr>,
      now = t, ctx_done = False, backlog = 0, main_at = Serving, accept_at = Accepting,
      idle_at = IdleWaiting, prune_at = PruneHead, conns = []\<rparr>"

text \<open>\<open>Serve\<close> returns from its loop: the deferred \<open>lis.Close()\<close> runs, then \<open>wg.Wait()\<close> waits.\<close>

definition leave_loop :: "'s server \<Rightarrow> 's server" where
  "leave_loop s = s\<lparr>main_at := Returned, agent := (agent s)\<lparr>lis_open := False\<rparr>\<rparr>"

text \<open>All goroutines of the wait group are done.\<close>

definition wg_zero :: "'s server \<Rightarrow> bool" where
  "wg_zero s \<longleftrightarrow> accept_at s = AcceptDone \<and> idle_at s = IdleDone \<and> prune_at s = PruneDone \<and>
     list_all (\<lambda>c. conn_at c = ConnDone) (conns s)"

text \<open>The idle goroutine after it received the tick.\<close>

definition idle_tick :: "'s server \<Rightarrow> 's server" where
  "idle_tick s =
     (let a = (agent s)\<lparr>idleTimer := None\<rparr>
      in if 0 \<le> idleTimeout a \<and> \<not> shutdownStarted a then
           (case shutdown_cas a of
              None \<Rightarrow> s\<lparr>agent := a, idle_at := IdleDone\<rparr>
            | Some a' \<Rightarrow> s\<lparr>agent := a', idle_at := IdleClosing\<rparr>)
         else s\<lparr>agent := a, idle_at := IdleDone\<rparr>)"

text \<open>The prune goroutine after it received the tick: it prunes and reads the interval, and then resets its
  timer.\<close>

definition prune_tick :: "'s cache_iface \<Rightarrow> clock \<Rightarrow> 's server \<Rightarrow> 's server" where
  "prune_tick ops clk s =
     (let a = (agent s)\<lparr>pruneTimer := None\<rparr>;
          a' = (if 0 \<le> pruneInterval a \<and> \<not> shutdownStarted a
                then a\<lparr>agent_cache := snd (Prune ops clk (agent_cache a))\<rparr> else a)
      in s\<lparr>agent := a', prune_at := PruneTiming (pruneInterval a')\<rparr>)"

definition prune_rearm :: "duration \<Rightarrow> 's server \<Rightarrow> 's server" where
  "prune_rearm d s = s\<lparr>agent := (agent s)\<lparr>pruneTimer := timer_reset (now s) d\<rparr>, prune_at := PruneHead\<rparr>"

text \<open>A pass of the connection loop: a message is decoded into the request of the connection, and the idle
  timeout is read; the timer is reset with it; the request is handled.  A request that wins the swap
  leaves the handler inside \<open>handleShutdown\<close>.\<close>

definition decode_conn :: "nat \<Rightarrow> 's server \<Rightarrow> 's server" where
  "decode_conn i s =
     (let c = conns s ! i; c0 = c\<lparr>inbox := tl (inbox c)\<rparr>;
          refused = c0\<lparr>outbox := outbox c @ [invalid_json_response], conn_at := ConnDone\<rparr>
      in s\<lparr>conns := (conns s)[i :=
           (case hd (inbox c) of
              Malformed \<Rightarrow> refused
            | Value v \<Rightarrow>
                (case decode_AgentRequest v (conn_req c) of
                   Inl _ \<Rightarrow> refused
                 | Inr req' \<Rightarrow> c0\<lparr>conn_req := req', conn_at := ConnTiming (idleTimeout (agent s))\<rparr>))]\<rparr>)"

definition rearm_conn :: "nat \<Rightarrow> duration \<Rightarrow> 's server \<Rightarrow> 's server" where
  "rearm_conn i d s =
     s\<lparr>agent := (agent s)\<lparr>idleTimer := timer_reset (now s) d\<rparr>,
       conns := (conns s)[i := (conns s ! i)\<lparr>conn_at := ConnHandling\<rparr>]\<rparr>"

definition handle_conn :: "'s cache_iface \<Rightarrow> clock \<Rightarrow> nat \<Rightarrow> 's server \<Rightarrow> 's server" where
  "handle_conn ops clk i s =
     (let c = conns s ! i
      in case (if Method (conn_req c) = AgentRequestShutdown then shutdown_cas (agent s) else None) of
           Some a' \<Rightarrow> s\<lparr>agent := a', conns := (conns s)[i := c\<lparr>conn_at := ConnClosing\<rparr>]\<rparr>
         | None \<Rightarrow>
             (let (r, a') = dispatch ops (now s) clk (conn_req c) (agent s)
              in s\<lparr>agent := a', conns := (conns s)[i := c\<lparr>outbox := outbox c @ [respond r], conn_at := ConnReading\<rparr>]\<rparr>))"

definition finish_conn :: "nat \<Rightarrow> 's server \<Rightarrow> 's server" where
  "finish_conn i s =
     (let c = conns s ! i
      in s\<lparr>agent := shutdown_finish (now s) (agent s),
           conns := (conns s)[i := c\<lparr>outbox := outbox c @ [shutdown_response], conn_at := ConnReading\<rparr>]\<rparr>)"

inductive server_step :: "'s cache_iface \<Rightarrow> 's server \<Rightarrow> 's server \<Rightarrow> bool" for ops where
  tick: "0 \<le> d \<Longrightarrow> server_step ops s (s\<lparr>now := now s + d\<rparr>)"
| cancel: "server_step ops s (s\<lparr>ctx_done := True\<rparr>)"
| dial: "lis_open (agent s) \<Longrightarrow> server_step ops s (s\<lparr>backlog := Suc (backlog s)\<rparr>)"
| send: "i < length (conns s) \<Longrightarrow> \<not> hung_up (conns s ! i) \<Longrightarrow>
    server_step ops s (s\<lparr>conns := (conns s)[i := (conns s ! i)\<lparr>inbox := inbox (conns s ! i) @ [x]\<rparr>]\<rparr>)"
| hangup: "i < length (conns s) \<Longrightarrow>
    server_step ops s (s\<lparr>conns := (conns s)[i := (conns s ! i)\<lparr>hung_up := True\<rparr>]\<rparr>)"
| accept: "accept_at s = Accepting \<Longrightarrow> lis_open (agent s) \<Longrightarrow> 0 < backlog s \<Longrightarrow>
    server_step ops s (s\<lparr>accept_at := Handing, backlog := backlog s - 1\<rparr>)"
| accept_fails: "accept_at s = Accepting \<Longrightarrow> \<not> lis_open (agent s) \<Longrightarrow>
    server_step ops s (s\<lparr>accept_at := AcceptDone\<rparr>)"
| accept_error: "accept_at s = Accepting \<Longrightarrow> lis_open (agent s) \<Longrightarrow>
    server_step ops s (s\<lparr>accept_at := AcceptDone\<rparr>)"
| select_conn: "main_at s = Serving \<Longrightarrow> accept_at s = Handing \<Longrightarrow>
    server_step ops s (s\<lparr>accept_at := Accepting, conns := conns s @ [new_conn]\<rparr>)"
| select_shutdown: "main_at s = Serving \<Longrightarrow> shutdownChan (agent s) = ChanClosed \<Longrightarrow>
    server_step ops s (leave_loop s)"
| select_ctx: "main_at s = Serving \<Longrightarrow> ctx_done s \<Longrightarrow> server_step ops s (leave_loop s)"
| idle: "idle_at s = IdleWaiting \<Longrightarrow> timer_fired (now s) (idleTimer (agent s)) \<Longrightarrow>
    server_step ops s (idle_tick s)"
| idle_finish: "idle_at s = IdleClosing \<Longrightarrow>
    server_step ops s (s\<lparr>agent := shutdown_finish (now s) (agent s), idle_at := IdleDone\<rparr>)"
| prune_loop: "prune_at s = PruneHead \<Longrightarrow> \<not> shutdownStarted (agent s) \<Longrightarrow>
    server_step ops s (s\<lparr>prune_at := PruneWaiting\<rparr>)"
| prune_exit: "prune_at s = PruneHead \<Longrightarrow> shutdownStarted (agent s) \<Longrightarrow>
    server_step ops s (s\<lparr>prune_at := PruneDone\<rparr>)"
| prune: "prune_at s = PruneWaiting \<Longrightarrow> timer_fired (now s) (pruneTimer (agent s)) \<Longrightarrow>
    server_step ops s (prune_tick ops clk s)"
| prune_reset: "prune_at s = PruneTiming d \<Longrightarrow> server_step ops s (prune_rearm d s)"
| serve_decode: "i < length (conns s) \<Longrightarrow> conn_at (conns s ! i) = ConnReading \<Longrightarrow> inbox (conns s ! i) \<noteq> [] \<Longrightarrow>
    server_step ops s (decode_conn i s)"
| serve_reset: "i < length (conns s) \<Longrightarrow> conn_at (conns s ! i) = ConnTiming d \<Longrightarrow>
    server_step ops s (rearm_conn i d s)"
| serve: "i < length (conns s) \<Longrightarrow> conn_at (conns s ! i) = ConnHandling \<Longrightarrow>
    server_step ops s (handle_conn ops clk i s)"
| serve_finish: "i < length (conns s) \<Longrightarrow> conn_at (conns s ! i) = ConnClosing \<Longrightarrow>
    server_step ops s (finish_conn i s)"
| serve_eof: "i < length (conns s) \<Longrightarrow> conn_at (conns s ! i) = ConnReading \<Longrightarrow>
    inbox (conns s ! i) = [] \<Longrightarrow> hung_up (conns s ! i) \<Longrightarrow>
    server_step ops s (s\<lparr>conns := (conns s)[i := (conns s ! i)\<lparr>conn_at := ConnDone\<rparr>]\<rparr>)"

inductive reachable :: "'s cache_iface \<Rightarrow> 's server \<Rightarrow> 's server \<Rightarrow> bool" for ops s0 where
  start: "reachable ops s0 s0"
| step: "reachable ops s0 s \<Longrightarrow> server_step ops s s' \<Longrightarrow> reachable ops s0 s'"

inductive_cases server_stepE: "server_step ops s s'"

text \<open>The three steps of a pass, and the tail of a shutdown when the pass starts one, do what \<open>serve_item\<close> does
  in one.\<close>

lemma pass_serves_item:
  assumes "i < length (conns s)" and "c = conns s ! i" and "inbox c = x # xs"
    and "serve_item ops \<lparr>item = x, arr_now = now s, arr_clock = clk\<rparr> (conn_req c) (agent s) = (resp, Some req', a')"
    and "s1 = handle_conn ops clk i (rearm_conn i (idleTimeout (agent s)) (decode_conn i s))"
    and "s2 = (if conn_at (conns s1 ! i) = ConnClosing then finish_conn i s1 else s1)"
  shows "s2 = s\<lparr>agent := a', conns := (conns s)[i := c\<lparr>inbox := xs, conn_req := req', outbox := outbox c @ [resp],
    conn_at := ConnReading\<rparr>]\<rparr>"
proof -
  obtain v where v: "x = Value v" "decode_AgentRequest v (conn_req c) = Inr req'"
    using assms(4) by (auto simp: serve_item_def Let_def case_prod_beta split: wire_item.splits sum.splits)
  then have pass: "(resp, a') = map_prod respond id (dispatch ops (now s) clk req' (reset_idle (now s) (agent s)))"
    using assms(4) by (auto simp: serve_item_def Let_def case_prod_beta map_prod_def)
  have "s1 = handle_conn ops clk i (s\<lparr>agent := reset_idle (now s) (agent s),
      conns := (conns s)[i := c\<lparr>inbox := xs, conn_req := req', conn_at := ConnHandling\<rparr>]\<rparr>)"
    using assms(1-3,5) v by (simp add: decode_conn_def rearm_conn_def reset_idle_def Let_def)
  note s1 = this and fields = handle_conn_def finish_conn_def shutdown_cas_def reset_idle_def Let_def
  show ?thesis
  proof (cases "Method req' = AgentRequestShutdown \<and> \<not> shutdownStarted (agent s)")
    case True
    then have "(resp, a') = (shutdown_response, shutdown_finish (now s) ((reset_idle (now s) (agent s))\<lparr>shutdownStarted := True\<rparr>))"
      using pass by (simp add: dispatch_def handleShutdown_def respond_def shutdown_cas_def reset_idle_def api_consts)
    with True assms(1,2,6) s1 show ?thesis by (simp add: fields)
  next
    case False
    then have "s1 = s\<lparr>agent := a', conns := (conns s)[i := c\<lparr>inbox := xs, conn_req := req', outbox := outbox c @ [resp],
        conn_at := ConnReading\<rparr>]\<rparr>"
      using assms(1,2) s1 pass by (auto simp: fields case_prod_beta map_prod_def)
    with assms(1,6) show ?thesis by simp
  qed
qed

subsection \<open>The shutdown channel is closed once\<close>

definition closing :: "conn list \<Rightarrow> nat" where
  "closing cs = length (filter (\<lambda>c. conn_at c = ConnClosing) cs)"

definition closers :: "'s server \<Rightarrow> nat" where
  "closers s = (if idle_at s = IdleClosing then 1 else 0) + closing (conns s)"

definition shutdown_inv :: "'s server \<Rightarrow> bool" where
  "shutdown_inv s \<longleftrightarrow> shutdownChan (agent s) \<noteq> ChanPanicked \<and>
     closers s + (if shutdownChan (agent s) = ChanClosed then 1 else 0) =
       (if shutdownStarted (agent s) then 1 else 0)"

lemma closing_append [simp]: "closing (cs @ [new_conn]) = closing cs"
  by (simp add: closing_def new_conn_def)

lemma closing_update:
  assumes "i < length cs"
  shows "closing (cs[i := c]) + (if conn_at (cs ! i) = ConnClosing then 1 else 0) =
     closing cs + (if conn_at c = ConnClosing then 1 else 0)"
proof -
  obtain xs d ys where cs: "cs = xs @ d # ys" and i: "i = length xs"
    using id_take_nth_drop [OF assms] assms by (metis length_take min.absorb4)
  show ?thesis unfolding cs i closing_def by simp
qed

lemma closing_update_same [simp]:
  "i < length cs \<Longrightarrow> (conn_at c = ConnClosing) = (conn_at (cs ! i) = ConnClosing) \<Longrightarrow>
     closing (cs[i := c]) = closing cs"
  using closing_update [of i cs c] by (auto split: if_splits)

lemma dispatch_shutdown_fields:
  assumes "Method req = AgentRequestShutdown \<longrightarrow> shutdownStarted a"
  shows "shutdownStarted (snd (dispatch ops t clk req a)) = shutdownStarted a"
    and "shutdownChan (snd (dispatch ops t clk req a)) = shutdownChan a"
  using assms
  by (auto simp: dispatch_def handleRetrieve_def handleStore_def handlePrune_def handleShutdown_def
      shutdown_cas_def Let_def split: sum.split prod.split)

lemma handle_conn_cases:
  assumes "c = conns s ! i"
  obtains
    (win) "\<not> shutdownStarted (agent s)"
      "handle_conn ops clk i s = s\<lparr>agent := (agent s)\<lparr>shutdownStarted := True\<rparr>, conns := (conns s)[i := c\<lparr>conn_at := ConnClosing\<rparr>]\<rparr>"
  | (handled) r where "Method (conn_req c) = AgentRequestShutdown \<longrightarrow> shutdownStarted (agent s)"
      "handle_conn ops clk i s = s\<lparr>agent := snd (dispatch ops (now s) clk (conn_req c) (agent s)),
         conns := (conns s)[i := c\<lparr>outbox := outbox c @ [r], conn_at := ConnReading\<rparr>]\<rparr>"
proof (cases "Method (conn_req c) = AgentRequestShutdown \<and> \<not> shutdownStarted (agent s)")
  case True
  with assms show thesis by (intro win) (simp_all add: handle_conn_def shutdown_cas_def)
next
  case False
  with assms show thesis
    by (intro handled) (auto simp: handle_conn_def shutdown_cas_def case_prod_beta Let_def)
qed

lemma shutdown_inv_handle:
  assumes inv: "shutdown_inv s" and i: "i < length (conns s)" and at: "conn_at (conns s ! i) = ConnHandling"
  shows "shutdown_inv (handle_conn ops clk i s)"
proof (rule handle_conn_cases [where s = s and i = i and ops = ops and clk = clk, OF refl])
  assume "\<not> shutdownStarted (agent s)"
    and eq: "handle_conn ops clk i s = s\<lparr>agent := (agent s)\<lparr>shutdownStarted := True\<rparr>,
      conns := (conns s)[i := (conns s ! i)\<lparr>conn_at := ConnClosing\<rparr>]\<rparr>"
  moreover have "closing (conns (handle_conn ops clk i s)) = Suc (closing (conns s))"
    using closing_update [OF i, of "(conns s ! i)\<lparr>conn_at := ConnClosing\<rparr>"] at by (simp add: eq)
  ultimately show ?thesis using inv by (auto simp: shutdown_inv_def closers_def split: if_splits)
next
  fix r
  assume r: "Method (conn_req (conns s ! i)) = AgentRequestShutdown \<longrightarrow> shutdownStarted (agent s)"
    and eq: "handle_conn ops clk i s = s\<lparr>agent := snd (dispatch ops (now s) clk (conn_req (conns s ! i)) (agent s)),
      conns := (conns s)[i := (conns s ! i)\<lparr>outbox := outbox (conns s ! i) @ [r], conn_at := ConnReading\<rparr>]\<rparr>"
  with at i have "closing (conns (handle_conn ops clk i s)) = closing (conns s)" by simp
  with inv dispatch_shutdown_fields [OF r] show ?thesis
    by (simp add: eq shutdown_inv_def closers_def)
qed

lemma decode_conn_closing:
  assumes "i < length (conns s)" and "conn_at (conns s ! i) = ConnReading"
  shows "closing (conns (decode_conn i s)) = closing (conns s)"
  using assms by (simp add: decode_conn_def Let_def split: wire_item.split sum.split)

lemma decode_conn_at:
  obtains c' where "conns (decode_conn i s) = (conns s)[i := c']"
    and "conn_at c' = ConnDone \<or> conn_at c' = ConnTiming (idleTimeout (agent s))"
  by (cases "hd (inbox (conns s ! i))"; cases "decode_AgentRequest (case hd (inbox (conns s ! i)) of Value v \<Rightarrow> v) (conn_req (conns s ! i))")
    (fastforce simp: decode_conn_def Let_def)+

lemma decode_conn_fields [simp]:
  "agent (decode_conn i s) = agent s" "idle_at (decode_conn i s) = idle_at s" "prune_at (decode_conn i s) = prune_at s"
  "main_at (decode_conn i s) = main_at s" "accept_at (decode_conn i s) = accept_at s" "now (decode_conn i s) = now s"
  "length (conns (decode_conn i s)) = length (conns s)"
  by (simp_all add: decode_conn_def Let_def)

lemma shutdown_inv_finish:
  assumes inv: "shutdown_inv s" and i: "i < length (conns s)" and at: "conn_at (conns s ! i) = ConnClosing"
  shows "shutdown_inv (finish_conn i s)"
proof -
  let ?c = "(conns s ! i)\<lparr>outbox := outbox (conns s ! i) @ [shutdown_response], conn_at := ConnReading\<rparr>"
  have "Suc (closing ((conns s)[i := ?c])) = closing (conns s)"
    using closing_update [OF i, of ?c] at by simp
  with inv show ?thesis
    by (cases "shutdownChan (agent s)")
      (auto simp: shutdown_inv_def closers_def finish_conn_def shutdown_finish_def Let_def split: if_splits)
qed

lemma shutdown_inv_idle: "shutdown_inv s \<Longrightarrow> idle_at s = IdleWaiting \<Longrightarrow> shutdown_inv (idle_tick s)"
  by (auto simp: shutdown_inv_def closers_def idle_tick_def shutdown_cas_def Let_def split: if_splits)

lemma shutdown_inv_idle_finish:
  "shutdown_inv s \<Longrightarrow> idle_at s = IdleClosing \<Longrightarrow>
     shutdown_inv (s\<lparr>agent := shutdown_finish (now s) (agent s), idle_at := IdleDone\<rparr>)"
  by (cases "shutdownChan (agent s)")
    (auto simp: shutdown_inv_def closers_def shutdown_finish_def split: if_splits)

lemma shutdown_inv_prune: "shutdown_inv s \<Longrightarrow> shutdown_inv (prune_tick ops clk s)"
  by (auto simp: shutdown_inv_def closers_def prune_tick_def Let_def split: if_splits)

lemma shutdown_inv_step: "server_step ops s s' \<Longrightarrow> shutdown_inv s \<Longrightarrow> shutdown_inv s'"
proof (induction rule: server_step.induct)
  case (idle s)
  then show ?case by (intro shutdown_inv_idle)
next
  case (idle_finish s)
  then show ?case by (intro shutdown_inv_idle_finish)
next
  case (prune s clk)
  then show ?case by (intro shutdown_inv_prune)
next
  case (serve_decode i s)
  then show ?case using decode_conn_closing [of i s] by (simp add: shutdown_inv_def closers_def)
next
  case (serve i s clk)
  then show ?case by (intro shutdown_inv_handle)
next
  case (serve_finish i s)
  then show ?case by (intro shutdown_inv_finish)
qed (auto simp: shutdown_inv_def closers_def leave_loop_def rearm_conn_def prune_rearm_def)

lemma shutdown_inv_start: "shutdown_inv (serve_start c d p t)"
  by (simp add: shutdown_inv_def closers_def closing_def serve_start_def)

lemma reachable_shutdown_inv: "reachable ops s0 s \<Longrightarrow> shutdown_inv s0 \<Longrightarrow> shutdown_inv s"
  by (induction rule: reachable.induct) (auto intro: shutdown_inv_step)

subsection \<open>The cache invariant under all interleavings\<close>

context api_cache
begin

lemma dispatch_inv: "inv (agent_cache a) \<Longrightarrow> inv (agent_cache (snd (dispatch iface t clk req a)))"
  using dispatch_run inv_run request_ops_wf by simp

lemma server_step_inv:
  "server_step iface s s' \<Longrightarrow> inv (agent_cache (agent s)) \<Longrightarrow> inv (agent_cache (agent s'))"
proof (induction rule: server_step.induct)
  case (serve i s clk)
  show ?case
    by (rule handle_conn_cases [where ops = iface and clk = clk and s = s and i = i, OF refl])
      (use serve.prems in \<open>simp_all add: dispatch_inv\<close>)
qed (auto simp: leave_loop_def idle_tick_def shutdown_cas_def shutdown_finish_def prune_tick_def prune_rearm_def rearm_conn_def
    finish_conn_def Let_def inv_prune)

lemma reachable_inv:
  "reachable iface s0 s \<Longrightarrow> inv (agent_cache (agent s0)) \<Longrightarrow> inv (agent_cache (agent s))"
  by (induction rule: reachable.induct) (auto intro: server_step_inv)

end

subsection \<open>A shutdown stops the timer goroutines\<close>

text \<open>
  Once the shutdown channel is closed and no handler holds an older idle timeout, both intervals are
  negative and a goroutine that still waits for its timer can receive the tick.
\<close>

definition no_stale_reset :: "conn list \<Rightarrow> bool" where
  "no_stale_reset cs \<longleftrightarrow> (\<forall>c\<in>set cs. \<forall>d. conn_at c = ConnTiming d \<longrightarrow> d = - Microsecond)"

definition timers_fired :: "'s server \<Rightarrow> bool" where
  "timers_fired s \<longleftrightarrow>
     shutdownChan (agent s) = ChanClosed \<and> idleTimeout (agent s) = - Microsecond \<and> pruneInterval (agent s) = - Microsecond \<and>
     no_stale_reset (conns s) \<and>
     (idle_at s = IdleWaiting \<longrightarrow> timer_fired (now s) (idleTimer (agent s))) \<and>
     (prune_at s = PruneWaiting \<longrightarrow> timer_fired (now s) (pruneTimer (agent s)))"

definition timing :: "conn \<Rightarrow> bool" where
  "timing c \<longleftrightarrow> (case conn_at c of ConnTiming _ \<Rightarrow> True | _ \<Rightarrow> False)"

lemma timer_fired_mono: "timer_fired t tm \<Longrightarrow> 0 \<le> d \<Longrightarrow> timer_fired (t + d) tm"
  by (cases tm) auto

lemma timer_fired_reset [simp]: "timer_fired t (timer_reset t (- Microsecond))"
  by (simp add: timer_reset_def Microsecond_def)

lemma dispatch_timer_fields:
  assumes "Method req = AgentRequestShutdown \<longrightarrow> shutdownStarted a"
  shows "idleTimeout (snd (dispatch ops t clk req a)) = idleTimeout a"
    and "idleTimer (snd (dispatch ops t clk req a)) = idleTimer a"
    and "pruneInterval (snd (dispatch ops t clk req a)) = pruneInterval a"
    and "pruneTimer (snd (dispatch ops t clk req a)) = pruneTimer a"
    and "lis_open (snd (dispatch ops t clk req a)) = lis_open a"
  using assms
  by (auto simp: dispatch_def handleRetrieve_def handleStore_def handlePrune_def handleShutdown_def
      shutdown_cas_def Let_def split: sum.split prod.split)

lemma no_stale_reset_update:
  "no_stale_reset cs \<Longrightarrow> (\<And>d. conn_at c = ConnTiming d \<Longrightarrow> d = - Microsecond) \<Longrightarrow> no_stale_reset (cs[i := c])"
  using set_update_subset_insert [of cs i c] by (auto simp: no_stale_reset_def)

lemma no_stale_reset_at: "no_stale_reset cs \<Longrightarrow> i < length cs \<Longrightarrow> conn_at (cs ! i) = ConnTiming d \<Longrightarrow> d = - Microsecond"
  by (auto simp: no_stale_reset_def)

lemma no_stale_reset_new: "no_stale_reset cs \<Longrightarrow> no_stale_reset (cs @ [new_conn])"
  by (auto simp: no_stale_reset_def new_conn_def)

lemma no_stale_reset_quiet: "\<not> list_ex timing cs \<Longrightarrow> no_stale_reset cs"
  by (auto simp: no_stale_reset_def timing_def list_ex_iff)

text \<open>With the channel closed the shutdown has started and nobody is in its tail.\<close>

lemma closed_facts:
  assumes "shutdown_inv s" and "shutdownChan (agent s) = ChanClosed"
  shows "shutdownStarted (agent s)" and "idle_at s \<noteq> IdleClosing" and "c \<in> set (conns s) \<Longrightarrow> conn_at c \<noteq> ConnClosing"
  using assms by (auto simp: shutdown_inv_def closers_def closing_def filter_empty_conv split: if_splits)

lemma timers_fired_handle:
  assumes inv: "timers_fired s" "shutdown_inv s"
  shows "timers_fired (handle_conn ops clk i s)"
proof (rule handle_conn_cases [where s = s and i = i and ops = ops and clk = clk, OF refl])
  assume "\<not> shutdownStarted (agent s)"
  with inv closed_facts(1) [of s] show ?thesis by (simp add: timers_fired_def)
next
  fix r
  assume r: "Method (conn_req (conns s ! i)) = AgentRequestShutdown \<longrightarrow> shutdownStarted (agent s)"
    and eq: "handle_conn ops clk i s = s\<lparr>agent := snd (dispatch ops (now s) clk (conn_req (conns s ! i)) (agent s)),
      conns := (conns s)[i := (conns s ! i)\<lparr>outbox := outbox (conns s ! i) @ [r], conn_at := ConnReading\<rparr>]\<rparr>"
  show ?thesis
    using inv dispatch_timer_fields [OF r] dispatch_shutdown_fields [OF r]
    unfolding eq timers_fired_def by (auto intro!: no_stale_reset_update)
qed

lemma timers_fired_decode:
  assumes "timers_fired s" and "conn_at (conns s ! i) = ConnReading"
  shows "timers_fired (decode_conn i s)"
proof -
  obtain c' where c': "conns (decode_conn i s) = (conns s)[i := c']"
    and at: "conn_at c' = ConnDone \<or> conn_at c' = ConnTiming (idleTimeout (agent s))"
    by (rule decode_conn_at)
  have "no_stale_reset (conns (decode_conn i s))"
    unfolding c' by (rule no_stale_reset_update) (use assms at in \<open>auto simp: timers_fired_def\<close>)
  with assms(1) show ?thesis by (simp add: timers_fired_def)
qed

lemma timers_fired_step: "server_step ops s s' \<Longrightarrow> timers_fired s \<Longrightarrow> shutdown_inv s \<Longrightarrow> timers_fired s'"
proof (induction rule: server_step.induct)
  case (tick d s)
  then show ?case by (auto simp: timers_fired_def intro: timer_fired_mono)
next
  case (send i s x)
  then show ?case by (auto simp: timers_fired_def dest: no_stale_reset_at intro!: no_stale_reset_update)
next
  case (hangup i s)
  then show ?case by (auto simp: timers_fired_def dest: no_stale_reset_at intro!: no_stale_reset_update)
next
  case (select_conn s)
  then show ?case by (auto simp: timers_fired_def no_stale_reset_new)
next
  case (idle s)
  then show ?case by (simp add: timers_fired_def idle_tick_def Let_def Microsecond_def)
next
  case (idle_finish s)
  then show ?case using closed_facts(2) [of s] by (simp add: timers_fired_def)
next
  case (prune_loop s)
  then show ?case using closed_facts(1) [of s] by (simp add: timers_fired_def)
next
  case (serve_decode i s)
  then show ?case by (intro timers_fired_decode)
next
  case (serve_reset i s d)
  then have "d = - Microsecond" by (auto simp: timers_fired_def dest: no_stale_reset_at)
  with serve_reset show ?case by (auto simp: timers_fired_def rearm_conn_def intro!: no_stale_reset_update)
next
  case (serve i s clk)
  then show ?case by (intro timers_fired_handle)
next
  case (serve_finish i s)
  then show ?case using closed_facts(3) [of s "conns s ! i"] by (simp add: timers_fired_def)
next
  case (serve_eof i s)
  then show ?case by (auto simp: timers_fired_def intro!: no_stale_reset_update)
qed (auto simp: timers_fired_def leave_loop_def prune_tick_def prune_rearm_def Let_def)

text \<open>The step that closes the channel sets both timers.\<close>

lemma timers_fired_closing:
  assumes "server_step ops s s'" and "shutdownChan (agent s) \<noteq> ChanClosed" and "shutdownChan (agent s') = ChanClosed"
    and "\<not> list_ex timing (conns s)"
  shows "timers_fired s'"
  using assms
proof (induction rule: server_step.induct)
  case (idle_finish s)
  then show ?case by (simp add: timers_fired_def shutdown_finish_def no_stale_reset_quiet)
next
  case (serve_finish i s)
  then show ?case
    by (auto simp: timers_fired_def finish_conn_def shutdown_finish_def Let_def no_stale_reset_quiet intro!: no_stale_reset_update)
next
  case (serve i s clk)
  show ?case
    by (rule handle_conn_cases [where ops = ops and clk = clk and s = s and i = i, OF refl])
      (use serve.prems in \<open>auto simp: dispatch_shutdown_fields split: if_splits\<close>)
qed (auto simp: leave_loop_def idle_tick_def shutdown_cas_def prune_tick_def prune_rearm_def rearm_conn_def Let_def split: if_splits)

text \<open>After the main loop has left, the listener is closed, and nobody accepts or handles anything new.\<close>

definition listener_inv :: "'s server \<Rightarrow> bool" where
  "listener_inv s \<longleftrightarrow> (main_at s = Returned \<longrightarrow> \<not> lis_open (agent s))"

lemma handle_conn_fields:
  "main_at (handle_conn ops clk i s) = main_at s" "accept_at (handle_conn ops clk i s) = accept_at s"
  "idle_at (handle_conn ops clk i s) = idle_at s" "prune_at (handle_conn ops clk i s) = prune_at s"
  "lis_open (agent (handle_conn ops clk i s)) = lis_open (agent s)" "now (handle_conn ops clk i s) = now s"
  by (rule handle_conn_cases [where ops = ops and clk = clk and s = s and i = i, OF refl];
      simp add: dispatch_timer_fields)+

lemma listener_inv_step: "server_step ops s s' \<Longrightarrow> listener_inv s \<Longrightarrow> listener_inv s'"
  by (induction rule: server_step.induct)
    (auto simp: listener_inv_def leave_loop_def idle_tick_def prune_tick_def prune_rearm_def rearm_conn_def finish_conn_def
      shutdown_finish_def shutdown_cas_def handle_conn_fields Let_def split: if_splits)

lemma reachable_invs: "reachable ops s0 s \<Longrightarrow> shutdown_inv s0 \<and> listener_inv s0 \<Longrightarrow> shutdown_inv s \<and> listener_inv s"
  by (induction rule: reachable.induct) (auto intro: shutdown_inv_step listener_inv_step)

lemma listener_inv_start: "listener_inv (serve_start c d p t)"
  by (simp add: listener_inv_def serve_start_def)

lemma reachable_timers_fired: "reachable ops s0 s \<Longrightarrow> shutdown_inv s0 \<Longrightarrow> timers_fired s0 \<Longrightarrow> timers_fired s \<and> shutdown_inv s"
  by (induction rule: reachable.induct) (auto intro: shutdown_inv_step timers_fired_step)

lemma reachable_trans: "reachable ops s1 s2 \<Longrightarrow> reachable ops s0 s1 \<Longrightarrow> reachable ops s0 s2"
  by (induction rule: reachable.induct) (auto intro: reachable.step)

text \<open>What is left to do once the main loop has returned: a bound on the steps of the three goroutines.\<close>

definition unfinished :: "'s server \<Rightarrow> nat" where
  "unfinished s =
     (if accept_at s = AcceptDone then 0 else 1) + (if idle_at s = IdleDone then 0 else 1) +
     (case prune_at s of PruneDone \<Rightarrow> 0 | PruneHead \<Rightarrow> 1 | PruneTiming _ \<Rightarrow> 2 | PruneWaiting \<Rightarrow> 3)"

definition winding :: "'s server \<Rightarrow> bool" where
  "winding s \<longleftrightarrow> main_at s = Returned \<and> accept_at s \<noteq> Handing \<and> list_all (\<lambda>c. conn_at c = ConnDone) (conns s) \<and>
     listener_inv s \<and> shutdown_inv s \<and> timers_fired s"

lemma winding_step:
  assumes "server_step ops s s'" and "winding s"
  shows "winding s' \<and> unfinished s' \<le> unfinished s"
proof -
  have inv: "listener_inv s'" "shutdown_inv s'" "timers_fired s'"
    using assms by (auto simp: winding_def intro: listener_inv_step shutdown_inv_step timers_fired_step)
  note closed = closed_facts [of s]
  have quiet: "conn_at (conns s ! i) = ConnDone" if "i < length (conns s)" for i
    using assms(2) that by (simp add: winding_def list_all_length)
  have "main_at s' = Returned \<and> accept_at s' \<noteq> Handing \<and> list_all (\<lambda>c. conn_at c = ConnDone) (conns s')
      \<and> unfinished s' \<le> unfinished s"
    using assms quiet closed
    by (induction rule: server_step.induct)
      (auto simp: winding_def timers_fired_def listener_inv_def unfinished_def leave_loop_def idle_tick_def prune_tick_def
        prune_rearm_def Microsecond_def list_all_length nth_list_update Let_def split: prune_pc.split if_splits)
  with inv show ?thesis by (simp add: winding_def)
qed

lemma winding_reachable: "reachable ops s s' \<Longrightarrow> winding s \<Longrightarrow> winding s' \<and> unfinished s' \<le> unfinished s"
  by (induction rule: reachable.induct) (use winding_step in \<open>fastforce+\<close>)

lemma unfinished_bound: "unfinished s \<le> 5"
  by (simp add: unfinished_def split: prune_pc.split)

text \<open>As long as something is left, a goroutine has a step that brings the end nearer and needs no time.\<close>

lemma winding_progress:
  assumes "winding s" and "\<not> wg_zero s"
  shows "\<exists>s'. server_step ops s s' \<and> now s' = now s \<and> unfinished s' < unfinished s"
proof -
  have closed: "shutdownStarted (agent s)" "idle_at s \<noteq> IdleClosing" "\<not> lis_open (agent s)" "idleTimeout (agent s) < 0"
    and fired: "idle_at s = IdleWaiting \<Longrightarrow> timer_fired (now s) (idleTimer (agent s))"
      "prune_at s = PruneWaiting \<Longrightarrow> timer_fired (now s) (pruneTimer (agent s))"
    and at: "accept_at s \<noteq> Handing"
    using assms(1) closed_facts [of s] by (auto simp: winding_def timers_fired_def listener_inv_def Microsecond_def)
  consider "accept_at s = Accepting" | "idle_at s = IdleWaiting" | "prune_at s = PruneHead" | "prune_at s = PruneWaiting"
    | d where "prune_at s = PruneTiming d"
    using assms at closed(2) by (cases "accept_at s"; cases "idle_at s"; cases "prune_at s") (auto simp: wg_zero_def winding_def)
  then show ?thesis
  proof cases
    case 1
    with server_step.accept_fails [OF 1 closed(3)] show ?thesis
      by (intro exI [of _ "s\<lparr>accept_at := AcceptDone\<rparr>"]) (simp add: unfinished_def)
  next
    case 2
    with server_step.idle [OF 2 fired(1) [OF 2]] closed(4) show ?thesis
      by (intro exI [of _ "idle_tick s"]) (simp add: unfinished_def idle_tick_def Let_def)
  next
    case 3
    with server_step.prune_exit [OF 3 closed(1)] show ?thesis
      by (intro exI [of _ "s\<lparr>prune_at := PruneDone\<rparr>"]) (simp add: unfinished_def)
  next
    case 4
    with server_step.prune [OF 4 fired(2) [OF 4]] show ?thesis
      by (intro exI [of _ "prune_tick ops (\<lambda>_. now s) s"]) (simp add: unfinished_def prune_tick_def Let_def)
  next
    case (5 d)
    with server_step.prune_reset [OF 5] show ?thesis
      by (intro exI [of _ "prune_rearm d s"]) (simp add: unfinished_def prune_rearm_def)
  qed
qed

lemma blocked_acceptor_step:
  "server_step ops s s' \<Longrightarrow> main_at s = Returned \<and> accept_at s = Handing \<Longrightarrow>
     main_at s' = Returned \<and> accept_at s' = Handing"
  by (induction rule: server_step.induct)
    (auto simp: leave_loop_def idle_tick_def prune_tick_def prune_rearm_def rearm_conn_def finish_conn_def handle_conn_fields
      shutdown_cas_def Let_def split: option.splits prod.splits)

lemma blocked_acceptor_reachable:
  "reachable ops s s' \<Longrightarrow> main_at s = Returned \<and> accept_at s = Handing \<Longrightarrow>
     main_at s' = Returned \<and> accept_at s' = Handing"
  by (induction rule: reachable.induct) (blast dest: blocked_acceptor_step)+

subsection \<open>Properties\<close>

text \<open>A run in which a client connects while the idle timeout ends the agent.\<close>

definition run_start :: "MemCache server" where
  "run_start = serve_start NewMemCache 0 Minute 0"

definition run_dialed :: "MemCache server" where
  "run_dialed = run_start\<lparr>accept_at := Handing\<rparr>"

definition shut_down :: "MemCache server \<Rightarrow> MemCache server" where
  "shut_down s = (let s1 = idle_tick s
     in leave_loop (s1\<lparr>agent := shutdown_finish (now s1) (agent s1), idle_at := IdleDone\<rparr>))"

lemma run_dialed_reachable: "reachable MemCache_iface run_start run_dialed"
proof -
  have "server_step MemCache_iface run_start (run_start\<lparr>backlog := Suc (backlog run_start)\<rparr>)"
    by (rule server_step.dial) (simp add: run_start_def serve_start_def)
  moreover have "server_step MemCache_iface (run_start\<lparr>backlog := Suc (backlog run_start)\<rparr>) run_dialed"
    using server_step.accept [of "run_start\<lparr>backlog := Suc (backlog run_start)\<rparr>" MemCache_iface]
    by (simp add: run_start_def run_dialed_def serve_start_def)
  ultimately show ?thesis by (meson reachable.intros)
qed

lemma shut_down_reachable:
  assumes "idle_at s = IdleWaiting" and "main_at s = Serving" and "\<not> shutdownStarted (agent s)"
    and "0 \<le> idleTimeout (agent s)" and "timer_fired (now s) (idleTimer (agent s))"
    and "shutdownChan (agent s) = ChanOpen"
  shows "reachable MemCache_iface s (shut_down s)"
proof -
  let ?s1 = "idle_tick s"
  let ?s2 = "?s1\<lparr>agent := shutdown_finish (now ?s1) (agent ?s1), idle_at := IdleDone\<rparr>"
  note tick = idle_tick_def shutdown_cas_def shutdown_finish_def Let_def
  have "server_step MemCache_iface s ?s1" using assms by (intro server_step.idle)
  moreover have "server_step MemCache_iface ?s1 ?s2"
    using assms by (intro server_step.idle_finish) (simp add: tick)
  moreover have "server_step MemCache_iface ?s2 (shut_down s)"
    unfolding shut_down_def Let_def using assms by (intro server_step.select_shutdown) (simp_all add: tick)
  ultimately show ?thesis by (meson reachable.intros)
qed

lemma run_shut_down:
  "reachable MemCache_iface run_start (shut_down run_start)"
  "reachable MemCache_iface run_start (shut_down run_dialed)"
proof -
  show "reachable MemCache_iface run_start (shut_down run_start)"
    by (rule shut_down_reachable) (simp_all add: run_start_def serve_start_def timer_reset_def)
  have "reachable MemCache_iface run_dialed (shut_down run_dialed)"
    by (rule shut_down_reachable) (simp_all add: run_start_def run_dialed_def serve_start_def timer_reset_def)
  then show "reachable MemCache_iface run_start (shut_down run_dialed)"
    using run_dialed_reachable by (rule reachable_trans)
qed

lemma run_shut_down_start:
  "reachable MemCache_iface (serve_start NewMemCache 0 Minute 0) (shut_down run_start)"
  "reachable MemCache_iface (serve_start NewMemCache 0 Minute 0) (shut_down run_dialed)"
  using run_shut_down by (simp_all flip: run_start_def)

lemmas run_defs = shut_down_def run_dialed_def run_start_def serve_start_def idle_tick_def shutdown_cas_def
  shutdown_finish_def leave_loop_def Let_def

text \<open>(C3) However shutdown requests and the idle timeout interleave, the shutdown channel is closed at
  most once (closing it again would panic), and only after a shutdown has started.\<close>

theorem shutdown_closes_once:
  assumes "reachable ops (serve_start c d p t) s"
  shows "shutdownChan (agent s) \<noteq> ChanPanicked \<and>
    (shutdownChan (agent s) = ChanClosed \<longrightarrow> shutdownStarted (agent s) \<and> closers s = 0)"
  using reachable_shutdown_inv [OF assms shutdown_inv_start]
  by (auto simp: shutdown_inv_def split: if_splits)

theorem shutdown_closes_once_witness:
  "shutdownChan (agent (shut_down run_dialed)) = ChanClosed \<and> closers (shut_down run_dialed) = 0"
  using shutdown_closes_once [OF run_shut_down_start(2)]
  by (simp add: run_defs)

text \<open>(C14) Under every interleaving of connections, pruning, timers and shutdown, the agent's cache
  keeps its invariant: every entry is filed under its own key, has a key and an expiry.\<close>

theorem server_cache_invariant:
  assumes "reachable MemCache_iface (serve_start NewMemCache d p t) s"
  shows "MemCache_wf (agent_cache (agent s))"
  using mem.reachable_inv [unfolded mem_iface, OF assms] by (simp add: serve_start_def)

theorem server_cache_invariant_witness: "MemCache_wf (agent_cache (agent (shut_down run_start)))"
  by (rule server_cache_invariant [OF run_shut_down_start(1)])

text \<open>(C15) A shutdown whose channel is closed while no handler is between reading the idle timeout and
  resetting the timer with it ends the agent without waiting for a timeout.  In every later state in which
  the main loop has returned, the handlers are done and no accepted connection is held back, the listener is
  closed; from then on the work left to the accept loop and the two timer goroutines (at most five steps)
  never grows, whatever the clients and the clock do, and until all three are done one of them can take a
  step that lowers it, at the present time.\<close>

theorem shutdown_can_complete:
  assumes "reachable ops (serve_start c d p t) s1" and "server_step ops s1 s2"
    and "shutdownChan (agent s1) = ChanOpen" and "shutdownChan (agent s2) = ChanClosed" and "\<not> list_ex timing (conns s1)"
    and "reachable ops s2 s"
    and "main_at s = Returned" and "accept_at s \<noteq> Handing" and "list_all (\<lambda>c. conn_at c = ConnDone) (conns s)"
    and "reachable ops s s'"
  shows "\<not> lis_open (agent s') \<and> unfinished s' \<le> unfinished s \<and> unfinished s \<le> 5
    \<and> (wg_zero s' \<or> (\<exists>s''. server_step ops s' s'' \<and> now s'' = now s' \<and> unfinished s'' < unfinished s'))"
proof -
  have "shutdown_inv s1" using reachable_invs [OF assms(1)] by (simp add: shutdown_inv_start listener_inv_start)
  then have s2: "timers_fired s2" "shutdown_inv s2"
    using timers_fired_closing [OF assms(2)] shutdown_inv_step [OF assms(2)] assms(3-5) by simp_all
  have "reachable ops (serve_start c d p t) s"
    using assms(1,2,6) by (meson reachable.step reachable_trans)
  then have "listener_inv s" using reachable_invs [of ops _ s] by (simp add: shutdown_inv_start listener_inv_start)
  with reachable_timers_fired [OF assms(6) s2(2,1)] assms(7-9) have "winding s" by (simp add: winding_def)
  with winding_reachable [OF assms(10)] have "winding s'" "unfinished s' \<le> unfinished s" by simp_all
  moreover from this have "\<not> lis_open (agent s')" by (simp add: winding_def listener_inv_def)
  ultimately show ?thesis using winding_progress [of s' ops] unfinished_bound [of s] by blast
qed

text \<open>The sample agent after its idle timeout: everything is done without time passing.\<close>

definition run_closing :: "MemCache server" where
  "run_closing = idle_tick run_start"

definition run_closed :: "MemCache server" where
  "run_closed = run_closing\<lparr>agent := shutdown_finish (now run_closing) (agent run_closing), idle_at := IdleDone\<rparr>"

lemma run_closing_steps:
  "reachable MemCache_iface (serve_start NewMemCache 0 Minute 0) run_closing"
  "server_step MemCache_iface run_closing run_closed"
  "reachable MemCache_iface run_closed (shut_down run_start)"
proof -
  have "server_step MemCache_iface run_start run_closing"
    unfolding run_closing_def by (rule server_step.idle) (simp_all add: run_start_def serve_start_def timer_reset_def)
  then show "reachable MemCache_iface (serve_start NewMemCache 0 Minute 0) run_closing"
    unfolding run_start_def by (meson reachable.intros)
  show "server_step MemCache_iface run_closing run_closed"
    unfolding run_closed_def by (rule server_step.idle_finish) (simp add: run_closing_def run_defs timer_reset_def)
  have "server_step MemCache_iface run_closed (leave_loop run_closed)"
    by (rule server_step.select_shutdown) (simp_all add: run_closed_def run_closing_def run_defs)
  then show "reachable MemCache_iface run_closed (shut_down run_start)"
    by (auto simp: shut_down_def run_closed_def run_closing_def Let_def intro: reachable.intros)
qed

theorem shutdown_can_complete_witness:
  "\<exists>s'. server_step MemCache_iface (shut_down run_start) s' \<and> now s' = now (shut_down run_start)
     \<and> unfinished s' < unfinished (shut_down run_start)"
  using shutdown_can_complete [OF run_closing_steps(1,2) _ _ _ run_closing_steps(3) _ _ _ reachable.start]
  by (simp add: run_closed_def run_closing_def run_defs wg_zero_def timing_def)

text \<open>A handler that holds an older idle timeout undoes the effect of the shutdown on the idle timer.  From then
  on, with the main loop and the handlers done, nothing changes the timer any more.\<close>

definition stale_timer :: "time \<Rightarrow> 's server \<Rightarrow> bool" where
  "stale_timer t s \<longleftrightarrow> main_at s = Returned \<and> list_all (\<lambda>c. conn_at c = ConnDone) (conns s) \<and> shutdownChan (agent s) = ChanClosed
     \<and> idleTimeout (agent s) < 0 \<and> shutdown_inv s
     \<and> (idle_at s = IdleWaiting \<and> idleTimer (agent s) = Some t \<or> idle_at s = IdleDone \<and> t \<le> now s)"

lemma stale_timer_step:
  assumes "server_step ops s s'" and "stale_timer t s"
  shows "stale_timer t s'"
proof -
  have inv: "shutdown_inv s'" using assms by (auto simp: stale_timer_def intro: shutdown_inv_step)
  have quiet: "conn_at (conns s ! i) = ConnDone" if "i < length (conns s)" for i
    using assms(2) that by (simp add: stale_timer_def list_all_length)
  have "shutdown_inv s' \<longrightarrow> stale_timer t s'"
    using assms quiet
    by (induction rule: server_step.induct)
      (auto simp: stale_timer_def leave_loop_def idle_tick_def prune_tick_def prune_rearm_def list_all_length nth_list_update
        Let_def split: if_splits)
  with inv show ?thesis by simp
qed

lemma stale_timer_reachable: "reachable ops s s' \<Longrightarrow> stale_timer t s \<Longrightarrow> stale_timer t s'"
  by (induction rule: reachable.induct) (auto intro: stale_timer_step)

text \<open>Short runs of clients: connecting, writing a request, and hanging up on an idle handler.\<close>

definition connect :: "'s server \<Rightarrow> 's server" where
  "connect s = s\<lparr>conns := conns s @ [new_conn]\<rparr>"

definition write_request :: "nat \<Rightarrow> string \<Rightarrow> 's server \<Rightarrow> 's server" where
  "write_request i m s = s\<lparr>conns := (conns s)[i := (conns s ! i)\<lparr>inbox := inbox (conns s ! i) @
     [Value (encode_AgentRequest \<lparr>Method = m, ReqPayload = None\<rparr>)]\<rparr>]\<rparr>"

definition disconnect :: "nat \<Rightarrow> 's server \<Rightarrow> 's server" where
  "disconnect i s = s\<lparr>conns := (conns s)[i := (conns s ! i)\<lparr>hung_up := True, conn_at := ConnDone\<rparr>]\<rparr>"

lemma reachable_connect:
  assumes "main_at s = Serving" and "accept_at s = Accepting" and "lis_open (agent s)"
  shows "reachable ops s (connect s)"
proof -
  let ?s1 = "s\<lparr>backlog := Suc (backlog s)\<rparr>" and ?s2 = "s\<lparr>accept_at := Handing\<rparr>"
  have "server_step ops s ?s1" using assms by (intro server_step.dial)
  moreover have "server_step ops ?s1 ?s2" using server_step.accept [of ?s1 ops] assms by simp
  moreover have "server_step ops ?s2 (connect s)"
    using server_step.select_conn [of ?s2 ops] assms by (cases s) (simp add: connect_def)
  ultimately show ?thesis by (meson reachable.intros)
qed

lemma reachable_disconnect:
  assumes "i < length (conns s)" and "conn_at (conns s ! i) = ConnReading" and "inbox (conns s ! i) = []"
  shows "reachable ops s (disconnect i s)"
proof -
  let ?s1 = "s\<lparr>conns := (conns s)[i := (conns s ! i)\<lparr>hung_up := True\<rparr>]\<rparr>"
  have "server_step ops s ?s1" using assms by (intro server_step.hangup)
  moreover have "server_step ops ?s1 (disconnect i s)"
    using server_step.serve_eof [of i ?s1 ops] assms by (simp add: disconnect_def)
  ultimately show ?thesis by (meson reachable.intros)
qed

text \<open>A request is written and decoded; the handler has read the idle timeout.\<close>

lemma reachable_request:
  assumes "i < length (conns s)" and "conns s ! i = new_conn"
  shows "reachable ops s (decode_conn i (write_request i m s))"
    and "decode_conn i (write_request i m s) = s\<lparr>conns := (conns s)[i := new_conn\<lparr>
      conn_req := \<lparr>Method = m, ReqPayload = None\<rparr>, conn_at := ConnTiming (idleTimeout (agent s))\<rparr>]\<rparr>"
proof -
  have "server_step ops s (write_request i m s)"
    unfolding write_request_def using assms by (intro server_step.send) (simp_all add: new_conn_def)
  moreover have "server_step ops (write_request i m s) (decode_conn i (write_request i m s))"
    using assms by (intro server_step.serve_decode) (simp_all add: write_request_def new_conn_def)
  ultimately show "reachable ops s (decode_conn i (write_request i m s))" by (meson reachable.intros)
  show "decode_conn i (write_request i m s) = s\<lparr>conns := (conns s)[i := new_conn\<lparr>
      conn_req := \<lparr>Method = m, ReqPayload = None\<rparr>, conn_at := ConnTiming (idleTimeout (agent s))\<rparr>]\<rparr>"
    using assms by (simp add: write_request_def decode_conn_def decode_encode_agent_request new_conn_def empty_agent_request_def Let_def)
qed

text \<open>The run: the handler of one client reads the idle timeout for a request; the handler of another one shuts
  the agent down, and the main loop returns; then the first handler resets the idle timer.\<close>

definition stale_read :: "duration \<Rightarrow> duration \<Rightarrow> time \<Rightarrow> MemCache server" where
  "stale_read d p t = decode_conn 1 (write_request 1 AgentRequestShutdown
     (decode_conn 0 (write_request 0 AgentRequestPrune (connect (connect (serve_start NewMemCache d p t))))))"

definition stale_shut :: "duration \<Rightarrow> duration \<Rightarrow> time \<Rightarrow> MemCache server" where
  "stale_shut d p t = leave_loop (finish_conn 1 (handle_conn MemCache_iface (\<lambda>_. t) 1 (rearm_conn 1 d (stale_read d p t))))"

definition stale_run :: "duration \<Rightarrow> duration \<Rightarrow> time \<Rightarrow> MemCache server" where
  "stale_run d p t =
     disconnect 1 (disconnect 0 (handle_conn MemCache_iface (\<lambda>_. t) 0 (rearm_conn 0 d (stale_shut d p t))))"

abbreviation timing_conn :: "string \<Rightarrow> duration \<Rightarrow> conn" where
  "timing_conn m d \<equiv> new_conn\<lparr>conn_req := \<lparr>Method = m, ReqPayload = None\<rparr>, conn_at := ConnTiming d\<rparr>"

lemma stale_read_reachable:
  "reachable MemCache_iface (serve_start NewMemCache d p t) (stale_read d p t)"
  "stale_read d p t = (serve_start NewMemCache d p t)\<lparr>conns := [timing_conn AgentRequestPrune d, timing_conn AgentRequestShutdown d]\<rparr>"
proof -
  let ?s = "serve_start NewMemCache d p t"
  let ?s2 = "connect (connect ?s)"
  have "reachable MemCache_iface ?s (connect ?s)" "reachable MemCache_iface (connect ?s) ?s2"
    by (intro reachable_connect; simp add: connect_def serve_start_def)+
  then have s2: "reachable MemCache_iface ?s ?s2" by (rule reachable_trans [rotated])
  have two: "conns ?s2 = [new_conn, new_conn]" by (simp add: connect_def serve_start_def)
  let ?s3 = "decode_conn 0 (write_request 0 AgentRequestPrune ?s2)"
  have s3: "?s3 = ?s\<lparr>conns := [timing_conn AgentRequestPrune d, new_conn]\<rparr>"
    using reachable_request(2) [of 0 ?s2 AgentRequestPrune] two by (simp add: connect_def serve_start_def)
  have "reachable MemCache_iface ?s2 ?s3" by (rule reachable_request(1)) (simp_all add: two)
  moreover have "reachable MemCache_iface ?s3 (stale_read d p t)"
    unfolding stale_read_def by (rule reachable_request(1); unfold s3) simp_all
  moreover note s2
  ultimately show "reachable MemCache_iface ?s (stale_read d p t)" by (meson reachable_trans)
  show "stale_read d p t = ?s\<lparr>conns := [timing_conn AgentRequestPrune d, timing_conn AgentRequestShutdown d]\<rparr>"
    using reachable_request(2) [of 1 ?s3 AgentRequestShutdown] unfolding stale_read_def s3 by (simp add: serve_start_def)
qed

lemma stale_shut_reachable:
  "reachable MemCache_iface (stale_read d p t) (stale_shut d p t)"
  "\<exists>c. conns (stale_shut d p t) = [timing_conn AgentRequestPrune d, c] \<and> conn_at c = ConnReading \<and> inbox c = []"
  "main_at (stale_shut d p t) = Returned" "shutdownChan (agent (stale_shut d p t)) = ChanClosed"
  "shutdownStarted (agent (stale_shut d p t))" "accept_at (stale_shut d p t) = Accepting"
  "idle_at (stale_shut d p t) = IdleWaiting" "now (stale_shut d p t) = t" "idleTimeout (agent (stale_shut d p t)) = - Microsecond"
proof -
  let ?s1 = "rearm_conn 1 d (stale_read d p t)"
  let ?s2 = "handle_conn MemCache_iface (\<lambda>_. t) 1 ?s1"
  let ?s3 = "finish_conn 1 ?s2"
  note read = stale_read_reachable(2) [of d p t]
  note s1 = rearm_conn_def read serve_start_def new_conn_def
  have s2: "?s2 = ?s1\<lparr>agent := (agent ?s1)\<lparr>shutdownStarted := True\<rparr>, conns := (conns ?s1)[1 := (conns ?s1 ! 1)\<lparr>conn_at := ConnClosing\<rparr>]\<rparr>"
    by (simp add: handle_conn_def shutdown_cas_def s1)
  have "server_step MemCache_iface (stale_read d p t) ?s1" by (rule server_step.serve_reset) (simp_all add: read)
  moreover have "server_step MemCache_iface ?s1 ?s2" by (rule server_step.serve) (simp_all add: s1)
  moreover have "server_step MemCache_iface ?s2 ?s3" by (rule server_step.serve_finish; unfold s2) (simp_all add: s1)
  moreover have "server_step MemCache_iface ?s3 (stale_shut d p t)" unfolding stale_shut_def
    by (rule server_step.select_shutdown; unfold s2) (simp_all add: finish_conn_def shutdown_finish_def s1)
  ultimately show "reachable MemCache_iface (stale_read d p t) (stale_shut d p t)" by (meson reachable.intros)
qed (simp_all add: stale_shut_def stale_read_reachable(2) leave_loop_def finish_conn_def shutdown_finish_def handle_conn_def
    shutdown_cas_def rearm_conn_def serve_start_def new_conn_def)

lemma stale_run_reachable:
  "reachable MemCache_iface (serve_start NewMemCache d p t) (stale_run d p t)"
  "main_at (stale_run d p t) = Returned" "shutdownChan (agent (stale_run d p t)) = ChanClosed"
  "accept_at (stale_run d p t) = Accepting" "list_all (\<lambda>c. conn_at c = ConnDone) (conns (stale_run d p t))"
  "idle_at (stale_run d p t) = IdleWaiting" "idleTimer (agent (stale_run d p t)) = Some (t + d)" "now (stale_run d p t) = t"
  "idleTimeout (agent (stale_run d p t)) = - Microsecond"
proof -
  let ?s1 = "rearm_conn 0 d (stale_shut d p t)"
  let ?s2 = "handle_conn MemCache_iface (\<lambda>_. t) 0 ?s1"
  note shut = stale_shut_reachable [of d p t]
  obtain c where c: "conns (stale_shut d p t) = [timing_conn AgentRequestPrune d, c]" "conn_at c = ConnReading" "inbox c = []"
    using shut(2) by blast
  have req: "conn_req (conns ?s1 ! 0) = \<lparr>Method = AgentRequestPrune, ReqPayload = None\<rparr>" "conns ?s1 ! 1 = c"
    by (simp_all add: rearm_conn_def c)
  let ?d = "dispatch MemCache_iface (now ?s1) (\<lambda>_. t) \<lparr>Method = AgentRequestPrune, ReqPayload = None\<rparr> (agent ?s1)"
  have "AgentRequestPrune \<noteq> AgentRequestShutdown" by (simp add: api_consts)
  then have s2: "?s2 = ?s1\<lparr>agent := snd ?d,
      conns := (conns ?s1)[0 := (conns ?s1 ! 0)\<lparr>outbox := outbox (conns ?s1 ! 0) @ [respond (fst ?d)], conn_at := ConnReading\<rparr>]\<rparr>"
    unfolding handle_conn_def Let_def req(1) by (simp only: AgentRequest.select_convs if_False option.case prod.case_eq_if)
  have started: "Method \<lparr>Method = AgentRequestPrune, ReqPayload = None\<rparr> = AgentRequestShutdown \<longrightarrow> shutdownStarted (agent ?s1)"
    by (simp add: api_consts)
  note kept = dispatch_timer_fields [OF started] dispatch_shutdown_fields [OF started]
  have "server_step MemCache_iface (stale_shut d p t) ?s1" by (rule server_step.serve_reset) (simp_all add: c)
  moreover have "server_step MemCache_iface ?s1 ?s2" by (rule server_step.serve) (simp_all add: rearm_conn_def c)
  moreover have "reachable MemCache_iface ?s2 (disconnect 0 ?s2)"
    by (rule reachable_disconnect; unfold s2) (simp_all add: rearm_conn_def c new_conn_def)
  moreover have "reachable MemCache_iface (disconnect 0 ?s2) (stale_run d p t)" unfolding stale_run_def
    by (rule reachable_disconnect; unfold s2) (simp_all add: disconnect_def rearm_conn_def c)
  ultimately have "reachable MemCache_iface (stale_shut d p t) (stale_run d p t)" by (meson reachable.intros reachable_trans)
  with shut(1) stale_read_reachable(1) [of d p t] show "reachable MemCache_iface (serve_start NewMemCache d p t) (stale_run d p t)"
    using reachable_trans by metis
  show "main_at (stale_run d p t) = Returned" "shutdownChan (agent (stale_run d p t)) = ChanClosed"
    "accept_at (stale_run d p t) = Accepting" "list_all (\<lambda>c. conn_at c = ConnDone) (conns (stale_run d p t))"
    "idle_at (stale_run d p t) = IdleWaiting" "idleTimer (agent (stale_run d p t)) = Some (t + d)" "now (stale_run d p t) = t"
    "idleTimeout (agent (stale_run d p t)) = - Microsecond"
    unfolding stale_run_def s2 by (simp_all add: disconnect_def kept, simp_all add: rearm_conn_def shut c timer_reset_def)
qed

text \<open>(C25) A handler that has read the idle timeout before a shutdown and resets the timer after it delays the end
  of the agent: for every idle timeout \<open>d\<close> there is a run of an agent started at time \<open>t\<close> in which a shutdown
  has closed the channel, the main loop has returned and all handlers are done at time \<open>t\<close>, but in every run
  from there the last goroutine ends no earlier than at \<open>t + d\<close>.\<close>

theorem stale_reset_delays_shutdown:
  "\<exists>s. reachable MemCache_iface (serve_start NewMemCache d p t) s \<and> now s = t
     \<and> main_at s = Returned \<and> shutdownChan (agent s) = ChanClosed \<and> accept_at s \<noteq> Handing
     \<and> list_all (\<lambda>c. conn_at c = ConnDone) (conns s)
     \<and> (\<forall>s'. reachable MemCache_iface s s' \<and> wg_zero s' \<longrightarrow> t + d \<le> now s')"
proof (intro exI conjI allI impI)
  note run = stale_run_reachable [of d p t]
  have "shutdown_inv (stale_run d p t)" using reachable_shutdown_inv [OF run(1) shutdown_inv_start] .
  then have stale: "stale_timer (t + d) (stale_run d p t)"
    using run by (simp add: stale_timer_def Microsecond_def)
  show "t + d \<le> now s'" if "reachable MemCache_iface (stale_run d p t) s' \<and> wg_zero s'" for s'
    using stale_timer_reachable [of MemCache_iface _ s', OF _ stale] that by (auto simp: stale_timer_def wg_zero_def)
qed (use stale_run_reachable [of d p t] in simp_all)

theorem stale_reset_delays_shutdown_witness:
  "\<exists>s. reachable MemCache_iface (serve_start NewMemCache (3 * Hour) Minute 0) s \<and> now s = 0 \<and> main_at s = Returned
     \<and> \<not> (\<exists>s'. reachable MemCache_iface s s' \<and> wg_zero s' \<and> now s' < 3 * Hour)"
  using stale_reset_delays_shutdown [where d = "3 * Hour" and p = Minute and t = 0] by fastforce

text \<open>If the main loop leaves while the accept loop holds a connection it has accepted, nobody
  receives from the channel again: the wait group never reaches zero and \<open>Serve\<close> never
  returns.\<close>

theorem blocked_accept_loop_never_ends:
  assumes "main_at s = Returned" and "accept_at s = Handing" and "reachable ops s s'"
  shows "\<not> wg_zero s'"
  using blocked_acceptor_reachable [OF assms(3)] assms(1,2) by (simp add: wg_zero_def)

theorem blocked_accept_loop_never_ends_witness:
  "reachable MemCache_iface run_start (shut_down run_dialed) \<and> \<not> wg_zero (shut_down run_dialed)"
  using blocked_accept_loop_never_ends [OF _ _ reachable.start, of "shut_down run_dialed"] run_shut_down(2)
  by (simp add: run_defs)

text \<open>With a negative prune interval the scheduled prune never touches the cache, but the timer it
  sets has already fired: the goroutine spins instead of waiting.\<close>

theorem negative_prune_interval_spins:
  assumes "pruneInterval (agent s) < 0"
  shows "agent_cache (agent (prune_tick ops clk s)) = agent_cache (agent s)
    \<and> prune_at (prune_tick ops clk s) = PruneTiming (pruneInterval (agent s))
    \<and> timer_fired (now s) (pruneTimer (agent (prune_rearm (pruneInterval (agent s)) (prune_tick ops clk s))))"
  using assms by (simp add: prune_tick_def prune_rearm_def timer_reset_def Let_def)

theorem negative_prune_interval_spins_witness:
  "timer_fired 0 (pruneTimer (agent (prune_rearm (- Microsecond) (prune_tick MemCache_iface (\<lambda>_. 0)
     (serve_start NewMemCache (3 * Hour) (- Microsecond) 0)))))"
  using negative_prune_interval_spins [of "serve_start NewMemCache (3 * Hour) (- Microsecond) 0"]
  by (simp add: serve_start_def Microsecond_def)

end
