(* ===== verification/Lockfile.thy ===== *)
theory Lockfile
  imports Locate Agent
begin

text \<open>
  The agent's lock file (\<open>src/agent/internal/lockfile\<close>) and \<open>NewCachingAgent\<close> of
  \<open>src/agent/service.go\<close>, which takes the lock, prepares the socket directory and starts to
  listen.  The state is the part of the file system that is involved: contents of regular
  files, the holders of file locks, owner and mode of directories, and the sockets with the
  process that bound them.  Which operations the kernel refuses is part of the state.
  Modes are bit sets: \<open>0x1ED\<close> is \<open>0o755\<close>, \<open>0x1C0\<close> is \<open>0o700\<close>, \<open>0x3F\<close> is \<open>0o077\<close>.
  What the build chooses by operating system (\<open>lockfile_unix.go\<close> or \<open>lockfile_windows.go\<close>,
  \<open>agent_unix.go\<close> or \<open>agent_windows.go\<close>) is a record of functions; the locale \<open>exclusive_lock\<close> is what the
  agent relies on.
\<close>

type_synonym mode = "12 word"

record filesystem =
  file_text :: "string gomap"
  flocks :: "nat gomap"
  dir_mode :: "(nat \<times> mode) gomap"
  sockets :: "nat gomap"
  umask :: mode
  may_open :: "string \<Rightarrow> bool"
  may_write :: "string \<Rightarrow> bool"
  may_chown :: "string \<Rightarrow> bool"
  may_chmod :: "string \<Rightarrow> bool"
  may_bind :: "string \<Rightarrow> bool"

text \<open>\<open>os.OpenFile\<close> with \<open>O_RDWR|O_CREATE\<close>: the file keeps its contents, the offset is zero.\<close>

definition open_create :: "string \<Rightarrow> filesystem \<Rightarrow> filesystem result" where
  "open_create path fs =
     (if may_open fs path then
        Inr (case map_of (file_text fs) path of
               Some _ \<Rightarrow> fs
             | None \<Rightarrow> fs\<lparr>file_text := gomap_put path [] (file_text fs)\<rparr>)
      else Inl (ErrorString (''open '' @ path)))"

text \<open>\<open>WriteString\<close> at offset zero overwrites the front of the file.\<close>

definition write_front :: "string \<Rightarrow> string \<Rightarrow> filesystem \<Rightarrow> filesystem" where
  "write_front path s fs =
     (let old = (case map_of (file_text fs) path of Some t \<Rightarrow> t | None \<Rightarrow> [])
      in fs\<lparr>file_text := gomap_put path (s @ drop (length s) old) (file_text fs)\<rparr>)"

subsection \<open>Unix\<close>

definition write_pid :: "nat \<Rightarrow> string \<Rightarrow> filesystem \<Rightarrow> unit result \<times> filesystem" where
  "write_pid pid path fs =
     (if \<not> may_write fs path then
        (Inl (Wrapf ''writing pid to agent lock file'' [] (ErrorString ''no space left on device'')), fs)
      else (Inr (), write_front path (utoa pid) fs))"

text \<open>\<open>lock\<close>: a non-blocking exclusive \<open>flock\<close>, then the process id.\<close>

definition lock :: "nat \<Rightarrow> string \<Rightarrow> filesystem \<Rightarrow> unit result \<times> filesystem" where
  "lock pid path fs =
     (if map_of (flocks fs) path \<noteq> None then
        (Inl (Wrapf ''acquiring agent lock file (agent already running?)'' []
           (ErrorString ''resource temporarily unavailable'')), fs)
      else write_pid pid path (fs\<lparr>flocks := gomap_put path pid (flocks fs)\<rparr>))"

definition unlock :: "string \<Rightarrow> filesystem \<Rightarrow> unit result \<times> filesystem" where
  "unlock path fs = (Inr (), fs\<lparr>flocks := gomap_delete path (flocks fs)\<rparr>)"

text \<open>\<open>hardenAgentProcess\<close> and \<open>hardenSocketDir\<close> of \<open>src/agent/agent_unix.go\<close>.\<close>

definition hardenAgentProcess :: "filesystem \<Rightarrow> filesystem" where
  "hardenAgentProcess fs = fs\<lparr>umask := 0x3F\<rparr>"

definition hardenSocketDir :: "nat \<Rightarrow> string \<Rightarrow> filesystem \<Rightarrow> unit result \<times> filesystem" where
  "hardenSocketDir uid socketDir fs =
     (if \<not> may_chown fs socketDir then
        (Inl (Wrapf ''chown socket directory'' [] (ErrorString ''operation not permitted'')), fs)
      else
        (let old = (case map_of (dir_mode fs) socketDir of Some (_, m) \<Rightarrow> m | None \<Rightarrow> 0);
             fs1 = fs\<lparr>dir_mode := gomap_put socketDir (uid, old) (dir_mode fs)\<rparr>
         in if \<not> may_chmod fs1 socketDir then
              (Inl (Wrapf ''chmod socket directory'' [] (ErrorString ''operation not permitted'')), fs1)
            else (Inr (), fs1\<lparr>dir_mode := gomap_put socketDir (uid, 0x1C0) (dir_mode fs1)\<rparr>)))"

subsection \<open>Windows\<close>

text \<open>\<open>LockFileEx\<close> and \<open>UnlockFileEx\<close> of the Windows kernel: the calling process, the file, the flags, the reserved
  argument and the low and high words of the number of bytes; the result is the return value and the
  error.\<close>

record kernel32 =
  procLockFileEx :: "nat \<Rightarrow> string \<Rightarrow> 32 word \<Rightarrow> 32 word \<Rightarrow> 32 word \<Rightarrow> 32 word \<Rightarrow> filesystem \<Rightarrow> (64 word \<times> goerr option) \<times> filesystem"
  procUnlockFileEx :: "string \<Rightarrow> 32 word \<Rightarrow> 32 word \<Rightarrow> 32 word \<Rightarrow> filesystem \<Rightarrow> (64 word \<times> goerr option) \<times> filesystem"

definition reserved :: "32 word" where "reserved = 0"
definition allBytes :: "32 word" where "allBytes = NOT 0"
definition LOCKFILE_FAIL_IMMEDIATELY :: "32 word" where "LOCKFILE_FAIL_IMMEDIATELY = 1"
definition LOCKFILE_EXCLUSIVE_LOCK :: "32 word" where "LOCKFILE_EXCLUSIVE_LOCK = 2"

text \<open>The documented behaviour the lock relies on: an exclusive lock of the whole file is only granted when
  nobody has one, without waiting, and a call that fails changes nothing.\<close>

definition lockfile_laws :: "kernel32 \<Rightarrow> bool" where
  "lockfile_laws k \<longleftrightarrow>
     (\<forall>pid path fs r e fs'. procLockFileEx k pid path (LOCKFILE_EXCLUSIVE_LOCK OR LOCKFILE_FAIL_IMMEDIATELY) 0 allBytes allBytes fs = ((r, e), fs')
        \<longrightarrow> (if r = 0 then fs' = fs
             else map_of (flocks fs) path = None \<and> fs' = fs\<lparr>flocks := gomap_put path pid (flocks fs)\<rparr>))"

definition lockFileEx :: "kernel32 \<Rightarrow> nat \<Rightarrow> string \<Rightarrow> 32 word \<Rightarrow> 32 word \<Rightarrow> 32 word \<Rightarrow> 32 word \<Rightarrow> filesystem \<Rightarrow> unit result \<times> filesystem" where
  "lockFileEx k pid path flags rsv bytesLow bytesHigh fs =
     (case procLockFileEx k pid path flags rsv bytesLow bytesHigh fs of
        ((r1, e1), fs') \<Rightarrow>
          if r1 = 0 then (Inl (case e1 of Some e \<Rightarrow> e | None \<Rightarrow> ErrorString ''invalid argument''), fs') else (Inr (), fs'))"

text \<open>Without an error to return the result is nil, which is success.\<close>

definition unlockFileEx :: "kernel32 \<Rightarrow> string \<Rightarrow> 32 word \<Rightarrow> 32 word \<Rightarrow> 32 word \<Rightarrow> filesystem \<Rightarrow> unit result \<times> filesystem" where
  "unlockFileEx k path rsv bytesLow bytesHigh fs =
     (case procUnlockFileEx k path rsv bytesLow bytesHigh fs of
        ((r1, e1), fs') \<Rightarrow> if r1 = 0 then ((case e1 of Some e \<Rightarrow> Inl e | None \<Rightarrow> Inr ()), fs') else (Inr (), fs'))"

definition lock_windows :: "kernel32 \<Rightarrow> nat \<Rightarrow> string \<Rightarrow> filesystem \<Rightarrow> unit result \<times> filesystem" where
  "lock_windows k pid path fs =
     (case lockFileEx k pid path (LOCKFILE_EXCLUSIVE_LOCK OR LOCKFILE_FAIL_IMMEDIATELY) reserved allBytes allBytes fs of
        (Inl err, fs') \<Rightarrow> (Inl (Wrapf ''acquiring agent lock file (agent already running?)'' [] err), fs')
      | (Inr _, fs') \<Rightarrow> write_pid pid path fs')"

definition unlock_windows :: "kernel32 \<Rightarrow> string \<Rightarrow> filesystem \<Rightarrow> unit result \<times> filesystem" where
  "unlock_windows k path fs = unlockFileEx k path reserved allBytes allBytes fs"

text \<open>\<open>hardenAgentProcess\<close> and \<open>hardenSocketDir\<close> of \<open>src/agent/agent_windows.go\<close> do nothing.\<close>

definition hardenAgentProcess_windows :: "filesystem \<Rightarrow> filesystem" where
  "hardenAgentProcess_windows fs = fs"

definition hardenSocketDir_windows :: "nat \<Rightarrow> string \<Rightarrow> filesystem \<Rightarrow> unit result \<times> filesystem" where
  "hardenSocketDir_windows uid socketDir fs = (Inr (), fs)"

subsection \<open>The lock file\<close>

record platform =
  plat_lock :: "nat \<Rightarrow> string \<Rightarrow> filesystem \<Rightarrow> unit result \<times> filesystem"
  plat_unlock :: "string \<Rightarrow> filesystem \<Rightarrow> unit result \<times> filesystem"
  plat_hardenAgentProcess :: "filesystem \<Rightarrow> filesystem"
  plat_hardenSocketDir :: "nat \<Rightarrow> string \<Rightarrow> filesystem \<Rightarrow> unit result \<times> filesystem"

definition Unix :: platform where
  "Unix = \<lparr>plat_lock = lock, plat_unlock = unlock, plat_hardenAgentProcess = hardenAgentProcess,
     plat_hardenSocketDir = hardenSocketDir\<rparr>"

definition Windows :: "kernel32 \<Rightarrow> platform" where
  "Windows k = \<lparr>plat_lock = lock_windows k, plat_unlock = unlock_windows k,
     plat_hardenAgentProcess = hardenAgentProcess_windows, plat_hardenSocketDir = hardenSocketDir_windows\<rparr>"

text \<open>\<open>lockfile.New\<close>; the lock is the path of the open file.\<close>

definition Lockfile_New :: "platform \<Rightarrow> nat \<Rightarrow> string \<Rightarrow> filesystem \<Rightarrow> string result \<times> filesystem" where
  "Lockfile_New plat pid path fs =
     (case open_create path fs of
        Inl e \<Rightarrow> (Inl e, fs)
      | Inr fs1 \<Rightarrow>
          (case plat_lock plat pid path fs1 of
             (Inl e, fs2) \<Rightarrow> (Inl e, fs2)
           | (Inr _, fs2) \<Rightarrow> (Inr path, fs2)))"

text \<open>Closing the file releases its locks on both systems.\<close>

definition close_file :: "string \<Rightarrow> filesystem \<Rightarrow> filesystem" where
  "close_file path fs = fs\<lparr>flocks := gomap_delete path (flocks fs)\<rparr>"

definition Lockfile_Close :: "platform \<Rightarrow> string \<Rightarrow> filesystem \<Rightarrow> unit result \<times> filesystem" where
  "Lockfile_Close plat l fs = (case plat_unlock plat l fs of (r, fs') \<Rightarrow> (r, close_file l fs'))"

subsection \<open>Starting an agent\<close>

text \<open>\<open>os.MkdirAll(dir, 0o755)\<close>, whose error the agent ignores: an existing directory stays as it is.\<close>

definition make_dir :: "nat \<Rightarrow> string \<Rightarrow> filesystem \<Rightarrow> filesystem" where
  "make_dir uid d fs =
     (case map_of (dir_mode fs) d of
        Some _ \<Rightarrow> fs
      | None \<Rightarrow> if may_open fs d then fs\<lparr>dir_mode := gomap_put d (uid, 0x1ED AND NOT (umask fs)) (dir_mode fs)\<rparr> else fs)"

definition listen :: "nat \<Rightarrow> string \<Rightarrow> filesystem \<Rightarrow> filesystem result" where
  "listen pid socketPath fs =
     (if may_bind fs socketPath \<and> map_of (sockets fs) socketPath = None then
        Inr (fs\<lparr>sockets := gomap_put socketPath pid (sockets fs)\<rparr>)
      else Inl (ErrorString (''listen unix '' @ socketPath @ '': bind: address already in use'')))"

definition NewCachingAgent :: "platform \<Rightarrow> nat \<Rightarrow> nat \<Rightarrow> string \<Rightarrow> string \<Rightarrow> 's \<Rightarrow> duration \<Rightarrow> duration \<Rightarrow>
    filesystem \<Rightarrow> ('s CachingAgent \<times> string) result \<times> filesystem" where
  "NewCachingAgent plat pid uid socketPath agentLockPath c idleT pruneI fs0 =
     (let fs = make_dir uid (Dir agentLockPath) (plat_hardenAgentProcess plat fs0)
      in case Lockfile_New plat pid agentLockPath fs of
           (Inl e, fs1) \<Rightarrow> (Inl e, fs1)
         | (Inr agentLock, fs1) \<Rightarrow>
             (case (if HasPrefix socketPath ''@'' then (Inr (), fs1)
                    else (case plat_hardenSocketDir plat uid (Dir socketPath) (make_dir uid (Dir socketPath) fs1) of
                            (Inl e, fs3) \<Rightarrow> (Inl e, fs3)
                          | (Inr _, fs3) \<Rightarrow> (Inr (), fs3\<lparr>sockets := gomap_delete socketPath (sockets fs3)\<rparr>))) of
                (Inl e, fs4) \<Rightarrow> (Inl e, fs4)
              | (Inr _, fs4) \<Rightarrow>
                  (case listen pid socketPath fs4 of
                     Inl e \<Rightarrow> (Inl e, fs4)
                   | Inr fs5 \<Rightarrow>
                       (Inr (\<lparr>agent_cache = c, lis_open = True, shutdownChan = ChanOpen,
                          shutdownStarted = False, idleTimeout = idleT, idleTimer = None,
                          pruneInterval = pruneI, pruneTimer = None\<rparr>, agentLock), fs5))))"

text \<open>\<open>cleanup\<close>, once the wait group is empty.\<close>

definition cleanup :: "platform \<Rightarrow> string \<Rightarrow> filesystem \<Rightarrow> unit result \<times> filesystem" where
  "cleanup plat agentLock fs = Lockfile_Close plat agentLock fs"

subsection \<open>Laws\<close>

lemma make_dir_keeps [simp]:
  "flocks (make_dir uid d fs) = flocks fs" "sockets (make_dir uid d fs) = sockets fs"
  "file_text (make_dir uid d fs) = file_text fs" "umask (make_dir uid d fs) = umask fs"
  by (simp_all add: make_dir_def split: option.split)

lemma open_create_keeps:
  "open_create path fs = Inr fs' \<Longrightarrow> flocks fs' = flocks fs \<and> sockets fs' = sockets fs \<and> umask fs' = umask fs \<and> dir_mode fs' = dir_mode fs"
  by (auto simp: open_create_def split: if_splits option.splits)

lemma write_front_keeps [simp]:
  "flocks (write_front path s fs) = flocks fs" "sockets (write_front path s fs) = sockets fs"
  "umask (write_front path s fs) = umask fs" "dir_mode (write_front path s fs) = dir_mode fs"
  by (simp_all add: write_front_def Let_def)

lemma write_pid_keeps [simp]:
  "flocks (snd (write_pid pid path fs)) = flocks fs" "sockets (snd (write_pid pid path fs)) = sockets fs"
  "umask (snd (write_pid pid path fs)) = umask fs" "dir_mode (snd (write_pid pid path fs)) = dir_mode fs"
  by (simp_all add: write_pid_def)

lemma listen_ok:
  "listen pid sp fs = Inr fs' \<Longrightarrow> map_of (sockets fs') sp = Some pid \<and> flocks fs' = flocks fs
     \<and> dir_mode fs' = dir_mode fs \<and> umask fs' = umask fs"
  by (auto simp: listen_def split: if_splits)

lemma hardenSocketDir_ok:
  "hardenSocketDir uid d fs = (Inr (), fs') \<Longrightarrow> map_of (dir_mode fs') d = Some (uid, 0x1C0) \<and> flocks fs' = flocks fs
     \<and> umask fs' = umask fs"
  by (auto simp: hardenSocketDir_def Let_def split: if_splits)

text \<open>What the agent relies on: a lock that is held is not granted again, a granted lock is held, and neither
  locking nor hardening touches other locks or the sockets.\<close>

locale exclusive_lock =
  fixes plat :: platform
  assumes lock_held: "map_of (flocks fs) path = Some holder \<Longrightarrow>
      (\<exists>e. fst (plat_lock plat pid path fs) = Inl e) \<and> flocks (snd (plat_lock plat pid path fs)) = flocks fs"
    and lock_granted: "fst (plat_lock plat pid path fs) = Inr () \<Longrightarrow>
      map_of (flocks fs) path = None \<and> flocks (snd (plat_lock plat pid path fs)) = gomap_put path pid (flocks fs)"
    and lock_sockets: "sockets (snd (plat_lock plat pid path fs)) = sockets fs"
    and harden_keeps: "flocks (plat_hardenAgentProcess plat fs) = flocks fs" "sockets (plat_hardenAgentProcess plat fs) = sockets fs"
      "flocks (snd (plat_hardenSocketDir plat uid d fs)) = flocks fs"
begin

lemma New_held:
  assumes "map_of (flocks fs) path = Some holder"
  shows "\<exists>e. fst (Lockfile_New plat pid path fs) = Inl e" and "sockets (snd (Lockfile_New plat pid path fs)) = sockets fs"
    and "flocks (snd (Lockfile_New plat pid path fs)) = flocks fs"
proof -
  have "(\<exists>e. fst (Lockfile_New plat pid path fs) = Inl e) \<and> sockets (snd (Lockfile_New plat pid path fs)) = sockets fs
    \<and> flocks (snd (Lockfile_New plat pid path fs)) = flocks fs"
  proof (cases "open_create path fs")
    case (Inr fs1)
    with open_create_keeps [OF Inr] assms show ?thesis
      using lock_held [of fs1 path holder pid] lock_sockets [of pid path fs1]
      by (cases "plat_lock plat pid path fs1") (auto simp: Lockfile_New_def)
  qed (simp add: Lockfile_New_def)
  then show "\<exists>e. fst (Lockfile_New plat pid path fs) = Inl e" and "sockets (snd (Lockfile_New plat pid path fs)) = sockets fs"
    and "flocks (snd (Lockfile_New plat pid path fs)) = flocks fs" by simp_all
qed

lemma New_ok:
  assumes "Lockfile_New plat pid path fs = (Inr l, fs')"
  shows "l = path \<and> map_of (flocks fs) path = None \<and> map_of (flocks fs') path = Some pid \<and> sockets fs' = sockets fs"
proof -
  obtain fs1 where fs1: "open_create path fs = Inr fs1" "plat_lock plat pid path fs1 = (Inr (), fs')" "l = path"
    using assms by (auto simp: Lockfile_New_def split: sum.splits prod.splits)
  with open_create_keeps [OF fs1(1)] lock_granted [of pid path fs1] lock_sockets [of pid path fs1] show ?thesis by simp
qed

lemma agent_lock_held:
  assumes "map_of (flocks fs) lockPath = Some holder"
  shows "\<exists>e. fst (NewCachingAgent plat pid uid sp lockPath c d p fs) = Inl e"
    and "sockets (snd (NewCachingAgent plat pid uid sp lockPath c d p fs)) = sockets fs"
    and "flocks (snd (NewCachingAgent plat pid uid sp lockPath c d p fs)) = flocks fs"
proof -
  let ?fs = "make_dir uid (Dir lockPath) (plat_hardenAgentProcess plat fs)"
  have "map_of (flocks ?fs) lockPath = Some holder" "sockets ?fs = sockets fs" "flocks ?fs = flocks fs"
    using assms by (simp_all add: harden_keeps)
  with New_held [of ?fs lockPath holder pid]
  show "\<exists>e. fst (NewCachingAgent plat pid uid sp lockPath c d p fs) = Inl e"
    and "sockets (snd (NewCachingAgent plat pid uid sp lockPath c d p fs)) = sockets fs"
    and "flocks (snd (NewCachingAgent plat pid uid sp lockPath c d p fs)) = flocks fs"
    by (auto simp: NewCachingAgent_def Let_def split: prod.splits sum.splits)
qed

lemma agent_ok:
  assumes "NewCachingAgent plat pid uid sp lockPath c d p fs = (Inr (a, l), fs')"
  shows "l = lockPath" and "map_of (flocks fs) lockPath = None" and "map_of (flocks fs') lockPath = Some pid"
    and "map_of (sockets fs') sp = Some pid"
    and "agent_cache a = c \<and> shutdownChan a = ChanOpen \<and> \<not> shutdownStarted a"
proof -
  let ?fs = "make_dir uid (Dir lockPath) (plat_hardenAgentProcess plat fs)"
  obtain fs1 fs4 where fs1: "Lockfile_New plat pid lockPath ?fs = (Inr l, fs1)" and fs4: "listen pid sp fs4 = Inr fs'"
    and "flocks fs4 = flocks fs1" and a: "agent_cache a = c \<and> shutdownChan a = ChanOpen \<and> \<not> shutdownStarted a"
    using assms harden_keeps(3)
    by (fastforce simp: NewCachingAgent_def Let_def prod_eq_iff split: prod.splits sum.splits if_splits)
  with New_ok [OF fs1] listen_ok [OF fs4]
  show "l = lockPath" and "map_of (flocks fs) lockPath = None" and "map_of (flocks fs') lockPath = Some pid"
    and "map_of (sockets fs') sp = Some pid"
    and "agent_cache a = c \<and> shutdownChan a = ChanOpen \<and> \<not> shutdownStarted a"
    by (simp_all add: harden_keeps)
qed

text \<open>While an agent holds the lock another one is refused, and leaves the socket of the first.\<close>

lemma second_refused:
  assumes "NewCachingAgent plat pid uid sp lockPath c d p fs = (Inr (a, l), fs1)"
  shows "\<exists>e. fst (NewCachingAgent plat pid' uid' sp' lockPath c' d' p' fs1) = Inl e"
    and "map_of (sockets (snd (NewCachingAgent plat pid' uid' sp' lockPath c' d' p' fs1))) sp = Some pid"
    and "map_of (flocks (snd (NewCachingAgent plat pid' uid' sp' lockPath c' d' p' fs1))) lockPath = Some pid"
    and "map_of (flocks (snd (cleanup plat l fs1))) lockPath = None"
  using agent_ok(1,3,4) [OF assms] agent_lock_held [of fs1 lockPath pid pid' uid' sp' c' d' p']
  by (simp_all add: cleanup_def Lockfile_Close_def close_file_def split: prod.split)

end

interpretation unix: exclusive_lock Unix
  by unfold_locales
    (auto simp: Unix_def lock_def hardenAgentProcess_def hardenSocketDir_def write_pid_def Let_def split: if_splits)

lemma lock_windows_cases:
  assumes "lockfile_laws k"
  obtains e where "lock_windows k pid path fs = (Inl e, fs)"
  | "map_of (flocks fs) path = None"
    "lock_windows k pid path fs = write_pid pid path (fs\<lparr>flocks := gomap_put path pid (flocks fs)\<rparr>)"
proof -
  obtain r e fs' where call: "procLockFileEx k pid path (LOCKFILE_EXCLUSIVE_LOCK OR LOCKFILE_FAIL_IMMEDIATELY) 0 allBytes allBytes fs = ((r, e), fs')"
    by (metis prod.collapse)
  with assms have "if r = 0 then fs' = fs
      else map_of (flocks fs) path = None \<and> fs' = fs\<lparr>flocks := gomap_put path pid (flocks fs)\<rparr>"
    unfolding lockfile_laws_def by blast
  with call that show thesis
    by (cases "r = 0") (auto simp: lock_windows_def lockFileEx_def reserved_def)
qed

lemma windows_exclusive:
  assumes "lockfile_laws k"
  shows "exclusive_lock (Windows k)"
proof unfold_locales
  fix fs path holder pid
  show "map_of (flocks fs) path = Some holder \<Longrightarrow>
      (\<exists>e. fst (plat_lock (Windows k) pid path fs) = Inl e) \<and> flocks (snd (plat_lock (Windows k) pid path fs)) = flocks fs"
    by (rule lock_windows_cases [OF assms, of pid path fs]) (auto simp: Windows_def)
  show "fst (plat_lock (Windows k) pid path fs) = Inr () \<Longrightarrow>
      map_of (flocks fs) path = None \<and> flocks (snd (plat_lock (Windows k) pid path fs)) = gomap_put path pid (flocks fs)"
    by (rule lock_windows_cases [OF assms, of pid path fs]) (auto simp: Windows_def)
  show "sockets (snd (plat_lock (Windows k) pid path fs)) = sockets fs"
    by (rule lock_windows_cases [OF assms, of pid path fs]) (auto simp: Windows_def)
qed (simp_all add: Windows_def hardenAgentProcess_windows_def hardenSocketDir_windows_def)

text \<open>The file systems an agent goes through when it starts.\<close>

lemma NewCachingAgent_stages:
  assumes "NewCachingAgent plat pid uid sp lockPath c d p fs = (Inr (a, l), fs')" and "\<not> HasPrefix sp ''@''"
  obtains fs1 fs3 where
    "Lockfile_New plat pid lockPath (make_dir uid (Dir lockPath) (plat_hardenAgentProcess plat fs)) = (Inr l, fs1)"
    and "plat_hardenSocketDir plat uid (Dir sp) (make_dir uid (Dir sp) fs1) = (Inr (), fs3)"
    and "listen pid sp (fs3\<lparr>sockets := gomap_delete sp (sockets fs3)\<rparr>) = Inr fs'"
proof -
  obtain r1 fs1 where new: "Lockfile_New plat pid lockPath (make_dir uid (Dir lockPath) (plat_hardenAgentProcess plat fs)) = (r1, fs1)"
    by (rule prod.exhaust)
  obtain r3 fs3 where dir: "plat_hardenSocketDir plat uid (Dir sp) (make_dir uid (Dir sp) fs1) = (r3, fs3)"
    by (rule prod.exhaust)
  have "r1 = Inr l \<and> r3 = Inr () \<and> listen pid sp (fs3\<lparr>sockets := gomap_delete sp (sockets fs3)\<rparr>) = Inr fs'"
    using assms by (simp add: NewCachingAgent_def Let_def new dir split: sum.splits)
  with new dir that show thesis by blast
qed

lemma Lockfile_New_unix_umask: "Lockfile_New Unix pid path fs = (Inr l, fs1) \<Longrightarrow> umask fs1 = umask fs"
proof -
  assume new: "Lockfile_New Unix pid path fs = (Inr l, fs1)"
  then obtain g where g: "open_create path fs = Inr g" "lock pid path g = (Inr (), fs1)"
    by (auto simp: Lockfile_New_def Unix_def split: sum.splits prod.splits)
  from g(2) have "umask fs1 = umask g" by (auto simp: lock_def write_pid_def split: if_splits)
  with open_create_keeps [OF g(1)] show ?thesis by simp
qed

lemma unix_socket_dir:
  assumes "NewCachingAgent Unix pid uid sp lockPath c d p fs = (Inr (a, l), fs')" and "\<not> HasPrefix sp ''@''"
  shows "map_of (dir_mode fs') (Dir sp) = Some (uid, 0x1C0)" and "umask fs' = 0x3F"
proof -
  obtain fs1 fs3 where new: "Lockfile_New Unix pid lockPath (make_dir uid (Dir lockPath) (hardenAgentProcess fs)) = (Inr l, fs1)"
    and dir: "hardenSocketDir uid (Dir sp) (make_dir uid (Dir sp) fs1) = (Inr (), fs3)"
    and lis: "listen pid sp (fs3\<lparr>sockets := gomap_delete sp (sockets fs3)\<rparr>) = Inr fs'"
    using NewCachingAgent_stages [OF assms] by (auto simp: Unix_def)
  from Lockfile_New_unix_umask [OF new] hardenSocketDir_ok [OF dir] listen_ok [OF lis]
  show "map_of (dir_mode fs') (Dir sp) = Some (uid, 0x1C0)" and "umask fs' = 0x3F"
    by (simp_all add: hardenAgentProcess_def)
qed

subsection \<open>Properties\<close>

text \<open>(C9) At most one agent serves a lock path, on Unix and, as far as \<open>LockFileEx\<close> does what it documents, on
  Windows: while an agent that started with it has not cleaned up,
  starting another one fails, and fails before the socket file is removed, so the running agent
  stays reachable; after the cleanup the lock is free again.\<close>

theorem second_agent_refused:
  assumes "plat = Unix \<or> (plat = Windows k \<and> lockfile_laws k)"
    and "NewCachingAgent plat pid uid sp lockPath c d p fs = (Inr (a, l), fs1)"
  shows "(\<exists>e. fst (NewCachingAgent plat pid' uid' sp' lockPath c' d' p' fs1) = Inl e)
    \<and> map_of (sockets (snd (NewCachingAgent plat pid' uid' sp' lockPath c' d' p' fs1))) sp = Some pid
    \<and> map_of (flocks (snd (NewCachingAgent plat pid' uid' sp' lockPath c' d' p' fs1))) lockPath = Some pid
    \<and> map_of (flocks (snd (cleanup plat l fs1))) lockPath = None"
proof -
  from assms(1) have "exclusive_lock plat"
    by (auto intro: unix.exclusive_lock_axioms windows_exclusive)
  note refused = exclusive_lock.second_refused [OF this assms(2)]
  show ?thesis by (intro conjI) (rule refused)+
qed

definition sample_fs :: filesystem where
  "sample_fs = \<lparr>file_text = [], flocks = [], dir_mode = [], sockets = [(''/wd/run/agent.sock'', 7)], umask = 0x12,
     may_open = (\<lambda>_. True), may_write = (\<lambda>_. True), may_chown = (\<lambda>_. True), may_chmod = (\<lambda>_. True), may_bind = (\<lambda>_. True)\<rparr>"

text \<open>A kernel that has the documented behaviour.\<close>

definition sample_kernel32 :: kernel32 where
  "sample_kernel32 = \<lparr>
     procLockFileEx = (\<lambda>pid path flags rsv low high fs.
       if map_of (flocks fs) path = None then ((1, None), fs\<lparr>flocks := gomap_put path pid (flocks fs)\<rparr>)
       else ((0, Some (ErrorString ''the process cannot access the file'')), fs)),
     procUnlockFileEx = (\<lambda>path rsv low high fs. ((1, None), fs\<lparr>flocks := gomap_delete path (flocks fs)\<rparr>))\<rparr>"

lemma sample_kernel32_laws: "lockfile_laws sample_kernel32"
  by (simp add: lockfile_laws_def sample_kernel32_def)

definition sample_started :: "platform \<Rightarrow> (MemCache CachingAgent \<times> string) result \<times> filesystem" where
  "sample_started plat = NewCachingAgent plat 99999 1000 ''/wd/run/agent.sock'' ''/wd/run/agent.pid'' NewMemCache 0 0 sample_fs"

lemmas sample_start_defs = NewCachingAgent_def Lockfile_New_def open_create_def lock_def write_front_def write_pid_def Unix_def
  hardenAgentProcess_def hardenSocketDir_def make_dir_def listen_def sample_fs_def Dir_def LastCut_def
  Clean_def IsAbs_def HasPrefix_def Let_def

lemma sample_started_ok:
  "\<exists>a. sample_started Unix = (Inr (a, ''/wd/run/agent.pid''), snd (sample_started Unix))"
  "\<exists>a. sample_started (Windows sample_kernel32) = (Inr (a, ''/wd/run/agent.pid''), snd (sample_started (Windows sample_kernel32)))"
  by (simp_all add: sample_started_def sample_start_defs Windows_def lock_windows_def lockFileEx_def sample_kernel32_def
      hardenAgentProcess_windows_def hardenSocketDir_windows_def)

theorem second_agent_refused_witness:
  "(\<exists>e. fst (NewCachingAgent Unix 5 1000 ''/wd/run/agent.sock'' ''/wd/run/agent.pid'' NewMemCache 0 0 (snd (sample_started Unix))) = Inl e)
    \<and> (\<exists>e. fst (NewCachingAgent (Windows sample_kernel32) 5 1000 ''/wd/run/agent.sock'' ''/wd/run/agent.pid'' NewMemCache 0 0
           (snd (sample_started (Windows sample_kernel32)))) = Inl e)"
proof
  obtain a where "sample_started Unix = (Inr (a, ''/wd/run/agent.pid''), snd (sample_started Unix))"
    using sample_started_ok(1) by blast
  from second_agent_refused [OF disjI1 [OF refl] this [unfolded sample_started_def]]
  show "\<exists>e. fst (NewCachingAgent Unix 5 1000 ''/wd/run/agent.sock'' ''/wd/run/agent.pid'' NewMemCache 0 0 (snd (sample_started Unix))) = Inl e"
    unfolding sample_started_def by (rule conjunct1)
  obtain b where "sample_started (Windows sample_kernel32) = (Inr (b, ''/wd/run/agent.pid''), snd (sample_started (Windows sample_kernel32)))"
    using sample_started_ok(2) by blast
  from second_agent_refused [OF disjI2 [OF conjI [OF refl sample_kernel32_laws]] this [unfolded sample_started_def]]
  show "\<exists>e. fst (NewCachingAgent (Windows sample_kernel32) 5 1000 ''/wd/run/agent.sock'' ''/wd/run/agent.pid'' NewMemCache 0 0
      (snd (sample_started (Windows sample_kernel32)))) = Inl e"
    unfolding sample_started_def by (rule conjunct1)
qed

text \<open>(C10) On Unix, an agent that started with a socket path in the file system, not an abstract one that starts
  with \<open>@\<close>, listens in a directory that belongs to its user and that only this user can enter, and holds the
  lock.\<close>

theorem agent_socket_is_private:
  assumes "NewCachingAgent Unix pid uid sp lockPath c d p fs = (Inr (a, l), fs')" and "\<not> HasPrefix sp ''@''"
  shows "map_of (dir_mode fs') (Dir sp) = Some (uid, 0x1C0) \<and> umask fs' = 0x3F
    \<and> map_of (sockets fs') sp = Some pid \<and> map_of (flocks fs') lockPath = Some pid"
  using unix.agent_ok [OF assms(1)] unix_socket_dir [OF assms] by simp

theorem agent_socket_is_private_witness:
  "map_of (dir_mode (snd (sample_started Unix))) (Dir ''/wd/run/agent.sock'') = Some (1000, 0x1C0)"
proof -
  obtain a where "sample_started Unix = (Inr (a, ''/wd/run/agent.pid''), snd (sample_started Unix))"
    using sample_started_ok(1) by blast
  from agent_socket_is_private [OF this [unfolded sample_started_def]] show ?thesis
    unfolding sample_started_def by (simp add: HasPrefix_def)
qed

text \<open>The process id is written over the old contents without truncating the file: after a process
  with a longer id, the file does not hold the id of the process that has the lock.\<close>

theorem lock_file_keeps_stale_digits:
  "map_of (file_text (snd (lock 123 ''l'' (snd (unlock ''l'' (snd (lock 99999 ''l'' sample_fs))))))) ''l'' = Some ''12399''"
  by (simp add: lock_def unlock_def write_pid_def write_front_def sample_fs_def gomap_delete_def Let_def
      utoa.simps char_of_def bit_0)

text \<open>On Windows the directory of the socket is left as it is: one that others can enter stays so.\<close>

lemma windows_socket_dir_unprotected:
  assumes "lockfile_laws k" and "map_of (dir_mode fs) (Dir sp) = Some (owner, m)" and "Dir lockPath = Dir sp"
    and "NewCachingAgent (Windows k) pid uid sp lockPath c d p fs = (Inr (a, l), fs')" and "\<not> HasPrefix sp ''@''"
  shows "map_of (dir_mode fs') (Dir sp) = Some (owner, m)"
proof -
  have mk: "make_dir uid (Dir sp) g = g" if "map_of (dir_mode g) (Dir sp) = Some (owner, m)" for g
    using that by (simp add: make_dir_def)
  obtain fs1 fs3 where st: "Lockfile_New (Windows k) pid lockPath (make_dir uid (Dir lockPath) (plat_hardenAgentProcess (Windows k) fs)) = (Inr l, fs1)"
      "plat_hardenSocketDir (Windows k) uid (Dir sp) (make_dir uid (Dir sp) fs1) = (Inr (), fs3)"
      "listen pid sp (fs3\<lparr>sockets := gomap_delete sp (sockets fs3)\<rparr>) = Inr fs'"
    by (rule NewCachingAgent_stages [OF assms(4,5)])
  have fs1: "Lockfile_New (Windows k) pid lockPath fs = (Inr l, fs1)"
    using st(1) mk [OF assms(2)] assms(3) by (simp add: Windows_def hardenAgentProcess_windows_def)
  have lis: "dir_mode fs' = dir_mode (make_dir uid (Dir sp) fs1)"
    using st(2) listen_ok [OF st(3)] by (simp add: Windows_def hardenSocketDir_windows_def)
  obtain g where g: "open_create lockPath fs = Inr g" "lock_windows k pid lockPath g = (Inr (), fs1)"
    using fs1 by (auto simp: Lockfile_New_def Windows_def split: sum.splits prod.splits)
  then have "dir_mode fs1 = dir_mode g"
    using write_pid_keeps(4) [of pid lockPath "g\<lparr>flocks := gomap_put lockPath pid (flocks g)\<rparr>"]
    by (cases rule: lock_windows_cases [OF assms(1), of pid lockPath g]) simp_all
  with open_create_keeps [OF g(1)] have "dir_mode fs1 = dir_mode fs" by simp
  with lis mk [of fs1] assms(2) show ?thesis by simp
qed

end
