(* ===== verification/Root.thy ===== *)
theory Root
  imports Config_File Go_Duration Logging SocketCache Server Lockfile
begin

text \<open>
  The commands of the program (\<open>src/cmd/root/root.go\<close>): the choice of a command, the \<open>get\<close> command
  with its cache, the commands that talk to the agent, and the agent process.  A process ends with
  what it printed and, if it failed, the message of \<open>logging.Fatalf\<close>.
\<close>

subsection \<open>Environment\<close>

definition shouldRunStandalone :: "process \<Rightarrow> bool" where
  "shouldRunStandalone p =
     (let standalone = ToLower (Getenv StandaloneEnv p) in standalone = ''true'' \<or> standalone = ''1'')"

definition setLogLevel :: "process \<Rightarrow> logger \<Rightarrow> logger" where
  "setLogLevel p lg = (case LookupEnv LogLevelEnv p of None \<Rightarrow> lg | Some l \<Rightarrow> SetLevel (FromString l) lg)"

definition getDurationFromEnvOrDefault :: "process \<Rightarrow> string \<Rightarrow> duration \<Rightarrow> duration result" where
  "getDurationFromEnvOrDefault p key fallback =
     (case LookupEnv key p of None \<Rightarrow> Inr fallback | Some timeoutString \<Rightarrow> ParseDuration timeoutString)"

subsection \<open>The get command\<close>

record run =
  printed :: "GetCredentialsResponse list"
  fatal :: "string option"

definition Fatalf :: "string \<Rightarrow> run" where
  "Fatalf msg = \<lparr>printed = [], fatal = Some msg\<rparr>"

text \<open>The tip for requests of helpers that have setup instructions.\<close>

definition setup_tip :: "world \<Rightarrow> helper \<Rightarrow> string \<Rightarrow> string" where
  "setup_tip w h uri =
     (if helper_Setup h \<noteq> None then
        Sprintf (CHR 0x0A # CHR 0x0A # ''Tip: try running the following command for setup instructions:'' @
          CHR 0x0A # ''  $ %s setup-uri %s'') [argv0 w, uri]
      else [])"

text \<open>\<open>foreground\<close> from the point where the helper is known.\<close>

definition answer_request :: "world \<Rightarrow> json option \<Rightarrow> helper \<Rightarrow> 's cache_iface \<Rightarrow> GetCredentialsRequest \<Rightarrow> 's \<Rightarrow> run \<times> 's" where
  "answer_request w ctx h ops req c =
     (let cacheKey = helper_CacheKey h req
      in case Retrieve ops cacheKey c of
           (Inr resp, c1) \<Rightarrow> (\<lparr>printed = [resp], fatal = None\<rparr>, c1)
         | (Inl _, c1) \<Rightarrow>
             (case helper_Resolver h w ctx of
                Inl err \<Rightarrow> (Fatalf (''instantiating resolver: '' @ err_msg err), c1)
              | Inr resolver \<Rightarrow>
                  (case resolver req of
                     Inl err \<Rightarrow> (Fatalf (err_msg err @ setup_tip w h (URI req)), c1)
                   | Inr resp \<Rightarrow>
                       (case Store ops \<lparr>CacheKey = cacheKey, Response = resp\<rparr> c1 of
                          (Inl err, c2) \<Rightarrow> (\<lparr>printed = [resp], fatal = Some (''storing response in cache: '' @ err_msg err)\<rparr>, c2)
                        | (Inr _, c2) \<Rightarrow> (\<lparr>printed = [resp], fatal = None\<rparr>, c2)))))"

text \<open>\<open>logging.SyslogDebugf\<close> of the platform.\<close>

definition log_request :: "world \<Rightarrow> string \<Rightarrow> logger \<Rightarrow> logger + logger" where
  "log_request w uri lg =
     (if on_linux w then SyslogDebugf (syslog_New w) uri lg else Inr (SyslogDebugf_fallback uri lg))"

definition nil_dereference :: string where
  "nil_dereference = ''invalid memory address or nil pointer dereference''"

definition foreground ::
  "world \<Rightarrow> logger \<Rightarrow> helper gomap \<Rightarrow> (string \<Rightarrow> helper result) \<Rightarrow> file_config result \<Rightarrow> 's cache_iface \<Rightarrow> wire_item \<Rightarrow> 's \<Rightarrow>
    run \<times> 's \<times> logger" where
  "foreground w lg reg helperFactory configRead ops input c =
     (case decode_item decode_GetCredentialsRequest input \<lparr>URI = []\<rparr> of
        Inl err \<Rightarrow> (Fatalf (err_msg err), c, lg)
      | Inr req \<Rightarrow>
          (case log_request w (URI req) lg of
             Inl lg1 \<Rightarrow> (Fatalf nil_dereference, c, lg1)
           | Inr lg1 \<Rightarrow>
               (case Configure reg helperFactory configRead (URI req) of
                  Inl err \<Rightarrow> (Fatalf (err_msg err), c, lg1)
                | Inr (ctx, None) \<Rightarrow> (Fatalf nil_dereference, c, lg1)
                | Inr (ctx, Some h) \<Rightarrow>
                    (case answer_request w ctx h ops req c of (r, c') \<Rightarrow> (r, c', lg1)))))"

subsection \<open>The client process\<close>

datatype 's client_cache = Standalone NoCache | Connected "'s socket"

text \<open>\<open>launch\<close> is the outcome of \<open>agent.LaunchAgentProcess\<close>, \<open>dial\<close> that of the attempts to connect.\<close>

definition launchOrConnectAgent :: "process \<Rightarrow> unit result \<Rightarrow> (string \<Rightarrow> nat \<Rightarrow> 's socket option) \<Rightarrow> 's client_cache result" where
  "launchOrConnectAgent p launch dial =
     (if shouldRunStandalone p then Inr (Standalone \<lparr>no_state = ()\<rparr>)
      else case launch of
             Inl err \<Rightarrow> Inl err
           | Inr _ \<Rightarrow> map_sum id Connected (NewSocketCache (dial (fst (AgentPaths p))) Second))"

definition clientProcess ::
  "world \<Rightarrow> logger \<Rightarrow> helper gomap \<Rightarrow> (string \<Rightarrow> helper result) \<Rightarrow> unit result \<Rightarrow> (string \<Rightarrow> nat \<Rightarrow> 's socket option) \<Rightarrow>
    's cache_iface \<Rightarrow> wire_item \<Rightarrow> run \<times> 's client_cache option \<times> logger" where
  "clientProcess w lg reg helperFactory launch dial ops input =
     (case launchOrConnectAgent (proc w) launch dial of
        Inl err \<Rightarrow> (Fatalf (''failed to launch or connect to agent: '' @ err_msg err), None, lg)
      | Inr (Standalone c) \<Rightarrow>
          (case foreground w lg reg helperFactory (OSReader_Read w) NoCache_iface input c of
             (r, c', lg') \<Rightarrow> (r, Some (Standalone c'), lg'))
      | Inr (Connected s) \<Rightarrow>
          (case foreground w lg reg helperFactory (OSReader_Read w) (SocketCache_iface ops) input s of
             (r, s', lg') \<Rightarrow> (r, Some (Connected (SocketCache_Close s')), lg')))"

subsection \<open>Commands for the agent\<close>

datatype command_run = CommandPrinted "json option" | CommandRefused string "json option" | CommandFatal string

text \<open>The payload is the text on standard input, \<open>None\<close> when there is none.\<close>

definition clientCommandProcess ::
  "string \<Rightarrow> wire_item option \<Rightarrow> 's socket result \<Rightarrow> 's cache_iface \<Rightarrow> command_run \<times> 's socket option" where
  "clientCommandProcess command r dialed ops =
     (case NewAgentCommandClient dialed of
        Inl err \<Rightarrow> if command = AgentRequestShutdown then (CommandPrinted None, None) else (CommandFatal (err_msg err), None)
      | Inr conn \<Rightarrow>
          (case r of
             Some Malformed \<Rightarrow> (CommandFatal (err_msg syntax_error), Some (Close conn))
           | _ \<Rightarrow>
               (let payload = (case r of Some (Value v) \<Rightarrow> Some v | _ \<Rightarrow> None)
                in case Command ops \<lparr>Method = command, ReqPayload = payload\<rparr> conn of
                     (Inl err, conn') \<Rightarrow> (CommandFatal (err_msg err), Some (Close conn'))
                   | (Inr resp, conn') \<Rightarrow>
                       (if Status resp \<noteq> AgentResponseOK then CommandRefused (Status resp) (RespPayload resp)
                        else CommandPrinted (RespPayload resp), Some (Close conn')))))"

subsection \<open>The agent process\<close>

datatype 's agent_run = AgentFatal string | AgentServes "'s server" string

definition agentProcess :: "platform \<Rightarrow> process \<Rightarrow> nat \<Rightarrow> nat \<Rightarrow> 's \<Rightarrow> time \<Rightarrow> filesystem \<Rightarrow> 's agent_run \<times> filesystem" where
  "agentProcess plat p pid uid c0 t fs =
     (if shouldRunStandalone p then (AgentFatal ''running as agent is not supported in standalone mode'', fs)
      else case getDurationFromEnvOrDefault p IdleTimeoutEnv (3 * Hour) of
             Inl err \<Rightarrow> (AgentFatal (Sprintf ''determining idle timeout from $%s: %v'' [IdleTimeoutEnv, err_msg err]), fs)
           | Inr idle_t \<Rightarrow>
               (case getDurationFromEnvOrDefault p PruneIntervalEnv Minute of
                  Inl err \<Rightarrow> (AgentFatal (Sprintf ''determining idle timeout from $%s: %v'' [PruneIntervalEnv, err_msg err]), fs)
                | Inr prune_i \<Rightarrow>
                    (case NewCachingAgent plat pid uid (fst (AgentPaths p)) (snd (AgentPaths p)) c0 idle_t prune_i fs of
                       (Inl err, fs') \<Rightarrow> (AgentFatal (err_msg err), fs')
                     | (Inr (service, agentLock), fs') \<Rightarrow>
                         (AgentServes (serve_start (agent_cache service) (idleTimeout service) (pruneInterval service) t)
                            agentLock, fs'))))"

subsection \<open>Commands\<close>

datatype action =
    InstallerAction | UsageAction | SetupFailed string | GetAction | SetupURIAction "string list" | SetupKeyringAction "string list"
  | AgentLaunchAction | AgentShutdownAction | AgentPruneAction | AgentLogsAction | AgentRawAction string
  | VersionAction | FatalAction string

text \<open>\<open>wantInstaller\<close> is \<open>installer.WantInstallerRun\<close>.\<close>

definition Run_action :: "process \<Rightarrow> bool \<Rightarrow> string list \<Rightarrow> action \<times> process" where
  "Run_action p wantInstaller args =
     (if length args < 2 then (if wantInstaller then InstallerAction else UsageAction, p)
      else case SetupEnvironment p of
             Inl err \<Rightarrow> (SetupFailed (''setting up process environment: '' @ err_msg err), p)
           | Inr p' \<Rightarrow>
               (let command = args ! 1
                in if command = ''get'' then GetAction
                   else if command = ''setup-uri'' then SetupURIAction (drop 2 args)
                   else if command = ''setup-keyring'' then SetupKeyringAction (drop 2 args)
                   else if command = ''agent-launch'' then AgentLaunchAction
                   else if command = ''agent-shutdown'' then AgentShutdownAction
                   else if command = ''agent-prune'' then AgentPruneAction
                   else if command = ''agent-logs'' then AgentLogsAction
                   else if command = ''agent-raw'' then
                     (if length args < 3 then FatalAction ''missing command argument'' else AgentRawAction (args ! 2))
                   else if command = ''installer-install'' then InstallerAction
                   else if command = ''version'' then VersionAction
                   else FatalAction ''unknown command'', p'))"

definition version :: string where "version = ''0.0.0''"

definition usage :: string where
  "usage =
     ''Usage: credential-helper [COMMAND] [ARGS...]'' @ [CHR 0x0A, CHR 0x0A] @
     ''Commands:'' @ CHR 0x0A #
     ''  get            get credentials in the form of http headers for the uri provided on stdin and print result to stdout '' @
     ''(see https://github.com/EngFlow/credential-helper-spec for more information)'' @ CHR 0x0A #
     ''  setup-uri      prints setup instructions for a given uri'' @ CHR 0x0A #
     ''  setup-keyring  stores a secret in the system keyring'' @ CHR 0x0A #
     ''  version        displays the version of this tool''"

text \<open>What the actions that end at once print on standard output and standard error, and their exit status.\<close>

fun Run_immediate :: "action \<Rightarrow> (string \<times> string \<times> nat) option" where
  "Run_immediate UsageAction = Some ([], usage @ [CHR 0x0A], 1)"
| "Run_immediate (SetupFailed msg) = Some ([], msg @ [CHR 0x0A], 1)"
| "Run_immediate (FatalAction msg) = Some ([], fmtWithNewline msg, 1)"
| "Run_immediate VersionAction = Some (version @ [CHR 0x0A], [], 0)"
| "Run_immediate _ = None"

subsection \<open>Caching does not change the answers\<close>

text \<open>A run without a cache.\<close>

definition direct_run :: "world \<Rightarrow> json option \<Rightarrow> helper \<Rightarrow> GetCredentialsRequest \<Rightarrow> run" where
  "direct_run w ctx h req = fst (answer_request w ctx h NoCache_iface req \<lparr>no_state = ()\<rparr>)"

lemma direct_run_eq:
  "direct_run w ctx h req =
     (case helper_Resolver h w ctx of
        Inl err \<Rightarrow> Fatalf (''instantiating resolver: '' @ err_msg err)
      | Inr resolver \<Rightarrow>
          (case resolver req of
             Inl err \<Rightarrow> Fatalf (err_msg err @ setup_tip w h (URI req))
           | Inr resp \<Rightarrow> \<lparr>printed = [resp], fatal = None\<rparr>))"
  by (simp add: direct_run_def answer_request_def NoCache_iface_def NoCache_Retrieve_def NoCache_Store_def
      split: sum.split)

lemma direct_run_answer:
  "helper_Get w ctx h req = Inr r \<Longrightarrow> direct_run w ctx h req = \<lparr>printed = [r], fatal = None\<rparr>"
  by (auto simp: direct_run_eq helper_Get_def split: sum.splits)

text \<open>A helper with a safe key over any cache that satisfies the contract of the interface.\<close>

locale cached_helper =
  api_cache inv contents retrieve store prune +
  safe_keyed_helper "helper_CacheKey h" "helper_Get w ctx h"
  for inv :: "'s \<Rightarrow> bool" and contents retrieve store prune and h :: helper and w :: world and ctx :: "json option" +
  assumes get_wf: "helper_Get w ctx h q = Inr r \<Longrightarrow> wf_response r"
begin

text \<open>Every cached response is what the helper would answer now.\<close>

definition sound :: "'s \<Rightarrow> bool" where
  "sound c \<longleftrightarrow> inv c \<and> (\<forall>q r. contents c (helper_CacheKey h q) = Some r \<longrightarrow> helper_Get w ctx h q = Inr r)"

lemma sound_weaken: "sound c \<Longrightarrow> inv c' \<Longrightarrow> contents c' \<subseteq>\<^sub>m contents c \<Longrightarrow> sound c'"
  by (auto simp: sound_def map_le_def dom_def)

lemma sound_prune: "sound c \<Longrightarrow> sound (snd (prune clk c))"
  by (rule sound_weaken) (auto simp: sound_def intro: inv_prune prune_contents)

lemma sound_retrieve: "sound c \<Longrightarrow> sound (snd (retrieve k c))"
  by (simp add: sound_def inv_retrieve retrieve_contents)

lemma sound_store:
  assumes "sound c" and "helper_Get w ctx h q = Inr r"
  shows "sound (snd (store \<lparr>CacheKey = helper_CacheKey h q, Response = r\<rparr> c))"
proof -
  let ?v = "\<lparr>CacheKey = helper_CacheKey h q, Response = r\<rparr>"
  have wf: "wf_response (Response ?v)" using get_wf [OF assms(2)] by simp
  have inv: "inv c" using assms(1) by (simp add: sound_def)
  { fix q' r'
    assume "contents (snd (store ?v c)) (helper_CacheKey h q') = Some r'"
    with store_contents [OF inv wf] have "updated ?v (contents c) (helper_CacheKey h q') = Some r'"
      by (auto simp: map_le_def dom_def)
    with assms have "helper_Get w ctx h q' = Inr r'"
      using cached_answer [of q q' r]
      by (auto simp: updated_def storable_def sound_def split: if_splits) }
  with inv_store [OF inv wf] show ?thesis by (simp add: sound_def)
qed

lemma answer_request_direct:
  assumes "sound c"
  shows "fst (answer_request w ctx h iface q c) = direct_run w ctx h q"
    and "sound (snd (answer_request w ctx h iface q c))"
proof -
  have inv: "inv c" using assms by (simp add: sound_def)
  let ?k = "helper_CacheKey h q"
  have "fst (answer_request w ctx h iface q c) = direct_run w ctx h q
    \<and> sound (snd (answer_request w ctx h iface q c))"
  proof (cases "contents c ?k")
    case (Some r)
    with assms have "helper_Get w ctx h q = Inr r" by (simp add: sound_def)
    with Some inv show ?thesis
      using sound_retrieve [OF assms, of ?k] retrieve_result [OF inv, of ?k]
      by (cases "retrieve ?k c") (simp add: answer_request_def direct_run_answer)
  next
    case None
    obtain c1 where c1: "retrieve ?k c = (Inl CacheMiss, c1)" "sound c1"
      using None retrieve_result [OF inv, of ?k] sound_retrieve [OF assms, of ?k]
      by (cases "retrieve ?k c") auto
    show ?thesis
    proof (cases "helper_Get w ctx h q")
      case (Inl e)
      with c1 show ?thesis
        by (auto simp: answer_request_def direct_run_eq helper_Get_def split: sum.splits)
    next
      case (Inr r)
      let ?v = "\<lparr>CacheKey = ?k, Response = r\<rparr>"
      have "wf_response (Response ?v)" using get_wf [OF Inr] by simp
      with c1(2) have "fst (store ?v c1) = Inr ()" by (auto simp: sound_def intro: store_result)
      then obtain c2 where c2: "store ?v c1 = (Inr (), c2)" by (cases "store ?v c1") auto
      with sound_store [OF c1(2) Inr] c1(1) Inr show ?thesis
        by (auto simp: answer_request_def direct_run_eq helper_Get_def split: sum.splits)
    qed
  qed
  then show "fst (answer_request w ctx h iface q c) = direct_run w ctx h q"
    and "sound (snd (answer_request w ctx h iface q c))" by simp_all
qed

end

subsection \<open>Several clients of one agent\<close>

text \<open>A client process connects anew; between two clients the agent may prune its cache any number of
  times.\<close>

definition connect_to :: "'s CachingAgent \<Rightarrow> 's socket" where
  "connect_to a = \<lparr>peer = a, peer_req = empty_agent_request, conn_open = True, sock_now = 0,
     sock_clock = (\<lambda>_. 0), stdin = [], stdout = []\<rparr>"

definition agent_prune :: "'s cache_iface \<Rightarrow> clock \<Rightarrow> 's CachingAgent \<Rightarrow> 's CachingAgent" where
  "agent_prune ops clk a = a\<lparr>agent_cache := snd (Prune ops clk (agent_cache a))\<rparr>"

fun client_runs ::
  "world \<Rightarrow> json option \<Rightarrow> helper \<Rightarrow> (GetCredentialsRequest \<times> clock list) list \<Rightarrow> MemCache CachingAgent \<Rightarrow> run list" where
  "client_runs w ctx h [] a = []"
| "client_runs w ctx h ((q, clks) # rest) a =
     (case answer_request w ctx h (SocketCache_iface MemCache_iface) q
             (connect_to (fold (agent_prune MemCache_iface) clks a)) of
        (r, s) \<Rightarrow> r # client_runs w ctx h rest (peer s))"

lemma connect_to_sel [simp]: "peer (connect_to a) = a" "conn_open (connect_to a)"
  by (simp_all add: connect_to_def)

lemma sock_contents_peer: "mem.sock_contents (connect_to (peer s)) = mem.sock_contents s"
  by (simp add: mem.sock_contents_def fun_eq_iff)

locale agent_helper = safe_keyed_helper "helper_CacheKey h" "helper_Get w ctx h"
  for h :: helper and w :: world and ctx :: "json option" +
  assumes answers_wf: "helper_Get w ctx h q = Inr r \<Longrightarrow> wf_response r"

sublocale agent_helper \<subseteq> cached_helper mem.sock_inv mem.sock_contents
  "SocketCache_Retrieve MemCache_iface" "SocketCache_Store MemCache_iface" SocketCache_Prune h w ctx
  by unfold_locales (rule answers_wf)

context agent_helper
begin

lemma iface_socket: "iface = SocketCache_iface MemCache_iface"
  by (simp add: iface_def SocketCache_iface_def)

lemma sound_agent_prune: "sound (connect_to a) \<Longrightarrow> sound (connect_to (agent_prune MemCache_iface clk a))"
proof (rule sound_weaken)
  assume s: "sound (connect_to a)"
  then have wf: "MemCache_wf (agent_cache a)" by (simp add: sound_def sock_inv_iff)
  show "mem.sock_inv (connect_to (agent_prune MemCache_iface clk a))"
    using mem.inv_prune [OF wf, of clk] by (simp add: sock_inv_iff agent_prune_def MemCache_iface_def)
  show "mem.sock_contents (connect_to (agent_prune MemCache_iface clk a)) \<subseteq>\<^sub>m mem.sock_contents (connect_to a)"
    using mem.prune_contents [OF wf, of clk]
    by (auto simp: mem.sock_contents_def map_le_def dom_def agent_prune_def MemCache_iface_def)
qed

lemma sound_agent_prunes: "sound (connect_to a) \<Longrightarrow> sound (connect_to (fold (agent_prune MemCache_iface) clks a))"
  by (induction clks arbitrary: a) (simp_all add: sound_agent_prune)

lemma sound_reconnect: "sound s \<Longrightarrow> sound (connect_to (peer s))"
  by (simp add: sound_def sock_contents_peer sock_inv_iff)

lemma client_runs_direct:
  "sound (connect_to a) \<Longrightarrow> client_runs w ctx h qs a = map (\<lambda>(q, _). direct_run w ctx h q) qs"
proof (induction qs arbitrary: a)
  case (Cons q rest)
  obtain req clks where q: "q = (req, clks)" by (cases q)
  let ?s = "connect_to (fold (agent_prune MemCache_iface) clks a)"
  obtain r s where run: "answer_request w ctx h (SocketCache_iface MemCache_iface) req ?s = (r, s)"
    by (cases "answer_request w ctx h (SocketCache_iface MemCache_iface) req ?s")
  with answer_request_direct [OF sound_agent_prunes [OF Cons.prems], of req clks]
  have "r = direct_run w ctx h req" "sound (connect_to (peer s))"
    by (simp_all add: iface_socket sound_reconnect)
  with Cons.IH q run show ?case by simp
qed simp

lemma sound_fresh: "agent_cache a = NewMemCache \<Longrightarrow> sound (connect_to a)"
  by (simp add: sound_def sock_inv_iff mem.sock_contents_def)

end

lemma OCIResolver_Get_answer:
  "fst (OCIResolver_Get w ctx r q) = Inr resp \<Longrightarrow> resp = empty_response \<or> (\<exists>t. resp = oci_response t)"
  unfolding OCIResolver_Get_def by (auto split: sum.splits if_splits prod.splits)

lemma OCI_Get_wf: "OCI_Get w ctx oci q = Inr resp \<Longrightarrow> wf_response resp"
proof -
  assume "OCI_Get w ctx oci q = Inr resp"
  then obtain r where "fst (OCIResolver_Get w ctx r q) = Inr resp" by (auto simp: OCI_Get_def)
  from OCIResolver_Get_answer [OF this] show ?thesis by (auto simp: wf_response_def oci_response_def empty_response_def)
qed

interpretation oci_agent: agent_helper "OCI_helper oci" w ctx for oci w ctx
proof -
  have "safe_keyed_helper (helper_CacheKey (OCI_helper oci)) (helper_Get w ctx (OCI_helper oci))"
    using oci_keyed.safe_keyed_helper_axioms by (simp add: OCI_helper_def flip: helper_Get_simps(8))
  then show "agent_helper (OCI_helper oci) w ctx"
    by (rule agent_helper.intro) (unfold_locales, simp add: OCI_Get_wf)
qed

subsection \<open>What a cache adds to a guard\<close>

text \<open>A stored answer with an expiry is handed to every later request with its key.\<close>

lemma answered_then_cached:
  assumes "mem.sock_inv c" and "helper_Get w ctx h q = Inr r" and "wf_response r"
    and "mem.sock_contents c (helper_CacheKey h q) = None" and "helper_CacheKey h q \<noteq> []" and "Expires r \<noteq> []"
  shows "\<exists>s. answer_request w ctx h (SocketCache_iface MemCache_iface) q c = (\<lparr>printed = [r], fatal = None\<rparr>, s)
    \<and> mem.sock_inv s \<and> mem.sock_contents s (helper_CacheKey h q) = Some r"
proof -
  let ?k = "helper_CacheKey h q" and ?v = "\<lparr>CacheKey = helper_CacheKey h q, Response = r\<rparr>"
  obtain c1 where c1: "SocketCache_Retrieve MemCache_iface ?k c = (Inl CacheMiss, c1)" "mem.sock_inv c1"
    "mem.sock_contents c1 = mem.sock_contents c"
    using sock.retrieve_result [OF assms(1), of ?k] sock.inv_retrieve [OF assms(1), of ?k]
      sock.retrieve_contents [OF assms(1), of ?k] assms(4)
    by (cases "SocketCache_Retrieve MemCache_iface ?k c") auto
  have wf: "wf_response (Response ?v)" using assms(3) by simp
  obtain c2 where c2: "SocketCache_Store MemCache_iface ?v c1 = (Inr (), c2)" "mem.sock_inv c2"
    "mem.sock_contents c2 = updated ?v (mem.sock_contents c1)"
    using sock.store_result [OF c1(2) wf] sock.inv_store [OF c1(2) wf] sock.store_keeps [OF c1(2) wf]
    by (cases "SocketCache_Store MemCache_iface ?v c1") auto
  from assms c1 c2 have "mem.sock_contents c2 ?k = Some r" by (simp add: updated_def storable_def)
  with c1 c2 assms(2) show ?thesis
    by (auto simp: answer_request_def SocketCache_iface_def helper_Get_def split: sum.splits)
qed

lemma cached_is_printed:
  assumes "mem.sock_inv c" and "mem.sock_contents c (helper_CacheKey h q) = Some r"
  shows "fst (answer_request w ctx h (SocketCache_iface MemCache_iface) q c) = \<lparr>printed = [r], fatal = None\<rparr>"
  using sock.retrieve_result [OF assms(1), of "helper_CacheKey h q"] assms(2)
  by (cases "SocketCache_Retrieve MemCache_iface (helper_CacheKey h q) c")
    (simp add: answer_request_def SocketCache_iface_def)

lemma Parse_http:
  "plain_host h \<Longrightarrow> plain_path p \<Longrightarrow> Parse (''http://'' @ h @ CHR ''/'' # p) = Inr (plain_url ''http'' h (CHR ''/'' # p))"
  using Parse_plain [of "''http''" h p] by (simp add: plain_scheme_def is_lower_def ord_def)

subsection \<open>Standalone mode and durations\<close>

lemma NoCache_never_changes: "snd (answer_request w ctx h NoCache_iface q c) = c"
  by (simp add: answer_request_def NoCache_iface_def NoCache_Retrieve_def NoCache_Store_def split: sum.split)

lemma standalone_get:
  assumes "shouldRunStandalone (proc w)"
  shows "fst (clientProcess w lg reg factory launch dial ops input) =
    fst (foreground w lg reg factory (OSReader_Read w) NoCache_iface input \<lparr>no_state = ()\<rparr>)"
  using assms by (simp add: clientProcess_def launchOrConnectAgent_def split: prod.split)

lemma getDuration_bounds:
  assumes "getDurationFromEnvOrDefault p key d0 = Inr d" and "- (2 ^ 63) \<le> d0 \<and> d0 < 2 ^ 63"
  shows "- (2 ^ 63) \<le> d \<and> d < 2 ^ 63"
  using assms ParseDuration_bounds by (auto simp: getDurationFromEnvOrDefault_def split: option.splits)

text \<open>What a configured duration is: its default, the parsed text, and the product for a whole number of
  one unit.\<close>

lemma configured_duration:
  assumes "getDurationFromEnvOrDefault p key d0 = Inr d" and "- (2 ^ 63) \<le> d0 \<and> d0 < 2 ^ 63"
  shows "- (2 ^ 63) \<le> d \<and> d < 2 ^ 63
    \<and> (LookupEnv key p = None \<longrightarrow> d = d0)
    \<and> (\<forall>v. LookupEnv key p = Some v \<longrightarrow> ParseDuration v = Inr d)
    \<and> (\<forall>n. \<forall>(u, k) \<in> {(''ns'', 1), (''us'', 1000), (''ms'', 1000000), (''s'', 1000000000), (''m'', 60000000000),
                        (''h'', 3600000000000)}.
         LookupEnv key p = Some (utoa n @ u) \<and> n * k < 2 ^ 63 \<longrightarrow> d = int (n * k))"
proof -
  have units: "map_of unitMap u = Some k"
    if "(u, k) \<in> {(''ns'', 1), (''us'', 1000), (''ms'', 1000000), (''s'', 1000000000), (''m'', 60000000000),
         (''h'', 3600000000000)}" for u k
    using that by (auto simp: unitMap_def)
  have "d = int (n * k)" if "map_of unitMap u = Some k" "LookupEnv key p = Some (utoa n @ u)" "n * k < 2 ^ 63" for n u k
    using that assms(1) ParseDuration_whole [of u k n] by (simp add: getDurationFromEnvOrDefault_def max63_def)
  then have whole: "d = int (n * k)" if "(u, k) \<in> {(''ns'', 1), (''us'', 1000), (''ms'', 1000000), (''s'', 1000000000),
      (''m'', 60000000000), (''h'', 3600000000000)}" "LookupEnv key p = Some (utoa n @ u) \<and> n * k < 2 ^ 63" for n u k
    using units [OF that(1)] that(2) by blast
  show ?thesis
  proof (intro conjI)
    show "LookupEnv key p = None \<longrightarrow> d = d0" "\<forall>v. LookupEnv key p = Some v \<longrightarrow> ParseDuration v = Inr d"
      using assms(1) by (auto simp: getDurationFromEnvOrDefault_def)
  qed (use getDuration_bounds [OF assms] whole in blast)+
qed

definition sample_agent_process :: process where
  "sample_agent_process = (proc empty_world)\<lparr>env :=
     [(AgentPidPath, ''/wd/run/agent.pid''), (AgentSocketPath, ''/wd/run/agent.sock''), (IdleTimeoutEnv, ''5s''),
      (PruneIntervalEnv, ''7m'')]\<rparr>"

lemma sample_agent_process_env:
  "LookupEnv IdleTimeoutEnv sample_agent_process = Some (utoa 5 @ ''s'')" "LookupEnv PruneIntervalEnv sample_agent_process = Some (utoa 7 @ ''m'')"
  "\<not> shouldRunStandalone sample_agent_process"
  "AgentPaths sample_agent_process = (''/wd/run/agent.sock'', ''/wd/run/agent.pid'')"
  by (simp_all add: sample_agent_process_def LookupEnv_def Getenv_def shouldRunStandalone_def AgentPaths_def LookupPathEnv_def
      expandPath_def expand_prefix_def env_consts IdleTimeoutEnv_def PruneIntervalEnv_def StandaloneEnv_def
      PlaceholderWorkdir_def PlaceholderWorkspaceDir_def PlaceholderTmpdir_def PlaceholderCachedir_def PlaceholderHomedir_def
      empty_world_def utoa.simps char_of_def bit_0)

lemma sample_agent_process_serves:
  "\<exists>srv l fs'. agentProcess Unix sample_agent_process 1 1000 NewMemCache 0 sample_fs = (AgentServes srv l, fs')"
proof -
  have "getDurationFromEnvOrDefault sample_agent_process IdleTimeoutEnv (3 * Hour) = Inr (5 * Second)"
    using ParseDuration_whole [of "''s''" 1000000000 5]
    by (simp add: getDurationFromEnvOrDefault_def sample_agent_process_env unitMap_def max63_def Second_def)
  moreover have "getDurationFromEnvOrDefault sample_agent_process PruneIntervalEnv Minute = Inr (7 * Minute)"
    using ParseDuration_whole [of "''m''" 60000000000 7]
    by (simp add: getDurationFromEnvOrDefault_def sample_agent_process_env unitMap_def max63_def Minute_def Second_def)
  ultimately show ?thesis
    by (simp add: agentProcess_def sample_agent_process_env sample_start_defs)
qed

end
