(* ===== verification/Installer.thy ===== *)
theory Installer
  imports Go_Os Setup Root
begin

text \<open>
  The installer (\<open>src/cmd/installer/installer.go\<close>): it copies the running binary, or the one named in the
  environment, to the place where the agent is started from.  What the operating system knows (the
  path of the executable, symbolic links) and the run of the old binary that shuts its agent down are
  arguments.  The package has a copy of the function \<open>fatalFmt\<close> of \<open>Setup\<close>, which is used here.
\<close>

definition WantInstallerRun :: "process \<Rightarrow> bool \<times> process" where
  "WantInstallerRun p =
     (Getenv ''CREDENTIAL_HELPER_INSTALLER_RUN'' p = ''1'',
      p\<lparr>env := gomap_delete ''CREDENTIAL_HELPER_INSTALLER_RUN'' (env p)\<rparr>)"

text \<open>The output of \<open>agent-shutdown\<close> when it fails.\<close>

definition attemptAgentShutdown :: "(string \<Rightarrow> string list \<Rightarrow> string \<times> goerr option) \<Rightarrow> string \<Rightarrow> string" where
  "attemptAgentShutdown exec agentPath =
     (case exec agentPath [''agent-shutdown''] of (out, None) \<Rightarrow> [] | (out, Some _) \<Rightarrow> out)"

definition hardlinkOrCopy :: "string \<Rightarrow> string \<Rightarrow> disk \<Rightarrow> unit result \<times> disk" where
  "hardlinkOrCopy =
     link_or_copy (Wrapf ''opening source file for copying'' []) (Wrapf ''opening destination file for copying'' [])"

definition install_destination :: "process \<Rightarrow> string" where
  "install_destination p = LookupPathEnv ''CREDENTIAL_HELPER_INSTALLER_DESTINATION'' (CredentialHelper p) False p"

text \<open>Removing the old binary: an error is only reported.\<close>

definition remove_old :: "string \<Rightarrow> disk \<Rightarrow> string \<times> disk" where
  "remove_old path d =
     (case os_Remove path d of
        Inl err \<Rightarrow> (if \<not> is_not_exist err then Sprintf ''Removing old agent: %v'' [err_msg err] else [], d)
      | Inr d' \<Rightarrow> ([], d'))"

text \<open>The result, the text on standard error, and the disk.  Relative paths are taken from the working
  directory.\<close>

definition install ::
  "process \<Rightarrow> (string \<Rightarrow> string list \<Rightarrow> string \<times> goerr option) \<Rightarrow> string \<Rightarrow> disk \<Rightarrow> (string result \<times> string) \<times> disk" where
  "install p exec credentialHelperBin d =
     (case os_MkdirAll (resolve (cwd p) (Dir (CredentialHelper p))) d of
        Inl err \<Rightarrow> ((Inl (Wrapf ''making install destination directory'' [] err), []), d)
      | Inr d1 \<Rightarrow>
          (let destination = install_destination p;
               shutdownOut = attemptAgentShutdown exec destination;
               log = (if length shutdownOut > 0
                      then Sprintf ''Shutting down old agent before uninstall: %s'' [shutdownOut] else []);
               (removeLog, d2) = remove_old (resolve (cwd p) destination) d1
           in case hardlinkOrCopy (resolve (cwd p) credentialHelperBin) (resolve (cwd p) destination) d2 of
                (Inl err, d3) \<Rightarrow> ((Inl err, log @ removeLog), d3)
              | (Inr _, d3) \<Rightarrow> ((Inr destination, log @ removeLog), d3)))"

definition InstallerProcess ::
  "process \<Rightarrow> string result \<Rightarrow> (string \<Rightarrow> string result) \<Rightarrow> (string \<Rightarrow> string list \<Rightarrow> string \<times> goerr option) \<Rightarrow>
    disk \<Rightarrow> (setup_run \<times> string) \<times> disk" where
  "InstallerProcess p executable evalSymlinks exec d =
     (case (case LookupEnv ''CREDENTIAL_HELPER_INSTALLER_SOURCE'' p of Some path \<Rightarrow> Inr path | None \<Rightarrow> executable) of
        Inl err \<Rightarrow> ((fatalFmt ''finding path to own executable: %v'' [err_msg err], []), d)
      | Inr path0 \<Rightarrow>
          (case evalSymlinks path0 of
             Inl err \<Rightarrow> ((fatalFmt ''following source path symlink %s: %v'' [[], err_msg err], []), d)
           | Inr path1 \<Rightarrow>
               (case os_Stat (resolve (cwd p) path1) d of
                  Inl err \<Rightarrow> ((fatalFmt ''checking if install source exists %s: %v'' [path1, err_msg err], []), d)
                | Inr _ \<Rightarrow>
                    (case (if IsAbs path1 then Inr (Clean path1) else map_sum id (\<lambda>wd. Path_Join [wd, path1]) (Getwd p)) of
                       Inl err \<Rightarrow> ((fatalFmt ''getting absolute path: %v'' [err_msg err], []), d)
                     | Inr path \<Rightarrow>
                         (case SetupEnvironment p of
                            Inl err \<Rightarrow> ((fatalFmt ''setting up environment: %v'' [err_msg err], []), d)
                          | Inr p' \<Rightarrow>
                              (case install p' exec path d of
                                 ((Inl err, log), d') \<Rightarrow>
                                   ((fatalFmt ''Failed to install %s: %v'' [path, err_msg err], log), d')
                               | ((Inr destination, log), d') \<Rightarrow>
                                   ((SetupPrinted (destination @ [CHR 0x0A]), log), d')))))))"

text \<open>\<open>Run\<close> of \<open>src/cmd/root/root.go\<close>: without a command the environment decides whether to install.\<close>

definition Run_command :: "process \<Rightarrow> string list \<Rightarrow> action \<times> process" where
  "Run_command p args =
     (if length args < 2 then (case WantInstallerRun p of (want, p') \<Rightarrow> Run_action p' want args)
      else Run_action p False args)"

subsection \<open>Properties\<close>

text \<open>The variable that asks for an installation is gone afterwards, so the processes the installer starts
  do not install again.\<close>

lemma installer_runs_once:
  "fst (Run_command p args) = InstallerAction \<Longrightarrow> length args < 2 \<Longrightarrow>
     fst (Run_command (snd (Run_command p args)) args) = UsageAction"
  by (simp add: Run_command_def WantInstallerRun_def Run_action_def Getenv_def LookupEnv_def)

text \<open>What an installation does once the old file is out of the way.\<close>

lemma remove_old_gone:
  assumes "file_at path d \<noteq> None \<longrightarrow> remove_ok d path"
  obtains log where "remove_old path d = (log, d\<lparr>inode_of := gomap_delete path (inode_of d)\<rparr>)"
  using assms
  by (cases "map_of (inode_of d) path") (auto simp: remove_old_def os_Remove_def file_at_def gomap_delete_absent)

lemma install_cases:
  assumes "os_MkdirAll (resolve (cwd p) (Dir (CredentialHelper p))) d = Inr d1"
    and "dst = resolve (cwd p) (install_destination p)" and "file_at dst d \<noteq> None \<longrightarrow> remove_ok d dst"
    and "hardlinkOrCopy (resolve (cwd p) bin) dst (d1\<lparr>inode_of := gomap_delete dst (inode_of d1)\<rparr>) = (r, d3)"
  obtains log where "install p exec bin d = ((map_sum id (\<lambda>_. install_destination p) r, log), d3)"
proof -
  obtain log where "remove_old dst d1 = (log, d1\<lparr>inode_of := gomap_delete dst (inode_of d1)\<rparr>)"
    by (rule remove_old_gone [of dst d1]) (use assms(3) MkdirAll_keeps [OF assms(1)] in simp_all)
  with that assms(1,2,4) show thesis
    by (cases r) (simp_all add: install_def Let_def)
qed

text \<open>(C31) An installation from a source other than the destination, over a file that can be removed or over
  none, puts the binary at the destination and changes no other file.  The destination is no directory and
  lies in one, no symbolic link is on the way, the source can be read and the destination written, and no
  copy breaks off.  When the kernel makes a hard link, the destination has the permissions of the source;
  when it refuses, the bytes are copied into a new file, which nobody can execute.\<close>

theorem install_copies_binary:
  assumes "os_MkdirAll (resolve (cwd p) (Dir (CredentialHelper p))) d = Inr d1"
    and "dst = resolve (cwd p) (install_destination p)" and "src = resolve (cwd p) path" and "src \<noteq> dst"
    and "file_at src d = Some bin" and "file_at dst d \<noteq> None \<longrightarrow> remove_ok d dst"
    and "\<not> is_dir dst d1" and "is_dir (Dir dst) d1" and "open_ok d src" and "create_ok d dst"
    and "\<forall>i j. copy_fault d i j = None"
  shows "\<exists>log d'. install p exec path d = ((Inr (install_destination p), log), d')
    \<and> file_at dst d' = Some bin
    \<and> (if link_ok d src dst then mode_at dst d' = mode_at src d
       else \<exists>m. mode_at dst d' = Some m \<and> m = 438 AND NOT (disk_umask d) \<and> m AND 73 = 0)
    \<and> (\<forall>other. other \<noteq> dst \<longrightarrow> file_at other d' = file_at other d \<and> mode_at other d' = mode_at other d)"
proof -
  note keeps = MkdirAll_keeps [OF assms(1)]
  let ?d2 = "d1\<lparr>inode_of := gomap_delete dst (inode_of d1)\<rparr>"
  have same: "file_at x ?d2 = file_at x d" "mode_at x ?d2 = mode_at x d" if "x \<noteq> dst" for x
    using that keeps by (simp_all add: file_at_def mode_at_def)
  obtain i where i: "map_of (inode_of d) src = Some i"
    using assms(5) by (auto simp: file_at_def)
  have "fst (hardlinkOrCopy src dst ?d2) = Inr ()" unfolding hardlinkOrCopy_def
    by (rule link_or_copy_succeeds) (use assms i keeps in \<open>simp_all add: is_dir_def\<close>)
  then obtain d' where d': "hardlinkOrCopy src dst ?d2 = (Inr (), d')"
    by (cases "hardlinkOrCopy src dst ?d2") auto
  note copied = link_or_copy_new [OF d' [unfolded hardlinkOrCopy_def]]
  have "file_at dst d' = Some bin" "\<And>other. other \<noteq> dst \<Longrightarrow> file_at other d' = file_at other d \<and> mode_at other d' = mode_at other d"
    using copied assms(4,5) same by auto
  moreover have "if link_ok d src dst then mode_at dst d' = mode_at src d
      else \<exists>m. mode_at dst d' = Some m \<and> m = 438 AND NOT (disk_umask d) \<and> m AND 73 = 0"
    using copied(3) same(2) assms(4) keeps copy_not_executable [of "disk_umask d", unfolded perm_rw_def perm_x_def]
    by (simp add: perm_rw_def)
  moreover obtain log where "install p exec path d = ((Inr (install_destination p), log), d')"
    using install_cases [OF assms(1,2,6), of path "Inr ()" d' exec] assms(3) d' by auto
  ultimately show ?thesis by blast
qed

text \<open>Installing the binary over itself destroys it: when the source is the destination, as in
  \<open>installer-install\<close> run from the installed binary, the old file is removed before it is copied, so
  the installation fails and the binary is gone.\<close>

theorem self_install_loses_binary:
  assumes "os_MkdirAll (resolve (cwd p) (Dir (CredentialHelper p))) d = Inr d1"
    and "dst = resolve (cwd p) (install_destination p)" and "resolve (cwd p) path = dst"
    and "file_at dst d = Some bin" and "remove_ok d dst"
  shows "\<exists>e log d'. install p exec path d = ((Inl e, log), d') \<and> file_at dst d' = None"
proof -
  let ?d2 = "d1\<lparr>inode_of := gomap_delete dst (inode_of d1)\<rparr>"
  obtain e where "hardlinkOrCopy dst dst ?d2 = (Inl e, ?d2)"
    by (simp add: hardlinkOrCopy_def link_or_copy_missing)
  moreover from this obtain log where "install p exec path d = ((Inl e, log), ?d2)"
    using install_cases [OF assms(1,2), of path "Inl e" ?d2 exec] assms(3,5) by auto
  ultimately show ?thesis by (simp add: file_at_None_iff)
qed

subsection \<open>Witnesses\<close>

definition sample_disk :: "string \<Rightarrow> disk" where
  "sample_disk old =
     \<lparr>inode_of = [(''/src/bin'', 1), (''/w/bin/credential-helper'', 2)],
      inode_text = (\<lambda>i. if i = 1 then ''new'' else old), inode_mode = (\<lambda>_. 493), disk_umask = 18, directories = [''/'', ''/src'', ''/w'', ''/w/bin''],
      link_ok = (\<lambda>_ _. False), open_ok = (\<lambda>_. True), create_ok = (\<lambda>_. True), remove_ok = (\<lambda>_. True),
      mkdir_ok_at = (\<lambda>_. True), read_fault = (\<lambda>_. None), copy_fault = (\<lambda>_ _. None)\<rparr>"

definition installer_process :: process where
  "installer_process = \<lparr>env = [(WorkdirEnv, ''/w'')], cwd = ''/w'', getwd_ok = True,
     mkdir_ok = (\<lambda>_. True), chdir_ok = (\<lambda>_. True)\<rparr>"

lemma sample_paths:
  "CredentialHelper installer_process = ''/w/bin/credential-helper''"
  "install_destination installer_process = ''/w/bin/credential-helper''"
  "resolve ''/w'' ''/w/bin/credential-helper'' = ''/w/bin/credential-helper''"
  "Dir ''/w/bin/credential-helper'' = ''/w/bin''" "resolve ''/w'' ''/w/bin'' = ''/w/bin''"
  "resolve ''/w'' ''/src/bin'' = ''/src/bin''" "cwd installer_process = ''/w''"
  by code_simp+

lemma sample_mkdir: "os_MkdirAll (resolve (cwd installer_process) (Dir (CredentialHelper installer_process))) (sample_disk old) =
    Inr (sample_disk old)"
  by (simp add: sample_paths os_MkdirAll_def is_dir_def) (simp add: sample_disk_def)

theorem install_copies_binary_witness:
  "\<exists>log d'. install installer_process (\<lambda>_ _. ([], None)) ''/src/bin'' (sample_disk ''old'') =
       ((Inr (install_destination installer_process), log), d') \<and> file_at ''/w/bin/credential-helper'' d' = Some ''new''
     \<and> mode_at ''/w/bin/credential-helper'' d' = Some 420
     \<and> (\<forall>other. other \<noteq> ''/w/bin/credential-helper'' \<longrightarrow> file_at other d' = file_at other (sample_disk ''old''))"
proof -
  have "\<exists>log d'. install installer_process (\<lambda>_ _. ([], None)) ''/src/bin'' (sample_disk ''old'') =
       ((Inr (install_destination installer_process), log), d') \<and> file_at ''/w/bin/credential-helper'' d' = Some ''new''
     \<and> (if link_ok (sample_disk ''old'') ''/src/bin'' ''/w/bin/credential-helper''
        then mode_at ''/w/bin/credential-helper'' d' = mode_at ''/src/bin'' (sample_disk ''old'')
        else \<exists>m. mode_at ''/w/bin/credential-helper'' d' = Some m \<and> m = 438 AND NOT (disk_umask (sample_disk ''old'')) \<and> m AND 73 = 0)
     \<and> (\<forall>other. other \<noteq> ''/w/bin/credential-helper'' \<longrightarrow> file_at other d' = file_at other (sample_disk ''old'')
          \<and> mode_at other d' = mode_at other (sample_disk ''old''))"
    by (rule install_copies_binary [OF sample_mkdir, where src = "''/src/bin''"])
      (simp_all add: sample_paths, simp_all add: sample_disk_def is_dir_def file_at_def)
  moreover have "\<not> link_ok (sample_disk ''old'') a b" "438 AND NOT (disk_umask (sample_disk ''old'')) = 420" for a b
    by (simp_all add: sample_disk_def)
  ultimately show ?thesis by auto
qed

theorem self_install_loses_binary_witness:
  "\<exists>e log d'. install installer_process (\<lambda>_ _. ([], None)) ''/w/bin/credential-helper'' (sample_disk ''old'') =
       ((Inl e, log), d') \<and> file_at ''/w/bin/credential-helper'' d' = None"
  by (rule self_install_loses_binary [OF sample_mkdir, where bin = "''old''"])
    (simp_all add: sample_paths, simp_all add: sample_disk_def file_at_def)

end
