(* ===== verification/Launch.thy ===== *)
theory Launch
  imports Go_Os Root
begin

text \<open>
  Starting the agent (\<open>LaunchAgentProcess\<close> of \<open>src/agent/client.go\<close>, \<open>procAttrForAgentProcess\<close> of
  \<open>src/agent/client_unix.go\<close> and \<open>client_windows.go\<close>) and printing its logs (\<open>agentLogsProcess\<close> of \<open>src/cmd/root/root.go\<close>), over a disk.
  Starting a process is the operating system's: \<open>startProcess\<close> is its outcome, for a program, its
  arguments and attributes, together with the outcome of releasing the process.
\<close>

text \<open>The inodes of the open files the process gets; no standard input.\<close>

datatype SysProcAttr = Setpgid bool | CreationFlags "32 word"

record ProcAttr =
  Files :: "nat option list"
  Sys :: SysProcAttr

text \<open>Unix: the agent gets a process group of its own.\<close>

definition procAttrForAgentProcess :: "nat option \<Rightarrow> nat option \<Rightarrow> ProcAttr" where
  "procAttrForAgentProcess out err = \<lparr>Files = [None, out, err], Sys = Setpgid True\<rparr>"

text \<open>Windows: it is detached from the console, in a process group of its own.\<close>

definition DETACHED_PROCESS :: "32 word" where "DETACHED_PROCESS = 0x00000008"
definition CREATE_NEW_PROCESS_GROUP :: "32 word" where "CREATE_NEW_PROCESS_GROUP = 0x00000200"

definition procAttrForAgentProcess_windows :: "nat option \<Rightarrow> nat option \<Rightarrow> ProcAttr" where
  "procAttrForAgentProcess_windows out err =
     \<lparr>Files = [None, out, err], Sys = CreationFlags (DETACHED_PROCESS OR CREATE_NEW_PROCESS_GROUP)\<rparr>"

definition agent_attributes :: "bool \<Rightarrow> nat option \<Rightarrow> nat option \<Rightarrow> ProcAttr" where
  "agent_attributes windows = (if windows then procAttrForAgentProcess_windows else procAttrForAgentProcess)"

lemma agent_attributes_Files [simp]: "Files (agent_attributes windows out err) = [None, out, err]"
  by (simp add: agent_attributes_def procAttrForAgentProcess_def procAttrForAgentProcess_windows_def)

text \<open>\<open>os.OpenFile\<close> with \<open>O_CREATE|O_WRONLY|O_APPEND\<close> and the permissions \<open>0600\<close>: what is in the file stays.\<close>

definition open_append :: "string \<Rightarrow> disk \<Rightarrow> (nat \<times> disk) result" where
  "open_append path d =
     (case map_of (inode_of d) path of
        Some i \<Rightarrow> if create_ok d path then Inr (i, d) else Inl (ErrorString (''open '' @ path @ '': permission denied''))
      | None \<Rightarrow> open_trunc 384 path d)"

definition log_path :: "process \<Rightarrow> string \<Rightarrow> string" where
  "log_path p name = resolve (cwd p) (Path_Join [Run p, name])"

definition open_logs :: "process \<Rightarrow> disk \<Rightarrow> (nat \<times> nat) result \<times> disk" where
  "open_logs p d0 =
     (let d = (case os_MkdirAll (resolve (cwd p) (Run p)) d0 of Inl _ \<Rightarrow> d0 | Inr d \<Rightarrow> d)
      in case open_append (log_path p ''agent.stdout'') d of
           Inl err \<Rightarrow> (Inl (Wrapf ''opening agent stdout file for logging'' [] err), d)
         | Inr (out, d1) \<Rightarrow>
             (case open_append (log_path p ''agent.stderr'') d1 of
                Inl err \<Rightarrow> (Inl (Wrapf ''opening agent stderr file for logging'' [] err), d1)
              | Inr (errf, d2) \<Rightarrow> (Inr (out, errf), d2)))"

definition LaunchAgentProcess ::
  "bool \<Rightarrow> process \<Rightarrow> int \<Rightarrow> string result \<Rightarrow> (string \<Rightarrow> string list \<Rightarrow> ProcAttr \<Rightarrow> unit result result) \<Rightarrow> disk \<Rightarrow> unit result \<times> disk" where
  "LaunchAgentProcess windows p level executable startProcess d =
     (case executable of
        Inl err \<Rightarrow> (Inl (Wrapf ''finding path to own executable'' [] err), d)
      | Inr self \<Rightarrow>
          (case (if LogLevelDebug \<le> level
                 then (case open_logs p d of (r, d') \<Rightarrow> (map_sum id (\<lambda>(out, errf). (Some out, Some errf)) r, d'))
                 else (Inr (None, None), d)) of
             (Inl err, d') \<Rightarrow> (Inl err, d')
           | (Inr (outFile, errFile), d') \<Rightarrow>
               (case startProcess self [self, ''agent-launch''] (agent_attributes windows outFile errFile) of
                  Inl err \<Rightarrow> (Inl (Wrapf ''starting agent process'' [] err), d')
                | Inr released \<Rightarrow> (released, d'))))"

text \<open>The texts on standard output and standard error, or the message of a failure.\<close>

datatype logs_run = LogsPrinted string string | LogsFatal string

definition agentLogsProcess :: "process \<Rightarrow> disk \<Rightarrow> logs_run" where
  "agentLogsProcess p d =
     (case os_Open (log_path p ''agent.stdout'') d of
        Inl err \<Rightarrow> LogsFatal (''opening agent stdout log: '' @ err_msg err)
      | Inr out \<Rightarrow>
          (case os_Open (log_path p ''agent.stderr'') d of
             Inl err \<Rightarrow> LogsFatal (''opening agent stderr log: '' @ err_msg err)
           | Inr errf \<Rightarrow>
               (case read_fault d out of
                  Some err \<Rightarrow> LogsFatal (''copying agent stdout log to stdout: '' @ err_msg err)
                | None \<Rightarrow>
                    (case read_fault d errf of
                       Some err \<Rightarrow> LogsFatal (''copying agent stderr log to stderr: '' @ err_msg err)
                     | None \<Rightarrow> LogsPrinted (inode_text d out) (inode_text d errf)))))"

subsection \<open>The logs of a launched agent\<close>

text \<open>What a process writes to its standard output and standard error is appended to the files.\<close>

definition agent_writes :: "nat option list \<Rightarrow> string \<Rightarrow> string \<Rightarrow> disk \<Rightarrow> disk" where
  "agent_writes files out err d =
     (case files of
        [_, Some i, Some j] \<Rightarrow>
          (let t = (inode_text d)(i := inode_text d i @ out) in d\<lparr>inode_text := t(j := t j @ err)\<rparr>)
      | _ \<Rightarrow> d)"

lemma open_append_ok:
  assumes "open_append path d = Inr (i, d')"
  shows "map_of (inode_of d') = (map_of (inode_of d))(path \<mapsto> i)"
    and "inode_text d' i = (case file_at path d of None \<Rightarrow> [] | Some s \<Rightarrow> s)"
    and "map_of (inode_of d) path = Some i \<or> i = fresh_inode d"
    and "q \<noteq> path \<Longrightarrow> file_at q d' = file_at q d" and "j \<noteq> i \<Longrightarrow> inode_text d' j = inode_text d j"
    and "open_ok d' = open_ok d" and "read_fault d' = read_fault d"
  using assms fresh_inode_unused [of d q]
  by (auto simp: open_append_def open_trunc_def file_at_def Let_def fun_upd_idem map_option_case
      split: option.splits if_splits)

definition old_text :: "string \<Rightarrow> disk \<Rightarrow> string" where
  "old_text path d = (case file_at path d of None \<Rightarrow> [] | Some s \<Rightarrow> s)"

lemma open_logs_ok:
  assumes "open_logs p d = (Inr (i, j), d')" and "log_path p ''agent.stdout'' \<noteq> log_path p ''agent.stderr''"
    and "\<And>k. map_of (inode_of d) (log_path p ''agent.stdout'') = Some k \<Longrightarrow> map_of (inode_of d) (log_path p ''agent.stderr'') \<noteq> Some k"
  shows "map_of (inode_of d') (log_path p ''agent.stdout'') = Some i" "map_of (inode_of d') (log_path p ''agent.stderr'') = Some j"
    "i \<noteq> j" "inode_text d' i = old_text (log_path p ''agent.stdout'') d" "inode_text d' j = old_text (log_path p ''agent.stderr'') d"
    "open_ok d' = open_ok d" "read_fault d' = read_fault d"
proof -
  define d0 where "d0 = (case os_MkdirAll (resolve (cwd p) (Run p)) d of Inl _ \<Rightarrow> d | Inr d0 \<Rightarrow> d0)"
  have d0: "inode_of d0 = inode_of d" "inode_text d0 = inode_text d" "open_ok d0 = open_ok d" "read_fault d0 = read_fault d"
    by (auto simp: d0_def os_MkdirAll_def split: sum.split)
  obtain d1 where s1: "open_append (log_path p ''agent.stdout'') d0 = Inr (i, d1)"
    and s2: "open_append (log_path p ''agent.stderr'') d1 = Inr (j, d')"
    using assms(1) by (auto simp: open_logs_def d0_def [symmetric] Let_def split: sum.splits prod.splits)
  note o1 = open_append_ok [OF s1] and o2 = open_append_ok [OF s2]
  have "map_of (inode_of d1) (log_path p ''agent.stderr'') = map_of (inode_of d0) (log_path p ''agent.stderr'')"
    using o1(1) assms(2) by simp
  then show neq: "i \<noteq> j"
    using o1(1,3) o2(3) d0(1) assms(3) fresh_inode_unused [of d1 "log_path p ''agent.stdout''"]
      fresh_inode_unused [of d0 "log_path p ''agent.stderr''"] by auto
  show "map_of (inode_of d') (log_path p ''agent.stdout'') = Some i" "map_of (inode_of d') (log_path p ''agent.stderr'') = Some j"
    using o1(1) o2(1) assms(2) by simp_all
  show "open_ok d' = open_ok d" "read_fault d' = read_fault d" using o1 o2 d0 by simp_all
  show "inode_text d' i = old_text (log_path p ''agent.stdout'') d"
    using o1(2) o2(5) neq d0 by (simp add: old_text_def file_at_def)
  have "file_at (log_path p ''agent.stderr'') d1 = file_at (log_path p ''agent.stderr'') d"
    using o1(4) [of "log_path p ''agent.stderr''"] assms(2) d0 by (simp add: file_at_def)
  then show "inode_text d' j = old_text (log_path p ''agent.stderr'') d"
    using o2(2) by (simp add: old_text_def)
qed

text \<open>With debug logging, what a launched agent writes can be read with \<open>agent-logs\<close>, after what earlier
  agents wrote.\<close>

theorem agent_logs_after_launch:
  assumes "LogLevelDebug \<le> level" and "LaunchAgentProcess windows p level executable startProcess d = (Inr (), d')"
    and "log_path p ''agent.stdout'' \<noteq> log_path p ''agent.stderr''"
    and "\<And>k. map_of (inode_of d) (log_path p ''agent.stdout'') = Some k \<Longrightarrow> map_of (inode_of d) (log_path p ''agent.stderr'') \<noteq> Some k"
    and "open_ok d (log_path p ''agent.stdout'')" and "open_ok d (log_path p ''agent.stderr'')" and "\<And>k. read_fault d k = None"
  shows "\<exists>self i j. executable = Inr self
    \<and> startProcess self [self, ''agent-launch''] (agent_attributes windows (Some i) (Some j)) = Inr (Inr ())
    \<and> agentLogsProcess p (agent_writes (Files (agent_attributes windows (Some i) (Some j))) out err d') =
      LogsPrinted (old_text (log_path p ''agent.stdout'') d @ out) (old_text (log_path p ''agent.stderr'') d @ err)"
proof -
  obtain self i j where "executable = Inr self" and logs: "open_logs p d = (Inr (i, j), d')"
    and "startProcess self [self, ''agent-launch''] (agent_attributes windows (Some i) (Some j)) = Inr (Inr ())"
    using assms(1,2) by (auto simp: LaunchAgentProcess_def map_sum_def split: sum.splits prod.splits)
  note ok = open_logs_ok [OF logs assms(3,4)]
  have "agentLogsProcess p (agent_writes [None, Some i, Some j] out err d') =
      LogsPrinted (old_text (log_path p ''agent.stdout'') d @ out) (old_text (log_path p ''agent.stderr'') d @ err)"
    using ok assms(5-7) by (simp add: agentLogsProcess_def agent_writes_def os_Open_def Let_def)
  with \<open>executable = Inr self\<close> \<open>startProcess _ _ _ = _\<close> show ?thesis
    by auto
qed

text \<open>Without it the launch touches no file.\<close>

lemma quiet_launch_keeps_disk: "level < LogLevelDebug \<Longrightarrow> snd (LaunchAgentProcess windows p level executable startProcess d) = d"
  by (simp add: LaunchAgentProcess_def split: sum.split)

end
