(* ===== verification/Wire.thy ===== *)
theory Wire
  imports SocketCache Go_Json_Text
begin

text \<open>
  The protocol between the client and the agent in bytes.  The client writes its requests with a
  \<open>json.Encoder\<close>, the agent reads them with a \<open>json.Decoder\<close>, and the responses take the same way
  back.  The other theories exchange JSON values; the theorem at the end says that the bytes carry
  exactly these, but for bytes in their strings that are no UTF-8: Go's encoder and decoder replace each by
  U+FFFD.
\<close>

subsection \<open>Both ends of a connection\<close>

text \<open>What the client writes for a request, and what it makes of an item that arrives.\<close>

definition send_request :: "AgentRequest \<Rightarrow> string" where
  "send_request req = Encode (encode_AgentRequest req)"

definition receive_response :: "wire_item \<Rightarrow> AgentResponse result" where
  "receive_response x = (case x of Malformed \<Rightarrow> Inl syntax_error | Value v \<Rightarrow> decode_AgentResponse v empty_agent_response)"

text \<open>The agent: the items it decodes, the \<open>i\<close>-th of which it handles at the instants \<open>ts i\<close>, and the bytes of its
  responses.\<close>

definition arrivals :: "(nat \<Rightarrow> time \<times> clock) \<Rightarrow> wire_item list \<Rightarrow> arrival list" where
  "arrivals ts xs = map (\<lambda>(i, x). \<lparr>item = x, arr_now = fst (ts i), arr_clock = snd (ts i)\<rparr>) (enumerate 0 xs)"

definition handleConn_bytes :: "'s cache_iface \<Rightarrow> (nat \<Rightarrow> time \<times> clock) \<Rightarrow> string \<Rightarrow> 's CachingAgent \<Rightarrow>
    string \<times> 's CachingAgent" where
  "handleConn_bytes ops ts bytes a =
     (let (resps, a') = handleConn ops (arrivals ts (decode_stream bytes)) empty_agent_request a
      in (concat (map (\<lambda>resp. Encode (encode_AgentResponse resp)) resps), a'))"

text \<open>\<open>AgentCommandClient.Command\<close> in bytes: the agent reads the next item of its stream, and the client the first
  item of the bytes of the response, with a decoder of its own for every command.  (A newline that the
  previous decoder may have left in the connection does not matter: white space before a value is skipped.)\<close>

definition first_item :: "string \<Rightarrow> wire_item option" where
  "first_item bytes = (case decode_stream bytes of [] \<Rightarrow> None | x # _ \<Rightarrow> Some x)"

definition Command_bytes :: "'s cache_iface \<Rightarrow> AgentRequest \<Rightarrow> 's socket \<Rightarrow> AgentResponse result \<times> 's socket" where
  "Command_bytes ops req s =
     (if \<not> conn_open s then (Inl conn_closed_error, s)
      else
        case first_item (send_request req) of
          None \<Rightarrow> (Inl (ErrorString ''EOF''), s\<lparr>conn_open := False\<rparr>)
        | Some x \<Rightarrow>
            (let (resp, kept, a) = serve_item ops \<lparr>item = x, arr_now = sock_now s, arr_clock = sock_clock s\<rparr> (peer_req s) (peer s)
             in (case first_item (Encode (encode_AgentResponse resp)) of
                   None \<Rightarrow> Inl (ErrorString ''EOF'')
                 | Some y \<Rightarrow> receive_response y,
                 (case kept of
                    Some req' \<Rightarrow> s\<lparr>peer := a, peer_req := req'\<rparr>
                  | None \<Rightarrow> s\<lparr>peer := a, conn_open := False\<rparr>))))"

text \<open>Several commands on one connection.\<close>

fun Commands :: "(AgentRequest \<Rightarrow> 's socket \<Rightarrow> AgentResponse result \<times> 's socket) \<Rightarrow> AgentRequest list \<Rightarrow> 's socket \<Rightarrow>
    AgentResponse result list \<times> 's socket" where
  "Commands cmd [] s = ([], s)"
| "Commands cmd (req # reqs) s =
     (let (r, s1) = cmd req s; (rs, s2) = Commands cmd reqs s1 in (r # rs, s2))"

subsection \<open>Messages can be printed\<close>

lemma fold_max_le: "fold max xs (m :: nat) \<le> n \<longleftrightarrow> m \<le> n \<and> (\<forall>x\<in>set xs. x \<le> n)"
  by (induction xs arbitrary: m) auto

text \<open>A value that nests at most \<open>n\<close> levels; the payload of a message is one level below it.\<close>

definition printable_within :: "nat \<Rightarrow> json \<Rightarrow> bool" where
  "printable_within n v \<longleftrightarrow> valid_json v \<and> json_depth v \<le> n"

lemma printable_iff: "printable v \<longleftrightarrow> printable_within maxNestingDepth v"
  by (simp add: printable_def printable_within_def)

lemma printable_within_mono: "printable_within m v \<Longrightarrow> m \<le> n \<Longrightarrow> printable_within n v"
  by (auto simp: printable_within_def)

lemma printable_within_basic [simp]: "printable_within n (JStr s)" "printable_within n JNull"
  by (simp_all add: printable_within_def)

lemma printable_within_JObj:
  "printable_within (Suc n) (JObj kvs) \<longleftrightarrow> list_all (\<lambda>(_, v). printable_within n v) kvs"
  by (auto simp: printable_within_def fold_max_le list_all_iff split: prod.splits)

lemma printable_within_JArr: "printable_within (Suc n) (JArr vs) \<longleftrightarrow> list_all (printable_within n) vs"
  by (auto simp: printable_within_def fold_max_le list_all_iff)

lemma printable_headers: "printable_within (Suc (Suc n)) (encode_map (encode_slice JStr) m)"
  by (auto simp: encode_map_def encode_slice_def printable_within_JObj printable_within_JArr list_all_iff split: option.split)

lemma printable_response: "printable_within 3 (encode_GetCredentialsResponse r)"
  by (simp add: encode_GetCredentialsResponse_def numeral_3_eq_3 printable_within_JObj printable_headers omit_empty_string_def)

lemma printable_cachable: "printable_within 4 (encode_Cachable c)"
  using printable_response [of "Response c"]
  by (simp add: encode_Cachable_def numeral_eq_Suc printable_within_JObj omit_empty_string_def)

definition payload_ok :: "json option \<Rightarrow> bool" where
  "payload_ok p \<longleftrightarrow> (case p of None \<Rightarrow> True | Some v \<Rightarrow> printable_within (maxNestingDepth - 1) v)"

lemma maxNestingDepth_Suc: "maxNestingDepth = Suc (maxNestingDepth - 1)"
  by (simp add: maxNestingDepth_def)

lemma printable_request: "payload_ok (ReqPayload q) \<Longrightarrow> printable (encode_AgentRequest q)"
  unfolding printable_iff encode_AgentRequest_def
  by (subst maxNestingDepth_Suc) (auto simp: printable_within_JObj payload_ok_def split: option.splits)

lemma printable_answer: "payload_ok (RespPayload p) \<Longrightarrow> printable (encode_AgentResponse p)"
  unfolding printable_iff encode_AgentResponse_def
  by (subst maxNestingDepth_Suc) (auto simp: printable_within_JObj payload_ok_def split: option.splits)

text \<open>The agent's own responses always can.\<close>

lemma payload_ok_simps [simp]:
  "payload_ok None" "payload_ok (Some (JStr s))" "payload_ok (Some (encode_GetCredentialsResponse r))"
  "payload_ok (Some (encode_Cachable c))"
  by (simp_all add: payload_ok_def printable_within_mono [OF printable_response] printable_within_mono [OF printable_cachable]
      maxNestingDepth_def)

lemma dispatch_payload: "payload_ok (RespPayload (respond (fst (dispatch ops t clk req a))))"
  by (auto simp: dispatch_def handleRetrieve_def handleStore_def handlePrune_def handleShutdown_def respond_def Let_def
      shutdown_response_def unknown_method_response_def case_prod_beta split: sum.split option.split)

lemma serve_item_payload: "payload_ok (RespPayload (fst (serve_item ops x req a)))"
  using dispatch_payload
  by (auto simp: serve_item_def Let_def case_prod_beta invalid_json_response_def split: wire_item.split sum.split)

lemma handleConn_payloads: "\<forall>resp\<in>set (fst (handleConn ops xs req a)). payload_ok (RespPayload resp)"
proof (induction xs arbitrary: req a)
  case (Cons x xs)
  with serve_item_payload [of ops x req a] show ?case by (auto simp: case_prod_beta split: option.splits)
qed simp

subsection \<open>The bytes carry the messages\<close>

text \<open>A message as it arrives: its strings in valid UTF-8.  A message whose strings are valid arrives as it is.\<close>

definition coerce_request :: "AgentRequest \<Rightarrow> AgentRequest" where
  "coerce_request q = \<lparr>Method = coerce_utf8 (Method q), ReqPayload = map_option coerce_json (ReqPayload q)\<rparr>"

definition coerce_answer :: "AgentResponse \<Rightarrow> AgentResponse" where
  "coerce_answer p = \<lparr>Status = coerce_utf8 (Status p), RespPayload = map_option coerce_json (RespPayload p)\<rparr>"

definition valid_request :: "AgentRequest \<Rightarrow> bool" where
  "valid_request q \<longleftrightarrow> valid_utf8 (Method q) \<and> pred_option valid_strings (ReqPayload q)"

definition valid_answer :: "AgentResponse \<Rightarrow> bool" where
  "valid_answer p \<longleftrightarrow> valid_utf8 (Status p) \<and> pred_option valid_strings (RespPayload p)"

lemma coerce_valid_message:
  "valid_request q \<Longrightarrow> coerce_request q = q" "valid_answer p \<Longrightarrow> coerce_answer p = p"
  by (cases "ReqPayload q", simp_all add: coerce_request_def valid_request_def valid_utf8_def)
    (cases "RespPayload p", simp_all add: coerce_answer_def valid_answer_def valid_utf8_def)

lemma coerce_message_valid: "valid_request (coerce_request q)" "valid_answer (coerce_answer p)"
  by (simp_all add: coerce_request_def valid_request_def coerce_answer_def valid_answer_def option.pred_map comp_def
      option.pred_True)

lemma message_keys_valid: "coerce_utf8 ''method'' = ''method''" "coerce_utf8 ''payload'' = ''payload''" "coerce_utf8 ''status'' = ''status''"
  by (simp_all add: coerce_utf8.simps(2) ord_def)

lemma coerce_encoded:
  "coerce_json (encode_AgentRequest q) = encode_AgentRequest (coerce_request q)"
  "coerce_json (encode_AgentResponse p) = encode_AgentResponse (coerce_answer p)"
  by (simp_all add: encode_AgentRequest_def encode_AgentResponse_def coerce_request_def coerce_answer_def message_keys_valid
      split: option.split)

lemma responses_decode:
  "\<forall>resp\<in>set resps. payload_ok (RespPayload resp) \<Longrightarrow>
     decode_stream (concat (map (\<lambda>resp. Encode (encode_AgentResponse resp)) resps)) =
       map (\<lambda>resp. Value (encode_AgentResponse (coerce_answer resp))) resps"
  using stream_decodes [of "map encode_AgentResponse resps" "[]"] by (simp add: list_all_iff printable_answer comp_def coerce_encoded)

lemma requests_decode:
  "list_all (\<lambda>q. payload_ok (ReqPayload q)) reqs \<Longrightarrow>
     decode_stream (concat (map send_request reqs) @ rest) =
       map (\<lambda>q. Value (encode_AgentRequest (coerce_request q))) reqs @ decode_stream rest"
  using stream_decodes [of "map encode_AgentRequest reqs" rest]
  by (simp add: list_all_iff printable_request comp_def send_request_def [abs_def] coerce_encoded)

lemma receive_response_encoded [simp]: "receive_response (Value (encode_AgentResponse p)) = Inr p"
  by (simp add: receive_response_def decode_encode_agent_response)

lemma arrivals_constant: "arrivals (\<lambda>_. (t, clk)) xs = map (\<lambda>x. \<lparr>item = x, arr_now = t, arr_clock = clk\<rparr>) xs"
proof -
  have "arrivals (\<lambda>_. (t, clk)) xs = map (\<lambda>x. \<lparr>item = x, arr_now = t, arr_clock = clk\<rparr>) (map snd (enumerate 0 xs))"
    unfolding arrivals_def map_map by (rule map_cong) auto
  then show ?thesis by (simp only: map_snd_enumerate)
qed

lemma serve_encoded:
  "\<exists>resp req' a'. serve_item ops \<lparr>item = Value (encode_AgentRequest q), arr_now = t, arr_clock = clk\<rparr> req a = (resp, Some req', a')"
  by (simp add: serve_item_def decode_encode_agent_request Let_def case_prod_beta)

lemma Commands_handleConn:
  "conn_open s \<Longrightarrow>
     map_prod id peer (Commands (Command ops) reqs s) =
       map_prod (map Inr) id (handleConn ops
         (map (\<lambda>q. \<lparr>item = Value (encode_AgentRequest q), arr_now = sock_now s, arr_clock = sock_clock s\<rparr>) reqs) (peer_req s) (peer s))"
proof (induction reqs arbitrary: s)
  case (Cons q reqs)
  obtain resp req' a' where one: "serve_item ops \<lparr>item = Value (encode_AgentRequest q), arr_now = sock_now s, arr_clock = sock_clock s\<rparr>
      (peer_req s) (peer s) = (resp, Some req', a')"
    using serve_encoded by blast
  have "Command ops q s = (Inr resp, s\<lparr>peer := a', peer_req := req'\<rparr>)"
    using Cons.prems one by (simp add: Command_def decode_encode_agent_response)
  with one Cons.IH [of "s\<lparr>peer := a', peer_req := req'\<rparr>"] Cons.prems show ?case
    by (auto simp: case_prod_beta map_prod_def)
qed simp

lemma first_item_Encode: "printable v \<Longrightarrow> first_item (Encode v) = Some (Value (coerce_json v))"
  using decode_stream_Encode [of v "[]"] by (simp add: first_item_def)

lemma Command_bytes_ok:
  "payload_ok (ReqPayload req) \<Longrightarrow> Command_bytes ops req s = map_prod (map_sum id coerce_answer) id (Command ops (coerce_request req) s)"
  by (simp add: Command_bytes_def Command_def send_request_def first_item_Encode printable_request coerce_encoded
      printable_answer [OF serve_item_payload] receive_response_def decode_encode_agent_response case_prod_beta Let_def)

lemma Commands_bytes_ok:
  "list_all (\<lambda>q. payload_ok (ReqPayload q)) reqs \<Longrightarrow>
     Commands (Command_bytes ops) reqs s =
       map_prod (map (map_sum id coerce_answer)) id (Commands (Command ops) (map coerce_request reqs) s)"
  by (induction reqs arbitrary: s) (simp_all add: Command_bytes_ok case_prod_beta map_prod_def Let_def)

text \<open>Whatever bytes arrive, the agent writes well-formed messages: the client reads off its responses,
  one by one and nothing else.\<close>

theorem responses_readable:
  "map receive_response (decode_stream (fst (handleConn_bytes ops ts bytes a))) =
     map (\<lambda>resp. Inr (coerce_answer resp)) (fst (handleConn ops (arrivals ts (decode_stream bytes)) empty_agent_request a))"
  using responses_decode [OF handleConn_payloads [of ops "arrivals ts (decode_stream bytes)" empty_agent_request a]]
  by (simp add: handleConn_bytes_def case_prod_beta comp_def)

text \<open>(C13) The bytes between a client and the agent carry the messages, with every byte of their strings that is
  no UTF-8 replaced by U+FFFD, which leaves messages in valid UTF-8 unchanged.  A command in bytes is the
  command on JSON values that the other theories use, for the request and the response so replaced; and the
  agent, which reads all requests of a connection with one decoder, splits their bytes into exactly these
  requests: it does to its cache what the commands do, and the bytes it writes are the responses the client
  gets, in order.  The payloads are JSON values that nest less than ten thousand levels.\<close>

theorem wire_commands:
  assumes "list_all (\<lambda>q. payload_ok (ReqPayload q)) reqs" and "conn_open s" and "peer_req s = empty_agent_request"
  shows "Commands (Command_bytes ops) reqs s =
      map_prod (map (map_sum id coerce_answer)) id (Commands (Command ops) (map coerce_request reqs) s)
    \<and> map_prod (\<lambda>bytes. map receive_response (decode_stream bytes)) id
        (handleConn_bytes ops (\<lambda>_. (sock_now s, sock_clock s)) (concat (map send_request reqs)) (peer s)) =
      map_prod id peer (Commands (Command_bytes ops) reqs s)
    \<and> (list_all valid_request reqs \<longrightarrow> map coerce_request reqs = reqs)
    \<and> (\<forall>p. valid_answer p \<longrightarrow> coerce_answer p = p)"
proof (intro conjI)
  show bytes: "Commands (Command_bytes ops) reqs s =
      map_prod (map (map_sum id coerce_answer)) id (Commands (Command ops) (map coerce_request reqs) s)"
    by (rule Commands_bytes_ok [OF assms(1)])
  let ?xs = "map (\<lambda>q. \<lparr>item = Value (encode_AgentRequest q), arr_now = sock_now s, arr_clock = sock_clock s\<rparr>) (map coerce_request reqs)"
  have conn: "map_prod id peer (Commands (Command ops) (map coerce_request reqs) s) =
      map_prod (map Inr) id (handleConn ops ?xs empty_agent_request (peer s))"
    using Commands_handleConn [OF assms(2), of ops "map coerce_request reqs"] assms(3) by simp
  have "arrivals (\<lambda>_. (sock_now s, sock_clock s)) (decode_stream (concat (map send_request reqs))) = ?xs"
    using requests_decode [OF assms(1), of "[]"] by (simp add: arrivals_constant comp_def)
  with responses_decode [OF handleConn_payloads, of ops ?xs empty_agent_request "peer s"]
  show "map_prod (\<lambda>bytes. map receive_response (decode_stream bytes)) id
        (handleConn_bytes ops (\<lambda>_. (sock_now s, sock_clock s)) (concat (map send_request reqs)) (peer s)) =
      map_prod id peer (Commands (Command_bytes ops) reqs s)"
    using conn unfolding bytes by (simp add: handleConn_bytes_def case_prod_beta map_prod_def comp_def prod_eq_iff)
qed (auto simp: list_all_iff coerce_valid_message intro!: map_idI)

definition sample_requests :: "AgentRequest list" where
  "sample_requests =
     [\<lparr>Method = AgentRequestStore, ReqPayload = Some (encode_Cachable sample_cachable)\<rparr>,
      \<lparr>Method = AgentRequestRetrieve, ReqPayload = Some (JStr (CacheKey sample_cachable))\<rparr>,
      \<lparr>Method = AgentRequestShutdown, ReqPayload = None\<rparr>]"

theorem wire_commands_witness:
  "Commands (Command_bytes MemCache_iface) sample_requests sample_socket =
     map_prod (map (map_sum id coerce_answer)) id (Commands (Command MemCache_iface) sample_requests sample_socket)
   \<and> map_prod (\<lambda>bytes. map receive_response (decode_stream bytes)) id
       (handleConn_bytes MemCache_iface (\<lambda>_. (0, \<lambda>_. 0)) (concat (map send_request sample_requests)) sample_agent) =
     map_prod id peer (Commands (Command_bytes MemCache_iface) sample_requests sample_socket)"
proof -
  have valid: "list_all valid_request sample_requests"
    by (simp add: sample_requests_def valid_request_def encode_Cachable_def encode_GetCredentialsResponse_def sample_cachable_def
        omit_empty_string_def encode_map_def encode_slice_def api_consts valid_utf8_def coerce_utf8.simps(2) ord_def)
  from wire_commands [of sample_requests sample_socket MemCache_iface] valid show ?thesis
    by (simp add: sample_requests_def sample_socket_def)
qed

text \<open>The response \<open>get\<close> prints is read back as it was, when its texts are valid UTF-8.\<close>

lemma printed_response:
  assumes "wf_response r" and "valid_strings (encode_GetCredentialsResponse r)"
  shows "\<exists>v. decode_stream (Encode (encode_GetCredentialsResponse r)) = [Value v]
    \<and> decode_GetCredentialsResponse v empty_response = Inr r"
proof -
  have "printable (encode_GetCredentialsResponse r)"
    unfolding printable_iff by (rule printable_within_mono [OF printable_response]) (simp add: maxNestingDepth_def)
  with stream_decodes [of "[encode_GetCredentialsResponse r]" "[]"] decode_encode_response [OF assms(1)] assms(2) show ?thesis by auto
qed

end
