(* ===== verification/Customized.thy ===== *)
theory Customized
  imports Root Wire Go_Base64
begin

text \<open>
  The customised helper of the examples: \<open>PathToHeader\<close>
  (\<open>src/examples/customized/helper/authenticate/pathtoheader.go\<close>), its factory
  (\<open>src/examples/customized/helper/helperfactory/helperfactory.go\<close>), and a cache in an SQLite database
  (\<open>src/examples/customized/helper/cache/sqlitecache.go\<close>).
\<close>

subsection \<open>PathToHeader\<close>

definition PathToHeader_CacheKey :: "GetCredentialsRequest \<Rightarrow> string" where
  "PathToHeader_CacheKey req =
     (case Parse (URI req) of
        Inl _ \<Rightarrow> ''PathToHeaderUnknown/'' @ URI req
      | Inr parsedURL \<Rightarrow> ''PathToHeader/'' @ Path parsedURL)"

definition PathToHeader_Get :: "world \<Rightarrow> getter" where
  "PathToHeader_Get w req =
     bind_result (Parse (URI req)) (\<lambda>parsedURL.
       let headers = [(''X-Tweag-Credential-Helper-Path'', Some [Path parsedURL])];
           parts = Split (CHR ''/'') (Path parsedURL);
           headers' =
             (if length parts = 4 \<and> parts ! 1 = ''basic-auth'' then
                gomap_put ''Authorization'' (Some [''Basic '' @ b64_encode (Sprintf ''%s:%s'' [parts ! 2, parts ! 3])]) headers
              else headers)
       in Inr \<lparr>Expires = time_Format (w_now w + 24 * Hour), Headers = headers'\<rparr>)"

definition PathToHeader_helper :: helper where
  "PathToHeader_helper = \<lparr>helper_CacheKey = PathToHeader_CacheKey,
     helper_Resolver = (\<lambda>w ctx. Inr (PathToHeader_Get w)), helper_Setup = None\<rparr>"

definition PathToHeader_init :: "helper gomap \<Rightarrow> helper gomap" where
  "PathToHeader_init m = Register ''pathtoheader'' PathToHeader_helper m"

definition CustomHelperFactory :: "string \<Rightarrow> helper result" where
  "CustomHelperFactory _ = Inr PathToHeader_helper"

lemma helper_Get_PathToHeader [simp]: "helper_Get w ctx PathToHeader_helper = PathToHeader_Get w"
  by (simp add: fun_eq_iff helper_Get_def PathToHeader_helper_def)

interpretation pth_agent: agent_helper PathToHeader_helper w ctx for w ctx
proof -
  have "safe_keyed_helper (helper_CacheKey PathToHeader_helper) (helper_Get w ctx PathToHeader_helper)"
  proof (rule safe_keyedI)
    fix q q' :: GetCredentialsRequest
    assume "helper_CacheKey PathToHeader_helper q = helper_CacheKey PathToHeader_helper q'"
    then show "helper_Get w ctx PathToHeader_helper q = helper_Get w ctx PathToHeader_helper q'"
      by (auto simp: PathToHeader_helper_def helper_Get_def PathToHeader_CacheKey_def PathToHeader_Get_def
          split: sum.splits)
  qed
  then show "agent_helper PathToHeader_helper w ctx"
    by (rule agent_helper.intro)
      (unfold_locales, auto simp: PathToHeader_Get_def wf_response_def Let_def split: if_splits)
qed

text \<open>The cache of the agent does not change what the clients of this helper print.\<close>

lemma pathtoheader_cache_transparent:
  "agent_cache a = NewMemCache \<Longrightarrow>
     client_runs w ctx PathToHeader_helper qs a = map (\<lambda>(q, _). direct_run w ctx PathToHeader_helper q) qs"
  by (intro pth_agent.client_runs_direct pth_agent.sound_fresh)

subsection \<open>The database\<close>

text \<open>The three statements of the cache and the error of preparing one.  A query fails or yields rows, with
  the outcome of scanning each, and \<open>rows.Err()\<close>, the error that ended the rows early.\<close>

record 'd sql_db =
  db_Select :: "string \<Rightarrow> 'd \<Rightarrow> (string result list \<times> goerr option) result"
  db_PrepareInsert :: "'d \<Rightarrow> unit result"
  db_Insert :: "string \<Rightarrow> string \<Rightarrow> string \<Rightarrow> 'd \<Rightarrow> unit result \<times> 'd"
  db_PrepareDelete :: "'d \<Rightarrow> unit result"
  db_Delete :: "time \<Rightarrow> 'd \<Rightarrow> unit result \<times> 'd"

text \<open>What the cache relies on: \<open>rows\<close> is the table, with the text and the expiry of a key, and \<open>ge\<close> the
  comparison of the column \<open>expires\<close> with the time of the \<open>DELETE\<close> statement.  Every statement may fail; a
  query that does not fail and is not cut short yields the row of its key, and a failed insertion changes
  nothing.  No other process changes the table in between.\<close>

definition sql_laws :: "(string \<Rightarrow> time \<Rightarrow> bool) \<Rightarrow> ('d \<Rightarrow> string \<rightharpoonup> string \<times> string) \<Rightarrow> 'd sql_db \<Rightarrow> bool" where
  "sql_laws ge rows db \<longleftrightarrow>
     (\<forall>k d xs. db_Select db k d = Inr (xs, None) \<longrightarrow> xs = (case rows d k of None \<Rightarrow> [] | Some (j, _) \<Rightarrow> [Inr j])) \<and>
     (\<forall>k j e d d'. db_Insert db k j e d = (Inr (), d') \<longrightarrow> rows d' = (rows d)(k \<mapsto> (j, e))) \<and>
     (\<forall>k j e d d' err. db_Insert db k j e d = (Inl err, d') \<longrightarrow> rows d' = rows d) \<and>
     (\<forall>t d d'. db_Delete db t d = (Inr (), d') \<longrightarrow>
        rows d' = (\<lambda>k. case rows d k of Some (j, e) \<Rightarrow> if ge e t then None else Some (j, e) | None \<Rightarrow> None))"

subsection \<open>SqliteCache\<close>

definition MaxRetries :: nat where "MaxRetries = 5"
definition BaseDelay :: duration where "BaseDelay = 100 * Millisecond"

text \<open>The loop over the rows: their number and the last text.\<close>

fun scan_rows :: "string result list \<Rightarrow> nat \<Rightarrow> string \<Rightarrow> (nat \<times> string) result" where
  "scan_rows [] rowCount raw = Inr (rowCount, raw)"
| "scan_rows (row # rows) rowCount raw =
     (case row of Inl err \<Rightarrow> Inl err | Inr x \<Rightarrow> scan_rows rows (rowCount + 1) x)"

definition SqliteCache_Retrieve :: "'d sql_db \<Rightarrow> string \<Rightarrow> 'd \<Rightarrow> GetCredentialsResponse result \<times> 'd" where
  "SqliteCache_Retrieve db cacheKey d =
     (bind_result (db_Select db cacheKey d) (\<lambda>(rows, _).
      bind_result (scan_rows rows 0 []) (\<lambda>(rowCount, raw).
        if rowCount = 0 then Inl CacheMiss
        else if rowCount \<noteq> 1 then
          Inl (Errorf ''database returned %d results for cache key. Expected exactly one'' [utoa rowCount])
        else map_sum id Response (decode_item decode_Cachable (Unmarshal raw) empty_cachable))), d)"

text \<open>The attempts, with the time slept: after an attempt that finds the database busy the delay doubles,
  and after the last one the loop ends as if it had succeeded.\<close>

function store_attempts :: "'d sql_db \<Rightarrow> string \<Rightarrow> string \<Rightarrow> string \<Rightarrow> nat \<Rightarrow> duration \<Rightarrow> 'd \<Rightarrow> (unit result \<times> duration) \<times> 'd" where
  "store_attempts db k j e i slept d =
     (if i \<ge> MaxRetries then ((Inr (), slept), d)
      else case db_Insert db k j e d of
             (Inr _, d') \<Rightarrow> ((Inr (), slept), d')
           | (Inl err, d') \<Rightarrow>
               if Contains (err_msg err) ''SQLITE_BUSY''
               then store_attempts db k j e (i + 1) (slept + BaseDelay * 2 ^ i) d'
               else ((Inl err, slept), d'))"
  by pat_completeness auto
termination by (relation "measure (\<lambda>(db, k, j, e, i, slept, d). MaxRetries - i)") auto

declare store_attempts.simps [simp del]

definition SqliteCache_Store :: "'d sql_db \<Rightarrow> CachableGetCredentialsResponse \<Rightarrow> 'd \<Rightarrow> (unit result \<times> duration) \<times> 'd" where
  "SqliteCache_Store db cacheValue d =
     (if length (CacheKey cacheValue) = 0 \<or> length (Expires (Response cacheValue)) = 0 then ((Inr (), 0), d)
      else case db_PrepareInsert db d of
             Inl err \<Rightarrow> ((Inl err, 0), d)
           | Inr _ \<Rightarrow>
               store_attempts db (CacheKey cacheValue) (Marshal (encode_Cachable cacheValue)) (Expires (Response cacheValue)) 0 0 d)"

definition SqliteCache_Prune :: "'d sql_db \<Rightarrow> time \<Rightarrow> 'd \<Rightarrow> unit result \<times> 'd" where
  "SqliteCache_Prune db timeNow d =
     (case db_PrepareDelete db d of
        Inl err \<Rightarrow> (Inl err, d)
      | Inr _ \<Rightarrow> (case db_Delete db timeNow d of (Inl err, d') \<Rightarrow> (Inl err, d') | (Inr _, d') \<Rightarrow> (Inr (), d')))"

definition dbPath :: "process \<Rightarrow> string" where
  "dbPath p = LookupPathEnv ''CREDENTIAL_HELPER_DB_PATH'' (Path_Join [''%workdir%'', ''var'', ''database.sqlite'']) False p"

text \<open>Opening the database and creating its table; a panic is an error.  Making the directory of the file,
  whose error is ignored, is part of opening it.\<close>

definition NewSqliteCache :: "(string \<Rightarrow> 'd result) \<Rightarrow> ('d \<Rightarrow> unit result \<times> 'd) \<Rightarrow> process \<Rightarrow> 'd result" where
  "NewSqliteCache sql_Open create_table p =
     (case sql_Open (dbPath p @ ''?_journal_mode=WAL&_busy_timeout=3000'') of
        Inl err \<Rightarrow> Inl (Errorf ''failed to open database: %v'' [err_msg err])
      | Inr db \<Rightarrow>
          (case create_table db of
             (Inl err, _) \<Rightarrow> Inl (Errorf ''failed to initialize database: %v'' [err_msg err])
           | (Inr _, db') \<Rightarrow> Inr db'))"

subsection \<open>Properties\<close>

lemma sql_insert:
  "sql_laws ge rows db \<Longrightarrow> db_Insert db k j e d = (Inr (), d') \<Longrightarrow> rows d' = (rows d)(k \<mapsto> (j, e))"
  "sql_laws ge rows db \<Longrightarrow> db_Insert db k j e d = (Inl err, d') \<Longrightarrow> rows d' = rows d"
  unfolding sql_laws_def by blast+

text \<open>A query that is answered in full.\<close>

definition answered :: "'d sql_db \<Rightarrow> string \<Rightarrow> 'd \<Rightarrow> bool" where
  "answered db k d \<longleftrightarrow> (\<exists>xs. db_Select db k d = Inr (xs, None))"

lemma retrieve_row:
  assumes "sql_laws ge rows db" and "answered db k d"
  shows "fst (SqliteCache_Retrieve db k d) =
    (case rows d k of
       None \<Rightarrow> Inl CacheMiss
     | Some (j, _) \<Rightarrow> map_sum id Response (decode_item decode_Cachable (Unmarshal j) empty_cachable))"
proof -
  have "db_Select db k d = Inr (case rows d k of None \<Rightarrow> [] | Some (j, _) \<Rightarrow> [Inr j], None)"
    using assms unfolding sql_laws_def answered_def by blast
  then show ?thesis by (simp add: SqliteCache_Retrieve_def split: option.split)
qed

text \<open>A query that is cut short before its first row looks like a miss: \<open>rows.Err()\<close> is not read.\<close>

lemma interrupted_query_is_miss:
  "db_Select db k d = Inr ([], Some err) \<Longrightarrow> fst (SqliteCache_Retrieve db k d) = Inl CacheMiss"
  by (simp add: SqliteCache_Retrieve_def)

lemma stored_text_decodes:
  assumes "wf_response (Response v)" and "valid_strings (encode_Cachable v)"
  shows "decode_item decode_Cachable (Unmarshal (Marshal (encode_Cachable v))) empty_cachable = Inr v"
proof -
  have "printable (encode_Cachable v)"
    unfolding printable_iff by (rule printable_within_mono [OF printable_cachable]) (simp add: maxNestingDepth_def)
  then show ?thesis using assms by (simp add: Unmarshal_Marshal decode_item_def decode_encode_cachable)
qed

text \<open>The total delay before attempt \<open>i\<close>.\<close>

definition delay_before :: "nat \<Rightarrow> duration" where
  "delay_before i = BaseDelay * (2 ^ i - 1)"

text \<open>The first \<open>n\<close> insertions all find the database busy.\<close>

primrec busy :: "'d sql_db \<Rightarrow> string \<Rightarrow> string \<Rightarrow> string \<Rightarrow> nat \<Rightarrow> 'd \<Rightarrow> bool" where
  "busy db k j e 0 d \<longleftrightarrow> True"
| "busy db k j e (Suc n) d \<longleftrightarrow>
     (case db_Insert db k j e d of
        (Inr _, _) \<Rightarrow> False
      | (Inl err, d1) \<Rightarrow> Contains (err_msg err) ''SQLITE_BUSY'' \<and> busy db k j e n d1)"

lemma store_attempts_outcome:
  assumes "sql_laws ge rows db" and "store_attempts db k j e i (delay_before i) d = ((r, t), d')"
    and "i \<le> MaxRetries"
  shows "if busy db k j e (MaxRetries - i) d then r = Inr () \<and> rows d' = rows d \<and> t = delay_before MaxRetries
    else t < delay_before MaxRetries
      \<and> (case r of Inr _ \<Rightarrow> rows d' = (rows d)(k \<mapsto> (j, e))
         | Inl err \<Rightarrow> rows d' = rows d \<and> \<not> Contains (err_msg err) ''SQLITE_BUSY'')"
  using assms(2,3)
proof (induction "MaxRetries - i" arbitrary: i d)
  case 0
  then show ?case by (subst (asm) store_attempts.simps) (auto simp: delay_before_def)
next
  case (Suc n)
  then have i: "i < MaxRetries" and n: "MaxRetries - i = Suc n" "MaxRetries - Suc i = n" by simp_all
  have mono: "delay_before i < delay_before MaxRetries"
    using i by (simp add: delay_before_def BaseDelay_def Millisecond_def)
  have step: "delay_before i + BaseDelay * 2 ^ i = delay_before (Suc i)"
    by (simp add: delay_before_def algebra_simps)
  obtain q d1 where ins: "db_Insert db k j e d = (q, d1)" by (cases "db_Insert db k j e d")
  show ?case
  proof (cases q)
    case (Inr u)
    with ins have "rows d1 = (rows d)(k \<mapsto> (j, e))" using sql_insert(1) [OF assms(1)] by simp
    moreover have "r = Inr () \<and> d1 = d' \<and> t = delay_before i"
      using Suc.prems(1) i ins Inr by (subst (asm) store_attempts.simps) auto
    ultimately show ?thesis using mono ins Inr n by simp
  next
    case (Inl err)
    with ins have same: "rows d1 = rows d" using sql_insert(2) [OF assms(1)] by simp
    show ?thesis
    proof (cases "Contains (err_msg err) ''SQLITE_BUSY''")
      case True
      have "store_attempts db k j e (Suc i) (delay_before (Suc i)) d1 = ((r, t), d')"
        using Suc.prems(1) i ins Inl step True by (subst (asm) store_attempts.simps) (auto split: if_splits)
      from Suc.hyps(1) [OF _ this] n i ins Inl True show ?thesis by (cases r) (auto simp: same split: if_splits)
    next
      case False
      with Suc.prems(1) i ins Inl have "r = Inl err \<and> d1 = d' \<and> t = delay_before i"
        by (subst (asm) store_attempts.simps) auto
      with False mono ins Inl n same show ?thesis by simp
    qed
  qed
qed

text \<open>(C34) What \<open>SqliteCache.Store\<close> does to a response with a key and an expiry and texts in valid UTF-8, once
  its statement is prepared and as long as no other process writes.  When each of five insertions finds the
  database busy, it reports success after 3.1 seconds of waiting although the table is as it was.  Otherwise
  it waits less; when it reports success the row of the response is in the table, and a query that is
  answered in full retrieves the response; when it reports an error the table is as it was.\<close>

theorem sqlite_store_outcome:
  assumes "sql_laws ge rows db" and "storable v" and "wf_response (Response v)" and "valid_strings (encode_Cachable v)"
    and "db_PrepareInsert db d = Inr ()" and "SqliteCache_Store db v d = ((r, t), d')"
  shows "if busy db (CacheKey v) (Marshal (encode_Cachable v)) (Expires (Response v)) 5 d
    then r = Inr () \<and> rows d' = rows d \<and> t = 3100000000
    else t < 3100000000
      \<and> (case r of
           Inl err \<Rightarrow> rows d' = rows d
         | Inr _ \<Rightarrow> rows d' = (rows d)(CacheKey v \<mapsto> (Marshal (encode_Cachable v), Expires (Response v)))
             \<and> (answered db (CacheKey v) d' \<longrightarrow> fst (SqliteCache_Retrieve db (CacheKey v) d') = Inr (Response v)))"
proof -
  let ?j = "Marshal (encode_Cachable v)" and ?e = "Expires (Response v)"
  have run: "store_attempts db (CacheKey v) ?j ?e 0 (delay_before 0) d = ((r, t), d')"
    using assms(2,5,6) by (auto simp: SqliteCache_Store_def storable_def delay_before_def split: if_splits)
  have num: "delay_before MaxRetries = 3100000000" "MaxRetries - 0 = 5"
    by (simp_all add: delay_before_def BaseDelay_def MaxRetries_def Millisecond_def)
  show ?thesis
    using store_attempts_outcome [OF assms(1) run] retrieve_row [OF assms(1)] stored_text_decodes [OF assms(3,4)]
    unfolding num by (auto split: sum.splits if_splits)
qed

text \<open>\<open>SqliteCache.Prune\<close> does the opposite of its purpose: it deletes the responses that expire at or
  after the present and keeps those that have expired.\<close>

theorem sqlite_prune_inverted:
  assumes "sql_laws ge rows db" and "SqliteCache_Prune db timeNow d = (Inr (), d')" and "rows d k = Some (j, e)"
    and "answered db k d" and "answered db k d'"
  shows "if ge e timeNow then fst (SqliteCache_Retrieve db k d') = Inl CacheMiss
    else fst (SqliteCache_Retrieve db k d') = fst (SqliteCache_Retrieve db k d)"
proof -
  have "db_Delete db timeNow d = (Inr (), d')"
    using assms(2) by (auto simp: SqliteCache_Prune_def split: sum.splits prod.splits)
  with assms(1,3) have "rows d' k = (if ge e timeNow then None else Some (j, e))"
    by (auto simp: sql_laws_def)
  with assms(3) show ?thesis by (simp add: retrieve_row [OF assms(1,4)] retrieve_row [OF assms(1,5)])
qed

subsection \<open>Witnesses\<close>

text \<open>A table with a number of attempts that find it busy.\<close>

type_synonym sample_table = "(string \<rightharpoonup> string \<times> string) \<times> nat"

definition sample_ge :: "string \<Rightarrow> time \<Rightarrow> bool" where
  "sample_ge e t \<longleftrightarrow> (case time_Parse e of Some ts \<Rightarrow> t \<le> ts | None \<Rightarrow> False)"

definition sample_db :: "sample_table sql_db" where
  "sample_db = \<lparr>
     db_Select = (\<lambda>k d. Inr (case fst d k of None \<Rightarrow> [] | Some (j, _) \<Rightarrow> [Inr j], None)),
     db_PrepareInsert = (\<lambda>_. Inr ()),
     db_Insert = (\<lambda>k j e d. if snd d = 0 then (Inr (), ((fst d)(k \<mapsto> (j, e)), 0))
       else (Inl (ErrorString ''database is locked (5) (SQLITE_BUSY)''), (fst d, snd d - 1))),
     db_PrepareDelete = (\<lambda>_. Inr ()),
     db_Delete = (\<lambda>t d. (Inr (), (\<lambda>k. case fst d k of
         Some (j, e) \<Rightarrow> if sample_ge e t then None else Some (j, e) | None \<Rightarrow> None, snd d)))\<rparr>"

lemma sample_db_laws: "sql_laws sample_ge fst sample_db"
  unfolding sql_laws_def by (simp add: sample_db_def)

lemma sample_db_answers: "answered sample_db k d"
  by (simp add: answered_def sample_db_def)

lemma sample_cachable_valid: "valid_strings (encode_Cachable sample_cachable)"
  by (simp add: encode_Cachable_def encode_GetCredentialsResponse_def sample_cachable_def omit_empty_string_def encode_map_def
      encode_slice_def valid_utf8_def coerce_utf8.simps(2) ord_def)

definition sample_rows :: "string \<rightharpoonup> string \<times> string" where
  "sample_rows = [''foo'' \<mapsto> (Marshal (encode_Cachable sample_cachable), ''2024-01-02T15:04:05Z'')]"

lemma sample_busy:
  "busy sample_db k j e 5 (m, 9)" "\<not> busy sample_db k j e 5 (m, 0)" "\<not> busy sample_db k j e 5 (m, 2)"
  by (simp_all add: numeral_eq_Suc sample_db_def)

lemma sample_db_prepares: "db_PrepareInsert sample_db d = Inr ()"
  by (simp add: sample_db_def)

text \<open>A database that is busy twice stores the response in the third attempt; one that is busy nine times
  does not, and says that it did.\<close>

theorem sqlite_store_outcome_witness:
  "(let ((r, t), d) = SqliteCache_Store sample_db sample_cachable (Map.empty, 9)
    in r = Inr () \<and> fst d = Map.empty \<and> t = 3100000000)
   \<and> (let ((r, t), d) = SqliteCache_Store sample_db sample_cachable (Map.empty, 2)
      in r = Inr () \<and> t < 3100000000 \<and> fst (SqliteCache_Retrieve sample_db ''foo'' d) = Inr (Response sample_cachable))"
proof -
  obtain r t d where nine: "SqliteCache_Store sample_db sample_cachable (Map.empty, 9) = ((r, t), d)"
    by (metis surj_pair)
  obtain r' t' d' where two: "SqliteCache_Store sample_db sample_cachable (Map.empty, 2) = ((r', t'), d')"
    by (metis surj_pair)
  have "r' = Inr ()"
    using two by (simp add: SqliteCache_Store_def sample_db_def sample_cachable_ok MaxRetries_def store_attempts.simps sample_cachable_def
        split: if_splits)
  note outcome = sqlite_store_outcome [OF sample_db_laws sample_cachable_ok(1,2) sample_cachable_valid sample_db_prepares]
  from outcome [OF nine] outcome [OF two] \<open>r' = Inr ()\<close> sample_db_answers show ?thesis
    unfolding nine two by (simp add: sample_busy sample_cachable_def)
qed

theorem sqlite_prune_inverted_witness:
  "fst (SqliteCache_Retrieve sample_db ''foo'' (snd (SqliteCache_Prune sample_db 0 (sample_rows, 0)))) = Inl CacheMiss"
  using sqlite_prune_inverted [OF sample_db_laws, of 0 "(sample_rows, 0)" _ "''foo''"] sample_db_answers
  by (simp add: SqliteCache_Prune_def sample_db_def sample_ge_def time_Parse_eval sample_rows_def answered_def)

end
