(* ===== verification/Bazel_Tools.thy ===== *)
theory Bazel_Tools
  imports Go_Os Go_Flag Go_Json_Text Go_Base64 Go_Sha256
begin

text \<open>
  The tools of the Bazel build: the lock file of the released binaries
  (\<open>src/bzl/private/lockfile/lockfile.go\<close>), directories of archives (\<open>src/bzl/private/distdir/distdir.go\<close>), a
  local module registry (\<open>src/bzl/private/bcr/bcr.go\<close>), and the check of file hashes in the examples
  (\<open>src/examples/testing/check_file_hash/check_file_hash.go\<close>).  A tool works in the directory \<open>wd\<close> on a disk.
  The formats tar and gzip are arguments.
\<close>

subsection \<open>Indented JSON\<close>

text \<open>An encoder with \<open>SetIndent("", "  ")\<close>, which ends the value with a newline.\<close>

definition new_line :: "nat \<Rightarrow> string" where
  "new_line depth = CHR 0x0A # replicate (2 * depth) (CHR '' '')"

fun indented :: "nat \<Rightarrow> json \<Rightarrow> string" where
  "indented n (JArr vs) =
     (if vs = [] then ''[]''
      else ''['' @ new_line (n + 1) @ Join (map (indented (n + 1)) vs) (CHR '','' # new_line (n + 1)) @ new_line n @ '']'')"
| "indented n (JObj kvs) =
     (if kvs = [] then ''{}''
      else ''{'' @ new_line (n + 1) @
        Join (map (\<lambda>(k, v). json_string k @ '': '' @ indented (n + 1) v) kvs) (CHR '','' # new_line (n + 1)) @ new_line n @ ''}'')"
| "indented n v = Marshal v"

definition Encode_indented :: "json \<Rightarrow> string" where
  "Encode_indented v = indented 0 v @ [CHR 0x0A]"

subsection \<open>The outcome of a tool\<close>

text \<open>The text on standard error, with which a tool ends or fails; \<open>ToolUsage\<close> is the message of a bad argument,
  after which the package \<open>flag\<close> prints its list of the flags.\<close>

datatype tool_run = ToolDone string | ToolFailed string | ToolUsage string

definition line :: "string \<Rightarrow> string" where
  "line s = s @ [CHR 0x0A]"

definition fileSRI :: "string \<Rightarrow> string \<Rightarrow> disk \<Rightarrow> string result" where
  "fileSRI wd source d =
     bind_result (os_ReadFile (resolve wd source) d) (\<lambda>text.
       Inr (Sprintf ''sha256-%s'' [b64_encode (sha256_sum text)]))"

subsection \<open>The lock file of the binaries\<close>

record platform_binary =
  pb_os :: string
  pb_cpu :: string
  pb_path :: string

definition platformBinaries_Set :: "string \<Rightarrow> platform_binary list \<Rightarrow> platform_binary list result" where
  "platformBinaries_Set value pb =
     (let kv = SplitN2 (CHR ''='') value
      in if length kv \<noteq> 2 then Inl (ErrorString ''invalid value: expected key value pair separated by ='')
         else
           (let os_cpu = SplitN2 (CHR ''_'') (kv ! 0)
            in if length os_cpu \<noteq> 2 then Inl (ErrorString ''invalid value: expected os and cpu separated by _'')
               else Inr (pb @ [\<lparr>pb_os = os_cpu ! 0, pb_cpu = os_cpu ! 1, pb_path = kv ! 1\<rparr>])))"

record lockfileItem =
  li_Version :: string
  li_Integrity :: string
  li_OS :: string
  li_CPU :: string

definition encode_lockfileItem :: "lockfileItem \<Rightarrow> json" where
  "encode_lockfileItem x = JObj [(''version'', JStr (li_Version x)), (''integrity'', JStr (li_Integrity x)),
     (''os'', JStr (li_OS x)), (''cpu'', JStr (li_CPU x))]"

record lockfile_flags =
  lf_version :: string
  lf_binaries :: "platform_binary list"

definition lockfile_flagset :: "lockfile_flags flagset" where
  "lockfile_flagset = map_of
     [(''version'', StringVar (\<lambda>v a. a\<lparr>lf_version := v\<rparr>)),
      (''helper'', Var (\<lambda>v a. map_sum id (\<lambda>bs. a\<lparr>lf_binaries := bs\<rparr>) (platformBinaries_Set v (lf_binaries a))))]"

fun lockfile_items :: "string \<Rightarrow> string \<Rightarrow> platform_binary list \<Rightarrow> disk \<Rightarrow> (string, lockfileItem list) sum" where
  "lockfile_items wd version [] d = Inr []"
| "lockfile_items wd version (bin # bins) d =
     (case fileSRI wd (pb_path bin) d of
        Inl err \<Rightarrow> Inl (line (Sprintf ''calculating sri of %s: %v'' [pb_path bin, err_msg err]))
      | Inr sri \<Rightarrow>
          map_sum id (\<lambda>items. \<lparr>li_Version = ''v'' @ version, li_Integrity = sri, li_OS = pb_os bin, li_CPU = pb_cpu bin\<rparr> # items)
            (lockfile_items wd version bins d))"

definition encode_lockfile :: "lockfileItem list \<Rightarrow> json" where
  "encode_lockfile items = (if items = [] then JNull else JArr (map encode_lockfileItem items))"

definition lockfile_main :: "string \<Rightarrow> string list \<Rightarrow> disk \<Rightarrow> tool_run \<times> disk" where
  "lockfile_main wd args d =
     (case flag_parse lockfile_flagset args \<lparr>lf_version = ''0.0.0'', lf_binaries = []\<rparr> of
        Inl err \<Rightarrow> (ToolUsage (failf_text err), d)
      | Inr (flags, rest) \<Rightarrow>
          if length rest \<noteq> 1 then (ToolFailed (line ''expected lockfile output''), d)
          else
            (case lockfile_items wd (lf_version flags) (lf_binaries flags) d of
               Inl e \<Rightarrow> (ToolFailed e, d)
             | Inr items \<Rightarrow>
                 (case os_WriteFile (resolve wd (rest ! 0)) (Marshal (encode_lockfile items)) ModePerm d of
                    Inl err \<Rightarrow> (ToolFailed (line (Sprintf ''writing lockfile: %v'' [err_msg err])), d)
                  | Inr d' \<Rightarrow> (ToolDone [], d'))))"

subsection \<open>Directories of archives\<close>

record distdirEntry =
  basename :: string
  sourcePath :: string

definition distdirEntries_Set :: "string \<Rightarrow> distdirEntry list \<Rightarrow> distdirEntry list result" where
  "distdirEntries_Set value pb =
     (let kv = SplitN2 (CHR ''='') value
      in if length kv \<noteq> 2 then Inl (ErrorString ''invalid value: expected key value pair separated by ='')
         else Inr (pb @ [\<lparr>basename = kv ! 0, sourcePath = kv ! 1\<rparr>]))"

definition copyEntry :: "string \<Rightarrow> string \<Rightarrow> distdirEntry \<Rightarrow> disk \<Rightarrow> unit result \<times> disk" where
  "copyEntry wd distdir entry =
     link_or_copy id id (resolve wd (sourcePath entry)) (resolve wd (Path_Join [distdir, basename entry]))"

fun copy_entries :: "string \<Rightarrow> string \<Rightarrow> string \<Rightarrow> distdirEntry list \<Rightarrow> disk \<Rightarrow> tool_run \<times> disk" where
  "copy_entries wd distdir log [] d = (ToolDone log, d)"
| "copy_entries wd distdir log (entry # entries) d =
     (case copyEntry wd distdir entry d of
        (Inl err, d') \<Rightarrow>
          (ToolFailed (log @ line (Sprintf ''Copying %s to %s: %v'' [sourcePath entry, basename entry, err_msg err])), d')
      | (Inr _, d') \<Rightarrow> copy_entries wd distdir log entries d')"

definition distdir_main :: "string \<Rightarrow> string list \<Rightarrow> disk \<Rightarrow> tool_run \<times> disk" where
  "distdir_main wd args d =
     (case flag_parse (map_of [(''file'', Var distdirEntries_Set)]) args [] of
        Inl err \<Rightarrow> (ToolUsage (failf_text err), d)
      | Inr (contents, rest) \<Rightarrow>
          if length rest \<noteq> 1 then (ToolFailed (line ''expected destination dir''), d)
          else if length contents = 0 then (ToolFailed (line ''Empty list of contents''), d)
          else
            (case os_MkdirAll (resolve wd (rest ! 0)) d of
               Inl err \<Rightarrow> copy_entries wd (rest ! 0) (line (Sprintf ''Preparing distdir: %v'' [err_msg err])) contents d
             | Inr d' \<Rightarrow> copy_entries wd (rest ! 0) [] contents d'))"

subsection \<open>Checking hashes\<close>

definition checkExpectedHash :: "string \<Rightarrow> string \<Rightarrow> string \<Rightarrow> disk \<Rightarrow> unit result" where
  "checkExpectedHash wd path expectedHash d =
     (case os_Open (resolve wd path) d of
        Inl err \<Rightarrow> Inl (Errorf ''opening file %s: %v'' [path, err_msg err])
      | Inr i \<Rightarrow>
          (case os_ReadFile (resolve wd path) d of
             Inl err \<Rightarrow> Inl (Errorf ''hashing file %s: %v'' [path, err_msg err])
           | Inr text \<Rightarrow>
               (let got = hex_string (sha256_sum text)
                in if got \<noteq> expectedHash then
                     Inl (Errorf ''hash of file %s does not match expected hash: expected %s, got %s'' [path, expectedHash, got])
                   else Inr ())))"

fun check_hashes :: "string \<Rightarrow> string list \<Rightarrow> disk \<Rightarrow> tool_run" where
  "check_hashes wd (filename # expectedHash # args) d =
     (case checkExpectedHash wd filename expectedHash d of
        Inl err \<Rightarrow> ToolFailed (line (err_msg err))
      | Inr _ \<Rightarrow> check_hashes wd args d)"
| "check_hashes wd _ d = ToolDone []"

text \<open>\<open>args\<close> is \<open>os.Args\<close>, the name of the program included.\<close>

definition check_file_hash_main :: "string \<Rightarrow> string list \<Rightarrow> disk \<Rightarrow> tool_run" where
  "check_file_hash_main wd args d =
     (if length args mod 2 = 0 \<or> length args < 3
      then ToolFailed (line ''Usage: check_file_hash <filename> <expected sha256>'')
      else check_hashes wd (drop 1 args) d)"

subsection \<open>Properties\<close>

text \<open>A flag \<open>os_cpu=path\<close> adds the binary of that platform.\<close>

lemma platformBinaries_Set_adds:
  assumes "CHR ''_'' \<notin> set os" and "CHR ''='' \<notin> set os" and "CHR ''='' \<notin> set cpu"
  shows "platformBinaries_Set (os @ ''_'' @ cpu @ ''='' @ path) pb = Inr (pb @ [\<lparr>pb_os = os, pb_cpu = cpu, pb_path = path\<rparr>])"
  using SplitN2_append [of "CHR ''=''" "os @ ''_'' @ cpu" path] SplitN2_append [of "CHR ''_''" os cpu] assms
  by (simp add: platformBinaries_Set_def Let_def)

text \<open>The lock file has an item for each binary, in order.\<close>

lemma lockfile_items_complete:
  "lockfile_items wd version bins d = Inr items \<Longrightarrow>
     map (\<lambda>x. (li_OS x, li_CPU x)) items = map (\<lambda>b. (pb_os b, pb_cpu b)) bins
     \<and> list_all2 (\<lambda>b x. fileSRI wd (pb_path b) d = Inr (li_Integrity x)) bins items"
proof (induction bins arbitrary: items)
  case (Cons b bins)
  then obtain sri xs where "fileSRI wd (pb_path b) d = Inr sri" "lockfile_items wd version bins d = Inr xs"
    "items = \<lparr>li_Version = ''v'' @ version, li_Integrity = sri, li_OS = pb_os b, li_CPU = pb_cpu b\<rparr> # xs"
    by (auto simp: map_sum_def split: sum.splits)
  with Cons.IH [of xs] show ?case by simp
qed simp

text \<open>A directory of archives that is made without an error holds a copy of every file, when the names are
  new and none of them is a source.\<close>

definition entry_dst :: "string \<Rightarrow> string \<Rightarrow> distdirEntry \<Rightarrow> string" where
  "entry_dst wd distdir e = resolve wd (Path_Join [distdir, basename e])"

lemma copy_entries_done:
  assumes "copy_entries wd distdir log es d = (ToolDone log', d')" and "distinct (map (entry_dst wd distdir) es)"
    and "\<forall>e\<in>set es. file_at (entry_dst wd distdir e) d = None"
    and "\<forall>e\<in>set es. resolve wd (sourcePath e) \<notin> entry_dst wd distdir ` set es"
  shows "(\<forall>e\<in>set es. file_at (entry_dst wd distdir e) d' = file_at (resolve wd (sourcePath e)) d)
    \<and> (\<forall>q. q \<notin> entry_dst wd distdir ` set es \<longrightarrow> file_at q d' = file_at q d)"
  using assms
proof (induction es arbitrary: d)
  case (Cons e es)
  obtain d1 where step: "copyEntry wd distdir e d = (Inr (), d1)" and rest: "copy_entries wd distdir log es d1 = (ToolDone log', d')"
    using Cons.prems(1) by (auto split: prod.splits sum.splits)
  have new: "map_of (inode_of d) (entry_dst wd distdir e) = None"
    using Cons.prems(3) by (simp add: file_at_None_iff)
  note one = link_or_copy_new [OF step [unfolded copyEntry_def] new [unfolded entry_dst_def], folded entry_dst_def]
  have "(\<forall>x\<in>set es. file_at (entry_dst wd distdir x) d' = file_at (resolve wd (sourcePath x)) d1)
    \<and> (\<forall>q. q \<notin> entry_dst wd distdir ` set es \<longrightarrow> file_at q d' = file_at q d1)"
    by (rule Cons.IH [OF rest]) (use Cons.prems one(2) in \<open>auto simp: image_iff\<close>)
  with Cons.prems one show ?case by (auto simp: image_iff)
qed simp

text \<open>The hash check succeeds exactly when every file has its hash.\<close>

lemma check_hashes_done:
  "check_hashes wd (concat (map (\<lambda>(f, h). [f, h]) fhs)) d = ToolDone [] \<longleftrightarrow>
     (\<forall>(f, h)\<in>set fhs. \<exists>text. os_ReadFile (resolve wd f) d = Inr text \<and> hex_string (sha256_sum text) = h)"
proof (induction fhs)
  case (Cons fh fhs)
  obtain f h where fh: "fh = (f, h)" by (cases fh)
  have "checkExpectedHash wd f h d = Inr () \<longleftrightarrow>
      (\<exists>text. os_ReadFile (resolve wd f) d = Inr text \<and> hex_string (sha256_sum text) = h)"
    by (auto simp: checkExpectedHash_def os_ReadFile_def Let_def split: sum.splits)
  with Cons fh show ?case
    by (cases "checkExpectedHash wd f h d") auto
qed simp

end
