(* ===== verification/Bcr.thy ===== *)
theory Bcr
  imports Bazel_Tools "HOL-Library.Multiset"
begin

text \<open>
  \<open>src/bzl/private/bcr/bcr.go\<close>: a local registry of Bazel modules.  For each module version it writes the
  source description, the module file taken from the archive, the archive itself and its extracted
  contents; for each module it writes the metadata with the sorted list of versions.
  The archive formats (\<open>gunzip\<close>, \<open>untar\<close>) are arguments.
\<close>

definition sourcesBasePath :: string where "sourcesBasePath = ''contents''"

subsection \<open>Data\<close>

record maintainer =
  mt_Name :: string
  mt_Email :: string
  mt_GitHub :: string
  mt_DoNotNotify :: "bool option"

record metadataInfo =
  md_Homepage :: string
  md_Maintainers :: "maintainer list option"
  md_Repository :: "string list option"
  md_Versions :: "string list option"
  md_YankedVersions :: "string gomap"
  md_Deprecated :: string

record moduleVersionSource =
  ms_Type :: string
  ms_URL :: string
  ms_Path :: string
  ms_Integrity :: string
  ms_StripPrefix :: string
  ms_Overlay :: "string gomap"
  ms_Patches :: "string gomap"
  ms_PatchStrip :: int
  ms_ArchiveType :: string

record addLocalModuleVersionReq =
  ModuleName :: string
  ModuleVersion :: string
  SourcePath :: string
  OverrideSourceBasename :: string
  MetadataTemplatePath :: string
  req_source :: moduleVersionSource

definition decode_bool_pointer :: "bool option decoder" where
  "decode_bool_pointer v old = (case v of JNull \<Rightarrow> Inr None | _ \<Rightarrow> map_sum id Some (decode_bool v False))"

definition maintainer_fields :: "maintainer fields" where
  "maintainer_fields =
     [(''name'', field decode_string mt_Name (\<lambda>x r. r\<lparr>mt_Name := x\<rparr>)),
      (''email'', field decode_string mt_Email (\<lambda>x r. r\<lparr>mt_Email := x\<rparr>)),
      (''github'', field decode_string mt_GitHub (\<lambda>x r. r\<lparr>mt_GitHub := x\<rparr>)),
      (''do_not_notify'', field decode_bool_pointer mt_DoNotNotify (\<lambda>x r. r\<lparr>mt_DoNotNotify := x\<rparr>))]"

definition empty_maintainer :: maintainer where
  "empty_maintainer = \<lparr>mt_Name = [], mt_Email = [], mt_GitHub = [], mt_DoNotNotify = None\<rparr>"

definition metadata_fields :: "metadataInfo fields" where
  "metadata_fields =
     [(''homepage'', field decode_string md_Homepage (\<lambda>x r. r\<lparr>md_Homepage := x\<rparr>)),
      (''maintainers'', field (decode_slice (decode_struct False maintainer_fields) empty_maintainer) md_Maintainers
         (\<lambda>x r. r\<lparr>md_Maintainers := x\<rparr>)),
      (''repository'', field (decode_slice decode_string []) md_Repository (\<lambda>x r. r\<lparr>md_Repository := x\<rparr>)),
      (''versions'', field (decode_slice decode_string []) md_Versions (\<lambda>x r. r\<lparr>md_Versions := x\<rparr>)),
      (''yanked_versions'', field (decode_map decode_string []) md_YankedVersions (\<lambda>x r. r\<lparr>md_YankedVersions := x\<rparr>)),
      (''deprecated'', field decode_string md_Deprecated (\<lambda>x r. r\<lparr>md_Deprecated := x\<rparr>))]"

definition empty_metadata :: metadataInfo where
  "empty_metadata = \<lparr>md_Homepage = [], md_Maintainers = None, md_Repository = None, md_Versions = None,
     md_YankedVersions = [], md_Deprecated = []\<rparr>"

definition source_fields :: "moduleVersionSource fields" where
  "source_fields =
     [(''type'', field decode_string ms_Type (\<lambda>x r. r\<lparr>ms_Type := x\<rparr>)),
      (''url'', field decode_string ms_URL (\<lambda>x r. r\<lparr>ms_URL := x\<rparr>)),
      (''path'', field decode_string ms_Path (\<lambda>x r. r\<lparr>ms_Path := x\<rparr>)),
      (''integrity'', field decode_string ms_Integrity (\<lambda>x r. r\<lparr>ms_Integrity := x\<rparr>)),
      (''strip_prefix'', field decode_string ms_StripPrefix (\<lambda>x r. r\<lparr>ms_StripPrefix := x\<rparr>)),
      (''overlay'', field (decode_map decode_string []) ms_Overlay (\<lambda>x r. r\<lparr>ms_Overlay := x\<rparr>)),
      (''patches'', field (decode_map decode_string []) ms_Patches (\<lambda>x r. r\<lparr>ms_Patches := x\<rparr>)),
      (''patch_strip'', field decode_int ms_PatchStrip (\<lambda>x r. r\<lparr>ms_PatchStrip := x\<rparr>)),
      (''archive_type'', field decode_string ms_ArchiveType (\<lambda>x r. r\<lparr>ms_ArchiveType := x\<rparr>))]"

text \<open>The fields of the embedded struct are fields of the request.\<close>

definition request_fields :: "addLocalModuleVersionReq fields" where
  "request_fields =
     [(''module_name'', field decode_string ModuleName (\<lambda>x r. r\<lparr>ModuleName := x\<rparr>)),
      (''version'', field decode_string ModuleVersion (\<lambda>x r. r\<lparr>ModuleVersion := x\<rparr>)),
      (''source_path'', field decode_string SourcePath (\<lambda>x r. r\<lparr>SourcePath := x\<rparr>)),
      (''override_source_basename'', field decode_string OverrideSourceBasename (\<lambda>x r. r\<lparr>OverrideSourceBasename := x\<rparr>)),
      (''metadata_template_path'', field decode_string MetadataTemplatePath (\<lambda>x r. r\<lparr>MetadataTemplatePath := x\<rparr>))]
     @ map (\<lambda>(k, d). (k, \<lambda>v r. map_sum id (\<lambda>s. r\<lparr>req_source := s\<rparr>) (d v (req_source r)))) source_fields"

definition empty_source :: moduleVersionSource where
  "empty_source = \<lparr>ms_Type = [], ms_URL = [], ms_Path = [], ms_Integrity = [], ms_StripPrefix = [], ms_Overlay = [],
     ms_Patches = [], ms_PatchStrip = 0, ms_ArchiveType = []\<rparr>"

definition empty_add_request :: addLocalModuleVersionReq where
  "empty_add_request = \<lparr>ModuleName = [], ModuleVersion = [], SourcePath = [], OverrideSourceBasename = [],
     MetadataTemplatePath = [], req_source = empty_source\<rparr>"

definition omit_empty_map :: "string \<Rightarrow> string gomap \<Rightarrow> (string \<times> json) list" where
  "omit_empty_map k m = (if m = [] then [] else [(k, encode_map JStr m)])"

definition encode_maintainer :: "maintainer \<Rightarrow> json" where
  "encode_maintainer m = JObj (omit_empty_string ''name'' (mt_Name m) @ omit_empty_string ''email'' (mt_Email m) @
     omit_empty_string ''github'' (mt_GitHub m) @
     (case mt_DoNotNotify m of None \<Rightarrow> [] | Some b \<Rightarrow> [(''do_not_notify'', JBool b)]))"

definition encode_metadata :: "metadataInfo \<Rightarrow> json" where
  "encode_metadata m = JObj ([(''homepage'', JStr (md_Homepage m)),
     (''maintainers'', encode_slice encode_maintainer (md_Maintainers m)),
     (''repository'', encode_slice JStr (md_Repository m)), (''versions'', encode_slice JStr (md_Versions m))] @
     omit_empty_map ''yanked_versions'' (md_YankedVersions m) @ omit_empty_string ''deprecated'' (md_Deprecated m))"

definition encode_source_json :: "moduleVersionSource \<Rightarrow> json" where
  "encode_source_json s = JObj (omit_empty_string ''type'' (ms_Type s) @ omit_empty_string ''url'' (ms_URL s) @
     omit_empty_string ''path'' (ms_Path s) @ [(''integrity'', JStr (ms_Integrity s))] @
     omit_empty_string ''strip_prefix'' (ms_StripPrefix s) @ omit_empty_map ''overlay'' (ms_Overlay s) @
     omit_empty_map ''patches'' (ms_Patches s) @
     (if ms_PatchStrip s = 0 then [] else [(''patch_strip'', JNum (Itoa (ms_PatchStrip s)))]) @
     omit_empty_string ''archive_type'' (ms_ArchiveType s))"

definition registry_json :: json where
  "registry_json = JObj [(''mirrors'', JArr []), (''module_base_path'', JStr sourcesBasePath)]"

text \<open>\<open>addRequests.Set\<close>: a flag value names a file with a request.\<close>

definition addRequests_Set :: "string \<Rightarrow> disk \<Rightarrow> string \<Rightarrow>
    addLocalModuleVersionReq list \<Rightarrow> addLocalModuleVersionReq list result" where
  "addRequests_Set wd d value r =
     bind_result (os_ReadFile (resolve wd value) d) (\<lambda>text.
       case Unmarshal text of
         Malformed \<Rightarrow> Inl syntax_error
       | Value v \<Rightarrow> map_sum id (\<lambda>req. r @ [req]) (decode_struct False request_fields v empty_add_request))"

subsection \<open>Archives\<close>

datatype tar_kind = TarDir | TarRegular | TarOther

record tar_entry =
  hdr_Name :: string
  hdr_kind :: tar_kind
  hdr_text :: "string result"

text \<open>\<open>filepath.Ext\<close>: from the last dot of the last element.\<close>

definition Ext :: "string \<Rightarrow> string" where
  "Ext path =
     (let b = (case LastCut (CHR ''/'') path of None \<Rightarrow> path | Some (_, b) \<Rightarrow> b)
      in case LastCut (CHR ''.'') b of None \<Rightarrow> [] | Some (_, e) \<Rightarrow> CHR ''.'' # e)"

text \<open>The entries of an archive up to its end or the first error.\<close>

definition open_archive :: "(string \<Rightarrow> string result) \<Rightarrow> (string \<Rightarrow> tar_entry result list) \<Rightarrow> string \<Rightarrow> string \<Rightarrow> disk \<Rightarrow>
    tar_entry result list result" where
  "open_archive gunzip untar wd sourceArchive d =
     bind_result (os_Open (resolve wd sourceArchive) d) (\<lambda>i.
       if Ext sourceArchive = ''.tar'' then Inr (untar (inode_text d i))
       else if Ext sourceArchive = ''.gz'' then map_sum id untar (gunzip (inode_text d i))
       else Inl (Errorf ''unsupported archive type: %s'' [sourceArchive]))"

fun find_entry :: "string \<Rightarrow> tar_entry result list \<Rightarrow> string result" where
  "find_entry pathInArchive [] = Inr []"
| "find_entry pathInArchive (Inl err # _) = Inl err"
| "find_entry pathInArchive (Inr hdr # entries) =
     (if hdr_Name hdr \<noteq> pathInArchive then find_entry pathInArchive entries else hdr_text hdr)"

definition extractModuleFile :: "(string \<Rightarrow> string result) \<Rightarrow> (string \<Rightarrow> tar_entry result list) \<Rightarrow> string \<Rightarrow> string \<Rightarrow> string \<Rightarrow>
    disk \<Rightarrow> string result" where
  "extractModuleFile gunzip untar wd sourceArchive stripPrefix d =
     (let pathInArchive = (if stripPrefix \<noteq> [] then Path_Join [stripPrefix, ''MODULE.bazel''] else ''MODULE.bazel'')
      in bind_result (open_archive gunzip untar wd sourceArchive d) (\<lambda>entries.
         bind_result (find_entry pathInArchive entries) (\<lambda>text.
           if length text = 0 then
             Inl (Errorf ''module file not found in archive %s under path %s'' [sourceArchive, pathInArchive])
           else Inr text)))"

text \<open>One entry of the archive: \<open>None\<close> in the middle means that the loop goes on.\<close>

definition entry_name :: "string \<Rightarrow> string \<Rightarrow> string option result" where
  "entry_name stripPrefix name =
     (if length name = 0 \<or> hd name = CHR ''.'' \<or> hd name = CHR ''/''
      then Inl (Errorf ''invalid file path in archive: %s'' [name])
      else if stripPrefix \<noteq> [] then
        (if \<not> HasPrefix name stripPrefix then Inr None
         else if length name < length stripPrefix + 1 then Inl (ErrorString ''slice bounds out of range'')
         else Inr (Some (drop (length stripPrefix + 1) name)))
      else Inr (Some name))"

definition write_entry :: "string \<Rightarrow> tar_entry \<Rightarrow> string \<Rightarrow> disk \<Rightarrow> unit result \<times> disk" where
  "write_entry destination hdr name d =
     (case hdr_kind hdr of
        TarDir \<Rightarrow> (Inr (), case os_Mkdir (Path_Join [destination, name]) d of Inl _ \<Rightarrow> d | Inr d' \<Rightarrow> d')
      | TarOther \<Rightarrow> (Inl (Errorf ''unsupported file type: %s'' [name]), d)
      | TarRegular \<Rightarrow>
          (case os_Create (Path_Join [destination, name]) d of
             Inl err \<Rightarrow> (Inl (Errorf ''failed to create file: %v'' [err_msg err]), d)
           | Inr (i, d') \<Rightarrow>
               (case hdr_text hdr of
                  Inl err \<Rightarrow> (Inl (Errorf ''failed to extract file: %v'' [err_msg err]), d')
                | Inr text \<Rightarrow> (Inr (), d'\<lparr>inode_text := (inode_text d')(i := text)\<rparr>))))"

fun extract_entries :: "string \<Rightarrow> string \<Rightarrow> tar_entry result list \<Rightarrow> disk \<Rightarrow> unit result \<times> disk" where
  "extract_entries destination stripPrefix [] d = (Inr (), d)"
| "extract_entries destination stripPrefix (Inl err # _) d = (Inl (Errorf ''failed to read tarball: %v'' [err_msg err]), d)"
| "extract_entries destination stripPrefix (Inr hdr # entries) d =
     (case entry_name stripPrefix (hdr_Name hdr) of
        Inl err \<Rightarrow> (Inl err, d)
      | Inr None \<Rightarrow> extract_entries destination stripPrefix entries d
      | Inr (Some name) \<Rightarrow>
          (case write_entry destination hdr name d of
             (Inl err, d') \<Rightarrow> (Inl err, d')
           | (Inr _, d') \<Rightarrow> extract_entries destination stripPrefix entries d'))"

definition extractSourceArchive :: "(string \<Rightarrow> string result) \<Rightarrow> (string \<Rightarrow> tar_entry result list) \<Rightarrow> string \<Rightarrow> string \<Rightarrow> string \<Rightarrow>
    string \<Rightarrow> disk \<Rightarrow> unit result \<times> disk" where
  "extractSourceArchive gunzip untar wd sourceArchive destination stripPrefix d =
     (case open_archive gunzip untar wd sourceArchive d of
        Inl err \<Rightarrow> (Inl err, d)
      | Inr entries \<Rightarrow>
          (case os_Mkdir (resolve wd destination) d of
             Inl err \<Rightarrow> (Inl err, d)
           | Inr d' \<Rightarrow> extract_entries (resolve wd destination) stripPrefix entries d'))"

definition copySourceArchive :: "string \<Rightarrow> string \<Rightarrow> string \<Rightarrow> disk \<Rightarrow> unit result \<times> disk" where
  "copySourceArchive wd sourceArchive destination =
     link_or_copy id id (resolve wd sourceArchive) (resolve wd destination)"

definition sourceArchiveIntegrity :: "string \<Rightarrow> string \<Rightarrow> disk \<Rightarrow> string result" where
  "sourceArchiveIntegrity wd sourceArchive d =
     bind_result (os_ReadFile (resolve wd sourceArchive) d) (\<lambda>text.
       Inr (Sprintf ''sha256-%s'' [b64_encode (sha256_sum text)]))"

subsection \<open>A module version\<close>

text \<open>Going on after a step that can fail; an error leaves the disk as the step left it.\<close>

abbreviation after :: "unit result \<times> disk \<Rightarrow> (disk \<Rightarrow> unit result \<times> disk) \<Rightarrow> unit result \<times> disk" where
  "after r f \<equiv> (case r of (Inl e, d) \<Rightarrow> (Inl e, d) | (Inr _, d) \<Rightarrow> f d)"

definition run_on :: "disk \<Rightarrow> disk result \<Rightarrow> unit result \<times> disk" where
  "run_on d r = (case r of Inl e \<Rightarrow> (Inl e, d) | Inr d' \<Rightarrow> (Inr (), d'))"

definition archive_basename :: "addLocalModuleVersionReq \<Rightarrow> string" where
  "archive_basename request =
     (if OverrideSourceBasename request \<noteq> [] then OverrideSourceBasename request
      else if ms_Path (req_source request) \<noteq> [] then Base (ms_Path (req_source request))
      else Base (SourcePath request))"

definition createModuleVersion :: "(string \<Rightarrow> string result) \<Rightarrow> (string \<Rightarrow> tar_entry result list) \<Rightarrow> string \<Rightarrow> string \<Rightarrow>
    addLocalModuleVersionReq \<Rightarrow> disk \<Rightarrow> unit result \<times> disk" where
  "createModuleVersion gunzip untar wd destination request d =
     (let moduleDir = Path_Join [destination, ''modules'', ModuleName request];
          versionDir = Path_Join [moduleDir, ModuleVersion request];
          moduleFilePath = Path_Join [versionDir, ''MODULE.bazel''];
          sourceJSONPath = Path_Join [versionDir, ''source.json''];
          sourceArchiveDir = Path_Join [ModuleName request, ModuleVersion request];
          extractedPath = Path_Join [sourceArchiveDir, ''src''];
          archivePath = Path_Join [sourceArchiveDir, archive_basename request];
          archiveFilepath = Path_Join [destination, sourcesBasePath, archivePath];
          extractedFilepath = Path_Join [destination, sourcesBasePath, extractedPath];
          stripPrefix = ms_StripPrefix (req_source request)
      in case sourceArchiveIntegrity wd (SourcePath request) d of
           Inl err \<Rightarrow> (Inl err, d)
         | Inr integrity \<Rightarrow>
             (let source = (req_source request)\<lparr>ms_Integrity := integrity, ms_Type := ''local_path'', ms_Path := extractedPath\<rparr>
              in after (run_on d (os_MkdirAll (resolve wd versionDir) d)) (\<lambda>d1.
                 after (run_on d1 (os_MkdirAll (resolve wd (Dir extractedFilepath)) d1)) (\<lambda>d2.
                   case extractModuleFile gunzip untar wd (SourcePath request) stripPrefix d2 of
                     Inl err \<Rightarrow> (Inl err, d2)
                   | Inr moduleFileContents \<Rightarrow>
                       after (run_on d2 (os_WriteFile (resolve wd moduleFilePath) moduleFileContents ModePerm d2)) (\<lambda>d3.
                       after (run_on d3 (os_WriteFile (resolve wd sourceJSONPath) (Marshal (encode_source_json source)) ModePerm d3)) (\<lambda>d4.
                       after (copySourceArchive wd (SourcePath request) archiveFilepath d4) (\<lambda>d5.
                         extractSourceArchive gunzip untar wd (SourcePath request) extractedFilepath stripPrefix d5)))))))"

subsection \<open>The registry\<close>

definition add_version :: "string \<Rightarrow> metadataInfo \<Rightarrow> metadataInfo" where
  "add_version version m =
     m\<lparr>md_Versions := Some (sort ((case md_Versions m of None \<Rightarrow> [] | Some vs \<Rightarrow> vs) @ [version]))\<rparr>"

text \<open>The metadata of a module comes from the template of its first request.\<close>

definition module_metadata :: "string \<Rightarrow> addLocalModuleVersionReq \<Rightarrow> metadataInfo gomap \<Rightarrow> disk \<Rightarrow>
    (string, metadataInfo) sum" where
  "module_metadata wd req moduleVersions d =
     (case map_of moduleVersions (ModuleName req) of
        Some m \<Rightarrow> Inr m
      | None \<Rightarrow>
          (case os_ReadFile (resolve wd (MetadataTemplatePath req)) d of
             Inl err \<Rightarrow> Inl (line (Sprintf ''Reading metadata template %s: %v'' [MetadataTemplatePath req, err_msg err]))
           | Inr text \<Rightarrow>
               (case (case Unmarshal text of Malformed \<Rightarrow> Inl syntax_error
                      | Value v \<Rightarrow> decode_struct False metadata_fields v empty_metadata) of
                  Inl err \<Rightarrow> Inl (line (Sprintf ''Unmarshalling metadata template %s: %v'' [MetadataTemplatePath req, err_msg err]))
                | Inr m \<Rightarrow> Inr m)))"

fun add_requests :: "(string \<Rightarrow> string result) \<Rightarrow> (string \<Rightarrow> tar_entry result list) \<Rightarrow> string \<Rightarrow> string \<Rightarrow>
    addLocalModuleVersionReq list \<Rightarrow> metadataInfo gomap \<Rightarrow> disk \<Rightarrow> (string, metadataInfo gomap) sum \<times> disk" where
  "add_requests gunzip untar wd destination [] moduleVersions d = (Inr moduleVersions, d)"
| "add_requests gunzip untar wd destination (req # reqs) moduleVersions d =
     (case createModuleVersion gunzip untar wd destination req d of
        (Inl err, d1) \<Rightarrow>
          (Inl (line (Sprintf ''Creating module version %s %s: %v'' [ModuleName req, ModuleVersion req, err_msg err])), d1)
      | (Inr _, d1) \<Rightarrow>
          (case module_metadata wd req moduleVersions d1 of
             Inl e \<Rightarrow> (Inl e, d1)
           | Inr m \<Rightarrow>
               add_requests gunzip untar wd destination reqs
                 (gomap_put (ModuleName req) (add_version (ModuleVersion req) m) moduleVersions) d1))"

text \<open>Go visits the modules in an unspecified order, here in the order of their names; each has a file of
  its own.\<close>

fun write_metadata :: "string \<Rightarrow> string \<Rightarrow> metadataInfo gomap \<Rightarrow> disk \<Rightarrow> (string, unit) sum \<times> disk" where
  "write_metadata wd destination [] d = (Inr (), d)"
| "write_metadata wd destination ((moduleName, metadata) # rest) d =
     (case os_WriteFile (resolve wd (Path_Join [destination, ''modules'', moduleName, ''metadata.json'']))
             (Encode_indented (encode_metadata metadata)) ModePerm d of
        Inl err \<Rightarrow> (Inl (line (Sprintf ''Writing metadata for module %s: %v'' [moduleName, err_msg err])), d)
      | Inr d' \<Rightarrow> write_metadata wd destination rest d')"

text \<open>The preparation of the registry, whose errors are only reported.\<close>

definition reported :: "string \<Rightarrow> disk result \<Rightarrow> string \<times> disk \<Rightarrow> string \<times> disk" where
  "reported format r logd =
     (case r of Inl err \<Rightarrow> (fst logd @ line (Sprintf format [err_msg err]), snd logd) | Inr d' \<Rightarrow> (fst logd, d'))"

definition prepare_registry :: "string \<Rightarrow> string \<Rightarrow> disk \<Rightarrow> string \<times> disk" where
  "prepare_registry wd destination d =
     (let s1 = reported ''Preparing BCR directory: %v'' (os_MkdirAll (resolve wd destination) d) ([], d);
          s2 = reported ''Preparing module base path: %v''
                 (os_Mkdir (resolve wd (Path_Join [destination, sourcesBasePath])) (snd s1)) s1
      in reported ''Writing registry JSON: %v''
           (os_WriteFile (resolve wd (Path_Join [destination, ''bazel_registry.json''])) (Encode_indented registry_json) ModePerm (snd s2)) s2)"

definition bcr_main :: "(string \<Rightarrow> string result) \<Rightarrow> (string \<Rightarrow> tar_entry result list) \<Rightarrow> string \<Rightarrow>
    string list \<Rightarrow> disk \<Rightarrow> tool_run \<times> disk" where
  "bcr_main gunzip untar wd args d =
     (case flag_parse (map_of [(''add-local-module'', Var (addRequests_Set wd d))]) args [] of
        Inl err \<Rightarrow> (ToolUsage (failf_text err), d)
      | Inr (requests, rest) \<Rightarrow>
          if length rest \<noteq> 1 then (ToolFailed (line ''expected destination dir''), d)
          else if length requests = 0 then (ToolFailed (line ''Empty list of modules to add.''), d)
          else
            (case prepare_registry wd (rest ! 0) d of
               (log, d1) \<Rightarrow>
                 (case add_requests gunzip untar wd (rest ! 0) requests [] d1 of
                    (Inl e, d2) \<Rightarrow> (ToolFailed (log @ e), d2)
                  | (Inr moduleVersions, d2) \<Rightarrow>
                      (case write_metadata wd (rest ! 0) moduleVersions d2 of
                         (Inl e, d3) \<Rightarrow> (ToolFailed (log @ e), d3)
                       | (Inr _, d3) \<Rightarrow> (ToolDone log, d3)))))"

subsection \<open>Versions\<close>

definition versions_of :: "string \<Rightarrow> addLocalModuleVersionReq list \<Rightarrow> string list" where
  "versions_of name reqs = map ModuleVersion (filter (\<lambda>r. ModuleName r = name) reqs)"

definition listed :: "metadataInfo \<Rightarrow> string list" where
  "listed m = (case md_Versions m of None \<Rightarrow> [] | Some vs \<Rightarrow> vs)"

lemma listed_add_version: "mset (listed (add_version v m)) = add_mset v (mset (listed m))" "sorted (listed (add_version v m))"
  by (simp_all add: listed_def add_version_def)

lemma add_requests_ConsE:
  assumes "add_requests gunzip untar wd destination (req # reqs) mv d = (Inr mv', d')"
  obtains m d1 where "\<And>m0. map_of mv (ModuleName req) = Some m0 \<Longrightarrow> m = m0"
    and "add_requests gunzip untar wd destination reqs
      (gomap_put (ModuleName req) (add_version (ModuleVersion req) m) mv) d1 = (Inr mv', d')"
proof -
  obtain m d1 where m: "module_metadata wd req mv d1 = Inr m"
    and step: "add_requests gunzip untar wd destination reqs
      (gomap_put (ModuleName req) (add_version (ModuleVersion req) m) mv) d1 = (Inr mv', d')"
    using assms by (auto split: prod.splits sum.splits)
  have "m = m0" if "map_of mv (ModuleName req) = Some m0" for m0
    using m that by (simp add: module_metadata_def)
  from that [OF this step] show thesis .
qed

definition listed_in :: "string \<Rightarrow> metadataInfo gomap \<Rightarrow> string list" where
  "listed_in name mv = (case map_of mv name of None \<Rightarrow> [] | Some m \<Rightarrow> listed m)"

text \<open>One request: its version is added to those of its module, those of other modules stay.\<close>

lemma listed_in_put:
  "listed_in name (gomap_put k m mv) = (if name = k then listed m else listed_in name mv)"
  by (simp add: listed_in_def)

lemma add_requests_keep:
  "add_requests gunzip untar wd destination reqs mv d = (Inr mv', d') \<Longrightarrow>
     mset (versions_of name reqs) + mset (listed_in name mv) \<subseteq># mset (listed_in name mv')"
proof (induction reqs arbitrary: mv d)
  case (Cons req reqs)
  obtain m d1 where m: "\<And>m0. map_of mv (ModuleName req) = Some m0 \<Longrightarrow> m = m0"
    and step: "add_requests gunzip untar wd destination reqs
      (gomap_put (ModuleName req) (add_version (ModuleVersion req) m) mv) d1 = (Inr mv', d')"
    using add_requests_ConsE [OF Cons.prems] by blast
  have "mset (listed_in (ModuleName req) mv) \<subseteq># mset (listed m)"
    using m by (auto simp: listed_in_def split: option.split)
  then have "mset (versions_of name (req # reqs)) + mset (listed_in name mv) \<subseteq>#
      mset (versions_of name reqs) +
        mset (listed_in name (gomap_put (ModuleName req) (add_version (ModuleVersion req) m) mv))"
    by (simp add: listed_in_put listed_add_version versions_of_def)
  also note Cons.IH [OF step]
  finally show ?case .
qed (simp add: versions_of_def)

lemma add_requests_sorted:
  "add_requests gunzip untar wd destination reqs mv d = (Inr mv', d') \<Longrightarrow>
     versions_of name reqs \<noteq> [] \<or> sorted (listed_in name mv) \<Longrightarrow> sorted (listed_in name mv')"
proof (induction reqs arbitrary: mv d)
  case (Cons req reqs)
  obtain m d1 where step: "add_requests gunzip untar wd destination reqs
      (gomap_put (ModuleName req) (add_version (ModuleVersion req) m) mv) d1 = (Inr mv', d')"
    using add_requests_ConsE [OF Cons.prems(1)] by blast
  from Cons.IH [OF step] Cons.prems(2) show ?case
    by (auto simp: listed_in_put listed_add_version versions_of_def split: if_splits)
qed (simp add: versions_of_def)

subsection \<open>Extraction\<close>

definition under :: "string \<Rightarrow> string \<Rightarrow> bool" where
  "under dir path \<longleftrightarrow> path = dir \<or> HasPrefix path (dir @ ''/'')"

lemma under_Path_Join:
  assumes "es \<noteq> []" and "\<forall>e\<in>set es. plain_elem e" and "''..'' \<notin> set (Split (CHR ''/'') name)"
  shows "under (abs_path es) (Path_Join [abs_path es, name])"
  unfolding Path_Join_below [OF assms]
  using assms(1) by (cases "filter (\<lambda>e. e \<noteq> [] \<and> e \<noteq> ''.'') (Split (CHR ''/'') name)")
    (auto simp: under_def abs_path_def Join_append HasPrefix_iff)

text \<open>No file below the directory shares its inode with one outside.\<close>

definition apart :: "string \<Rightarrow> disk \<Rightarrow> bool" where
  "apart dir d \<longleftrightarrow> (\<forall>p q i. under dir p \<and> \<not> under dir q \<and> map_of (inode_of d) p = Some i \<longrightarrow> map_of (inode_of d) q \<noteq> Some i)"

definition same_outside :: "string \<Rightarrow> disk \<Rightarrow> disk \<Rightarrow> bool" where
  "same_outside dir d d' \<longleftrightarrow>
     (\<forall>q. \<not> under dir q \<longrightarrow> file_at q d' = file_at q d \<and> mode_at q d' = mode_at q d \<and> is_dir q d' = is_dir q d)"

lemma Create_inside:
  assumes "os_Create path d = Inr (i, d')" and "under dir path" and "apart dir d"
  shows "apart dir (d'\<lparr>inode_text := (inode_text d')(i := text)\<rparr>)"
    and "same_outside dir d (d'\<lparr>inode_text := (inode_text d')(i := text)\<rparr>)"
proof -
  have i: "map_of (inode_of d') = (map_of (inode_of d))(path \<mapsto> i)" "inode_text d' = (inode_text d)(i := [])"
    "map_of (inode_of d) path = Some i \<or> i = fresh_inode d" "directories d' = directories d"
    "\<And>x. x \<noteq> i \<Longrightarrow> inode_mode d' x = inode_mode d x"
    using assms(1) by (auto simp: os_create_defs Let_def fun_upd_idem split: if_splits option.splits)
  have outside: "map_of (inode_of d) q \<noteq> Some i" if "\<not> under dir q" for q
    using i(3) that assms(2,3) fresh_inode_unused [of d q] unfolding apart_def by metis
  show "apart dir (d'\<lparr>inode_text := (inode_text d')(i := text)\<rparr>)"
    using assms(2,3) outside unfolding apart_def by (auto simp: i(1))
  show "same_outside dir d (d'\<lparr>inode_text := (inode_text d')(i := text)\<rparr>)"
    using assms(2) outside by (auto simp: same_outside_def file_at_def mode_at_def is_dir_def i map_option_case split: option.split)
qed

lemma write_entry_inside:
  assumes "under dir (Path_Join [dir, name])" and "apart dir d"
  shows "apart dir (snd (write_entry dir hdr name d)) \<and> same_outside dir d (snd (write_entry dir hdr name d))"
proof (cases "hdr_kind hdr")
  case TarDir
  then show ?thesis
    using assms by (auto simp: write_entry_def os_Mkdir_def apart_def same_outside_def file_at_def mode_at_def is_dir_def
        split: sum.split)
next
  case TarOther
  then show ?thesis using assms(2) by (simp add: write_entry_def same_outside_def)
next
  case TarRegular
  show ?thesis
  proof (cases "os_Create (Path_Join [dir, name]) d")
    case (Inl e)
    with TarRegular assms(2) show ?thesis by (simp add: write_entry_def same_outside_def)
  next
    case (Inr x)
    obtain i d' where x: "x = (i, d')" by (cases x)
    have "inode_text d' i = []"
      using Inr x by (auto simp: os_create_defs Let_def split: if_splits option.splits)
    then have "d'\<lparr>inode_text := (inode_text d')(i := [])\<rparr> = d'"
      by (simp add: fun_upd_idem)
    with Create_inside [OF Inr [unfolded x] assms] TarRegular Inr x show ?thesis
      by (auto simp: write_entry_def split: sum.split dest: spec [of _ "[]"]) metis+
  qed
qed

lemma extract_entries_inside:
  assumes "es \<noteq> []" and "\<forall>e\<in>set es. plain_elem e"
    and "\<forall>hdr name. Inr hdr \<in> set entries \<and> entry_name stripPrefix (hdr_Name hdr) = Inr (Some name) \<longrightarrow>
      ''..'' \<notin> set (Split (CHR ''/'') name)"
    and "apart (abs_path es) d"
  shows "same_outside (abs_path es) d (snd (extract_entries (abs_path es) stripPrefix entries d))"
  using assms(3,4)
proof (induction entries arbitrary: d)
  case Nil
  then show ?case by (simp add: same_outside_def)
next
  case (Cons entry entries)
  show ?case
  proof (cases entry)
    case (Inl err)
    then show ?thesis by (simp add: same_outside_def)
  next
    case (Inr hdr)
    have IH: "apart (abs_path es) d1 \<Longrightarrow> same_outside (abs_path es) d1 (snd (extract_entries (abs_path es) stripPrefix entries d1))" for d1
      using Cons.IH Cons.prems(1) by auto
    show ?thesis
    proof (cases "\<exists>name. entry_name stripPrefix (hdr_Name hdr) = Inr (Some name)")
      case True
      then obtain name where name: "entry_name stripPrefix (hdr_Name hdr) = Inr (Some name)" ..
      with Cons.prems(1) Inr have "''..'' \<notin> set (Split (CHR ''/'') name)" by auto
      from write_entry_inside [OF under_Path_Join [OF assms(1,2) this] Cons.prems(2), of hdr]
      obtain r d1 where "write_entry (abs_path es) hdr name d = (r, d1)" "apart (abs_path es) d1" "same_outside (abs_path es) d d1"
        by (cases "write_entry (abs_path es) hdr name d") auto
      with IH [of d1] Inr name show ?thesis
        by (auto simp: same_outside_def split: sum.split)
    next
      case False
      with Inr IH [OF Cons.prems(2)] show ?thesis
        by (cases "entry_name stripPrefix (hdr_Name hdr)") (auto simp: same_outside_def split: option.split)
    qed
  qed
qed

subsection \<open>Properties\<close>

lemma extraction_inside:
  assumes "es \<noteq> []" and "\<forall>e\<in>set es. plain_elem e" and "resolve wd destination = abs_path es"
    and "\<forall>path. under (abs_path es) path \<longrightarrow> file_at path d = None"
    and "\<forall>entries hdr name. open_archive gunzip untar wd archive d = Inr entries \<and> Inr hdr \<in> set entries
      \<and> entry_name stripPrefix (hdr_Name hdr) = Inr (Some name) \<longrightarrow> ''..'' \<notin> set (Split (CHR ''/'') name)"
  shows "same_outside (abs_path es) d (snd (extractSourceArchive gunzip untar wd archive destination stripPrefix d))"
proof (cases "open_archive gunzip untar wd archive d")
  case (Inl e)
  then show ?thesis by (simp add: extractSourceArchive_def same_outside_def)
next
  case (Inr entries)
  show ?thesis
  proof (cases "os_Mkdir (abs_path es) d")
    case (Inl e)
    with Inr assms(3) show ?thesis by (simp add: extractSourceArchive_def same_outside_def)
  next
    case mk: (Inr d1)
    then have same: "inode_of d1 = inode_of d" "inode_text d1 = inode_text d" "inode_mode d1 = inode_mode d"
      "directories d1 = abs_path es # directories d"
      by (auto simp: os_Mkdir_def split: if_splits)
    have inside: "under (abs_path es) (abs_path es)" by (simp add: under_def)
    have "apart (abs_path es) d1" using assms(4) same(1) by (auto simp: apart_def file_at_def)
    from extract_entries_inside [OF assms(1,2) _ this, of entries stripPrefix] assms(5) Inr
    have "same_outside (abs_path es) d1 (snd (extract_entries (abs_path es) stripPrefix entries d1))" by blast
    with Inr mk assms(3) same show ?thesis
      by (simp add: extractSourceArchive_def same_outside_def file_at_def mode_at_def is_dir_def) (metis inside)
  qed
qed

text \<open>An extraction that succeeds has seen no name that is empty or starts with a dot or a slash.\<close>

lemma extract_entries_names:
  "extract_entries destination stripPrefix entries d = (Inr (), d') \<Longrightarrow>
     \<forall>entry\<in>set entries. \<exists>hdr. entry = Inr hdr \<and> hdr_Name hdr \<noteq> [] \<and> hd (hdr_Name hdr) \<noteq> CHR ''.'' \<and> hd (hdr_Name hdr) \<noteq> CHR ''/''"
  by (induction destination stripPrefix entries d rule: extract_entries.induct)
    (auto simp: entry_name_def split: if_splits sum.splits prod.splits option.splits)

text \<open>(C35) Extracting an archive into a directory that holds no files leaves every file, its permissions and
  every directory outside that directory as they were, whatever the outcome, provided that no name that is
  extracted has an element \<open>..\<close>: the checks of the code only look at the first character.  When the
  extraction succeeds, every entry of the archive was readable, with a name that is not empty and starts
  neither with a dot nor with a slash.\<close>

theorem extraction_stays_inside:
  assumes "es \<noteq> []" and "\<forall>e\<in>set es. plain_elem e" and "resolve wd destination = abs_path es"
    and "\<forall>path. under (abs_path es) path \<longrightarrow> file_at path d = None"
    and "open_archive gunzip untar wd archive d = Inr entries"
    and "\<forall>hdr name. Inr hdr \<in> set entries \<and> entry_name stripPrefix (hdr_Name hdr) = Inr (Some name)
      \<longrightarrow> ''..'' \<notin> set (Split (CHR ''/'') name)"
    and "extractSourceArchive gunzip untar wd archive destination stripPrefix d = (r, d')"
  shows "(\<forall>q. q \<noteq> abs_path es \<and> \<not> HasPrefix q (abs_path es @ ''/'') \<longrightarrow>
        file_at q d' = file_at q d \<and> mode_at q d' = mode_at q d \<and> is_dir q d' = is_dir q d)
    \<and> (r = Inr () \<longrightarrow> (\<forall>entry\<in>set entries. \<exists>hdr. entry = Inr hdr \<and> hdr_Name hdr \<noteq> []
        \<and> hd (hdr_Name hdr) \<noteq> CHR ''.'' \<and> hd (hdr_Name hdr) \<noteq> CHR ''/''))"
proof -
  have "same_outside (abs_path es) d d'"
    using extraction_inside [OF assms(1-4), of gunzip untar archive stripPrefix] assms(5-7) by auto
  moreover have "\<exists>d1. extract_entries (abs_path es) stripPrefix entries d1 = (Inr (), d')" if "r = Inr ()"
    using assms(3,5,7) that by (auto simp: extractSourceArchive_def split: sum.splits)
  ultimately show ?thesis
    using extract_entries_names [of "abs_path es" stripPrefix entries _ d'] unfolding same_outside_def under_def by blast
qed

definition sample_archive :: "tar_entry result list" where
  "sample_archive = [Inr \<lparr>hdr_Name = ''m-1.0/MODULE.bazel'', hdr_kind = TarRegular, hdr_text = Inr ''module()''\<rparr>]"

definition sample_source_disk :: disk where
  "sample_source_disk =
     \<lparr>inode_of = [(''/w/m.tar'', 1)], inode_text = (\<lambda>_. ''archive''), inode_mode = (\<lambda>_. perm_rw), disk_umask = 18, directories = [''/'', ''/bcr'', ''/w''],
      link_ok = (\<lambda>_ _. True), open_ok = (\<lambda>_. True), create_ok = (\<lambda>_. True), remove_ok = (\<lambda>_. True),
      mkdir_ok_at = (\<lambda>_. True), read_fault = (\<lambda>_. None), copy_fault = (\<lambda>_ _. None)\<rparr>"

lemma sample_extraction:
  "open_archive (\<lambda>_. Inl syntax_error) (\<lambda>_. sample_archive) ''/w'' ''m.tar'' sample_source_disk = Inr sample_archive"
  "\<exists>d'. extractSourceArchive (\<lambda>_. Inl syntax_error) (\<lambda>_. sample_archive) ''/w'' ''m.tar'' ''/bcr/src'' ''m-1.0'' sample_source_disk =
     (Inr (), d')"
proof -
  show "open_archive (\<lambda>_. Inl syntax_error) (\<lambda>_. sample_archive) ''/w'' ''m.tar'' sample_source_disk = Inr sample_archive"
    by code_simp
  have "fst (extractSourceArchive (\<lambda>_. Inl syntax_error) (\<lambda>_. sample_archive) ''/w'' ''m.tar'' ''/bcr/src'' ''m-1.0'' sample_source_disk) =
      Inr ()"
    by code_simp
  then show "\<exists>d'. extractSourceArchive (\<lambda>_. Inl syntax_error) (\<lambda>_. sample_archive) ''/w'' ''m.tar'' ''/bcr/src'' ''m-1.0'' sample_source_disk =
      (Inr (), d')"
    by (metis prod.collapse)
qed

text \<open>In the sample the module file is extracted, and the archive and the other directories are untouched.\<close>

theorem extraction_stays_inside_witness:
  "\<exists>d'. extractSourceArchive (\<lambda>_. Inl syntax_error) (\<lambda>_. sample_archive) ''/w'' ''m.tar'' ''/bcr/src'' ''m-1.0'' sample_source_disk =
       (Inr (), d')
     \<and> file_at ''/w/m.tar'' d' = Some ''archive'' \<and> is_dir ''/etc'' d' = False \<and> hd (hdr_Name (projr (hd sample_archive))) \<noteq> CHR ''.''"
proof -
  let ?run = "extractSourceArchive (\<lambda>_. Inl syntax_error) (\<lambda>_. sample_archive) ''/w'' ''m.tar'' ''/bcr/src'' ''m-1.0'' sample_source_disk"
  let ?dir = "abs_path [''bcr'', ''src'']"
  obtain d' where run: "?run = (Inr (), d')" using sample_extraction(2) by blast
  have names: "\<forall>hdr name. Inr hdr \<in> set sample_archive \<and> entry_name ''m-1.0'' (hdr_Name hdr) = Inr (Some name)
      \<longrightarrow> ''..'' \<notin> set (Split (CHR ''/'') name)"
    by (auto simp: sample_archive_def entry_name_def)
  have empty: "\<forall>path. under ?dir path \<longrightarrow> file_at path sample_source_disk = None"
    by (auto simp: under_def abs_path_def sample_source_disk_def file_at_def)
  have dir: "resolve ''/w'' ''/bcr/src'' = ?dir" by (simp add: resolve_def Clean_def abs_path_def)
  have outside: "''/w/m.tar'' \<noteq> ?dir \<and> \<not> HasPrefix ''/w/m.tar'' (?dir @ ''/'')" "''/etc'' \<noteq> ?dir \<and> \<not> HasPrefix ''/etc'' (?dir @ ''/'')"
    by (simp_all add: abs_path_def HasPrefix_def)
  have plain: "[''bcr'', ''src''] \<noteq> []" "\<forall>e\<in>set [''bcr'', ''src'']. plain_elem e" by (simp_all add: plain_elem_def)
  note stays = extraction_stays_inside [OF plain dir empty sample_extraction(1) names run]
  have "file_at ''/w/m.tar'' sample_source_disk = Some ''archive''" "\<not> is_dir ''/etc'' sample_source_disk"
    by (simp_all add: sample_source_disk_def file_at_def is_dir_def)
  with stays outside have "file_at ''/w/m.tar'' d' = Some ''archive'' \<and> is_dir ''/etc'' d' = False" by metis
  moreover have "hd (hdr_Name (projr (hd sample_archive))) \<noteq> CHR ''.''"
    using stays by (auto simp: sample_archive_def)
  ultimately show ?thesis using run by blast
qed

text \<open>The code accepts names that leave the directory: the entry \<open>x/../../../evil\<close> is written beside the
  versions of the module.  A prefix is cut off even where a longer name starts with it.\<close>

lemma archive_escapes:
  "entry_name [] ''x/../../../evil'' = Inr (Some ''x/../../../evil'')"
  "Path_Join [''/bcr/contents/m/1.0/src'', ''x/../../../evil''] = ''/bcr/contents/m/evil''"
  "\<not> under ''/bcr/contents/m/1.0/src'' ''/bcr/contents/m/evil''"
  by (simp_all add: entry_name_def Path_Join_def Clean_def under_def HasPrefix_def)

lemma strip_prefix_cuts_names: "entry_name ''foo'' ''foobar/x'' = Inr (Some ''ar/x'')"
  by (simp add: entry_name_def)

text \<open>The registry lists for each module, sorted, the versions of all its requests.\<close>

theorem bcr_lists_versions:
  assumes "add_requests gunzip untar wd destination reqs [] d = (Inr mv, d')" and "r \<in> set reqs"
  shows "ModuleVersion r \<in> set (listed_in (ModuleName r) mv) \<and> sorted (listed_in (ModuleName r) mv)
    \<and> mset (versions_of (ModuleName r) reqs) \<subseteq># mset (listed_in (ModuleName r) mv)"
proof (intro conjI)
  have v: "ModuleVersion r \<in> set (versions_of (ModuleName r) reqs)"
    using assms(2) by (auto simp: versions_of_def)
  show sub: "mset (versions_of (ModuleName r) reqs) \<subseteq># mset (listed_in (ModuleName r) mv)"
    using add_requests_keep [OF assms(1), of "ModuleName r"] by (simp add: listed_in_def)
  then show "ModuleVersion r \<in> set (listed_in (ModuleName r) mv)"
    using v by (metis mset_subset_eqD set_mset_mset)
  show "sorted (listed_in (ModuleName r) mv)"
    using v by (intro add_requests_sorted [OF assms(1)]) auto
qed

end
