(* ===== verification/Sessions.thy ===== *)
theory Sessions
  imports Root
begin

text \<open>
  Sessions: sequences of \<open>get\<close> commands, each a whole client process (\<open>clientProcess\<close> of
  \<open>src/cmd/root/root.go\<close>) with the helper that is chosen for its URL, that share one agent.  What
  each command does to the cache of the agent, which responses it can print, and that the helpers do
  not get in each other's way where their cache keys are apart.
\<close>

subsection \<open>The built-in helpers\<close>

definition other_helpers :: "helper list" where
  "other_helpers = [Null_helper, GCS_helper, GAR_helper, AzStorage_helper, GitHub_helper, RemoteAPIs_helper, S3_helper]"

definition builtin_helpers :: "helper list" where
  "builtin_helpers = OCI_helper NewFallbackOCI # other_helpers"

lemma singleton_builtin: "HelperFromString singleton s = Some h \<Longrightarrow> h \<in> set builtin_helpers"
  by (auto simp: HelperFromString_def singleton_def builtin_helpers_def other_helpers_def split: if_splits)

lemma factory_builtin: "FallbackHelperFactory p u = Inr h \<Longrightarrow> h \<in> set builtin_helpers"
  by (auto simp: FallbackHelperFactory_def builtin_helpers_def other_helpers_def split: if_splits)

lemma find_loop_builtin: "find_loop singleton u cs = Inr (Some h, cfg) \<Longrightarrow> h \<in> set builtin_helpers"
  by (auto simp: find_loop_find dest: singleton_builtin split: option.splits if_splits)

lemma Configure_builtin:
  "Configure singleton (FallbackHelperFactory p) cfg uri = Inr (ctx, Some h) \<Longrightarrow> h \<in> set builtin_helpers"
  by (auto simp: Configure_def FindHelper_def map_sum_def dest: factory_builtin find_loop_builtin split: sum.splits if_splits option.splits)

subsection \<open>Well-typed responses\<close>

text \<open>A response the cache and the tools can read: its headers are a map, and its expiry is absent or a
  time in the format of RFC 3339.\<close>

definition typed_response :: "GetCredentialsResponse \<Rightarrow> bool" where
  "typed_response r \<longleftrightarrow> wf_response r \<and> (Expires r = [] \<or> (\<exists>t. Expires r = time_Format t))"

text \<open>The signer of the AWS library gives back a header map.\<close>

definition signer_typed :: "world \<Rightarrow> bool" where
  "signer_typed w \<longleftrightarrow>
     (\<forall>cred u hs hash service region t hs'.
        gomap_wf hs \<longrightarrow> aws_SignHTTP w cred u hs hash service region t = Inr hs' \<longrightarrow> gomap_wf hs')"

lemma token_expires_typed: "token_expires token = [] \<or> (\<exists>t. token_expires token = time_Format t)"
  by (auto simp: token_expires_def)

lemma typed_token_response: "gomap_wf hs \<Longrightarrow> typed_response \<lparr>Expires = token_expires token, Headers = hs\<rparr>"
  using token_expires_typed [of token] by (simp add: typed_response_def wf_response_def)

lemma signer_typedD:
  "signer_typed w \<Longrightarrow> aws_SignHTTP w cred u [(k, v)] hash service region t = Inr hs' \<Longrightarrow> gomap_wf hs'"
  unfolding signer_typed_def using gomap_wf_Cons [of k v "[]"] by (metis empty_iff gomap_wf_Nil image_empty list.set(1))

lemma typed_empty_response: "typed_response empty_response"
  by (simp add: typed_response_def) (simp add: empty_response_def)

lemma typed_bearer_response: "typed_response (bearer_response token)"
  unfolding bearer_response_def by (rule typed_token_response) simp

lemma typed_oci_response: "typed_response (oci_response token)"
  unfolding oci_response_def by (rule typed_token_response) simp

lemma S3_typed:
  assumes "signer_typed w" and "S3Resolver_Get w ctx q = Inr r"
  shows "typed_response r"
  using assms(2) typed_empty_response
  by (auto simp: S3Resolver_Get_def typed_response_def wf_response_def Let_def
      dest: signer_typedD [OF assms(1)] split: if_splits sum.splits)

lemma other_typed:
  assumes "h \<in> set other_helpers" and "signer_typed w" and "helper_Get w ctx h q = Inr r"
  shows "typed_response r"
proof -
  consider "h = Null_helper" | "h = GCS_helper" | "h = GAR_helper" | "h = AzStorage_helper" | "h = GitHub_helper"
    | "h = RemoteAPIs_helper" | "h = S3_helper"
    using assms(1) by (auto simp: other_helpers_def)
  then show ?thesis
  proof cases
    case 1
    with assms(3) typed_empty_response show ?thesis by (simp add: Null_Get_def)
  next
    case 2
    with assms(3) typed_bearer_response show ?thesis by (auto simp: GCS_Get_def GCSResolver_Get_def split: if_splits)
  next
    case 3
    with assms(3) typed_bearer_response show ?thesis by (auto simp: GAR_Get_def GARResolver_Get_def split: if_splits)
  next
    case 4
    with assms(3) show ?thesis
      by (auto simp: AzStorage_Get_def AzStorageResolver_Get_def intro!: typed_token_response split: if_splits)
  next
    case 5
    with assms(3) show ?thesis
      by (auto simp: GitHub_Get_def GitHubResolver_Get_def intro!: typed_token_response split: if_splits)
  next
    case 6
    with assms(3) show ?thesis by (auto simp: remoteapis_get_iff typed_response_def wf_response_def)
  next
    case 7
    with assms show ?thesis by (auto intro: S3_typed)
  qed
qed

lemma builtin_typed:
  assumes "h \<in> set builtin_helpers" and "signer_typed w" and "helper_Get w ctx h q = Inr r"
  shows "typed_response r"
proof (cases "h \<in> set other_helpers")
  case True
  then show ?thesis by (rule other_typed) fact+
next
  case False
  with assms(1,3) obtain o' where "fst (OCIResolver_Get w ctx o' q) = Inr r"
    by (auto simp: builtin_helpers_def OCI_Get_def)
  from OCIResolver_Get_answer [OF this] show ?thesis
    using typed_empty_response typed_oci_response by auto
qed


subsection \<open>Cache keys that are apart\<close>

definition oci_key_prefix :: string where
  "oci_key_prefix = ''oci-registry-v2-auth://''"

lemma OCI_CacheKey_prefix: "OCI_CacheKey q \<noteq> [] \<Longrightarrow> \<exists>t. OCI_CacheKey q = oci_key_prefix @ t"
proof -
  assume "OCI_CacheKey q \<noteq> []"
  then obtain registry repository where d: "deriveRepository (URI q) = Inr (registry, repository, False)"
    and k: "OCI_CacheKey q = URLString (oci_key_url registry repository)"
    by (auto simp: OCI_CacheKey_def split: sum.splits if_splits)
  have "registry \<noteq> []" using deriveRepository_host [OF d] .
  with k show ?thesis by (simp add: oci_key_text oci_key_prefix_def)
qed

lemma https_not_oci: "Parse s = Inr u \<Longrightarrow> Scheme u = ''https'' \<Longrightarrow> s \<noteq> oci_key_prefix @ t"
proof
  assume p: "Parse s = Inr u" "Scheme u = ''https''" and s: "s = oci_key_prefix @ t"
  obtain scheme rest where "s = scheme @ CHR '':'' # rest" "ToLower scheme = ''https''"
    using Parse_scheme_prefix [OF p(1)] p(2) by auto
  with s show False
    by (cases scheme rule: ToLower.cases)
      (auto simp: oci_key_prefix_def lower_def char_class_defs split: if_splits)
qed

lemma URLString_https: "Scheme u = ''https'' \<Longrightarrow> URLString u \<noteq> oci_key_prefix @ t"
  by (auto simp: URLString_def oci_key_prefix_def)

text \<open>No other helper stores a response under a key of the OCI helper.\<close>

lemma other_key_apart:
  assumes "h \<in> set other_helpers" and "helper_Get w ctx h q = Inr r" and "Expires r \<noteq> []" and "OCI_CacheKey q' \<noteq> []"
  shows "helper_CacheKey h q \<noteq> OCI_CacheKey q'"
proof -
  obtain t where t: "OCI_CacheKey q' = oci_key_prefix @ t" using OCI_CacheKey_prefix [OF assms(4)] by blast
  consider "h = Null_helper" | "h = GCS_helper" | "h = GAR_helper" | "h = AzStorage_helper" | "h = GitHub_helper"
    | "h = RemoteAPIs_helper" | "h = S3_helper"
    using assms(1) by (auto simp: other_helpers_def)
  then show ?thesis
  proof cases
    case 1
    with assms(4) show ?thesis by (simp add: helper_CacheKey_simps Null_CacheKey_def)
  next
    case 2
    with t show ?thesis by (simp add: helper_CacheKey_simps GCS_CacheKey_def oci_key_prefix_def)
  next
    case 3
    with assms(2) t URLString_https show ?thesis
      by (auto simp: GAR_Get_def GARResolver_Get_def GAR_CacheKey_def helper_CacheKey_simps split: if_splits)
  next
    case 4
    with assms(2) t URLString_https show ?thesis
      by (auto simp: AzStorage_Get_def AzStorageResolver_Get_def AzStorage_CacheKey_def helper_CacheKey_simps split: if_splits)
  next
    case 5
    with assms(2) obtain u where u: "Parse (URI q) = Inr u"
      by (auto simp: GitHub_Get_def GitHubResolver_Get_def)
    with 5 Host_slash [OF u] t show ?thesis by (auto simp: helper_CacheKey_simps GitHub_CacheKey_def oci_key_prefix_def)
  next
    case 6
    with assms(2,3) show ?thesis by (auto simp: remoteapis_get_iff)
  next
    case 7
    with assms(2,3) https_not_oci t show ?thesis
      by (auto simp: S3Resolver_Get_def helper_CacheKey_simps S3_CacheKey_def empty_response_def split: if_splits)
  qed
qed


subsection \<open>What a request does to the cache of the agent\<close>

lemma answer_request_effect:
  assumes inv: "mem.sock_inv c" and wf: "\<And>r. helper_Get w ctx h q = Inr r \<Longrightarrow> wf_response r"
  obtains (hit) r c' where "mem.sock_contents c (helper_CacheKey h q) = Some r"
      "answer_request w ctx h (SocketCache_iface MemCache_iface) q c = (\<lparr>printed = [r], fatal = None\<rparr>, c')"
      "mem.sock_inv c'" "mem.sock_contents c' = mem.sock_contents c"
  | (failed) e c' where "helper_Get w ctx h q = Inl e"
      "answer_request w ctx h (SocketCache_iface MemCache_iface) q c = (direct_run w ctx h q, c')"
      "mem.sock_inv c'" "mem.sock_contents c' = mem.sock_contents c"
  | (answered) r c' where "helper_Get w ctx h q = Inr r"
      "answer_request w ctx h (SocketCache_iface MemCache_iface) q c = (\<lparr>printed = [r], fatal = None\<rparr>, c')"
      "mem.sock_inv c'" "mem.sock_contents c' = updated \<lparr>CacheKey = helper_CacheKey h q, Response = r\<rparr> (mem.sock_contents c)"
proof -
  let ?k = "helper_CacheKey h q"
  obtain res c1 where ret: "SocketCache_Retrieve MemCache_iface ?k c = (res, c1)" by (rule prod.exhaust)
  have c1: "mem.sock_inv c1" "mem.sock_contents c1 = mem.sock_contents c"
    "res = (case mem.sock_contents c ?k of Some r \<Rightarrow> Inr r | None \<Rightarrow> Inl CacheMiss)"
    using sock.inv_retrieve [OF inv, of ?k] sock.retrieve_contents [OF inv, of ?k] sock.retrieve_result [OF inv, of ?k] ret
    by (auto split: option.splits)
  show thesis
  proof (cases "mem.sock_contents c ?k")
    case (Some r)
    show thesis by (rule hit [OF Some _ c1(1,2)]) (use Some ret c1 in \<open>simp_all add: answer_request_def SocketCache_iface_def\<close>)
  next
    case None
    note miss = None ret c1
    show thesis
    proof (cases "helper_Get w ctx h q")
      case (Inl e)
      show thesis
        by (rule failed [OF Inl _ c1(1,2)])
          (use miss Inl in \<open>auto simp: answer_request_def SocketCache_iface_def direct_run_eq helper_Get_def split: sum.splits\<close>)
    next
      case (Inr r)
      let ?v = "\<lparr>CacheKey = ?k, Response = r\<rparr>"
      have v: "wf_response (Response ?v)" using wf [OF Inr] by simp
      obtain res2 c2 where st: "SocketCache_Store MemCache_iface ?v c1 = (res2, c2)" by (rule prod.exhaust)
      have c2: "res2 = Inr ()" "mem.sock_inv c2" "mem.sock_contents c2 = updated ?v (mem.sock_contents c)"
        using sock.store_result [OF c1(1) v] sock.inv_store [OF c1(1) v] sock.store_keeps [OF c1(1) v] st c1(2) by auto
      show thesis
        by (rule answered [OF Inr _ c2(2,3)])
          (use miss Inr st c2(1) in \<open>auto simp: answer_request_def SocketCache_iface_def helper_Get_def split: sum.splits\<close>)
    qed
  qed
qed

text \<open>A cache that holds well-typed responses only hands out such.\<close>

definition typed_socket :: "MemCache socket \<Rightarrow> bool" where
  "typed_socket c \<longleftrightarrow> mem.sock_inv c \<and> (\<forall>k r. mem.sock_contents c k = Some r \<longrightarrow> typed_response r)"

lemma updated_typed:
  "(\<forall>k r. m k = Some r \<longrightarrow> typed_response r) \<Longrightarrow> typed_response r' \<Longrightarrow>
     \<forall>k r. updated \<lparr>CacheKey = x, Response = r'\<rparr> m k = Some r \<longrightarrow> typed_response r"
  by (auto simp: updated_def)

lemma answer_request_typed:
  assumes "typed_socket c" and "\<And>r. helper_Get w ctx h q = Inr r \<Longrightarrow> typed_response r"
    and "answer_request w ctx h (SocketCache_iface MemCache_iface) q c = (run, c')"
  shows "typed_socket c'" and "\<forall>r\<in>set (printed run). typed_response r"
proof -
  have inv: "mem.sock_inv c" and typed: "\<forall>k r. mem.sock_contents c k = Some r \<longrightarrow> typed_response r"
    using assms(1) by (simp_all add: typed_socket_def)
  have "typed_socket c' \<and> (\<forall>r\<in>set (printed run). typed_response r)"
  proof (cases rule: answer_request_effect [OF inv, of w ctx h q, consumes 0, case_names wf hit failed answered])
    case (wf r)
    with assms(2) show ?case by (simp add: typed_response_def)
  next
    case (hit r c1)
    with assms(3) typed show ?thesis by (auto simp: typed_socket_def)
  next
    case (failed e c1)
    then have "printed (direct_run w ctx h q) = []"
      by (auto simp: direct_run_eq helper_Get_def Fatalf_def split: sum.splits)
    with failed assms(3) typed show ?thesis by (simp add: typed_socket_def)
  next
    case (answered r c1)
    with assms(3) assms(2) [OF answered(1)] updated_typed [OF typed assms(2) [OF answered(1)]]
    show ?thesis by (auto simp: typed_socket_def)
  qed
  then show "typed_socket c'" and "\<forall>r\<in>set (printed run). typed_response r" by simp_all
qed

context agent_helper
begin

text \<open>Requests to another helper keep the cache sound for this one, when that helper stores nothing under
  keys of this one.\<close>

lemma sound_other:
  assumes "sound c" and "\<And>r. helper_Get w ctx' h' q = Inr r \<Longrightarrow> wf_response r"
    and "\<And>r q'. helper_Get w ctx' h' q = Inr r \<Longrightarrow> Expires r \<noteq> [] \<Longrightarrow> helper_CacheKey h q' \<noteq> [] \<Longrightarrow>
      helper_CacheKey h' q \<noteq> helper_CacheKey h q'"
  shows "sound (snd (answer_request w ctx' h' (SocketCache_iface MemCache_iface) q c))"
proof -
  have inv: "mem.sock_inv c" using assms(1) by (simp add: sound_def)
  show ?thesis
  proof (rule answer_request_effect [OF inv assms(2)])
    fix r c'
    assume got: "helper_Get w ctx' h' q = Inr r" and c': "mem.sock_inv c'"
      "mem.sock_contents c' = updated \<lparr>CacheKey = helper_CacheKey h' q, Response = r\<rparr> (mem.sock_contents c)"
      and run: "answer_request w ctx' h' (SocketCache_iface MemCache_iface) q c = (\<lparr>printed = [r], fatal = None\<rparr>, c')"
    { fix q' r'
      assume some: "mem.sock_contents c' (helper_CacheKey h q') = Some r'"
      then have "helper_CacheKey h q' \<noteq> []" by (auto simp: mem.sock_contents_def)
      with some c'(2) assms(3) [OF got, of q'] have "mem.sock_contents c (helper_CacheKey h q') = Some r'"
        by (auto simp: updated_def storable_def split: if_splits)
      with assms(1) have "helper_Get w ctx h q' = Inr r'" by (simp add: sound_def) }
    with c'(1) run show ?thesis by (simp add: sound_def)
  qed (use assms(1) in \<open>auto simp: sound_def\<close>)
qed

end

subsection \<open>Sessions\<close>

text \<open>The program as \<open>main\<close> (\<open>src/cmd/credential-helper\<close>) puts it together: the helpers of the registry, the
  fallback factory and the cache in memory.\<close>

definition helperFactory :: "process \<Rightarrow> string \<Rightarrow> helper result" where
  "helperFactory = FallbackHelperFactory"

definition newCache :: MemCache where
  "newCache = NewMemCache"

text \<open>\<open>get\<close> commands one after the other, with the texts on their standard input; the agent runs already and
  accepts every connection, and before each command prunes its cache at the given times.\<close>

fun get_runs :: "world \<Rightarrow> logger \<Rightarrow> (wire_item \<times> clock list) list \<Rightarrow> MemCache CachingAgent \<Rightarrow> run list" where
  "get_runs w lg [] a = []"
| "get_runs w lg ((input, clks) # rest) a =
     (case clientProcess w lg singleton (helperFactory (proc w)) (Inr ())
             (\<lambda>_ _. Some (connect_to (fold (agent_prune MemCache_iface) clks a))) MemCache_iface input of
        (r, Some (Connected s), _) \<Rightarrow> r # get_runs w lg rest (peer s)
      | (r, _, _) \<Rightarrow> r # get_runs w lg rest a)"

text \<open>What a command prints without an agent.\<close>

definition direct_get :: "world \<Rightarrow> logger \<Rightarrow> wire_item \<Rightarrow> run" where
  "direct_get w lg input =
     fst (foreground w lg singleton (helperFactory (proc w)) (OSReader_Read w) NoCache_iface input \<lparr>no_state = ()\<rparr>)"

text \<open>One command, from the point where it is connected.\<close>

definition get_step :: "world \<Rightarrow> logger \<Rightarrow> wire_item \<Rightarrow> MemCache socket \<Rightarrow> run \<times> MemCache socket \<times> logger" where
  "get_step w lg = foreground w lg singleton (helperFactory (proc w)) (OSReader_Read w) (SocketCache_iface MemCache_iface)"

lemma get_runs_Cons:
  assumes "\<not> shouldRunStandalone (proc w)"
    and "get_step w lg input (connect_to (fold (agent_prune MemCache_iface) clks a)) = (r, s, lg')"
  shows "get_runs w lg ((input, clks) # rest) a = r # get_runs w lg rest (peer s)"
  using assms by (simp add: clientProcess_def launchOrConnectAgent_def NewSocketCache_first Second_def get_step_def)

text \<open>A command fails before it reaches the cache, as it would without an agent, or asks a built-in helper.\<close>

lemma get_step_cases:
  assumes "get_step w lg input s = (r, s', lg')"
  obtains (early) "s' = s" "r = direct_get w lg input" "printed r = []"
  | (asked) req ctx h where "decode_item decode_GetCredentialsRequest input \<lparr>URI = []\<rparr> = Inr req"
      "Configure singleton (helperFactory (proc w)) (OSReader_Read w) (URI req) = Inr (ctx, Some h)"
      "answer_request w ctx h (SocketCache_iface MemCache_iface) req s = (r, s')"
      "direct_get w lg input = direct_run w ctx h req"
proof (cases "\<exists>req lg1 ctx h. decode_item decode_GetCredentialsRequest input \<lparr>URI = []\<rparr> = Inr req
    \<and> log_request w (URI req) lg = Inr lg1
    \<and> Configure singleton (helperFactory (proc w)) (OSReader_Read w) (URI req) = Inr (ctx, Some h)")
  case True
  then obtain req lg1 ctx h where f: "decode_item decode_GetCredentialsRequest input \<lparr>URI = []\<rparr> = Inr req"
    "log_request w (URI req) lg = Inr lg1"
    "Configure singleton (helperFactory (proc w)) (OSReader_Read w) (URI req) = Inr (ctx, Some h)" by blast
  show thesis
    by (rule asked [OF f(1,3)])
      (use assms f in \<open>auto simp: get_step_def direct_get_def foreground_def direct_run_def split: prod.splits\<close>)
next
  case False
  show thesis
    by (rule early)
      (use assms False in \<open>auto simp: get_step_def direct_get_def foreground_def Fatalf_def split: sum.splits option.splits prod.splits\<close>)
qed

text \<open>Properties of connections that every command and every prune keep.\<close>

lemma get_runs_induct:
  assumes "\<not> shouldRunStandalone (proc w)" and "P (connect_to a)"
    and prune: "\<And>a clk. P (connect_to a) \<Longrightarrow> P (connect_to (agent_prune MemCache_iface clk a))"
    and step: "\<And>s input r s' lg'. P s \<Longrightarrow> get_step w lg input s = (r, s', lg') \<Longrightarrow> P (connect_to (peer s')) \<and> Q input r"
  shows "list_all2 (\<lambda>(input, _) r. Q input r) inputs (get_runs w lg inputs a)"
  using assms(2)
proof (induction inputs arbitrary: a)
  case (Cons x rest)
  obtain input clks where x: "x = (input, clks)" by (rule prod.exhaust)
  let ?a = "fold (agent_prune MemCache_iface) clks a"
  have P: "P (connect_to ?a)" using Cons.prems prune by (induction clks arbitrary: a) simp_all
  obtain r s lg' where run: "get_step w lg input (connect_to ?a) = (r, s, lg')" by (rule prod_cases3)
  from step [OF P run] Cons.IH [of "peer s"] show ?case
    by (simp only: x get_runs_Cons [OF assms(1) run]) simp
qed simp

subsection \<open>Properties\<close>

lemma typed_socket_reconnect: "typed_socket s \<Longrightarrow> typed_socket (connect_to (peer s))"
  by (simp add: typed_socket_def sock_contents_peer sock_inv_iff)

lemma typed_socket_prune: "typed_socket (connect_to a) \<Longrightarrow> typed_socket (connect_to (agent_prune MemCache_iface clk a))"
proof -
  assume t: "typed_socket (connect_to a)"
  then have wf: "MemCache_wf (agent_cache a)" by (simp add: typed_socket_def sock_inv_iff)
  have "mem.sock_contents (connect_to (agent_prune MemCache_iface clk a)) \<subseteq>\<^sub>m mem.sock_contents (connect_to a)"
    using mem.prune_contents [OF wf, of clk]
    by (auto simp: mem.sock_contents_def map_le_def dom_def agent_prune_def MemCache_iface_def)
  with t mem.inv_prune [OF wf, of clk] show ?thesis
    by (auto simp: typed_socket_def sock_inv_iff agent_prune_def MemCache_iface_def map_le_def dom_def)
qed

text \<open>(C12) Well-typed responses: whatever the configuration, every response a \<open>get\<close> command prints, from a helper
  or from the cache of the agent, has a map of headers and an expiry that is absent or an RFC 3339 time,
  so that the tool that reads the JSON text recovers exactly the response.\<close>

theorem session_prints_typed:
  assumes "\<not> shouldRunStandalone (proc w)" and "agent_cache a = newCache" and "signer_typed w"
    and "out \<in> set (get_runs w lg inputs a)" and "r \<in> set (printed out)"
  shows "typed_response r \<and> decode_GetCredentialsResponse (encode_GetCredentialsResponse r) empty_response = Inr r"
proof -
  have "list_all2 (\<lambda>(input, _) out. \<forall>r\<in>set (printed out). typed_response r) inputs (get_runs w lg inputs a)"
  proof (rule get_runs_induct [where P = typed_socket])
    show "typed_socket (connect_to a)"
      using assms(2) by (simp add: typed_socket_def sock_inv_iff mem.sock_contents_def newCache_def)
  next
    fix s input out s' lg'
    assume s: "typed_socket s" and step: "get_step w lg input s = (out, s', lg')"
    from step show "typed_socket (connect_to (peer s')) \<and> (\<forall>r\<in>set (printed out). typed_response r)"
    proof (cases rule: get_step_cases)
      case early
      with s show ?thesis by (simp add: typed_socket_reconnect)
    next
      case (asked req ctx h)
      have "h \<in> set builtin_helpers" using asked(2) by (auto simp: helperFactory_def intro: Configure_builtin)
      from answer_request_typed [OF s builtin_typed [OF this assms(3)] asked(3)]
      show ?thesis by (simp add: typed_socket_reconnect)
    qed
  qed (use assms(1) typed_socket_prune in auto)
  with assms(4,5) have "typed_response r" by (auto simp: list_all2_conv_all_nth in_set_conv_nth [of out])
  then show ?thesis by (simp add: typed_response_def decode_encode_response)
qed

text \<open>A session with Google Cloud Storage and a registry.\<close>

definition get_input :: "string \<Rightarrow> wire_item" where
  "get_input uri = Value (JObj [(''uri'', JStr uri)])"

lemma decode_get_input [simp]: "decode_item decode_GetCredentialsRequest (get_input uri) \<lparr>URI = []\<rparr> = Inr \<lparr>URI = uri\<rparr>"
  by (simp add: get_input_def decode_item_def decode_GetCredentialsRequest_def GetCredentialsRequest_fields_def
      decode_field_def find_field_def field_def EqualFold_def)

lemma google_world_facts:
  "\<not> shouldRunStandalone (proc google_world)" "OSReader_Read google_world = Inl ErrConfigNotFound" "signer_typed google_world"
  by (simp_all add: google_world_def empty_world_def shouldRunStandalone_def Getenv_def LookupEnv_def OSReader_Read_def Let_def is_not_exist_def
      signer_typed_def)

lemma google_world_factory:
  "helperFactory (proc google_world) ''https://storage.googleapis.com/b/o'' = Inr GCS_helper"
  "helperFactory (proc google_world) ''https://ghcr.io/v2/a/b/blobs/x'' = Inr (OCI_helper NewFallbackOCI)"
proof -
  have hosts: "plain_host ''storage.googleapis.com''" "plain_host ''ghcr.io''" "plain_path ''b/o''" "plain_path ''v2/a/b/blobs/x''"
    by (simp_all add: plain_host_def plain_path_def char_class_defs)
  show "helperFactory (proc google_world) ''https://storage.googleapis.com/b/o'' = Inr GCS_helper"
    using Parse_https [OF hosts(1,3)] hosts
    by (simp add: helperFactory_def FallbackHelperFactory_def Hostname_plain HasSuffix_rev EqualFold_def lower_def)
  show "helperFactory (proc google_world) ''https://ghcr.io/v2/a/b/blobs/x'' = Inr (OCI_helper NewFallbackOCI)"
    using Parse_https [OF hosts(2,4)] hosts
    by (simp add: helperFactory_def FallbackHelperFactory_def Hostname_plain HasSuffix_rev EqualFold_def lower_def registry_host_def
        plain_url_def)
qed

theorem session_prints_typed_witness:
  "typed_response (bearer_response (access_token ''tok'' (1704070800 * Second)))
    \<and> bearer_response (access_token ''tok'' (1704070800 * Second)) \<in>
        set (printed (hd (get_runs google_world initial_logger [(get_input ''https://storage.googleapis.com/b/o'', [])] sample_agent)))"
proof -
  let ?r = "bearer_response (access_token ''tok'' (1704070800 * Second))"
  let ?q = "\<lparr>URI = ''https://storage.googleapis.com/b/o''\<rparr>"
  let ?runs = "get_runs google_world initial_logger [(get_input ''https://storage.googleapis.com/b/o'', [])] sample_agent"
  have "Parse ''https://storage.googleapis.com/b/o'' = Inr (plain_url ''https'' ''storage.googleapis.com'' ''/b/o'')"
    using Parse_https [of "''storage.googleapis.com''" "''b/o''"] by (simp add: plain_host_def plain_path_def char_class_defs)
  then have got: "helper_Get google_world None GCS_helper ?q = Inr ?r"
    by (simp add: GCS_Get_def GCS_Resolver_def GCSResolver_Get_def google_world_def Hostname_plain Port_plain
        plain_host_def char_class_defs)
  have inv: "mem.sock_inv (connect_to sample_agent)" by (simp add: sock_inv_iff sample_agent_cache)
  have cfg: "Configure singleton (helperFactory (proc google_world)) (OSReader_Read google_world) (URI ?q) = Inr (None, Some GCS_helper)"
    using google_world_facts(2) google_world_factory(1) by (simp add: Configure_def)
  have "log_request google_world (URI ?q) initial_logger = Inr initial_logger"
    by (simp add: log_request_def google_world_def empty_world_def SyslogDebugf_def initial_logger_def log_levels)
  then have step: "get_step google_world initial_logger (get_input ''https://storage.googleapis.com/b/o'') (connect_to sample_agent) =
      (case answer_request google_world None GCS_helper (SocketCache_iface MemCache_iface) ?q (connect_to sample_agent) of
         (r, c') \<Rightarrow> (r, c', initial_logger))"
    using cfg by (simp add: get_step_def foreground_def)
  obtain c' where ans: "answer_request google_world None GCS_helper (SocketCache_iface MemCache_iface) ?q (connect_to sample_agent) =
      (\<lparr>printed = [?r], fatal = None\<rparr>, c')"
  proof (cases rule: answer_request_effect [OF inv, of google_world None GCS_helper ?q, consumes 0, case_names wf hit failed answered])
    case (wf r)
    then show ?case using got typed_bearer_response by (simp add: typed_response_def)
  qed (use got that in \<open>simp_all add: mem.sock_contents_def sample_agent_cache split: if_splits\<close>)
  with step have "get_step google_world initial_logger (get_input ''https://storage.googleapis.com/b/o'')
      (connect_to (fold (agent_prune MemCache_iface) [] sample_agent)) = (\<lparr>printed = [?r], fatal = None\<rparr>, c', initial_logger)" by simp
  from get_runs_Cons [OF google_world_facts(1) this, of "[]"]
  have runs: "?runs = [\<lparr>printed = [?r], fatal = None\<rparr>]" by simp
  have "typed_response ?r \<and> decode_GetCredentialsResponse (encode_GetCredentialsResponse ?r) empty_response = Inr ?r"
    by (rule session_prints_typed [OF google_world_facts(1) _ google_world_facts(3), of sample_agent
          "\<lparr>printed = [?r], fatal = None\<rparr>" initial_logger "[(get_input ''https://storage.googleapis.com/b/o'', [])]"])
      (simp_all only: runs, simp_all add: sample_agent_cache newCache_def)
  with runs show ?thesis by simp
qed



text \<open>The URL a command is asked about.\<close>

definition requested_uri :: "wire_item \<Rightarrow> string" where
  "requested_uri input = (case decode_item decode_GetCredentialsRequest input \<lparr>URI = []\<rparr> of Inl _ \<Rightarrow> [] | Inr req \<Rightarrow> URI req)"

lemma oci_step:
  assumes "OSReader_Read w = Inl ErrConfigNotFound" and "signer_typed w"
    and s: "oci_agent.sound NewFallbackOCI w None s" and step: "get_step w lg input s = (out, s', lg')"
  shows "oci_agent.sound NewFallbackOCI w None s'
    \<and> (helperFactory (proc w) (requested_uri input) = Inr (OCI_helper NewFallbackOCI) \<longrightarrow> out = direct_get w lg input)"
  using step
proof (cases rule: get_step_cases)
  case (asked req ctx h)
  then have cfg: "ctx = None" "helperFactory (proc w) (URI req) = Inr h" and uri: "requested_uri input = URI req"
    using assms(1) by (auto simp: Configure_def map_sum_def requested_uri_def split: sum.splits)
  show ?thesis
  proof (cases "h = OCI_helper NewFallbackOCI")
    case True
    with oci_agent.answer_request_direct [OF s, of req] asked(3,4) cfg(1) show ?thesis
      by (simp add: oci_agent.iface_socket)
  next
    case False
    have "h \<in> set builtin_helpers" using factory_builtin cfg(2) by (simp add: helperFactory_def)
    with False have other: "h \<in> set other_helpers" by (simp add: builtin_helpers_def)
    have "oci_agent.sound NewFallbackOCI w None (snd (answer_request w ctx h (SocketCache_iface MemCache_iface) req s))"
    proof (rule oci_agent.sound_other [OF s])
      show "wf_response r" if "helper_Get w ctx h req = Inr r" for r
        using other_typed [OF other assms(2) that] by (simp add: typed_response_def)
    qed (simp add: helper_CacheKey_simps other_key_apart [OF other])
    with asked(3) False cfg(2) uri show ?thesis by simp
  qed
qed (use s in simp)

text \<open>(C11) Helpers that share an agent do not disturb the OCI helper: in any session without a configuration
  file, of an agent that started with an empty cache, in the same outside world throughout, with requests to
  all the services mixed and the agent pruning its cache at any times, a command whose URL is that of an OCI
  registry prints what it would print without an agent.  (A configuration file can give two URLs of one
  repository different lookup chains, which the cache key does not tell apart.)\<close>

theorem oci_session_transparent:
  assumes "\<not> shouldRunStandalone (proc w)" and "agent_cache a = newCache"
    and "OSReader_Read w = Inl ErrConfigNotFound" and "signer_typed w"
  shows "list_all2 (\<lambda>(input, _) out. helperFactory (proc w) (requested_uri input) = Inr (OCI_helper NewFallbackOCI)
      \<longrightarrow> out = direct_get w lg input) inputs (get_runs w lg inputs a)"
proof (rule get_runs_induct [where P = "oci_agent.sound NewFallbackOCI w None"])
  show "oci_agent.sound NewFallbackOCI w None (connect_to a)"
    using assms(2) by (intro oci_agent.sound_fresh) (simp add: newCache_def)
qed (use assms(1) oci_step [OF assms(3,4)] oci_agent.sound_agent_prune oci_agent.sound_reconnect in blast)+

theorem oci_session_transparent_witness:
  "\<exists>out. get_runs google_world initial_logger
      [(get_input ''https://storage.googleapis.com/b/o'', []), (get_input ''https://ghcr.io/v2/a/b/blobs/x'', [\<lambda>_. 0])] sample_agent =
    [out, direct_get google_world initial_logger (get_input ''https://ghcr.io/v2/a/b/blobs/x'')]"
proof -
  have "agent_cache sample_agent = newCache" by (simp add: sample_agent_cache newCache_def)
  from oci_session_transparent [OF google_world_facts(1) this google_world_facts(2,3), of initial_logger
      "[(get_input ''https://storage.googleapis.com/b/o'', []), (get_input ''https://ghcr.io/v2/a/b/blobs/x'', [\<lambda>_. 0])]"]
  show ?thesis
    by (auto simp del: get_runs.simps simp: list_all2_Cons1 requested_uri_def google_world_factory(2))
qed

end
