(* ===== verification/Workspace.thy ===== *)
theory Workspace
  imports Locate "HOL-Library.Word"
begin

text \<open>
  The workspace of an integration test (\<open>prepareWorkspace\<close>, \<open>copyFSWithSymlinks\<close> and \<open>absolutifyEnvVars\<close> of
  \<open>src/bzl/private/integration_test_runner/integration_test_runner.go\<close>).  Unlike the disk of \<open>Go_Os\<close>, the file
  system here has symbolic links and modes: it maps absolute paths to directories, links and files.
  Links are followed where they are the last element of a path.  The tree that is copied is what
  \<open>filepath.Walk\<close> finds; the faults of reading it are part of it.  The packages' \<open>runfiles.Rlocation\<close> is a parameter.
\<close>

unbundle bit_operations_syntax

subsection \<open>Library\<close>

text \<open>\<open>strings.Index\<close>.\<close>

fun Index :: "string \<Rightarrow> string \<Rightarrow> nat option" where
  "Index [] sub = (if sub = [] then Some 0 else None)"
| "Index (c # s) sub = (if HasPrefix (c # s) sub then Some 0 else map_option Suc (Index s sub))"

text \<open>\<open>strings.Fields\<close>.\<close>

fun fields_loop :: "string \<Rightarrow> string \<Rightarrow> string list" where
  "fields_loop acc [] = (if acc = [] then [] else [acc])"
| "fields_loop acc (c # s) =
     (if is_space c then (if acc = [] then fields_loop [] s else acc # fields_loop [] s)
      else fields_loop (acc @ [c]) s)"

definition Fields :: "string \<Rightarrow> string list" where
  "Fields s = fields_loop [] s"

text \<open>\<open>filepath.Abs\<close>.\<close>

definition Abs :: "string \<Rightarrow> process \<Rightarrow> string result" where
  "Abs path p = (if IsAbs path then Inr (Clean path) else bind_result (Getwd p) (\<lambda>wd. Inr (Path_Join [wd, path])))"

text \<open>\<open>filepath.Rel\<close>: the elements after the common ones, below as many parents as the base has left.\<close>

fun strip_common :: "string list \<Rightarrow> string list \<Rightarrow> string list \<times> string list" where
  "strip_common (b # bs) (t # ts) = (if b = t then strip_common bs ts else (b # bs, t # ts))"
| "strip_common bs ts = (bs, ts)"

definition path_elems :: "string \<Rightarrow> string list" where
  "path_elems p = (if p = [] then [] else if p = ''/'' then [[]] else Split (CHR ''/'') p)"

definition Rel :: "string \<Rightarrow> string \<Rightarrow> string result" where
  "Rel basepath targpath =
     (let base = Clean basepath; targ = Clean targpath
      in if targ = base then Inr ''.''
         else
           (let base = (if base = ''.'' then [] else base);
                cannot = ErrorString (''Rel: can't make '' @ targpath @ '' relative to '' @ basepath)
            in if IsAbs base \<noteq> IsAbs targ then Inl cannot
               else case strip_common (path_elems base) (path_elems targ) of
                      (bs, ts) \<Rightarrow>
                        if bs \<noteq> [] \<and> hd bs = ''..'' then Inl cannot
                        else Inr (Join (map (\<lambda>_. ''..'') bs @ ts) ''/'')))"

lemma Rel_samples:
  "Rel ''/a/b'' ''/a/b/c/d'' = Inr ''c/d''" "Rel ''/a/b'' ''/a/b'' = Inr ''.''" "Rel ''/a/b'' ''/a/c'' = Inr ''../c''"
  "Rel ''/'' ''/a'' = Inr ''a''" "Rel ''.'' ''x/y'' = Inr ''x/y''"
  by (simp_all add: Rel_def Clean_def IsAbs_def HasPrefix_def path_elems_def Let_def)

subsection \<open>File system\<close>

type_synonym filemode = "12 word"

datatype node = DirNode | LinkNode string | FileNode string filemode

record wfs =
  nodes :: "node gomap"
  ws_umask :: filemode
  refused :: "string \<Rightarrow> string \<Rightarrow> bool"

definition os_error :: "string \<Rightarrow> string \<Rightarrow> string \<Rightarrow> goerr" where
  "os_error operation path why = ErrorString (operation @ '' '' @ path @ '': '' @ why)"

text \<open>The path a chain of links leads to; the kernel follows forty.\<close>

fun follow :: "nat \<Rightarrow> string \<Rightarrow> wfs \<Rightarrow> string result" where
  "follow n path fs =
     (case map_of (nodes fs) path of
        Some (LinkNode target) \<Rightarrow>
          (case n of 0 \<Rightarrow> Inl (os_error ''open'' path ''too many levels of symbolic links'')
           | Suc m \<Rightarrow> follow m (resolve (Dir path) target) fs)
      | _ \<Rightarrow> Inr path)"

declare follow.simps [simp del]

definition max_links :: nat where "max_links = 40"

definition ws_ReadFile :: "string \<Rightarrow> wfs \<Rightarrow> string result" where
  "ws_ReadFile path fs =
     bind_result (follow max_links path fs) (\<lambda>q.
       case map_of (nodes fs) q of
         Some (FileNode text _) \<Rightarrow> if refused fs ''open'' q then Inl (os_error ''open'' q ''permission denied'') else Inr text
       | Some DirNode \<Rightarrow> Inl (os_error ''read'' q ''is a directory'')
       | _ \<Rightarrow> Inl (ErrNotExist path))"

text \<open>\<open>os.Remove\<close> removes a link, not what it leads to.\<close>

definition ws_Remove :: "string \<Rightarrow> wfs \<Rightarrow> unit result \<times> wfs" where
  "ws_Remove path fs =
     (if map_of (nodes fs) path = None then (Inl (ErrNotExist path), fs)
      else if refused fs ''remove'' path \<or> map_of (nodes fs) path = Some DirNode
        then (Inl (os_error ''remove'' path ''operation not permitted''), fs)
      else (Inr (), fs\<lparr>nodes := gomap_delete path (nodes fs)\<rparr>))"

text \<open>\<open>os.WriteFile\<close> follows links, keeps the mode of a file that is there, and creates one with the mode less
  the umask.\<close>

definition ws_WriteFile :: "string \<Rightarrow> string \<Rightarrow> filemode \<Rightarrow> wfs \<Rightarrow> unit result \<times> wfs" where
  "ws_WriteFile path text m fs =
     (case follow max_links path fs of
        Inl e \<Rightarrow> (Inl e, fs)
      | Inr q \<Rightarrow>
          if refused fs ''open'' q then (Inl (os_error ''open'' q ''permission denied''), fs)
          else (case map_of (nodes fs) q of
                  Some (FileNode _ old) \<Rightarrow> (Inr (), fs\<lparr>nodes := gomap_put q (FileNode text old) (nodes fs)\<rparr>)
                | None \<Rightarrow>
                    if map_of (nodes fs) (Dir q) = Some DirNode
                    then (Inr (), fs\<lparr>nodes := gomap_put q (FileNode text (m AND NOT (ws_umask fs))) (nodes fs)\<rparr>)
                    else (Inl (ErrNotExist q), fs)
                | _ \<Rightarrow> (Inl (os_error ''open'' q ''is a directory''), fs)))"

text \<open>\<open>os.MkdirAll\<close>: a path that leads to a directory is left alone, otherwise its parent is made first.\<close>

definition parents :: "string \<Rightarrow> string list" where
  "parents path =
     (let es = filter (\<lambda>e. e \<noteq> []) (Split (CHR ''/'') path)
      in rev (map (\<lambda>n. CHR ''/'' # Join (take n es) ''/'') [0..<length es]))"

definition ws_Stat :: "string \<Rightarrow> wfs \<Rightarrow> node option" where
  "ws_Stat path fs = (case follow max_links path fs of Inl _ \<Rightarrow> None | Inr q \<Rightarrow> map_of (nodes fs) q)"

fun make_dirs :: "string list \<Rightarrow> wfs \<Rightarrow> unit result \<times> wfs" where
  "make_dirs [] fs = (Inr (), fs)"
| "make_dirs (p # ps) fs =
     (case ws_Stat p fs of
        Some DirNode \<Rightarrow> (Inr (), fs)
      | Some _ \<Rightarrow> (Inl (os_error ''mkdir'' p ''not a directory''), fs)
      | None \<Rightarrow>
          (case make_dirs ps fs of
             (Inl e, fs') \<Rightarrow> (Inl e, fs')
           | (Inr _, fs') \<Rightarrow>
               if map_of (nodes fs') p \<noteq> None then (Inl (os_error ''mkdir'' p ''file exists''), fs')
               else if refused fs' ''mkdir'' p then (Inl (os_error ''mkdir'' p ''permission denied''), fs')
               else (Inr (), fs'\<lparr>nodes := gomap_put p DirNode (nodes fs')\<rparr>)))"

definition ws_MkdirAll :: "string \<Rightarrow> wfs \<Rightarrow> unit result \<times> wfs" where
  "ws_MkdirAll path fs = make_dirs (path # parents path) fs"

text \<open>Creating a node where there must be none: \<open>os.Symlink\<close>, and \<open>os.OpenFile\<close> with \<open>O_CREATE|O_EXCL\<close>.  A parent
  that is a symbolic link, which the kernel would follow, is refused here.  The copy creates nodes below its
  destination only, in directories the walk has made before their entries, and it descends into no link; so
  such a parent occurs only when the destination itself is a link, which it is not: its path is that of a
  directory.\<close>

definition create_node :: "string \<Rightarrow> string \<Rightarrow> node \<Rightarrow> wfs \<Rightarrow> unit result \<times> wfs" where
  "create_node operation path n fs =
     (if map_of (nodes fs) path \<noteq> None then (Inl (os_error operation path ''file exists''), fs)
      else if map_of (nodes fs) (Dir path) \<noteq> Some DirNode then (Inl (ErrNotExist path), fs)
      else if refused fs operation path then (Inl (os_error operation path ''permission denied''), fs)
      else (Inr (), fs\<lparr>nodes := gomap_put path n (nodes fs)\<rparr>))"

subsection \<open>Copying a tree\<close>

datatype file_fault = NoFault | OpenFault goerr | StatFault goerr | CopyFault nat goerr

text \<open>A tree as \<open>filepath.Walk\<close> sees it: the entries of a directory in the order of their names.\<close>

datatype fstree =
    SrcFile string filemode file_fault
  | SrcLink "string result"
  | SrcDir "(string \<times> fstree) list result"
  | SrcIrregular
  | SrcUnknown goerr

text \<open>The function \<open>copyFSWithSymlinks\<close> has called for every path.\<close>

definition copy_entry :: "string \<Rightarrow> string \<Rightarrow> string \<Rightarrow> string \<Rightarrow> fstree \<Rightarrow> wfs \<Rightarrow> unit result \<times> wfs" where
  "copy_entry wd destination canonicalBase path t fs =
     (case t of
        SrcUnknown e \<Rightarrow> (Inl e, fs)
      | SrcDir (Inl e) \<Rightarrow> (Inl e, fs)
      | _ \<Rightarrow>
          (case Rel canonicalBase (Clean path) of
             Inl e \<Rightarrow> (Inl e, fs)
           | Inr relativePath \<Rightarrow>
               (let newPath = resolve wd (Path_Join [destination, relativePath])
                in case t of
                     SrcDir _ \<Rightarrow> ws_MkdirAll newPath fs
                   | SrcLink (Inl e) \<Rightarrow> (Inl e, fs)
                   | SrcLink (Inr target) \<Rightarrow> create_node ''symlink'' newPath (LinkNode target) fs
                   | SrcIrregular \<Rightarrow> (Inl (os_error ''CopyFS'' path ''invalid argument''), fs)
                   | SrcFile text m (OpenFault e) \<Rightarrow> (Inl e, fs)
                   | SrcFile text m (StatFault e) \<Rightarrow> (Inl e, fs)
                   | SrcFile text m (CopyFault n e) \<Rightarrow>
                       (case create_node ''open'' newPath (FileNode (take n text) ((0x1B6 OR m AND 0x1FF) AND NOT (ws_umask fs))) fs of
                          (Inl e', fs') \<Rightarrow> (Inl e', fs')
                        | (Inr _, fs') \<Rightarrow> (Inl (os_error ''Copy'' newPath (err_msg e)), fs'))
                   | SrcFile text m NoFault \<Rightarrow>
                       create_node ''open'' newPath (FileNode text ((0x1B6 OR m AND 0x1FF) AND NOT (ws_umask fs))) fs)))"

text \<open>\<open>filepath.Walk\<close> for a function that never asks to skip.\<close>

fun walk :: "(string \<Rightarrow> fstree \<Rightarrow> 's \<Rightarrow> unit result \<times> 's) \<Rightarrow> string \<Rightarrow> fstree \<Rightarrow> 's \<Rightarrow> unit result \<times> 's"
  and walk_entries :: "(string \<Rightarrow> fstree \<Rightarrow> 's \<Rightarrow> unit result \<times> 's) \<Rightarrow> string \<Rightarrow> (string \<times> fstree) list \<Rightarrow> 's \<Rightarrow> unit result \<times> 's"
where
  "walk fn path (SrcDir (Inr entries)) s =
     (case fn path (SrcDir (Inr entries)) s of
        (Inl e, s') \<Rightarrow> (Inl e, s')
      | (Inr _, s') \<Rightarrow> walk_entries fn path entries s')"
| "walk fn path (SrcDir (Inl e)) s = fn path (SrcDir (Inl e)) s"
| "walk fn path (SrcFile text m flt) s = fn path (SrcFile text m flt) s"
| "walk fn path (SrcLink target) s = fn path (SrcLink target) s"
| "walk fn path SrcIrregular s = fn path SrcIrregular s"
| "walk fn path (SrcUnknown e) s = fn path (SrcUnknown e) s"
| "walk_entries fn path [] s = (Inr (), s)"
| "walk_entries fn path ((name, t) # rest) s =
     (case walk fn (Path_Join [path, name]) t s of
        (Inl e, s') \<Rightarrow> (Inl e, s')
      | (Inr _, s') \<Rightarrow> walk_entries fn path rest s')"

definition copyFSWithSymlinks :: "string \<Rightarrow> string \<Rightarrow> string \<Rightarrow> fstree \<Rightarrow> wfs \<Rightarrow> unit result \<times> wfs" where
  "copyFSWithSymlinks wd destination source t fs = walk (copy_entry wd destination (Clean source)) source t fs"

subsection \<open>Preparing the workspace\<close>

definition startMarker :: string where "startMarker = ''# BEGIN BAZEL_DEP''"
definition endMarker :: string where "endMarker = ''# END BAZEL_DEP''"

text \<open>The module file with what is between the markers, and the markers, replaced.\<close>

definition patch_module :: "string \<Rightarrow> string \<Rightarrow> string result" where
  "patch_module moduleData depData =
     (case (Index moduleData startMarker, Index moduleData endMarker) of
        (Some startIndex, Some endIndex) \<Rightarrow>
          Inr (take startIndex moduleData @ depData @ drop (endIndex + length endMarker) moduleData)
      | _ \<Rightarrow> Inl (ErrorString ''failed to find markers in module file''))"

text \<open>\<open>filepath.ToSlash\<close>.\<close>

definition ToSlash :: "bool \<Rightarrow> string \<Rightarrow> string" where
  "ToSlash windows path = (if windows then map (\<lambda>c. if c = CHR 0x5C then CHR ''/'' else c) path else path)"

definition generated_bazelrc :: "bool \<Rightarrow> string \<Rightarrow> string \<Rightarrow> string" where
  "generated_bazelrc windows localBCR distdir =
     Sprintf (''common --registry=%s --registry=https://bcr.bazel.build/'' @ CHR 0x0A # ''common --distdir=%s'' @ [CHR 0x0A])
       [(if windows then ''file:///'' else ''file://'') @ ToSlash windows localBCR, ToSlash windows distdir]"

text \<open>Going on after a step that can fail.\<close>

abbreviation and_then :: "'a result \<times> wfs \<Rightarrow> (wfs \<Rightarrow> 'b result \<times> wfs) \<Rightarrow> 'b result \<times> wfs" where
  "and_then r f \<equiv> (case r of (Inl e, fs) \<Rightarrow> (Inl e, fs) | (Inr _, fs) \<Rightarrow> f fs)"

abbreviation failing_with :: "string \<Rightarrow> unit result \<times> wfs \<Rightarrow> unit result \<times> wfs" where
  "failing_with message r \<equiv> (case r of (Inl e, fs) \<Rightarrow> (Inl (Errorf message [err_msg e]), fs) | (Inr u, fs) \<Rightarrow> (Inr u, fs))"

definition patch_workspace :: "bool \<Rightarrow> string \<Rightarrow> string \<Rightarrow> string \<Rightarrow> string \<Rightarrow> string \<Rightarrow> wfs \<Rightarrow> unit result \<times> wfs" where
  "patch_workspace windows wd localBCR distdir bazelDepOverride workspaceDir fs =
     (let moduleFile = resolve wd (Path_Join [workspaceDir, ''MODULE.bazel''])
      in case ws_ReadFile moduleFile fs of
           Inl err \<Rightarrow> (Inl (Errorf ''failed to read module file: %v'' [err_msg err]), fs)
         | Inr moduleData \<Rightarrow>
             (case ws_ReadFile (resolve wd bazelDepOverride) fs of
                Inl err \<Rightarrow> (Inl (Errorf ''failed to read dep override file: %v'' [err_msg err]), fs)
              | Inr depData \<Rightarrow>
                  (case patch_module moduleData depData of
                     Inl err \<Rightarrow> (Inl err, fs)
                   | Inr patchedModuleData \<Rightarrow>
                       and_then (failing_with ''failed to write patched module file: %v''
                           (ws_WriteFile moduleFile patchedModuleData 0x1A4 (snd (ws_Remove moduleFile fs))))
                         (ws_WriteFile (resolve wd (Path_Join [workspaceDir, ''.bazelrc.generated'']))
                           (generated_bazelrc windows localBCR distdir) 0x1A4))))"

definition prepareWorkspace :: "bool \<Rightarrow> (string \<Rightarrow> string result) \<Rightarrow> string \<Rightarrow> string \<Rightarrow> string \<Rightarrow> fstree \<Rightarrow> wfs \<Rightarrow> unit result \<times> wfs" where
  "prepareWorkspace windows Rlocation wd workspaceDir sourceDir t fs =
     (case Rlocation ''_main/bzl/private/release/bcr.local'' of
        Inl err \<Rightarrow> (Inl (Errorf ''failed to find local bcr: %v'' [err_msg err]), fs)
      | Inr localBCR \<Rightarrow>
          (case Rlocation ''_main/bzl/private/release/airgapped.distdir'' of
             Inl err \<Rightarrow> (Inl (Errorf ''failed to find distdir: %v'' [err_msg err]), fs)
           | Inr distdir \<Rightarrow>
               (case Rlocation ''_main/bzl/private/release/bcr_local_module_tweag-credential-helper.bazel_dep'' of
                  Inl err \<Rightarrow> (Inl (Errorf ''failed to find bazel dep override: %v'' [err_msg err]), fs)
                | Inr bazelDepOverride \<Rightarrow>
                    and_then (failing_with ''failed to copy source dir: %v'' (copyFSWithSymlinks wd workspaceDir sourceDir t fs))
                      (patch_workspace windows wd localBCR distdir bazelDepOverride workspaceDir))))"

definition absolutify_one :: "string \<Rightarrow> process \<Rightarrow> process result" where
  "absolutify_one key p =
     (case LookupEnv key p of
        None \<Rightarrow> Inr p
      | Some v \<Rightarrow> bind_result (Abs v p) (\<lambda>absPath. Setenv key absPath p))"

fun absolutify_all :: "string list \<Rightarrow> process \<Rightarrow> process result" where
  "absolutify_all [] p = Inr p"
| "absolutify_all (key # keys) p = bind_result (absolutify_one key p) (absolutify_all keys)"

definition absolutifyEnvVars :: "process \<Rightarrow> process result" where
  "absolutifyEnvVars p = absolutify_all (Fields (Getenv ''ENV_VARS_TO_ABSOLUTIFY'' p)) p"

subsection \<open>Copying only adds\<close>

text \<open>Every node of the one file system is in the other, and the umask is the same.\<close>

definition extends :: "wfs \<Rightarrow> wfs \<Rightarrow> bool" where
  "extends fs fs' \<longleftrightarrow> map_of (nodes fs) \<subseteq>\<^sub>m map_of (nodes fs') \<and> ws_umask fs' = ws_umask fs"

lemma extends_refl [simp]: "extends fs fs"
  by (simp add: extends_def)

lemma extends_trans: "extends fs fs' \<Longrightarrow> extends fs' fs'' \<Longrightarrow> extends fs fs''"
  by (auto simp: extends_def intro: map_le_trans)

lemma extends_Some: "extends fs fs' \<Longrightarrow> map_of (nodes fs) p = Some n \<Longrightarrow> map_of (nodes fs') p = Some n"
  by (auto simp: extends_def map_le_def dom_def)

lemma extends_None: "extends fs fs' \<Longrightarrow> map_of (nodes fs') p = None \<Longrightarrow> map_of (nodes fs) p = None"
  using extends_Some [of fs fs' p] by (cases "map_of (nodes fs) p") auto

lemma extends_put: "map_of (nodes fs) p = None \<Longrightarrow> extends fs (fs\<lparr>nodes := gomap_put p n (nodes fs)\<rparr>)"
  by (auto simp: extends_def map_le_def)

lemma extends_create: "extends fs (snd (create_node operation p n fs))"
  by (auto simp: create_node_def intro: extends_put)

lemma extends_make_dirs: "extends fs (snd (make_dirs ps fs))"
proof (induction ps arbitrary: fs)
  case (Cons p ps)
  obtain r fs' where m: "make_dirs ps fs = (r, fs')" by (rule prod.exhaust)
  with Cons.IH [of fs] have "extends fs fs'" by simp
  with m show ?case
    by (auto intro: extends_trans extends_put split: option.split node.split sum.split)
qed simp

lemma extends_MkdirAll: "extends fs (snd (ws_MkdirAll p fs))"
  unfolding ws_MkdirAll_def by (rule extends_make_dirs)

lemma extends_copy_entry: "extends fs (snd (copy_entry wd destination base path t fs))"
proof -
  have c: "create_node operation p n fs = (r, fs') \<Longrightarrow> extends fs fs'" for operation p n r fs'
    using extends_create [of fs operation p n] by simp
  show ?thesis
    using extends_create extends_MkdirAll
    by (auto simp: copy_entry_def Let_def split: fstree.split sum.split file_fault.split prod.split dest: c)
qed

lemma extends_walk:
  "(\<And>p t s. extends s (snd (fn p t s))) \<Longrightarrow> extends s (snd (walk fn path t s))"
  "(\<And>p t s. extends s (snd (fn p t s))) \<Longrightarrow> extends s (snd (walk_entries fn path es s))"
proof (induction fn path t s and fn path es s rule: walk_walk_entries.induct)
  case (1 fn path entries s)
  obtain r s' where fn: "fn path (SrcDir (Inr entries)) s = (r, s')" by (rule prod.exhaust)
  with 1(2) [of s path "SrcDir (Inr entries)"] have "extends s s'" by simp
  with 1(1) [OF _ _ 1(2)] fn show ?case by (cases r) (auto intro: extends_trans)
next
  case (8 fn path name t rest s)
  obtain r s' where w: "walk fn (Path_Join [path, name]) t s = (r, s')" by (rule prod.exhaust)
  with 8(1) [OF 8(3)] have "extends s s'" by simp
  with 8(2) [OF _ _ 8(3)] w show ?case by (cases r) (auto intro: extends_trans)
qed simp_all

subsection \<open>The copy is complete\<close>

fun tree_at :: "fstree \<Rightarrow> string list \<Rightarrow> fstree option" where
  "tree_at t [] = Some t"
| "tree_at (SrcDir (Inr entries)) (n # ns) = (case map_of entries n of None \<Rightarrow> None | Some t \<Rightarrow> tree_at t ns)"
| "tree_at _ (n # ns) = None"

definition plain_tree :: "fstree \<Rightarrow> bool" where
  "plain_tree t \<longleftrightarrow> (\<forall>ns t'. tree_at t ns = Some t' \<longrightarrow> list_all plain_elem ns)"

text \<open>What the copy of a leaf is.\<close>

definition copied :: "filemode \<Rightarrow> fstree \<Rightarrow> node option" where
  "copied um t =
     (case t of
        SrcFile text m NoFault \<Rightarrow> Some (FileNode text ((0x1B6 OR m AND 0x1FF) AND NOT um))
      | SrcLink (Inr target) \<Rightarrow> Some (LinkNode target)
      | _ \<Rightarrow> None)"

definition has_copy :: "wfs \<Rightarrow> string \<Rightarrow> fstree \<Rightarrow> bool" where
  "has_copy fs p t \<longleftrightarrow>
     (case t of SrcDir _ \<Rightarrow> ws_Stat p fs = Some DirNode
      | _ \<Rightarrow> copied (ws_umask fs) t \<noteq> None \<and> map_of (nodes fs) p = copied (ws_umask fs) t)"

lemma follow_extends:
  "follow n p fs = Inr q \<Longrightarrow> map_of (nodes fs) q = Some x \<Longrightarrow> extends fs fs' \<Longrightarrow> follow n p fs' = Inr q"
proof (induction n arbitrary: p)
  case 0
  then show ?case
    by (subst follow.simps, subst (asm) follow.simps)
      (auto simp: extends_def map_le_def dom_def split: option.splits node.splits)
next
  case (Suc n)
  show ?case
  proof (cases "map_of (nodes fs) p")
    case (Some y)
    then have "map_of (nodes fs') p = Some y" using Suc.prems(3) by (auto simp: extends_def map_le_def dom_def)
    with Suc Some show ?thesis
      by (subst follow.simps, subst (asm) (3) follow.simps) (auto split: node.splits)
  next
    case None
    with Suc.prems(1,2) show ?thesis by (subst (asm) follow.simps) simp
  qed
qed

lemma ws_Stat_extends: "ws_Stat p fs = Some x \<Longrightarrow> extends fs fs' \<Longrightarrow> ws_Stat p fs' = Some x"
proof -
  assume st: "ws_Stat p fs = Some x" and e: "extends fs fs'"
  then obtain q where q: "follow max_links p fs = Inr q" "map_of (nodes fs) q = Some x"
    by (auto simp: ws_Stat_def split: sum.splits)
  moreover have "map_of (nodes fs') q = Some x" using q(2) e by (auto simp: extends_def map_le_def dom_def)
  ultimately show ?thesis using follow_extends [OF q e] by (simp add: ws_Stat_def)
qed

lemma has_copy_extends: "has_copy fs p t \<Longrightarrow> extends fs fs' \<Longrightarrow> has_copy fs' p t"
  using ws_Stat_extends [of p fs DirNode fs']
  by (auto simp: has_copy_def extends_def map_le_def dom_def split: fstree.splits)

lemma follow_leaf: "map_of (nodes fs) p = Some n \<Longrightarrow> (\<forall>target. n \<noteq> LinkNode target) \<Longrightarrow> follow k p fs = Inr p"
  by (subst follow.simps) (auto split: node.split)

lemma ws_MkdirAll_ok: "ws_MkdirAll p fs = (Inr (), fs') \<Longrightarrow> ws_Stat p fs' = Some DirNode"
  by (auto simp: ws_MkdirAll_def ws_Stat_def follow_leaf split: option.splits node.splits sum.splits prod.splits if_splits)

lemma create_node_ok: "create_node operation p n fs = (Inr (), fs') \<Longrightarrow> map_of (nodes fs') p = Some n \<and> ws_umask fs' = ws_umask fs"
  by (auto simp: create_node_def split: if_splits)

lemma strip_common_append: "strip_common es (es @ ts) = ([], ts)"
  by (induction es) (cases ts, auto)

lemma abs_path_inject: "list_all plain_elem es \<Longrightarrow> list_all plain_elem fs \<Longrightarrow> es \<noteq> [] \<Longrightarrow> fs \<noteq> [] \<Longrightarrow>
    abs_path es = abs_path fs \<longleftrightarrow> es = fs"
  by (metis Split_abs_path list.inject)

lemma Rel_below:
  assumes "es \<noteq> []" and "list_all plain_elem es" and "list_all plain_elem ns"
  shows "Rel (abs_path es) (abs_path (es @ ns)) = Inr (if ns = [] then ''.'' else Join ns ''/'')"
proof (cases "ns = []")
  case True
  with assms show ?thesis by (simp add: Rel_def)
next
  case False
  have el: "path_elems (abs_path fs) = [] # fs" if "fs \<noteq> []" "list_all plain_elem fs" for fs
    using Split_abs_path [OF that] that
    by (cases fs) (auto simp: path_elems_def abs_path_def Join_Cons plain_elem_def split: if_splits)
  have abs: "abs_path fs \<noteq> ''.''" "IsAbs (abs_path fs)" for fs by (simp_all add: abs_path_def)
  have "abs_path (es @ ns) \<noteq> abs_path es"
    using abs_path_inject [of "es @ ns" es] assms False by simp
  then show ?thesis
    using assms False el [of es] el [of "es @ ns"] abs strip_common_append [of es ns]
    by (simp add: Rel_def Clean_abs_path Let_def)
qed

lemma copied_path:
  assumes "ds \<noteq> []" and "list_all plain_elem ds" and "list_all plain_elem ns"
  shows "resolve wd (Path_Join [abs_path ds, if ns = [] then ''.'' else Join ns ''/'']) = abs_path (ds @ ns)"
proof -
  have p: "\<forall>e\<in>set ds. plain_elem e" using assms(2) by (simp add: list_all_iff)
  have "Path_Join [abs_path ds, if ns = [] then ''.'' else Join ns ''/''] = abs_path (ds @ ns)"
  proof (cases "ns = []")
    case True
    with Path_Join_below [OF assms(1) p, of "''.''"] show ?thesis by simp
  next
    case False
    have "Split (CHR ''/'') (Join ns ''/'') = ns"
      using False assms(3) by (intro Split_Join) (auto simp: list_all_iff plain_elem_def)
    moreover have "''..'' \<notin> set ns" using assms(3) by (auto simp: list_all_iff plain_elem_def)
    ultimately show ?thesis
      using Path_Join_below [OF assms(1) p, of "Join ns ''/''"] False filter_plain [OF assms(3)] by simp
  qed
  with assms show ?thesis by (simp add: resolve_def Clean_abs_path) (simp add: abs_path_def)
qed

lemma copy_entry_ok:
  assumes "es \<noteq> []" "list_all plain_elem es" "ds \<noteq> []" "list_all plain_elem ds" "list_all plain_elem ns"
    and "copy_entry wd (abs_path ds) (abs_path es) (abs_path (es @ ns)) t fs = (Inr (), fs')"
  shows "has_copy fs' (abs_path (ds @ ns)) t"
proof -
  have rel: "Rel (abs_path es) (Clean (abs_path (es @ ns))) = Inr (if ns = [] then ''.'' else Join ns ''/'')"
    using Rel_below [OF assms(1,2,5)] assms by (simp add: Clean_abs_path)
  show ?thesis
    using assms(6) copied_path [OF assms(3-5), of wd]
    by (auto simp: copy_entry_def rel has_copy_def copied_def Let_def
        dest!: create_node_ok ws_MkdirAll_ok split: fstree.splits sum.splits file_fault.splits prod.splits)
qed

lemma extends_walk_copy: "extends fs (snd (walk (copy_entry wd d b) path t fs))"
  and extends_walk_entries_copy: "extends fs (snd (walk_entries (copy_entry wd d b) path entries fs))"
  by (rule extends_walk, rule extends_copy_entry)+

lemma Path_Join_name:
  assumes "es \<noteq> []" and "list_all plain_elem es" and "plain_elem n"
  shows "Path_Join [abs_path es, n] = abs_path (es @ [n])"
proof -
  have n: "Split (CHR ''/'') n = [n]" using assms(3) by (simp add: plain_elem_def Split_no_sep)
  then have "''..'' \<notin> set (Split (CHR ''/'') n)" using assms(3) by (auto simp: plain_elem_def)
  from Path_Join_below [OF assms(1) _ this] show ?thesis
    using assms(2,3) n filter_plain [of "[n]"] by (simp add: list_all_iff)
qed

lemma plain_tree_entry:
  assumes "plain_tree (SrcDir (Inr entries))" and "map_of entries n = Some t"
  shows "plain_elem n" and "plain_tree t"
proof -
  have names: "list_all plain_elem ns" if "tree_at (SrcDir (Inr entries)) ns = Some t'" for ns t'
    using assms(1) that unfolding plain_tree_def by blast
  show "plain_elem n" using names [of "[n]" t] assms(2) by simp
  { fix ns t'
    assume "tree_at t ns = Some t'"
    with names [of "n # ns" t'] assms(2) have "list_all plain_elem ns" by simp }
  then show "plain_tree t" by (simp add: plain_tree_def)
qed

lemma walk_entries_find:
  "walk_entries (copy_entry wd d b) path entries fs = (Inr (), fs') \<Longrightarrow> map_of entries n = Some t \<Longrightarrow>
     \<exists>fs1 fs2. walk (copy_entry wd d b) (Path_Join [path, n]) t fs1 = (Inr (), fs2) \<and> extends fs fs1 \<and> extends fs2 fs'"
proof (induction entries arbitrary: fs)
  case (Cons x rest)
  obtain m u where x: "x = (m, u)" by (rule prod.exhaust)
  obtain fs2 where w: "walk (copy_entry wd d b) (Path_Join [path, m]) u fs = (Inr (), fs2)"
    "walk_entries (copy_entry wd d b) path rest fs2 = (Inr (), fs')"
    using Cons.prems(1) x by (auto split: prod.splits sum.splits)
  have e: "extends fs fs2" "extends fs2 fs'"
    using extends_walk_copy [of fs wd d b "Path_Join [path, m]" u] extends_walk_entries_copy [of fs2 wd d b path rest] w by simp_all
  show ?case
  proof (cases "n = m")
    case True
    with Cons.prems(2) x have "u = t" by simp
    with True w(1) e(2) extends_refl show ?thesis by blast
  next
    case False
    with Cons.IH [OF w(2)] Cons.prems(2) x obtain g1 g2 where
      "walk (copy_entry wd d b) (Path_Join [path, n]) t g1 = (Inr (), g2)" "extends fs2 g1" "extends g2 fs'" by auto
    with extends_trans [OF e(1)] show ?thesis by blast
  qed
qed simp

text \<open>Duplicated names cannot be copied, so that the entries of a directory are looked up by name.\<close>

lemma walk_copies:
  fixes wd es ds
  assumes "es \<noteq> []" "list_all plain_elem es" "ds \<noteq> []" "list_all plain_elem ds"
  defines "fn \<equiv> copy_entry wd (abs_path ds) (abs_path es)"
  shows "walk fn (abs_path (es @ ns)) t fs = (Inr (), fs') \<Longrightarrow> list_all plain_elem ns \<Longrightarrow> plain_tree t \<Longrightarrow>
      tree_at t ms = Some t' \<Longrightarrow> has_copy fs' (abs_path (ds @ ns @ ms)) t'"
proof (induction ms arbitrary: ns t fs fs')
  case Nil
  obtain r fs1 where fn: "fn (abs_path (es @ ns)) t fs = (r, fs1)" by (rule prod.exhaust)
  have "r = Inr () \<and> extends fs1 fs'"
    using Nil(1) fn extends_walk_entries_copy [of fs1 wd "abs_path ds" "abs_path es" "abs_path (es @ ns)"]
    by (cases "(fn, abs_path (es @ ns), t, fs)" rule: walk.cases) (auto simp: fn_def split: sum.splits, metis snd_conv)
  with fn Nil copy_entry_ok [OF assms(1-4) Nil(2), of wd t fs fs1] show ?case
    by (auto simp: fn_def intro: has_copy_extends)
next
  case (Cons n ms)
  then obtain entries t1 where t: "t = SrcDir (Inr entries)" "map_of entries n = Some t1" "tree_at t1 ms = Some t'"
    by (cases "(t, n # ms)" rule: tree_at.cases) (auto split: option.splits)
  obtain fs1 where "walk_entries fn (abs_path (es @ ns)) entries fs1 = (Inr (), fs')"
    using Cons.prems(1) t(1) by (auto split: prod.splits sum.splits)
  then obtain fs2 fs3 where w: "walk fn (Path_Join [abs_path (es @ ns), n]) t1 fs2 = (Inr (), fs3)" "extends fs3 fs'"
    using walk_entries_find t(2) unfolding fn_def by blast
  note plain = plain_tree_entry [OF Cons.prems(3) [unfolded t(1)] t(2)]
  have "Path_Join [abs_path (es @ ns), n] = abs_path (es @ (ns @ [n]))"
    using Path_Join_name [of "es @ ns" n] assms(1,2) Cons.prems(2) plain(1) by simp
  with Cons.IH [of "ns @ [n]" t1 fs2 fs3] w(1) Cons.prems(2) plain t(3)
  have "has_copy fs3 (abs_path (ds @ (ns @ [n]) @ ms)) t'" by simp
  with w(2) show ?case using has_copy_extends by force
qed

text \<open>Files and links are only made where nothing was.\<close>

definition is_leaf :: "fstree \<Rightarrow> bool" where
  "is_leaf t \<longleftrightarrow> (case t of SrcDir _ \<Rightarrow> False | _ \<Rightarrow> True)"

lemma create_node_new: "create_node operation p n fs = (Inr (), fs') \<Longrightarrow> map_of (nodes fs) p = None"
  by (auto simp: create_node_def split: if_splits)

lemma copy_entry_new:
  assumes "es \<noteq> []" "list_all plain_elem es" "ds \<noteq> []" "list_all plain_elem ds" "list_all plain_elem ns"
    and "copy_entry wd (abs_path ds) (abs_path es) (abs_path (es @ ns)) t fs = (Inr (), fs')" and "is_leaf t"
  shows "map_of (nodes fs) (abs_path (ds @ ns)) = None"
proof -
  have rel: "Rel (abs_path es) (Clean (abs_path (es @ ns))) = Inr (if ns = [] then ''.'' else Join ns ''/'')"
    using Rel_below [OF assms(1,2,5)] assms by (simp add: Clean_abs_path)
  show ?thesis
    using assms(6,7) copied_path [OF assms(3-5), of wd]
    by (auto simp: copy_entry_def rel is_leaf_def Let_def
        dest!: create_node_new split: fstree.splits sum.splits file_fault.splits prod.splits)
qed

lemma walk_new:
  fixes wd es ds
  assumes "es \<noteq> []" "list_all plain_elem es" "ds \<noteq> []" "list_all plain_elem ds"
  defines "fn \<equiv> copy_entry wd (abs_path ds) (abs_path es)"
  shows "walk fn (abs_path (es @ ns)) t fs = (Inr (), fs') \<Longrightarrow> list_all plain_elem ns \<Longrightarrow> plain_tree t \<Longrightarrow>
      tree_at t ms = Some t' \<Longrightarrow> is_leaf t' \<Longrightarrow> map_of (nodes fs) (abs_path (ds @ ns @ ms)) = None"
proof (induction ms arbitrary: ns t fs fs')
  case Nil
  then have "fn (abs_path (es @ ns)) t fs = (Inr (), fs')"
    by (cases "(fn, abs_path (es @ ns), t, fs)" rule: walk.cases) (auto simp: is_leaf_def)
  with Nil copy_entry_new [OF assms(1-4) Nil(2), of wd t fs fs'] show ?case by (simp add: fn_def)
next
  case (Cons n ms)
  then obtain entries t1 where t: "t = SrcDir (Inr entries)" "map_of entries n = Some t1" "tree_at t1 ms = Some t'"
    by (cases "(t, n # ms)" rule: tree_at.cases) (auto split: option.splits)
  obtain fs1 where "fn (abs_path (es @ ns)) t fs = (Inr (), fs1)"
    and we: "walk_entries fn (abs_path (es @ ns)) entries fs1 = (Inr (), fs')"
    using Cons.prems(1) t(1) by (auto split: prod.splits sum.splits)
  then have "extends fs fs1" using extends_copy_entry [of fs wd "abs_path ds" "abs_path es" "abs_path (es @ ns)" t] by (simp add: fn_def)
  moreover obtain fs2 fs3 where w: "walk fn (Path_Join [abs_path (es @ ns), n]) t1 fs2 = (Inr (), fs3)" "extends fs1 fs2"
    using walk_entries_find t(2) we unfolding fn_def by blast
  moreover note plain = plain_tree_entry [OF Cons.prems(3) [unfolded t(1)] t(2)]
  have "Path_Join [abs_path (es @ ns), n] = abs_path (es @ (ns @ [n]))"
    using Path_Join_name [of "es @ ns" n] assms(1,2) Cons.prems(2) plain(1) by simp
  with Cons.IH [of "ns @ [n]" t1 fs2 fs3] w(1) Cons.prems(2,5) plain t(3)
  have "map_of (nodes fs2) (abs_path (ds @ (ns @ [n]) @ ms)) = None" by simp
  ultimately have "map_of (nodes fs) (abs_path (ds @ (ns @ [n]) @ ms)) = None" by (blast intro: extends_None)
  then show ?case by simp
qed

text \<open>(C32) Copying a workspace is complete and only adds: when \<open>copyFSWithSymlinks\<close> succeeds, every file of the source
  is at its place below the destination with its text and its permissions, every link with its target,
  every directory is a directory; when a path for a file or a link is taken it fails; and whether it
  succeeds or not, nothing that was there before has changed.\<close>

theorem copy_is_complete:
  assumes "es \<noteq> []" "list_all plain_elem es" "ds \<noteq> []" "list_all plain_elem ds" "plain_tree t"
    and "copyFSWithSymlinks wd (abs_path ds) (abs_path es) t fs = (r, fs')"
  shows "(r = Inr () \<longrightarrow> (\<forall>ns t'. tree_at t ns = Some t' \<longrightarrow> has_copy fs' (abs_path (ds @ ns)) t'))
    \<and> ((\<exists>ns t'. tree_at t ns = Some t' \<and> is_leaf t' \<and> map_of (nodes fs) (abs_path (ds @ ns)) \<noteq> None) \<longrightarrow> r \<noteq> Inr ())
    \<and> (\<forall>p n. map_of (nodes fs) p = Some n \<longrightarrow> map_of (nodes fs') p = Some n)"
proof (intro conjI impI allI)
  have run: "walk (copy_entry wd (abs_path ds) (abs_path es)) (abs_path es) t fs = (r, fs')"
    using assms(6) Clean_abs_path [OF assms(1,2)] by (simp add: copyFSWithSymlinks_def)
  show "has_copy fs' (abs_path (ds @ ns)) t'" if "r = Inr ()" "tree_at t ns = Some t'" for ns t'
    using walk_copies [OF assms(1-4), of wd "[]" t fs fs' ns t'] run that assms(5) by simp
  show "r \<noteq> Inr ()" if "\<exists>ns t'. tree_at t ns = Some t' \<and> is_leaf t' \<and> map_of (nodes fs) (abs_path (ds @ ns)) \<noteq> None"
    using walk_new [OF assms(1-4), of wd "[]" t fs fs'] run that assms(5) by auto
  show "map_of (nodes fs') p = Some n" if "map_of (nodes fs) p = Some n" for p n
    using extends_Some [OF extends_walk_copy that, of wd "abs_path ds" "abs_path es" "abs_path es" t] run by simp
qed


definition sample_tree :: fstree where
  "sample_tree = SrcDir (Inr [(''MODULE.bazel'', SrcLink (Inr ''/src/MODULE.bazel'')), (''run.sh'', SrcFile ''x'' 0x1ED NoFault)])"

definition sample_wfs :: wfs where
  "sample_wfs = \<lparr>nodes = [(''/'', DirNode), (''/dep'', FileNode ''dep'' 0x1A4), (''/src'', DirNode),
       (''/src/MODULE.bazel'', FileNode ''a# BEGIN BAZEL_DEPb# END BAZEL_DEPc'' 0x1A4)],
     ws_umask = 0x12, refused = (\<lambda>_ _. False)\<rparr>"

lemma sample_tree_plain: "plain_tree sample_tree"
proof -
  have "list_all plain_elem ns" if "tree_at sample_tree ns = Some t'" for ns t'
  proof (cases ns)
    case (Cons n ms)
    with that show ?thesis
      by (cases ms) (auto simp: sample_tree_def plain_elem_def split: if_splits)
  qed simp
  then show ?thesis by (simp add: plain_tree_def)
qed

lemmas sample_eval = copyFSWithSymlinks_def copy_entry_def Rel_def Clean_def IsAbs_def HasPrefix_def path_elems_def Path_Join_def
  resolve_def ws_MkdirAll_def ws_Stat_def parents_def follow.simps max_links_def create_node_def Dir_def LastCut_def
  sample_tree_def sample_wfs_def Let_def numeral_eq_Suc

lemma sample_copy: "\<exists>fs'. copyFSWithSymlinks ''/'' ''/ws'' ''/src'' sample_tree sample_wfs = (Inr (), fs')"
  by (simp add: sample_eval)

theorem copy_is_complete_witness:
  "\<exists>fs'. copyFSWithSymlinks ''/'' (abs_path [''ws'']) (abs_path [''src'']) sample_tree sample_wfs = (Inr (), fs')
    \<and> map_of (nodes fs') ''/ws/run.sh'' = Some (FileNode ''x'' ((0x1B6 OR 0x1ED AND 0x1FF) AND NOT (ws_umask fs')))"
proof -
  obtain fs' where run: "copyFSWithSymlinks ''/'' (abs_path [''ws'']) (abs_path [''src'']) sample_tree sample_wfs = (Inr (), fs')"
    using sample_copy by (auto simp: abs_path_def)
  have plain: "list_all plain_elem [''src'']" "list_all plain_elem [''ws'']" by (simp_all add: plain_elem_def)
  have "tree_at sample_tree [''run.sh''] = Some (SrcFile ''x'' 0x1ED NoFault)" by (simp add: sample_tree_def)
  with copy_is_complete [OF _ plain(1) _ plain(2) sample_tree_plain run]
  have "has_copy fs' (abs_path ([''ws''] @ [''run.sh''])) (SrcFile ''x'' 0x1ED NoFault)" by blast
  with run show ?thesis by (auto simp: has_copy_def copied_def abs_path_def)
qed

subsection \<open>The patched workspace\<close>

lemma Index_Some: "Index s sub = Some i \<Longrightarrow> \<exists>post. s = take i s @ sub @ post"
proof (induction s arbitrary: i)
  case (Cons c s)
  show ?case
  proof (cases "HasPrefix (c # s) sub")
    case True
    with Cons.prems show ?thesis by (auto simp: HasPrefix_iff)
  next
    case False
    with Cons obtain j where "Index s sub = Some j" "i = Suc j" by auto
    with Cons.IH show ?thesis by fastforce
  qed
qed (auto split: if_splits)

text \<open>With the markers in order, the text before the first and after the second stays and what is between them
  is replaced; without a marker the file is refused.\<close>

lemma patch_module_outcome:
  "Index m startMarker = None \<or> Index m endMarker = None \<Longrightarrow> \<exists>e. patch_module m dep = Inl e"
  "Index m startMarker = Some (length pre) \<Longrightarrow> m = pre @ startMarker @ mid @ endMarker @ post \<Longrightarrow>
     Index m endMarker = Some (length (pre @ startMarker @ mid)) \<Longrightarrow> patch_module m dep = Inr (pre @ dep @ post)"
  by (auto simp: patch_module_def split: option.split)

text \<open>The order of the markers is not checked: when the second comes first, what is between them is kept twice.\<close>

lemma patch_module_disorder:
  "patch_module ''a# END BAZEL_DEPb# BEGIN BAZEL_DEPc'' ''dep'' = Inr ''a# END BAZEL_DEPbdepb# BEGIN BAZEL_DEPc''"
  by (simp add: patch_module_def startMarker_def endMarker_def HasPrefix_def)

lemma ws_Remove_other: "p \<noteq> path \<Longrightarrow> map_of (nodes (snd (ws_Remove path fs))) p = map_of (nodes fs) p"
  by (auto simp: ws_Remove_def)

lemma ws_Remove_gone:
  "\<not> refused fs ''remove'' path \<Longrightarrow> map_of (nodes fs) path \<noteq> Some DirNode \<Longrightarrow> map_of (nodes (snd (ws_Remove path fs))) path = None"
  by (auto simp: ws_Remove_def)

lemma ws_Remove_keeps [simp]: "ws_umask (snd (ws_Remove path fs)) = ws_umask fs"
  by (simp add: ws_Remove_def)

text \<open>Writing to a path that is no link changes that path only.\<close>

lemma ws_WriteFile_ok:
  assumes "ws_WriteFile path text m fs = (Inr (), fs')" and "\<forall>target. map_of (nodes fs) path \<noteq> Some (LinkNode target)"
  shows "\<exists>m'. map_of (nodes fs') = (map_of (nodes fs))(path \<mapsto> FileNode text m') \<and> ws_umask fs' = ws_umask fs
    \<and> (map_of (nodes fs) path = None \<longrightarrow> m' = m AND NOT (ws_umask fs))"
proof -
  have "follow max_links path fs = Inr path"
    using assms(2) by (subst follow.simps) (auto split: option.splits node.splits)
  with assms(1) show ?thesis
    by (auto simp: ws_WriteFile_def split: if_splits option.splits node.splits)
qed

lemma patch_workspace_ok:
  assumes "patch_workspace windows wd bcr dist dep ws fs = (Inr (), fs')"
  defines "moduleFile \<equiv> resolve wd (Path_Join [ws, ''MODULE.bazel''])"
    and "rc \<equiv> resolve wd (Path_Join [ws, ''.bazelrc.generated''])"
  assumes "moduleFile \<noteq> rc" and "\<not> refused fs ''remove'' moduleFile" and "\<forall>target. map_of (nodes fs) rc \<noteq> Some (LinkNode target)"
  shows "\<exists>m d patched. ws_ReadFile moduleFile fs = Inr m \<and> ws_ReadFile (resolve wd dep) fs = Inr d \<and> patch_module m d = Inr patched
    \<and> map_of (nodes fs') moduleFile = Some (FileNode patched (0x1A4 AND NOT (ws_umask fs)))
    \<and> (\<exists>m'. map_of (nodes fs') rc = Some (FileNode (generated_bazelrc windows bcr dist) m'))
    \<and> (\<forall>p. p \<noteq> moduleFile \<and> p \<noteq> rc \<longrightarrow> map_of (nodes fs') p = map_of (nodes fs) p)"
proof -
  let ?fs1 = "snd (ws_Remove moduleFile fs)"
  obtain m d patched fs2 where reads: "ws_ReadFile moduleFile fs = Inr m" "ws_ReadFile (resolve wd dep) fs = Inr d" "patch_module m d = Inr patched"
    and w1: "ws_WriteFile moduleFile patched 0x1A4 ?fs1 = (Inr (), fs2)"
    and w2: "ws_WriteFile rc (generated_bazelrc windows bcr dist) 0x1A4 fs2 = (Inr (), fs')"
    using assms(1) by (auto simp: patch_workspace_def moduleFile_def rc_def Let_def split: sum.splits prod.splits)
  have "map_of (nodes fs) moduleFile \<noteq> Some DirNode"
    using reads(1) by (auto simp: ws_ReadFile_def follow_leaf)
  then have gone: "map_of (nodes ?fs1) moduleFile = None" using assms(5) by (rule ws_Remove_gone [rotated])
  from ws_WriteFile_ok [OF w1] gone have n2: "map_of (nodes fs2) = (map_of (nodes ?fs1))(moduleFile \<mapsto> FileNode patched (0x1A4 AND NOT (ws_umask fs)))"
    by auto
  then have "\<forall>target. map_of (nodes fs2) rc \<noteq> Some (LinkNode target)"
    using assms(4,6) ws_Remove_other [of rc moduleFile fs] by auto
  from ws_WriteFile_ok [OF w2 this] obtain m' where
    "map_of (nodes fs') = (map_of (nodes fs2))(rc \<mapsto> FileNode (generated_bazelrc windows bcr dist) m')" by auto
  with reads n2 assms(4) ws_Remove_other [of _ moduleFile fs] show ?thesis by (intro exI [of _ m] exI [of _ d] exI [of _ patched]) auto
qed

text \<open>A prepared workspace has the patched module file and the generated configuration, and preparing it leaves
  every other file as it was, the source tree in particular: a module file that is a link into the source
  is replaced, not written through.  The files written must be apart, the link must be removable and no link
  named \<open>.bazelrc.generated\<close> copied.\<close>

theorem prepare_patches_copy_only:
  assumes "prepareWorkspace windows Rlocation wd ws source t fs = (Inr (), fs')"
    and "m = resolve wd (Path_Join [ws, ''MODULE.bazel''])" and "rc = resolve wd (Path_Join [ws, ''.bazelrc.generated''])" and "m \<noteq> rc"
    and "fs1 = snd (copyFSWithSymlinks wd ws source t fs)"
    and "\<not> refused fs1 ''remove'' m" and "\<forall>target. map_of (nodes fs1) rc \<noteq> Some (LinkNode target)"
  shows "(\<exists>dep old d text mode. Rlocation ''_main/bzl/private/release/bcr_local_module_tweag-credential-helper.bazel_dep'' = Inr dep
      \<and> ws_ReadFile m fs1 = Inr old \<and> ws_ReadFile (resolve wd dep) fs1 = Inr d \<and> patch_module old d = Inr text
      \<and> map_of (nodes fs') m = Some (FileNode text mode))
    \<and> (\<forall>p n. map_of (nodes fs) p = Some n \<and> p \<noteq> m \<and> p \<noteq> rc \<longrightarrow> map_of (nodes fs') p = Some n)"
proof -
  obtain bcr dist dep where loc: "Rlocation ''_main/bzl/private/release/bcr_local_module_tweag-credential-helper.bazel_dep'' = Inr dep"
    and copy: "copyFSWithSymlinks wd ws source t fs = (Inr (), fs1)"
    and patch: "patch_workspace windows wd bcr dist dep ws fs1 = (Inr (), fs')"
    using assms(1,5) by (auto simp: prepareWorkspace_def split: sum.splits prod.splits)
  have "extends fs fs1"
    using extends_walk_copy [of fs wd ws "Clean source" source t] copy by (simp add: copyFSWithSymlinks_def)
  moreover note patch_workspace_ok [OF patch, folded assms(2,3), OF assms(4,6,7)]
  ultimately show ?thesis
    using loc extends_Some [of fs fs1] by auto
qed

definition sample_Rlocation :: "string \<Rightarrow> string result" where
  "sample_Rlocation f = Inr (if HasSuffix f ''.bazel_dep'' then ''/dep'' else ''/rl'')"

lemma sample_prepare:
  "\<exists>fs'. prepareWorkspace False sample_Rlocation ''/'' ''/ws'' ''/src'' sample_tree sample_wfs = (Inr (), fs')"
  by (simp add: prepareWorkspace_def sample_Rlocation_def HasSuffix_def patch_workspace_def ws_ReadFile_def ws_Remove_def
      ws_WriteFile_def patch_module_def startMarker_def endMarker_def sample_eval)

end
