(* ===== verification/Integration.thy ===== *)
theory Integration
  imports Workspace
begin

text \<open>
  The integration test runner (\<open>src/bzl/private/integration_test_runner/integration_test_runner.go\<close>): the Bazel commands,
  their order, and what is cleaned up on which way out.  Running and starting processes is the
  operating system's: their outcomes are functions of what happened before.  What the runner does is
  a sequence of events.
\<close>

subsection \<open>Commands\<close>

record commandLine =
  cl_name :: string
  cl_args :: "string list"

datatype event =
    Say string
  | SayErr string
  | RunCmd string "string list" string
  | StartCmd string "string list" string
  | KillCmd string
  | WaitCmd string
  | RemoveTree string

record executor =
  cmd_Run :: "event list \<Rightarrow> string \<Rightarrow> string list \<Rightarrow> string \<Rightarrow> goerr option"
  cmd_Start :: "event list \<Rightarrow> string \<Rightarrow> string list \<Rightarrow> string \<Rightarrow> goerr option"

definition line_feed :: char where "line_feed = CHR 0x0A"

text \<open>\<open>%v\<close> of a command line.\<close>

definition show_command :: "commandLine \<Rightarrow> string" where
  "show_command c = ''{'' @ cl_name c @ '' ['' @ Join (cl_args c) '' '' @ '']}''"

text \<open>On Windows the output root of Bazel is a temporary directory, for its length; a failure to make one is a
  panic.  \<open>mkdirTemp\<close> is \<open>os.MkdirTemp\<close>.\<close>

definition outputUserRoot :: "bool \<Rightarrow> (string \<Rightarrow> string \<Rightarrow> string result) \<Rightarrow> process \<Rightarrow> string result" where
  "outputUserRoot windows mkdirTemp p =
     (if \<not> windows then Inr []
      else mkdirTemp (case UserCacheDir p of Inl _ \<Rightarrow> TempDir p | Inr cache \<Rightarrow> cache) ''bit-'')"

definition installerTarget :: "process \<Rightarrow> string" where
  "installerTarget p =
     (case LookupEnv ''BAZEL_INTEGRATION_TEST_INSTALL_TARGET'' p of Some t \<Rightarrow> t | None \<Rightarrow> ''@tweag-credential-helper//installer'')"

definition bazelCommand :: "string \<Rightarrow> string list \<Rightarrow> string list \<Rightarrow> commandLine" where
  "bazelCommand name command startupFlags = \<lparr>cl_name = name, cl_args = startupFlags @ command\<rparr>"

definition build_mode_query :: "string \<Rightarrow> string list" where
  "build_mode_query mode =
     [''cquery'', ''--@tweag-credential-helper//bzl/config:helper_build_mode='' @ mode,
      ''somepath(@tweag-credential-helper//installer, @tweag-credential-helper)'']"

definition bazelCommands :: "process \<Rightarrow> string \<Rightarrow> string list \<Rightarrow> commandLine list \<times> commandLine list \<times> commandLine list" where
  "bazelCommands p bazel startupFlags =
     (map (\<lambda>c. bazelCommand bazel c startupFlags)
        [[''info''], [''run'', installerTarget p], build_mode_query ''auto'', build_mode_query ''from_source'',
         build_mode_query ''prebuilt'', [''shutdown'']],
      [bazelCommand bazel [''test'', ''--cache_test_results=no'', ''//...''] startupFlags],
      [bazelCommand bazel [''shutdown''] startupFlags])"

subsection \<open>Running them\<close>

definition run_command :: "executor \<Rightarrow> string \<Rightarrow> commandLine \<Rightarrow> event list \<Rightarrow> goerr option \<times> event list" where
  "run_command ex dir c ev =
     (cmd_Run ex ev (cl_name c) (cl_args c) dir, ev @ [RunCmd (cl_name c) (cl_args c) dir])"

fun run_setup :: "executor \<Rightarrow> string \<Rightarrow> commandLine list \<Rightarrow> event list \<Rightarrow> unit result \<times> event list" where
  "run_setup ex dir [] ev = (Inr (), ev)"
| "run_setup ex dir (c # cs) ev =
     (case run_command ex dir c
             (ev @ [Say (Sprintf (line_feed # ''running setup command $ bazel %s'' @ [line_feed]) [Join (cl_args c) '' ''])]) of
        (Some err, ev') \<Rightarrow> (Inl (Errorf ''bazel integration test setup step failed for command %v: %v'' [show_command c, err_msg err]), ev')
      | (None, ev') \<Rightarrow> run_setup ex dir cs ev')"

fun run_tests :: "executor \<Rightarrow> string \<Rightarrow> commandLine list \<Rightarrow> event list \<Rightarrow> unit result \<times> event list" where
  "run_tests ex dir [] ev = (Inr (), ev)"
| "run_tests ex dir (c # cs) ev =
     (case run_command ex dir c ev of
        (Some err, ev') \<Rightarrow> (Inl (Errorf ''bazel integration test failed for command %v: %v'' [show_command c, err_msg err]), ev')
      | (None, ev') \<Rightarrow> run_tests ex dir cs ev')"

text \<open>The shutdown of Bazel, whose outcome is ignored.\<close>

definition run_shutdown :: "executor \<Rightarrow> string \<Rightarrow> commandLine list \<Rightarrow> event list \<Rightarrow> event list" where
  "run_shutdown ex dir cs ev = fold (\<lambda>c ev. snd (run_command ex dir c ev)) cs ev"

definition startup_flags :: "string \<Rightarrow> string list" where
  "startup_flags root =
     (if root \<noteq> [] then [''--output_user_root='' @ root] else []) @
     [''--bazelrc='' @ Path_Join [''.bazelrc''], ''--bazelrc='' @ Path_Join [''.bazelrc.generated'']]"

text \<open>Setup, then the agent and the tests; the agent is killed and waited for on both ways out.\<close>

definition run_session :: "executor \<Rightarrow> string \<Rightarrow> string \<Rightarrow> commandLine list \<Rightarrow> commandLine list \<Rightarrow> event list \<Rightarrow> unit result \<times> event list" where
  "run_session ex helper workspaceDir setupCommands testCommands ev =
     (case run_setup ex workspaceDir setupCommands ev of
        (Inl err, ev1) \<Rightarrow> (Inl err, ev1)
      | (Inr _, ev1) \<Rightarrow>
          (case cmd_Start ex ev1 helper [''agent-launch''] workspaceDir of
             Some err \<Rightarrow> (Inl (Errorf ''failed to start agent: %v'' [err_msg err]), ev1)
           | None \<Rightarrow>
               (case run_tests ex workspaceDir testCommands
                       (ev1 @ [StartCmd helper [''agent-launch''] workspaceDir, Say (line_feed # ''running tests'' @ [line_feed])]) of
                  (r, ev2) \<Rightarrow> (r, ev2 @ [KillCmd helper, WaitCmd helper]))))"

definition runBazelCommands :: "executor \<Rightarrow> bool \<Rightarrow> (string \<Rightarrow> string \<Rightarrow> string result) \<Rightarrow> process \<Rightarrow> string \<Rightarrow> string \<Rightarrow> string \<Rightarrow>
    event list \<Rightarrow> unit result result \<times> event list" where
  "runBazelCommands ex windows mkdirTemp p bazel helper workspaceDir ev =
     (case outputUserRoot windows mkdirTemp p of
        Inl panicked \<Rightarrow> (Inl panicked, ev)
      | Inr root \<Rightarrow>
          (case bazelCommands p bazel (startup_flags root) of
             (setupCommands, testCommands, shutdownCommands) \<Rightarrow>
               (case run_session ex helper workspaceDir setupCommands testCommands ev of
                  (r, ev1) \<Rightarrow>
                    (Inr r, run_shutdown ex workspaceDir shutdownCommands ev1 @ (if windows then [RemoveTree root] else [])))))"

subsection \<open>The main function\<close>

definition runHttpbinServer :: "executor \<Rightarrow> (string \<Rightarrow> string result) \<Rightarrow> string \<Rightarrow> event list \<Rightarrow> unit result \<times> event list" where
  "runHttpbinServer ex Rlocation pid ev =
     (case Rlocation ''+_repo_rules+go_httpbin/cmd/go-httpbin/go-httpbin_/go-httpbin'' of
        Inl err \<Rightarrow> (Inl (ErrorString (''failed to find go-httpbin binary: '' @ err_msg err @ [line_feed])), ev)
      | Inr binaryPath \<Rightarrow>
          (case cmd_Start ex ev binaryPath [''-port'', ''9494''] [] of
             Some err \<Rightarrow> (Inl (ErrorString (''failed to start go-httpbin: '' @ err_msg err @ [line_feed])), ev)
           | None \<Rightarrow> (Inr (), ev @ [StartCmd binaryPath [''-port'', ''9494''] [],
               Say (Sprintf (''go-httpbin started with PID: %d'' @ [line_feed]) [pid])])))"

text \<open>The outcome: the exit status, what happened, and the workspace.  Leaving with \<open>os.Exit\<close> skips the deferred
  removal of the workspace; a panic and a return do not.\<close>

record runner_result =
  exit_status :: nat
  happened :: "event list"
  left_behind :: wfs

text \<open>\<open>os.RemoveAll\<close> of a directory.\<close>

definition remove_tree :: "string \<Rightarrow> wfs \<Rightarrow> wfs" where
  "remove_tree dir fs = fs\<lparr>nodes := filter (\<lambda>(p, _). \<not> (p = dir \<or> HasPrefix p (dir @ ''/''))) (nodes fs)\<rparr>"

definition leave :: "nat \<Rightarrow> string \<Rightarrow> string \<Rightarrow> event list \<Rightarrow> wfs \<Rightarrow> runner_result" where
  "leave status wd workspaceDir ev fs =
     \<lparr>exit_status = status, happened = ev @ [RemoveTree workspaceDir], left_behind = remove_tree (resolve wd workspaceDir) fs\<rparr>"

text \<open>The end of the main function: the logs of the agent are collected, whatever the tests did.\<close>

definition collect_logs :: "executor \<Rightarrow> string \<Rightarrow> string \<Rightarrow> unit result \<Rightarrow> event list \<Rightarrow> event list" where
  "collect_logs ex helper workspaceDir r ev =
     (case run_command ex workspaceDir \<lparr>cl_name = helper, cl_args = [''agent-logs'']\<rparr>
             (ev @ (case r of Inl err \<Rightarrow> [SayErr (err_msg err @ [line_feed])] | Inr _ \<Rightarrow> []) @
              [SayErr (''Collecting agent logs...'' @ [line_feed])]) of
        (Some err, ev') \<Rightarrow> ev' @ [SayErr (Sprintf (''failed to collect agent logs: %v'' @ [line_feed]) [err_msg err])]
      | (None, ev') \<Rightarrow> ev')"

definition finish :: "executor \<Rightarrow> string \<Rightarrow> string \<Rightarrow> string \<Rightarrow> wfs \<Rightarrow> unit result result \<times> event list \<Rightarrow> runner_result" where
  "finish ex helper wd workspaceDir fs out =
     (case out of
        (Inl panicked, ev) \<Rightarrow> leave 2 wd workspaceDir ev fs
      | (Inr (Inl err), ev) \<Rightarrow>
          \<lparr>exit_status = 1, happened = collect_logs ex helper workspaceDir (Inl err) ev, left_behind = fs\<rparr>
      | (Inr (Inr u), ev) \<Rightarrow> leave 0 wd workspaceDir (collect_logs ex helper workspaceDir (Inr u) ev) fs)"

definition integration_main :: "executor \<Rightarrow> bool \<Rightarrow> (string \<Rightarrow> string result) \<Rightarrow> (string \<Rightarrow> string \<Rightarrow> string result) \<Rightarrow> string \<Rightarrow>
    (string \<Rightarrow> fstree) \<Rightarrow> process \<Rightarrow> wfs \<Rightarrow> runner_result" where
  "integration_main ex windows Rlocation mkdirTemp pid tree p0 fs =
     (let bazel = Getenv ''BIT_BAZEL_BINARY'' p0;
          workspaceDir = Getenv ''BIT_WORKSPACE_DIR'' p0 @ ''.scratch'';
          helper = Path_Join [workspaceDir, ''tools'', ''credential-helper''] @ (if windows then ''.exe'' else [])
      in case absolutifyEnvVars p0 of
           Inl err \<Rightarrow> leave 2 (cwd p0) workspaceDir [] fs
         | Inr p \<Rightarrow>
             (case runHttpbinServer ex Rlocation pid [] of
                (Inl err, ev) \<Rightarrow> \<lparr>exit_status = 1, happened = ev @ [Say (''failed to run go-httpbin'' @ [line_feed])], left_behind = fs\<rparr>
              | (Inr _, ev) \<Rightarrow>
                  (case prepareWorkspace windows Rlocation (cwd p) workspaceDir (Getenv ''BIT_WORKSPACE_DIR'' p)
                          (tree (Getenv ''BIT_WORKSPACE_DIR'' p)) fs of
                     (Inl err, fs1) \<Rightarrow> \<lparr>exit_status = 1, happened = ev @ [SayErr (err_msg err @ [line_feed])], left_behind = fs1\<rparr>
                   | (Inr _, fs1) \<Rightarrow>
                       finish ex helper (cwd p) workspaceDir fs1
                         (runBazelCommands ex windows mkdirTemp p bazel helper workspaceDir ev))))"

subsection \<open>Properties\<close>

definition setup_events :: "string \<Rightarrow> commandLine list \<Rightarrow> event list" where
  "setup_events dir cs = concat (map (\<lambda>c.
     [Say (Sprintf (line_feed # ''running setup command $ bazel %s'' @ [line_feed]) [Join (cl_args c) '' '']),
      RunCmd (cl_name c) (cl_args c) dir]) cs)"

lemma run_setup_events:
  "run_setup ex dir cs ev = (r, ev') \<Longrightarrow>
     \<exists>k. ev' = ev @ setup_events dir (take k cs) \<and> (r = Inr () \<longrightarrow> length cs \<le> k)"
proof (induction cs arbitrary: ev)
  case Nil
  then show ?case by (simp add: setup_events_def)
next
  case (Cons c cs)
  let ?say = "Say (Sprintf (line_feed # ''running setup command $ bazel %s'' @ [line_feed]) [Join (cl_args c) '' ''])"
  let ?ev = "ev @ [?say, RunCmd (cl_name c) (cl_args c) dir]"
  show ?case
  proof (cases "cmd_Run ex (ev @ [?say]) (cl_name c) (cl_args c) dir")
    case None
    with Cons.prems have "run_setup ex dir cs ?ev = (r, ev')" by (simp add: run_command_def)
    from Cons.IH [OF this] obtain k where "ev' = ?ev @ setup_events dir (take k cs)" "r = Inr () \<longrightarrow> length cs \<le> k" by blast
    then show ?thesis by (intro exI [of _ "Suc k"]) (simp add: setup_events_def)
  next
    case (Some err)
    with Cons.prems show ?thesis by (intro exI [of _ 1]) (auto simp: run_command_def setup_events_def)
  qed
qed

lemma runBazelCommands_events:
  assumes "outputUserRoot windows mkdirTemp p = Inr root"
    and "bazelCommands p bazel (startup_flags root) = (setup, tests, shutdown)"
    and "runBazelCommands ex windows mkdirTemp p bazel helper ws ev = (Inr r, ev')"
  shows "\<exists>k body. ev' = ev @ setup_events ws (take k setup) @ body @
        [RunCmd bazel (startup_flags root @ [''shutdown'']) ws] @ (if windows then [RemoveTree root] else [])
    \<and> (body = [] \<or> (length setup \<le> k
        \<and> body = [StartCmd helper [''agent-launch''] ws, Say (line_feed # ''running tests'' @ [line_feed]),
            RunCmd bazel (startup_flags root @ [''test'', ''--cache_test_results=no'', ''//...'']) ws, KillCmd helper, WaitCmd helper]))
    \<and> (r = Inr () \<longrightarrow> body \<noteq> [])"
proof -
  have cmds: "tests = [bazelCommand bazel [''test'', ''--cache_test_results=no'', ''//...''] (startup_flags root)]"
    "shutdown = [bazelCommand bazel [''shutdown''] (startup_flags root)]"
    using assms(2) by (auto simp: bazelCommands_def)
  obtain ev1 where ses: "run_session ex helper ws setup tests ev = (r, ev1)"
    and ev': "ev' = ev1 @ [RunCmd bazel (startup_flags root @ [''shutdown'']) ws] @ (if windows then [RemoveTree root] else [])"
    using assms cmds(2)
    by (auto simp: runBazelCommands_def run_shutdown_def run_command_def bazelCommand_def split: prod.splits)
  obtain r0 ev0 where first: "run_setup ex ws setup ev = (r0, ev0)" by (rule prod.exhaust)
  obtain k where k: "ev0 = ev @ setup_events ws (take k setup)" "r0 = Inr () \<longrightarrow> length setup \<le> k"
    using run_setup_events [OF first] by blast
  show ?thesis
  proof (cases "r0 = Inr () \<and> cmd_Start ex ev0 helper [''agent-launch''] ws = None")
    case True
    with ses first cmds(1) ev' k show ?thesis
      by (intro exI [of _ k] exI [of _ "[StartCmd helper [''agent-launch''] ws, Say (line_feed # ''running tests'' @ [line_feed]),
            RunCmd bazel (startup_flags root @ [''test'', ''--cache_test_results=no'', ''//...'']) ws, KillCmd helper, WaitCmd helper]"])
        (auto simp: run_session_def run_command_def bazelCommand_def split: option.splits)
  next
    case False
    with ses first have "ev1 = ev0 \<and> r \<noteq> Inr ()"
      by (cases r0) (auto simp: run_session_def split: option.splits)
    with ev' k show ?thesis by (intro exI [of _ k] exI [of _ "[]"]) simp
  qed
qed

text \<open>(C33) Whatever fails, Bazel is shut down once the commands are over, and an agent that was started is killed
  before; the agent is only started, and the tests only run, after all of the setup, and the run
  succeeds only if they did.\<close>

theorem bazel_is_shut_down:
  assumes "outputUserRoot windows mkdirTemp p = Inr root"
    and "bazelCommands p bazel (startup_flags root) = (setup, tests, shutdown)"
    and "runBazelCommands ex windows mkdirTemp p bazel helper ws ev = (Inr r, ev')"
  shows "\<exists>k body. ev' = ev @ setup_events ws (take k setup) @ body @
        [RunCmd bazel (startup_flags root @ [''shutdown'']) ws] @ (if windows then [RemoveTree root] else [])
    \<and> (body = [] \<or> (length setup \<le> k
        \<and> body = [StartCmd helper [''agent-launch''] ws, Say (line_feed # ''running tests'' @ [line_feed]),
            RunCmd bazel (startup_flags root @ [''test'', ''--cache_test_results=no'', ''//...'']) ws, KillCmd helper, WaitCmd helper]))
    \<and> (r = Inr () \<longrightarrow> body \<noteq> [])"
  by (rule runBazelCommands_events [OF assms])

text \<open>A process with the given environment.\<close>

definition proc_of :: "string gomap \<Rightarrow> process" where
  "proc_of vars = \<lparr>env = vars, cwd = ''/'', getwd_ok = True, mkdir_ok = (\<lambda>_. True), chdir_ok = (\<lambda>_. True)\<rparr>"

definition failing_executor :: executor where
  "failing_executor = \<lparr>
     cmd_Run = (\<lambda>_ _ args _. if ''test'' \<in> set args then Some (ErrorString ''exit status 3'') else None),
     cmd_Start = (\<lambda>_ _ _ _. None)\<rparr>"

theorem bazel_is_shut_down_witness:
  "\<exists>r pre. runBazelCommands failing_executor False (\<lambda>_ _. Inr []) (proc_of []) ''bazel'' ''/ws/helper'' ''/ws'' [] =
     (Inr r, pre @ [RunCmd ''bazel'' (startup_flags [] @ [''shutdown'']) ''/ws''])"
proof -
  have root: "outputUserRoot False (\<lambda>_ _. Inr []) (proc_of []) = Inr []" by (simp add: outputUserRoot_def)
  obtain sc tc dc where cmds: "bazelCommands (proc_of []) ''bazel'' (startup_flags []) = (sc, tc, dc)" by (rule prod_cases3)
  obtain r ev' where run: "runBazelCommands failing_executor False (\<lambda>_ _. Inr []) (proc_of []) ''bazel'' ''/ws/helper'' ''/ws'' [] = (Inr r, ev')"
    by (cases "run_session failing_executor ''/ws/helper'' ''/ws'' sc tc []") (simp add: runBazelCommands_def root cmds)
  from bazel_is_shut_down [OF root cmds run] run show ?thesis by force
qed

text \<open>A run that succeeds removes its workspace; one that fails leaves with \<open>os.Exit\<close>, which runs no deferred call,
  and removes nothing.\<close>

lemma setup_events_no_removal: "RemoveTree d \<notin> set (setup_events dir cs)"
  by (auto simp: setup_events_def simp del: Sprintf.simps)

lemma runBazelCommands_no_removal:
  assumes "runBazelCommands ex False mkdirTemp p bazel helper ws ev = (r, ev')" and "RemoveTree d \<in> set ev'"
  shows "RemoveTree d \<in> set ev"
proof -
  have root: "outputUserRoot False mkdirTemp p = Inr []" by (simp add: outputUserRoot_def)
  obtain sc tc dc where cmds: "bazelCommands p bazel (startup_flags []) = (sc, tc, dc)" by (rule prod_cases3)
  obtain r' where r: "r = Inr r'" using assms(1) root cmds by (auto simp: runBazelCommands_def split: prod.splits)
  from runBazelCommands_events [OF root cmds assms(1) [unfolded r]] assms(2) show ?thesis
    by (auto simp: setup_events_no_removal)
qed

lemma runHttpbinServer_no_removal: "runHttpbinServer ex Rlocation pid [] = (r, ev) \<Longrightarrow> RemoveTree d \<notin> set ev"
  by (auto simp: runHttpbinServer_def split: sum.splits option.splits)

lemma collect_logs_no_removal: "RemoveTree d \<in> set (collect_logs ex helper ws r ev) \<longleftrightarrow> RemoveTree d \<in> set ev"
  by (cases r) (simp_all add: collect_logs_def run_command_def split: option.split)

lemma finish_failed:
  "exit_status (finish ex helper wd ws fs (out, ev)) = 1 \<Longrightarrow> RemoveTree d \<notin> set ev \<Longrightarrow>
     RemoveTree d \<notin> set (happened (finish ex helper wd ws fs (out, ev)))"
  by (simp add: finish_def leave_def collect_logs_no_removal split: sum.splits)

theorem failed_run_leaves_workspace:
  assumes "exit_status (integration_main ex False Rlocation mkdirTemp pid tree p fs) = 1"
  shows "RemoveTree d \<notin> set (happened (integration_main ex False Rlocation mkdirTemp pid tree p fs))"
proof -
  let ?ws = "Getenv ''BIT_WORKSPACE_DIR'' p @ ''.scratch''"
  obtain q where q: "absolutifyEnvVars p = Inr q"
    using assms by (cases "absolutifyEnvVars p") (auto simp: integration_main_def leave_def Let_def)
  obtain r ev where http: "runHttpbinServer ex Rlocation pid [] = (r, ev)" by (rule prod.exhaust)
  obtain r1 fs1 where prep: "prepareWorkspace False Rlocation (cwd q) ?ws (Getenv ''BIT_WORKSPACE_DIR'' q)
      (tree (Getenv ''BIT_WORKSPACE_DIR'' q)) fs = (r1, fs1)" by (rule prod.exhaust)
  let ?helper = "Path_Join [?ws, ''tools'', ''credential-helper'']"
  obtain out ev1 where baz: "runBazelCommands ex False mkdirTemp q (Getenv ''BIT_BAZEL_BINARY'' p) ?helper ?ws ev = (out, ev1)"
    by (rule prod.exhaust)
  have "RemoveTree d \<notin> set ev1"
    using runBazelCommands_no_removal [OF baz, of d] runHttpbinServer_no_removal [OF http, of d] by blast
  with assms finish_failed [of ex ?helper "cwd q" ?ws fs1 out ev1 d] runHttpbinServer_no_removal [OF http, of d]
  show ?thesis
    by (simp add: integration_main_def q http prep baz Let_def split: sum.splits)
qed

end
