(* ===== verification/Spec2Isabelle.thy ===== *)
theory Spec2Isabelle
  imports Installer Launch Customized Bcr Sessions Wire Integration
begin

text \<open>
  Verification of \<open>tweag/credential-helper\<close>, a program that gives Bazel and other tools the HTTP
  headers they need to download from services that ask for credentials.

  \<^bold>\<open>The program.\<close>  A client process (\<open>src/cmd/root/root.go\<close>, command \<open>get\<close>) reads a URL, chooses a
  helper for it, by the configuration file (\<open>src/config\<close>) or by the host of the URL
  (\<open>src/helperfactory/fallback\<close>), and prints the headers the helper (\<open>src/authenticate\<close>) produces.
  Before it asks the helper it asks a cache under the helper's cache key.  The cache is owned by an
  agent, a background process the client launches; client and agent exchange JSON messages over a
  Unix socket (\<open>src/cache\<close>, \<open>src/agent\<close>).  The agent holds a lock file, prunes expired responses from
  its cache, and shuts itself down when idle.  Secrets of the helpers come from chains of sources:
  environment, keyring, fixed values, Google credentials (\<open>src/authenticate/internal/lookupchain\<close>).

  \<^bold>\<open>The language.\<close>  Go functions that return an error are functions into \<open>goerr + 'a\<close> (theory \<open>Prelude\<close>);
  pointer receivers that change state take and return it; maps are key-sorted entry lists
  (\<open>Go_Map\<close>), strings are byte lists (\<open>Go_Strings\<close>), and \<open>json.RawMessage\<close>, files and messages are JSON
  values with the decoding rules of \<open>encoding/json\<close> (\<open>Go_Json\<close>).  \<open>Go_Json_Text\<close> is JSON as text, printed and
  parsed, both of which replace bytes of a string that are no UTF-8 (\<open>Go_Utf8\<close>), and \<open>Go_Fmt\<close> what \<open>fmt.Sprintf\<close> does with a format and no arguments.  \<open>Go_Url\<close>, \<open>Go_Time\<close>, \<open>Go_Duration\<close>,
  \<open>Go_Path\<close>, \<open>Go_Base64\<close>, \<open>Go_Md5\<close> and \<open>Go_Sha256\<close> model what is used of \<open>net/url\<close>, \<open>time\<close>,
  \<open>path/filepath\<close>, \<open>encoding/base64\<close>, \<open>crypto/md5\<close> and \<open>crypto/sha256\<close>; integers that can overflow
  wrap in 64 bits.  Their lemmas are round trips (base64, RFC 3339 times to the second, query
  escaping, durations in whole units, JSON values) and what URLs of plain characters parse to.

  \<^bold>\<open>The theories and the code.\<close>
  \<^item> \<open>Api\<close>: the messages of \<open>src/api/api.go\<close>, their JSON forms and that decoding inverts encoding.
  \<^item> \<open>Cache\<close>: \<open>api.Cache\<close> as the locale \<open>api_cache\<close>, extended by \<open>keeping_cache\<close>; \<open>MemCache\<close> and \<open>NoCache\<close>
    are interpretations.
  \<^item> \<open>Agent\<close>: the handlers and the connection loop of \<open>src/agent/service.go\<close>, over any cache.
  \<^item> \<open>SocketCache\<close>: \<open>src/cache/socketcache.go\<close> and \<open>src/agent/client.go\<close>; the socket cache in front of an
    agent over \<open>MemCache\<close> is a \<open>keeping_cache\<close> again.
  \<^item> \<open>Wire\<close>: both ends of a connection in bytes (\<open>handleConn\<close> and \<open>Command\<close> with their encoders and decoders), and
    that the bytes carry the messages the other theories exchange as values, exactly when these are valid UTF-8.
  \<^item> \<open>Server\<close>: \<open>Serve\<close> with its goroutines as a step relation, its invariants, and how a shutdown
    ends: with a measure that goroutines can always lower, and the race that delays it.
  \<^item> \<open>Lockfile\<close>: \<open>NewCachingAgent\<close>, the lock file and the hardening of the socket directory, over a file
    system with locks, modes and sockets.  What depends on the operating system is the record \<open>platform\<close>, with
    the values \<open>Unix\<close> and \<open>Windows k\<close>, where \<open>k\<close> has the two procedures of \<open>kernel32.dll\<close> and the hypothesis
    \<open>lockfile_laws\<close>; the contract of a lock is the locale \<open>exclusive_lock\<close>.
  \<^item> \<open>Locate\<close>: the environment set-up and the paths of \<open>src/agent/locate/locate.go\<close>.
  \<^item> \<open>World\<close>: everything foreign a helper uses (keyring, HTTP, cloud libraries, files) as one record.
  \<^item> \<open>LookupChain\<close>: the sources, the configuration of a chain, the search and the setup instructions; the
    contract of a source is the locale \<open>bound_source\<close>.
  \<^item> \<open>Providers\<close> (null, GCS, GAR, Azure Storage), \<open>GitHub\<close>, \<open>RemoteAPIs\<close>, \<open>S3\<close>, \<open>Oauth\<close>, \<open>Docker\<close>, \<open>Oci\<close>: the
    helpers.  The locales \<open>guarded_helper\<close>, \<open>keyed_helper\<close> and \<open>safe_keyed_helper\<close> say which requests a
    helper answers and how its answers depend on the cache key.
  \<^item> \<open>Setup_Texts\<close>: the setup instructions the helpers print.
  \<^item> \<open>Registry\<close>: helpers as values of \<open>api.Helper\<close>, the table by name and the fallback factory.
  \<^item> \<open>Glob\<close>, \<open>Config_File\<close>: the glob matcher, the configuration file and \<open>util.Configure\<close>.
  \<^item> \<open>Logging\<close>: the level, standard error and the system log of \<open>src/logging\<close> as one record, with the writer that
    is nil until the log is opened.
  \<^item> \<open>Root\<close>: the commands; the locale \<open>cached_helper\<close> joins the contracts of a cache and of a helper,
    and \<open>agent_helper\<close> is its instance for the socket cache.
  \<^item> \<open>Sessions\<close>: the program as \<open>main\<close> (\<open>src/cmd/credential-helper\<close>) puts it together, and sequences of \<open>get\<close>
    commands for any helpers that share one agent.
  \<^item> \<open>Go_Flag\<close>, \<open>Go_Os\<close>: \<open>FlagSet.Parse\<close> over any flag values, and a disk with hard links, permissions, directories
    and refused operations, without symbolic links.
  \<^item> \<open>Setup\<close>: the commands \<open>setup-keyring\<close> and \<open>setup-uri\<close> of \<open>src/cmd/setup\<close>; the keyring is a parameter with
    the hypothesis \<open>keyring_laws\<close>.
  \<^item> \<open>Installer\<close>: \<open>src/cmd/installer/installer.go\<close>.
  \<^item> \<open>Launch\<close>: \<open>LaunchAgentProcess\<close> (\<open>src/agent/client.go\<close>) and the command \<open>agent-logs\<close>; starting a process is a
    parameter.
  \<^item> \<open>Customized\<close>: the example helper and its database cache (\<open>src/examples/customized\<close>); the SQL statements are
    parameters with the hypothesis \<open>sql_laws\<close>.
  \<^item> \<open>Bazel_Tools\<close>, \<open>Bcr\<close>: the tools under \<open>src/bzl/private\<close> and the hash check of the examples.
  \<^item> \<open>Workspace\<close>, \<open>Integration\<close>: the integration test runner (\<open>src/bzl/private/integration_test_runner\<close>): copying and
    patching a workspace, over a file system with links and modes, and the order of the commands it runs;
    the outcomes of processes are functions of what happened before.

  \<^bold>\<open>What is shown.\<close>  The caches satisfy their interface, and the agent seen through a connection is the
  cache it owns; no interleaving closes the shutdown channel twice or breaks the cache; at most one
  agent runs per lock file, on Unix in a private directory; client and agent agree on their paths when the
  workdir is absolute; a shutdown ends without waiting for a timeout, unless a handler resets the timer with
  an older value.  The glob
  matcher decides its specification, the configuration file and the lookup chain decide by the first
  fit, secrets stay with their binding, and the GitHub resolver answers exactly for the hosts its labels
  allow.  Challenges, Docker
  credentials and default chains survive a round trip; expiries and timeouts have the stated bounds.
  Putting the parts together, the cache never changes what the OCI helper answers, while the constant
  key of GCS lets a cached token past the check for https.  A secret stored by the setup command is what
  the lookup chain finds, an installation copies the binary and nothing else (not its permissions when no hard link can be made), and
  extracting a module
  stays in its directory as far as its names allow.  Every response a session of commands prints is well
  typed, and helpers that share an agent do not disturb the answers of the OCI helper.  The bytes on the
  socket carry messages in valid UTF-8 unchanged, and an agent answers any bytes with well-formed messages.  A copied
  workspace is complete, and the runner shuts Bazel down whatever fails.  Several properties record behaviour that
  departs from the intention of the code; each says so.

  \<^bold>\<open>Termination and bounds.\<close>  \<open>glob_loop\<close> is a partial function and its theorem says that it returns.
  The loops over remaining input (\<open>unquote_body\<close>, \<open>challenge_loop\<close>, \<open>parse_amounts\<close>), the dial loop, the
  attempts to store in the database, the year search, the reading of JSON strings and streams and of format
  strings have termination proofs.  The mutually recursive \<open>read_value\<close> takes a bound on its steps; twice the
  length of the text and one is proved to be enough, so that the bound plays no part.  \<open>follow\<close> gives up after
  forty links, as the operating system does.  The step relation of \<open>Server\<close> takes a cache operation, which a
  mutex guards, and the tail of a shutdown, of which there is only one, as atomic; reading a timeout and
  resetting a timer with it are separate steps.

  \<^bold>\<open>Not modelled.\<close>  Log messages that no decision depends on, the goroutine that reports the end of
  \<open>go-httpbin\<close>, the \<open>String\<close> methods of flag values, and the separators of Windows paths, whose code is that of
  \<open>path/filepath\<close>.  Error messages of libraries and of JSON syntax errors are representative texts.  Client
  libraries (keyring, Google, Azure, AWS, YAML, SQL, runfiles), archive formats and the running of processes
  are parameters.  Symbolic links are modelled for the integration test runner and the lookup of the installer's
  source only, not for the destinations of the installer and the build tools.  The database of the example has
  no other writers.
\<close>

subsection \<open>Properties that span components\<close>

text \<open>(C1) Caching never changes what the OCI helper prints: any sequence of clients of one agent that started
  with an empty cache, all of them using the OCI helper with the same configuration and finding the same
  outside world (its clock included), the agent pruning its cache at any times in between, prints what each
  client would print on its own.\<close>

theorem oci_cache_transparent:
  assumes "agent_cache a = NewMemCache"
  shows "client_runs w ctx (OCI_helper oci) qs a = map (\<lambda>(q, _). direct_run w ctx (OCI_helper oci) q) qs"
  by (rule oci_agent.client_runs_direct) (rule oci_agent.sound_fresh [OF assms])

theorem oci_cache_transparent_witness:
  "client_runs docker_world None (OCI_helper NewFallbackOCI)
      [(\<lparr>URI = ''https://r.io/v2/a/b/blobs/x''\<rparr>, []), (\<lparr>URI = ''https://r.io/v2/a/b/manifests/v1''\<rparr>, [\<lambda>_. 0])] sample_agent =
     [direct_run docker_world None (OCI_helper NewFallbackOCI) \<lparr>URI = ''https://r.io/v2/a/b/blobs/x''\<rparr>,
      direct_run docker_world None (OCI_helper NewFallbackOCI) \<lparr>URI = ''https://r.io/v2/a/b/manifests/v1''\<rparr>]"
  by (simp only: oci_cache_transparent [OF sample_agent_cache] list.map prod.case)

definition insecure_request :: GetCredentialsRequest where
  "insecure_request = \<lparr>URI = ''http://storage.googleapis.com/b/o''\<rparr>"

text \<open>(C36) The cache key of Google Cloud Storage is the same for all requests, so a cached token is handed
  out without the checks of \<open>Get\<close>: once a client has asked for an https URL, the next one that asks
  for an http URL of the service is given the token, which on its own it would be refused.\<close>

theorem cached_token_skips_https_check:
  assumes "agent_cache a = NewMemCache" and "GCS_Get w q = Inr r" and "Expires r \<noteq> []"
  shows "client_runs w ctx GCS_helper [(q, []), (insecure_request, [])] a =
      [\<lparr>printed = [r], fatal = None\<rparr>, \<lparr>printed = [r], fatal = None\<rparr>]
    \<and> FallbackHelperFactory p (URI insecure_request) = Inr GCS_helper
    \<and> printed (direct_run w ctx GCS_helper insecure_request) = []"
proof (intro conjI)
  have u: "Parse (URI insecure_request) = Inr (plain_url ''http'' ''storage.googleapis.com'' ''/b/o'')"
    using Parse_http [of "''storage.googleapis.com''" "''b/o''"]
    by (simp add: insecure_request_def plain_host_def plain_path_def char_class_defs)
  have host: "Hostname (plain_url ''http'' ''storage.googleapis.com'' ''/b/o'') = ''storage.googleapis.com''"
    by (simp add: Hostname_plain plain_host_def char_class_defs)
  show "FallbackHelperFactory p (URI insecure_request) = Inr GCS_helper"
    by (simp add: FallbackHelperFactory_def u host HasSuffix_rev EqualFold_def lower_def)
  show "printed (direct_run w ctx GCS_helper insecure_request) = []"
    by (simp add: direct_run_eq GCS_helper_def GCSResolver_Get_def u Fatalf_def map_sum_def split: sum.split)
  have key: "helper_CacheKey GCS_helper x = ''https://storage.googleapis.com/''" for x
    by (simp add: GCS_helper_def GCS_CacheKey_def)
  have wf: "wf_response r"
    using assms(2) by (auto simp: GCS_Get_def GCSResolver_Get_def bearer_response_def wf_response_def split: if_splits)
  have inv: "mem.sock_inv (connect_to a)" using assms(1) by (simp add: sock_inv_iff)
  obtain s where s: "answer_request w ctx GCS_helper (SocketCache_iface MemCache_iface) q (connect_to a) =
      (\<lparr>printed = [r], fatal = None\<rparr>, s)" "mem.sock_inv s"
      "mem.sock_contents s ''https://storage.googleapis.com/'' = Some r"
    using answered_then_cached [OF inv, of w ctx GCS_helper q r] assms wf
    by (auto simp: key mem.sock_contents_def)
  have "fst (answer_request w ctx GCS_helper (SocketCache_iface MemCache_iface) insecure_request (connect_to (peer s))) =
      \<lparr>printed = [r], fatal = None\<rparr>"
    using s by (intro cached_is_printed) (simp_all add: key sock_contents_peer sock_inv_iff)
  with s show "client_runs w ctx GCS_helper [(q, []), (insecure_request, [])] a =
      [\<lparr>printed = [r], fatal = None\<rparr>, \<lparr>printed = [r], fatal = None\<rparr>]"
    by (auto split: prod.split)
qed

theorem cached_token_skips_https_check_witness:
  "client_runs google_world None GCS_helper [(\<lparr>URI = ''https://storage.googleapis.com/b/o''\<rparr>, []), (insecure_request, [])] sample_agent =
     (let r = \<lparr>printed = [bearer_response (access_token ''tok'' (1704070800 * Second))], fatal = None\<rparr> in [r, r])"
proof -
  have "Parse ''https://storage.googleapis.com/b/o'' = Inr (plain_url ''https'' ''storage.googleapis.com'' ''/b/o'')"
    using Parse_https [of "''storage.googleapis.com''" "''b/o''"] by (simp add: plain_host_def plain_path_def char_class_defs)
  then have got: "GCS_Get google_world \<lparr>URI = ''https://storage.googleapis.com/b/o''\<rparr> =
      Inr (bearer_response (access_token ''tok'' (1704070800 * Second)))"
    by (simp add: GCS_Get_def GCS_Resolver_def GCSResolver_Get_def google_world_def Hostname_plain Port_plain
        plain_host_def char_class_defs)
  have "Expires (bearer_response (access_token ''tok'' (1704070800 * Second))) \<noteq> []"
    by (simp add: bearer_response_def token_expires_def access_token_def IsZero_def zero_time_def time_Format_nonempty Second_def)
  from cached_token_skips_https_check [OF sample_agent_cache got this] show ?thesis
    unfolding Let_def by blast
qed

text \<open>(C29) An agent process that serves does so from the initial state of the server, with an idle
  timeout and a prune interval that fit 64 bits.  Each is the duration its environment variable says, which
  for a whole number of one unit is that number times the unit, and without the variable three hours and a
  minute.\<close>

theorem agent_timeouts:
  assumes "agentProcess plat p pid uid c t fs = (AgentServes srv l, fs')"
  shows "\<exists>idle_t prune_i. srv = serve_start c idle_t prune_i t
    \<and> (\<forall>(var, d, fallback) \<in> {(''CREDENTIAL_HELPER_IDLE_TIMEOUT'', idle_t, 10800000000000),
                               (''CREDENTIAL_HELPER_PRUNE_INTERVAL'', prune_i, 60000000000)}.
         - (2 ^ 63) \<le> d \<and> d < 2 ^ 63
         \<and> (LookupEnv var p = None \<longrightarrow> d = fallback)
         \<and> (\<forall>v. LookupEnv var p = Some v \<longrightarrow> ParseDuration v = Inr d)
         \<and> (\<forall>n. \<forall>(u, k) \<in> {(''ns'', 1), (''us'', 1000), (''ms'', 1000000), (''s'', 1000000000), (''m'', 60000000000),
                             (''h'', 3600000000000)}.
              LookupEnv var p = Some (utoa n @ u) \<and> n * k < 2 ^ 63 \<longrightarrow> d = int (n * k)))"
proof -
  from assms obtain idle_t prune_i where d:
    "getDurationFromEnvOrDefault p IdleTimeoutEnv (3 * Hour) = Inr idle_t"
    "getDurationFromEnvOrDefault p PruneIntervalEnv Minute = Inr prune_i"
    and srv: "srv = serve_start c idle_t prune_i t"
    by (auto simp: agentProcess_def NewCachingAgent_def Let_def split: if_splits sum.splits prod.splits)
  note idle_law = configured_duration [OF d(1)] and prune_law = configured_duration [OF d(2)]
  from srv show ?thesis
    by (intro exI [of _ idle_t] exI [of _ prune_i] conjI)
      (use idle_law prune_law in \<open>simp_all add: IdleTimeoutEnv_def PruneIntervalEnv_def Hour_def Minute_def Second_def\<close>)
qed

theorem agent_timeouts_witness:
  "\<exists>srv l fs'. agentProcess Unix sample_agent_process 1 1000 NewMemCache 0 sample_fs = (AgentServes srv l, fs')
     \<and> idleTimeout (agent srv) = 5000000000 \<and> pruneInterval (agent srv) = 420000000000"
proof -
  obtain srv l fs' where run: "agentProcess Unix sample_agent_process 1 1000 NewMemCache 0 sample_fs = (AgentServes srv l, fs')"
    using sample_agent_process_serves by blast
  have envs: "LookupEnv ''CREDENTIAL_HELPER_IDLE_TIMEOUT'' sample_agent_process = Some (utoa 5 @ ''s'')"
    "LookupEnv ''CREDENTIAL_HELPER_PRUNE_INTERVAL'' sample_agent_process = Some (utoa 7 @ ''m'')"
    using sample_agent_process_env(1,2) by (simp_all add: IdleTimeoutEnv_def PruneIntervalEnv_def)
  from agent_timeouts [OF run] envs have "srv = serve_start NewMemCache 5000000000 420000000000 0"
    by fastforce
  with run show ?thesis by (auto simp: serve_start_def)
qed

end
